(* ===== verification/Prelude.thy ===== *)
theory Prelude
  imports Main "HOL-Library.AList" "HOL-Library.Monad_Syntax"
begin

text \<open>
  Shared vocabulary of the development: Python's ordered dictionaries as association
  lists, the option monad for code that may raise, folds of a raising loop body, and the
  collections of simplification rules the component theories use.
\<close>

section \<open>Rule collections\<close>

named_theorems frame_simps \<open>equations saying which part of the state an operation leaves alone\<close>
named_theorems dict_simps \<open>lookup and membership laws of ordered dictionaries\<close>

section \<open>Identifiers and ordered dictionaries\<close>

text \<open>
  Object identifiers (the hexadecimal strings of \<open>get_a_new_object_id\<close>) are numbers: only
  their equality matters. A Python dictionary keeps its insertion order, and updating an
  existing key keeps its place: this is \<open>AList.update\<close>.
\<close>

type_synonym uuid = nat

type_synonym ('k, 'v) dict = "('k \<times> 'v) list"

definition dget :: "('k, 'v) dict \<Rightarrow> 'k \<Rightarrow> 'v option" where
  "dget d k = map_of d k"

definition dset :: "'k \<Rightarrow> 'v \<Rightarrow> ('k, 'v) dict \<Rightarrow> ('k, 'v) dict" where
  "dset k v d = AList.update k v d"

definition ddel :: "'k \<Rightarrow> ('k, 'v) dict \<Rightarrow> ('k, 'v) dict" where
  "ddel k d = filter (\<lambda>p. fst p \<noteq> k) d"

definition dkeys :: "('k, 'v) dict \<Rightarrow> 'k list" where
  "dkeys d = map fst d"

definition dhas :: "('k, 'v) dict \<Rightarrow> 'k \<Rightarrow> bool" where
  "dhas d k = (k \<in> set (dkeys d))"

lemma dget_dset [simp, dict_simps]: "dget (dset k v d) j = (if j = k then Some v else dget d j)"
  by (simp add: dget_def dset_def update_conv)

lemma dget_ddel [simp, dict_simps]: "dget (ddel k d) j = (if j = k then None else dget d j)"
  by (induction d) (auto simp: dget_def ddel_def)

lemma dget_Nil [simp, dict_simps]: "dget [] k = None"
  by (simp add: dget_def)

lemma dget_Cons [simp, dict_simps]: "dget ((j, v) # d) k = (if k = j then Some v else dget d k)"
  by (simp add: dget_def)

lemma dhas_iff [dict_simps]: "dhas d k \<longleftrightarrow> dget d k \<noteq> None"
  by (auto simp: dhas_def dget_def dkeys_def map_of_eq_None_iff)

lemma dkeys_Nil [simp]: "dkeys [] = []"
  by (simp add: dkeys_def)

lemma dkeys_Cons [simp]: "dkeys (p # d) = fst p # dkeys d"
  by (simp add: dkeys_def)

lemma set_dkeys: "set (dkeys d) = {k. dget d k \<noteq> None}"
  by (auto simp: dkeys_def dget_def dom_map_of_conv_image_fst [symmetric] dom_def)

lemma in_dkeys_iff [dict_simps]: "k \<in> set (dkeys d) \<longleftrightarrow> (\<exists>v. dget d k = Some v)"
  by (simp add: set_dkeys)

lemma dkeys_dset_old: "k \<in> set (dkeys d) \<Longrightarrow> dkeys (dset k v d) = dkeys d"
  by (simp add: dkeys_def dset_def update_keys)

lemma dkeys_dset_new: "k \<notin> set (dkeys d) \<Longrightarrow> dkeys (dset k v d) = dkeys d @ [k]"
  by (simp add: dkeys_def dset_def update_keys)

lemma distinct_dkeys_dset [simp]: "distinct (dkeys (dset k v d)) \<longleftrightarrow> distinct (dkeys d)"
  by (simp add: dkeys_def dset_def distinct_update update_keys)

lemma dkeys_ddel: "dkeys (ddel k d) = filter (\<lambda>j. j \<noteq> k) (dkeys d)"
  by (induction d) (auto simp: dkeys_def ddel_def)

lemma distinct_dkeys_ddel [intro]: "distinct (dkeys d) \<Longrightarrow> distinct (dkeys (ddel k d))"
  by (simp add: dkeys_ddel)

section \<open>Loops whose body may raise\<close>

text \<open>\<open>foldM f xs s\<close> is \<open>for x in xs: s = f(x, s)\<close>, stopping at the first exception.\<close>

fun foldM :: "('a \<Rightarrow> 's \<Rightarrow> 's option) \<Rightarrow> 'a list \<Rightarrow> 's \<Rightarrow> 's option" where
  "foldM f [] s = Some s"
| "foldM f (x # xs) s = (case f x s of None \<Rightarrow> None | Some s' \<Rightarrow> foldM f xs s')"

lemma foldM_append: "foldM f (xs @ ys) s = Option.bind (foldM f xs s) (foldM f ys)"
  by (induction xs arbitrary: s) (auto split: option.splits)

lemma foldM_invariant:
  assumes "foldM f xs s = Some s'" and "P s"
    and "\<And>x s s'. x \<in> set xs \<Longrightarrow> P s \<Longrightarrow> f x s = Some s' \<Longrightarrow> P s'"
  shows "P s'"
  using assms
proof (induction xs arbitrary: s)
  case Nil
  then show ?case by simp
next
  case (Cons x xs)
  from Cons.prems(1) obtain t where t: "f x s = Some t" "foldM f xs t = Some s'"
    by (auto split: option.splits)
  moreover have "P t"
    by (rule Cons.prems(3) [OF _ Cons.prems(2) t(1)]) simp
  ultimately show ?case
    using Cons.IH Cons.prems(3) by (meson list.set_intros(2))
qed

lemma foldM_total:
  assumes "P s" and "\<And>x s. x \<in> set xs \<Longrightarrow> P s \<Longrightarrow> \<exists>s'. f x s = Some s' \<and> P s'"
  shows "\<exists>s'. foldM f xs s = Some s' \<and> P s'"
  using assms
proof (induction xs arbitrary: s)
  case Nil
  then show ?case by simp
next
  case (Cons x xs)
  from Cons.prems(1) Cons.prems(2) [of x s] obtain t where t: "f x s = Some t" "P t"
    by auto
  with Cons.IH [of t] Cons.prems(2) show ?case by auto
qed

lemma foldM_relation:
  assumes "foldM f xs s = Some s'" and "\<And>s. R s s"
    and "\<And>s t u. R s t \<Longrightarrow> R t u \<Longrightarrow> R s u"
    and "\<And>x s s'. x \<in> set xs \<Longrightarrow> f x s = Some s' \<Longrightarrow> R s s'"
  shows "R s s'"
  using assms(1,4)
proof (induction xs arbitrary: s)
  case Nil
  then show ?case using assms(2) by simp
next
  case (Cons x xs)
  from Cons.prems(1) obtain t where t: "f x s = Some t" "foldM f xs t = Some s'"
    by (auto split: option.splits)
  have "R s t" by (rule Cons.prems(2) [OF _ t(1)]) simp
  moreover have "R t s'"
    by (rule Cons.IH [OF t(2)]) (rule Cons.prems(2), simp_all)
  ultimately show ?case by (rule assms(3))
qed

section \<open>Results of computations that may raise\<close>

text \<open>
  \<open>post P r\<close>: if the computation returns, its result satisfies \<open>P\<close>; \<open>yields P r\<close>: it
  returns, and the result satisfies \<open>P\<close>.
\<close>

definition post :: "('a \<Rightarrow> bool) \<Rightarrow> 'a option \<Rightarrow> bool" where
  "post P r \<longleftrightarrow> (\<forall>x. r = Some x \<longrightarrow> P x)"

definition yields :: "('a \<Rightarrow> bool) \<Rightarrow> 'a option \<Rightarrow> bool" where
  "yields P r \<longleftrightarrow> (\<exists>x. r = Some x \<and> P x)"

lemma post_simps [simp]: "post P None" "post P (Some x) \<longleftrightarrow> P x"
  by (simp_all add: post_def)

lemma yields_simps [simp]: "\<not> yields P None" "yields P (Some x) \<longleftrightarrow> P x"
  by (simp_all add: yields_def)

lemma postD: "post P r \<Longrightarrow> r = Some x \<Longrightarrow> P x"
  by (simp add: post_def)

lemma postI: "(\<And>x. r = Some x \<Longrightarrow> P x) \<Longrightarrow> post P r"
  by (simp add: post_def)

lemma post_mono: "post Q r \<Longrightarrow> (\<And>x. Q x \<Longrightarrow> P x) \<Longrightarrow> post P r"
  by (simp add: post_def)

lemma post_conj: "post P r \<Longrightarrow> post Q r \<Longrightarrow> post (\<lambda>x. P x \<and> Q x) r"
  by (simp add: post_def)

lemma yields_post: "yields Q r \<Longrightarrow> post P r \<Longrightarrow> yields (\<lambda>x. Q x \<and> P x) r"
  by (auto simp: post_def yields_def)

lemma post_bind: "post Q r \<Longrightarrow> (\<And>x. Q x \<Longrightarrow> post P (g x)) \<Longrightarrow> post P (Option.bind r g)"
  by (cases r) simp_all

lemma yields_bind: "yields Q r \<Longrightarrow> (\<And>x. Q x \<Longrightarrow> yields P (g x)) \<Longrightarrow> yields P (Option.bind r g)"
  by (cases r) simp_all

lemma post_map: "post (\<lambda>x. P (f x)) r \<Longrightarrow> post P (map_option f r)"
  by (cases r) simp_all

lemma post_foldM:
  assumes "P s" and "\<And>x s. x \<in> set xs \<Longrightarrow> P s \<Longrightarrow> post P (f x s)"
  shows "post P (foldM f xs s)"
proof (rule postI)
  fix s'
  assume "foldM f xs s = Some s'"
  from this assms(1) show "P s'"
    by (rule foldM_invariant [where P = P]) (blast dest: postD [OF assms(2)])
qed

text \<open>Chains of operations that keep an observation \<open>obs\<close> of the state.\<close>

definition keeps :: "('s \<Rightarrow> 'o) \<Rightarrow> 's \<Rightarrow> 's option \<Rightarrow> bool" where
  "keeps obs s r \<longleftrightarrow> post (\<lambda>s'. obs s' = obs s) r"

lemma keeps_simps [simp]: "keeps obs s None" "keeps obs s (Some s') \<longleftrightarrow> obs s' = obs s"
  by (simp_all add: keeps_def)

lemma keepsI: "(\<And>s'. r = Some s' \<Longrightarrow> obs s' = obs s) \<Longrightarrow> keeps obs s r"
  by (simp add: keeps_def post_def)

lemma keepsD: "keeps obs s r \<Longrightarrow> r = Some s' \<Longrightarrow> obs s' = obs s"
  by (simp add: keeps_def post_def)

lemma keeps_bind:
  assumes "keeps obs s r" and "\<And>s'. r = Some s' \<Longrightarrow> keeps obs s' (g s')"
  shows "keeps obs s (Option.bind r g)"
  using assms by (cases r) (simp_all add: keeps_def post_def)

lemma keeps_from: "obs s1 = obs s \<Longrightarrow> keeps obs s1 r \<Longrightarrow> keeps obs s r"
  by (simp add: keeps_def)

lemma keeps_foldM:
  assumes "\<And>x s. x \<in> set xs \<Longrightarrow> keeps obs s (f x s)"
  shows "keeps obs s (foldM f xs s)"
  unfolding keeps_def by (rule post_foldM) (use assms in \<open>auto simp: keeps_def post_def\<close>)

text \<open>The same for results that come with a value.\<close>

abbreviation keepsp :: "('s \<Rightarrow> 'o) \<Rightarrow> 's \<Rightarrow> ('s \<times> 'v) option \<Rightarrow> bool" where
  "keepsp obs s r \<equiv> post (\<lambda>(s', v). obs s' = obs s) r"

lemma keepsp_bind:
  assumes "keepsp obs s r" and "\<And>s' v. r = Some (s', v) \<Longrightarrow> keeps obs s' (g (s', v))"
  shows "keeps obs s (Option.bind r g)"
  using assms by (cases r) (auto simp: keeps_def post_def)

lemma keeps_bindp:
  assumes "keeps obs s r" and "\<And>s'. r = Some s' \<Longrightarrow> keepsp obs s' (g s')"
  shows "keepsp obs s (Option.bind r g)"
  using assms by (cases r) (auto simp: keeps_def post_def)

lemma keepsp_bindp:
  assumes "keepsp obs s r" and "\<And>s' v. r = Some (s', v) \<Longrightarrow> keepsp obs s' (g (s', v))"
  shows "keepsp obs s (Option.bind r g)"
  using assms by (cases r) (fastforce simp: keeps_def post_def)+

lemma keepsp_map: "keeps obs s r \<Longrightarrow> keepsp obs s (map_option (\<lambda>s'. (s', f s')) r)"
  by (cases r) simp_all

lemma keepsp_mapp: "keepsp obs s r \<Longrightarrow> keepsp obs s (map_option (\<lambda>(s', v). (s', f v)) r)"
  by (cases r) auto

lemma keepsp_foldM:
  assumes "\<And>x s. x \<in> set xs \<Longrightarrow> keepsp obs (fst s) (f x s)"
  shows "keepsp obs (fst s) (foldM f xs s)"
  by (rule post_foldM) (use assms in \<open>fastforce simp: post_def\<close>)+

end
