(* ===== verification/Graph.thy ===== *)
theory Graph
  imports Prelude
begin

text \<open>
  The dependency graph of \<open>alignak/graph.py\<close> (class \<open>Graph\<close>): construction, the tagging
  depth-first search for loops, and the accessibility packs.
\<close>

section \<open>The graph\<close>

text \<open>The strings stored under \<open>dfs_loop_status\<close>; \<open>DFS_NONE\<close> is the empty string.\<close>

datatype dfs_tag =
    DFS_NONE | DFS_UNCHECKED | DFS_TEMPORARY_CHECKED | DFS_OK
  | DFS_NEAR_LOOP | DFS_LOOP_INSIDE | DFS_CHECKED

text \<open>A node's dictionary: the tag is \<open>None\<close> once its key has been deleted.\<close>

record 'a gnode =
  dfs_loop_status :: "dfs_tag option"
  sons :: "'a list"

type_synonym 'a graph = "('a, 'a gnode) dict"

definition add_node :: "'a \<Rightarrow> 'a graph \<Rightarrow> 'a graph" where
  "add_node node g = dset node \<lparr>dfs_loop_status = Some DFS_NONE, sons = []\<rparr> g"

fun add_nodes :: "'a list \<Rightarrow> 'a graph \<Rightarrow> 'a graph" where
  "add_nodes [] g = g"
| "add_nodes (node # nodes) g = add_nodes nodes (add_node node g)"

definition add_edge :: "'a \<Rightarrow> 'a \<Rightarrow> 'a graph \<Rightarrow> 'a graph" where
  "add_edge from_node to_node g =
     (let g1 = (if dhas g to_node then g else add_node to_node g)
      in case dget g1 from_node of
           Some nd \<Rightarrow> dset from_node (nd\<lparr>sons := sons nd @ [to_node]\<rparr>) g1
         | None \<Rightarrow> dset from_node \<lparr>dfs_loop_status = Some DFS_NONE, sons = [to_node]\<rparr> g1)"

text \<open>
  Reading \<open>self.nodes[n]['dfs_loop_status']\<close> raises \<open>KeyError\<close> for an unknown node or a
  deleted tag: \<open>None\<close>. Writing a tag raises for an unknown node.
\<close>

definition get_tag :: "'a graph \<Rightarrow> 'a \<Rightarrow> dfs_tag option" where
  "get_tag g n = Option.bind (dget g n) dfs_loop_status"

definition set_tag :: "'a \<Rightarrow> dfs_tag \<Rightarrow> 'a graph \<Rightarrow> 'a graph option" where
  "set_tag n t g =
     (case dget g n of None \<Rightarrow> None
      | Some nd \<Rightarrow> Some (dset n (nd\<lparr>dfs_loop_status := Some t\<rparr>) g))"

definition tag_all :: "dfs_tag \<Rightarrow> 'a graph \<Rightarrow> 'a graph" where
  "tag_all t g = map (\<lambda>(k, nd). (k, nd\<lparr>dfs_loop_status := Some t\<rparr>)) g"

definition untag_all :: "'a graph \<Rightarrow> 'a graph" where
  "untag_all g = map (\<lambda>(k, nd). (k, nd\<lparr>dfs_loop_status := None\<rparr>)) g"

section \<open>The loop search\<close>

text \<open>
  One turn of the loop over the sons of \<open>root\<close>: \<open>visit\<close> is the recursive call. The child's
  status is read once and again after the recursive call; the second test reads the local
  variable, not the tag the first test may just have written.
\<close>

definition scan_son ::
  "('a \<Rightarrow> 'a graph \<Rightarrow> 'a graph option) \<Rightarrow> 'a \<Rightarrow> 'a \<Rightarrow> 'a graph \<Rightarrow> 'a graph option" where
  "scan_son visit root child g =
     (case get_tag g child of None \<Rightarrow> None
      | Some st0 \<Rightarrow>
     (case (if st0 = DFS_UNCHECKED then visit child g else Some g) of None \<Rightarrow> None
      | Some g1 \<Rightarrow>
     (case get_tag g1 child of None \<Rightarrow> None
      | Some child_status \<Rightarrow>
     (case (if child_status = DFS_TEMPORARY_CHECKED
            then Option.bind (set_tag child DFS_LOOP_INSIDE g1) (set_tag root DFS_LOOP_INSIDE)
            else Some g1) of None \<Rightarrow> None
      | Some g2 \<Rightarrow>
          if child_status = DFS_NEAR_LOOP \<or> child_status = DFS_LOOP_INSIDE
          then (case get_tag g2 root of None \<Rightarrow> None
                | Some root_status \<Rightarrow>
                    Option.bind
                      (if root_status \<noteq> DFS_LOOP_INSIDE then set_tag root DFS_NEAR_LOOP g2
                       else Some g2)
                      (set_tag child DFS_LOOP_INSIDE))
          else Some g2))))"

text \<open>
  \<open>None\<close> is a \<open>KeyError\<close>, or the interpreter's recursion limit (the fuel) being hit.
\<close>

fun dfs_loop_search :: "nat \<Rightarrow> 'a \<Rightarrow> 'a graph \<Rightarrow> 'a graph option" where
  "dfs_loop_search 0 root g = None"
| "dfs_loop_search (Suc fuel) root g =
     (case set_tag root DFS_TEMPORARY_CHECKED g of None \<Rightarrow> None
      | Some g1 \<Rightarrow>
     (case dget g1 root of None \<Rightarrow> None
      | Some nd \<Rightarrow>
     (case foldM (scan_son (dfs_loop_search fuel) root) (sons nd) g1 of None \<Rightarrow> None
      | Some g2 \<Rightarrow>
     (case get_tag g2 root of None \<Rightarrow> None
      | Some t \<Rightarrow> if t = DFS_TEMPORARY_CHECKED then set_tag root DFS_OK g2 else Some g2))))"

text \<open>The loop of \<open>loop_check\<close> over \<open>self.nodes.items()\<close>, with the list being built.\<close>

definition loop_check_step ::
  "nat \<Rightarrow> 'a \<Rightarrow> 'a graph \<times> 'a list \<Rightarrow> ('a graph \<times> 'a list) option" where
  "loop_check_step fuel node_id s =
     (case s of (g, in_loop) \<Rightarrow>
     (case get_tag g node_id of None \<Rightarrow> None
      | Some t \<Rightarrow>
     (case (if t = DFS_UNCHECKED then dfs_loop_search fuel node_id g else Some g) of None \<Rightarrow> None
      | Some g1 \<Rightarrow>
     (case get_tag g1 node_id of None \<Rightarrow> None
      | Some t1 \<Rightarrow> Some (g1, if t1 = DFS_LOOP_INSIDE then in_loop @ [node_id] else in_loop)))))"

definition loop_check_fuel :: "nat \<Rightarrow> 'a graph \<Rightarrow> ('a list \<times> 'a graph) option" where
  "loop_check_fuel fuel g =
     map_option (\<lambda>(g1, in_loop). (in_loop, untag_all g1))
       (foldM (loop_check_step fuel) (dkeys g) (tag_all DFS_UNCHECKED g, []))"

text \<open>A recursion never goes deeper than the number of nodes (\<open>loop_check_total\<close> below).\<close>

definition loop_check :: "'a graph \<Rightarrow> ('a list \<times> 'a graph) option" where
  "loop_check g = loop_check_fuel (Suc (length g)) g"

section \<open>Edges, cycles and the shape of a graph\<close>

definition sons_of :: "'a graph \<Rightarrow> 'a \<Rightarrow> 'a list" where
  "sons_of g v = (case dget g v of None \<Rightarrow> [] | Some nd \<Rightarrow> sons nd)"

definition edge :: "'a graph \<Rightarrow> 'a \<Rightarrow> 'a \<Rightarrow> bool" where
  "edge g u v \<longleftrightarrow> v \<in> set (sons_of g u)"

definition on_cycle :: "'a graph \<Rightarrow> 'a \<Rightarrow> bool" where
  "on_cycle g v \<longleftrightarrow> (edge g)\<^sup>+\<^sup>+ v v"

definition leads_to_cycle :: "'a graph \<Rightarrow> 'a \<Rightarrow> bool" where
  "leads_to_cycle g v \<longleftrightarrow> (\<exists>u. (edge g)\<^sup>*\<^sup>* v u \<and> on_cycle g u)"

definition closed_graph :: "'a graph \<Rightarrow> bool" where
  "closed_graph g \<longleftrightarrow> (\<forall>u v. edge g u v \<longrightarrow> dget g v \<noteq> None)"

definition same_shape :: "'a graph \<Rightarrow> 'a graph \<Rightarrow> bool" where
  "same_shape g h \<longleftrightarrow> dkeys h = dkeys g \<and> sons_of h = sons_of g"

lemma same_shape_refl [simp]: "same_shape g g"
  by (simp add: same_shape_def)

lemma same_shape_trans: "same_shape g h \<Longrightarrow> same_shape h k \<Longrightarrow> same_shape g k"
  by (simp add: same_shape_def)

lemma same_shape_edge: "same_shape g h \<Longrightarrow> edge h = edge g"
  by (simp add: same_shape_def edge_def fun_eq_iff)

lemma same_shape_dget: "same_shape g h \<Longrightarrow> dget h v = None \<longleftrightarrow> dget g v = None"
  by (metis (mono_tags, lifting) in_dkeys_iff not_Some_eq same_shape_def)

lemma same_shape_cycle:
  assumes "same_shape g h"
  shows "on_cycle h = on_cycle g" and "leads_to_cycle h = leads_to_cycle g"
    and "closed_graph h = closed_graph g"
proof -
  show "on_cycle h = on_cycle g"
    by (simp add: fun_eq_iff on_cycle_def same_shape_edge [OF assms])
  then show "leads_to_cycle h = leads_to_cycle g"
    by (simp add: fun_eq_iff leads_to_cycle_def same_shape_edge [OF assms])
  show "closed_graph h = closed_graph g"
    by (simp add: closed_graph_def same_shape_edge [OF assms] same_shape_dget [OF assms])
qed

lemma leads_to_cycle_edge: "edge g u v \<Longrightarrow> leads_to_cycle g v \<Longrightarrow> leads_to_cycle g u"
  unfolding leads_to_cycle_def by (meson converse_rtranclp_into_rtranclp)

lemma back_edge_cycle:
  assumes "(edge g)\<^sup>*\<^sup>* v u" and "edge g u v"
  shows "leads_to_cycle g u" and "leads_to_cycle g v"
proof -
  have "on_cycle g u"
    unfolding on_cycle_def using assms(2,1) by (rule rtranclp_into_tranclp2)
  then show "leads_to_cycle g u" by (auto simp: leads_to_cycle_def)
  with assms(1) show "leads_to_cycle g v"
    by (meson leads_to_cycle_def rtranclp_trans)
qed

subsection \<open>Writing tags\<close>

lemma set_tag_SomeD:
  assumes "set_tag n t g = Some h"
  shows "same_shape g h" and "get_tag h v = (if v = n then Some t else get_tag g v)"
    and "dget g n \<noteq> None"
proof -
  from assms obtain nd where nd: "dget g n = Some nd"
    and h: "h = dset n (nd\<lparr>dfs_loop_status := Some t\<rparr>) g"
    by (auto simp: set_tag_def split: option.splits)
  show "same_shape g h"
    using nd by (auto simp: h same_shape_def sons_of_def fun_eq_iff in_dkeys_iff
        intro!: dkeys_dset_old)
  show "get_tag h v = (if v = n then Some t else get_tag g v)"
    by (simp add: h get_tag_def)
  show "dget g n \<noteq> None" using nd by simp
qed

lemma set_tag_total: "dget g n \<noteq> None \<Longrightarrow> \<exists>h. set_tag n t g = Some h"
  by (auto simp: set_tag_def)

lemma get_tag_dget: "get_tag g v = Some t \<Longrightarrow> dget g v \<noteq> None"
  by (cases "dget g v") (auto simp: get_tag_def)

section \<open>The invariant of the search\<close>

text \<open>
  \<open>K\<close> is the set of nodes whose search has started and not ended (the recursion stack).
  A node whose search has ended only has sons tagged \<open>DFS_OK\<close> or \<open>DFS_LOOP_INSIDE\<close>, a node
  tagged \<open>DFS_OK\<close> is on no cycle, and a node tagged as near or inside a loop leads to one.
\<close>

definition visited :: "'a graph \<Rightarrow> 'a set" where
  "visited g = {v. \<exists>t. get_tag g v = Some t \<and> t \<noteq> DFS_UNCHECKED}"

definition not_yet :: "'a graph \<Rightarrow> 'a set" where
  "not_yet g = {v. get_tag g v = Some DFS_UNCHECKED}"

definition loop_tags :: "'a graph \<Rightarrow> bool" where
  "loop_tags g \<longleftrightarrow> (\<forall>v. dget g v \<noteq> None \<longrightarrow>
     get_tag g v \<in> Some ` {DFS_UNCHECKED, DFS_TEMPORARY_CHECKED, DFS_OK,
                           DFS_NEAR_LOOP, DFS_LOOP_INSIDE})"

definition loop_inv :: "'a set \<Rightarrow> 'a graph \<Rightarrow> bool" where
  "loop_inv K g \<longleftrightarrow> loop_tags g \<and> closed_graph g \<and> K \<subseteq> visited g
     \<and> (\<forall>p c. p \<in> visited g - K \<longrightarrow> edge g p c \<longrightarrow>
            get_tag g c = Some DFS_OK \<or> get_tag g c = Some DFS_LOOP_INSIDE)
     \<and> (\<forall>p. get_tag g p = Some DFS_TEMPORARY_CHECKED \<longrightarrow> p \<in> K)
     \<and> (\<forall>p. get_tag g p = Some DFS_OK \<longrightarrow>
            p \<notin> K \<and> (\<forall>c. edge g p c \<longrightarrow> get_tag g c = Some DFS_OK) \<and> \<not> on_cycle g p)
     \<and> (\<forall>p. get_tag g p = Some DFS_NEAR_LOOP \<or> get_tag g p = Some DFS_LOOP_INSIDE \<longrightarrow>
            leads_to_cycle g p)"

text \<open>What later steps of the search never undo.\<close>

definition loop_mono :: "'a graph \<Rightarrow> 'a graph \<Rightarrow> bool" where
  "loop_mono g h \<longleftrightarrow> same_shape g h \<and> visited g \<subseteq> visited h \<and> not_yet h \<subseteq> not_yet g
     \<and> (\<forall>v. get_tag g v = Some DFS_OK \<longrightarrow> get_tag h v = Some DFS_OK)
     \<and> (\<forall>v. get_tag g v = Some DFS_LOOP_INSIDE \<longrightarrow> get_tag h v = Some DFS_LOOP_INSIDE)
     \<and> (\<forall>v \<in> visited g. get_tag h v = Some DFS_TEMPORARY_CHECKED \<longrightarrow>
            get_tag g v = Some DFS_TEMPORARY_CHECKED)"

lemma loop_mono_refl [simp]: "loop_mono g g"
  by (simp add: loop_mono_def)

lemma loop_mono_trans: "loop_mono g h \<Longrightarrow> loop_mono h k \<Longrightarrow> loop_mono g k"
  unfolding loop_mono_def by (blast intro: same_shape_trans)

lemma loop_monoD:
  assumes "loop_mono g h"
  shows "get_tag g v = Some DFS_OK \<Longrightarrow> get_tag h v = Some DFS_OK"
    and "get_tag g v = Some DFS_LOOP_INSIDE \<Longrightarrow> get_tag h v = Some DFS_LOOP_INSIDE"
    and "v \<in> visited g \<Longrightarrow> v \<in> visited h"
    and "v \<in> visited g \<Longrightarrow> get_tag h v = Some DFS_TEMPORARY_CHECKED \<Longrightarrow>
      get_tag g v = Some DFS_TEMPORARY_CHECKED"
  using assms unfolding loop_mono_def by blast+

lemma loop_mono_shape:
  assumes "loop_mono g h"
  shows "edge h = edge g" and "on_cycle h = on_cycle g" and "leads_to_cycle h = leads_to_cycle g"
    and "closed_graph h = closed_graph g" and "dkeys h = dkeys g" and "sons_of h = sons_of g"
    and "dget h v = None \<longleftrightarrow> dget g v = None"
proof -
  have shape: "same_shape g h" using assms by (simp add: loop_mono_def)
  note same_shape_edge [OF shape] same_shape_cycle [OF shape] same_shape_dget [OF shape]
  then show "edge h = edge g" "on_cycle h = on_cycle g" "leads_to_cycle h = leads_to_cycle g"
    "closed_graph h = closed_graph g" "dget h v = None \<longleftrightarrow> dget g v = None" by auto
  show "dkeys h = dkeys g" "sons_of h = sons_of g" using shape by (auto simp: same_shape_def)
qed

lemma loop_inv_stack_tag:
  assumes "loop_inv K g" and "v \<in> K"
  shows "get_tag g v \<in> Some ` {DFS_TEMPORARY_CHECKED, DFS_NEAR_LOOP, DFS_LOOP_INSIDE}"
proof -
  from assms have "v \<in> visited g" by (auto simp: loop_inv_def)
  then obtain t where t: "get_tag g v = Some t" "t \<noteq> DFS_UNCHECKED"
    by (auto simp: visited_def)
  moreover have "dget g v \<noteq> None" using t(1) by (simp add: get_tag_dget)
  ultimately have "get_tag g v \<in> Some ` {DFS_TEMPORARY_CHECKED, DFS_OK, DFS_NEAR_LOOP,
      DFS_LOOP_INSIDE}"
    using assms(1) by (auto simp: loop_inv_def loop_tags_def)
  moreover have "get_tag g v \<noteq> Some DFS_OK" using assms by (auto simp: loop_inv_def)
  ultimately show ?thesis by auto
qed

text \<open>Raising a visited node's tag towards \<open>DFS_LOOP_INSIDE\<close> keeps everything.\<close>

lemma raise_tag:
  assumes inv: "loop_inv K g" and h: "set_tag v t g = Some h"
    and v: "v \<in> visited g" "get_tag g v \<noteq> Some DFS_OK" "leads_to_cycle g v"
    and t: "t = DFS_LOOP_INSIDE \<or> t = DFS_NEAR_LOOP \<and> get_tag g v \<noteq> Some DFS_LOOP_INSIDE"
  shows "loop_inv K h" and "loop_mono g h"
proof -
  note shape = set_tag_SomeD(1) [OF h]
  note tag = set_tag_SomeD(2) [OF h]
  note same = same_shape_edge [OF shape] same_shape_cycle [OF shape] same_shape_dget [OF shape]
  have vis: "visited h = visited g" using v(1) t by (auto simp: visited_def tag)
  have unc: "not_yet h \<subseteq> not_yet g" using t by (auto simp: not_yet_def tag)
  show "loop_mono g h"
    using shape vis unc t v(2) by (auto simp: loop_mono_def tag)
  show "loop_inv K h"
    using inv v(2,3) t unfolding loop_inv_def loop_tags_def same vis tag
    by (intro conjI) (auto split: if_splits)
qed

text \<open>One turn of the loop over the sons, given that the recursive call meets its contract.\<close>

lemma scan_son_back_edge:
  assumes inv: "loop_inv (insert root K) g" and e: "edge g root child"
    and reach: "\<And>k. k \<in> insert root K \<Longrightarrow> (edge g)\<^sup>*\<^sup>* k root"
    and tmp: "get_tag g child = Some DFS_TEMPORARY_CHECKED"
  shows "\<exists>h. Option.bind (set_tag child DFS_LOOP_INSIDE g) (set_tag root DFS_LOOP_INSIDE) = Some h
    \<and> loop_inv (insert root K) h \<and> loop_mono g h
    \<and> get_tag h child = Some DFS_LOOP_INSIDE \<and> get_tag h root = Some DFS_LOOP_INSIDE"
proof -
  have "child \<in> insert root K" using inv tmp by (auto simp: loop_inv_def)
  with reach have "(edge g)\<^sup>*\<^sup>* child root" by blast
  note cyc = back_edge_cycle [OF this e]
  have "dget g child \<noteq> None" using tmp by (simp add: get_tag_dget)
  then obtain g1 where g1: "set_tag child DFS_LOOP_INSIDE g = Some g1"
    by (auto simp: set_tag_def)
  have vc: "child \<in> visited g" using tmp by (auto simp: visited_def)
  from raise_tag [OF inv g1 vc] tmp cyc(2)
  have inv1: "loop_inv (insert root K) g1" and mono1: "loop_mono g g1" by auto
  have vr: "root \<in> visited g1" using inv1 by (auto simp: loop_inv_def)
  have nok: "get_tag g1 root \<noteq> Some DFS_OK" using inv1 by (auto simp: loop_inv_def)
  have "dget g1 root \<noteq> None" using vr by (auto simp: visited_def dest: get_tag_dget)
  then obtain h where h: "set_tag root DFS_LOOP_INSIDE g1 = Some h"
    by (auto simp: set_tag_def)
  have cyc1: "leads_to_cycle g1 root"
    using cyc(1) by (simp add: loop_mono_shape [OF mono1])
  from raise_tag [OF inv1 h vr nok cyc1]
  have "loop_inv (insert root K) h" "loop_mono g1 h" by auto
  with mono1 g1 h show ?thesis
    by (auto simp: set_tag_SomeD(2) [OF h] set_tag_SomeD(2) [OF g1] intro: loop_mono_trans)
qed

lemma scan_son_near_loop:
  assumes inv: "loop_inv (insert root K) g" and e: "edge g root child"
    and cs: "get_tag g child = Some DFS_NEAR_LOOP \<or> get_tag g child = Some DFS_LOOP_INSIDE"
  shows "\<exists>h. (case get_tag g root of None \<Rightarrow> None
                | Some root_status \<Rightarrow>
                    Option.bind
                      (if root_status \<noteq> DFS_LOOP_INSIDE then set_tag root DFS_NEAR_LOOP g
                       else Some g)
                      (set_tag child DFS_LOOP_INSIDE)) = Some h
    \<and> loop_inv (insert root K) h \<and> loop_mono g h
    \<and> get_tag h child = Some DFS_LOOP_INSIDE
    \<and> (get_tag h root = Some DFS_NEAR_LOOP \<or> get_tag h root = Some DFS_LOOP_INSIDE)"
proof -
  have vr: "root \<in> visited g" and nok: "get_tag g root \<noteq> Some DFS_OK"
    using inv by (auto simp: loop_inv_def)
  from cs inv have lc: "leads_to_cycle g child" by (auto simp: loop_inv_def)
  with e have lr: "leads_to_cycle g root" by (rule leads_to_cycle_edge)
  from vr obtain rs where rs: "get_tag g root = Some rs" by (auto simp: visited_def)
  have "dget g root \<noteq> None" using rs by (simp add: get_tag_dget)
  then have "\<exists>g1. (if rs \<noteq> DFS_LOOP_INSIDE then set_tag root DFS_NEAR_LOOP g else Some g) = Some g1
    \<and> loop_inv (insert root K) g1 \<and> loop_mono g g1
    \<and> (get_tag g1 root = Some DFS_NEAR_LOOP \<or> get_tag g1 root = Some DFS_LOOP_INSIDE)
    \<and> (get_tag g1 child = Some DFS_NEAR_LOOP \<or> get_tag g1 child = Some DFS_LOOP_INSIDE)"
  proof (cases "rs = DFS_LOOP_INSIDE")
    case True
    with rs inv cs show ?thesis by auto
  next
    case False
    obtain g1 where g1: "set_tag root DFS_NEAR_LOOP g = Some g1"
      using \<open>dget g root \<noteq> None\<close> by (auto simp: set_tag_def)
    from raise_tag [OF inv g1 vr nok lr] False rs
    have "loop_inv (insert root K) g1" "loop_mono g g1" by auto
    with False g1 cs show ?thesis by (auto simp: set_tag_SomeD(2) [OF g1])
  qed
  then obtain g1 where g1: "(if rs \<noteq> DFS_LOOP_INSIDE then set_tag root DFS_NEAR_LOOP g else Some g)
      = Some g1"
    and inv1: "loop_inv (insert root K) g1" and mono1: "loop_mono g g1"
    and r1: "get_tag g1 root = Some DFS_NEAR_LOOP \<or> get_tag g1 root = Some DFS_LOOP_INSIDE"
    and c1: "get_tag g1 child = Some DFS_NEAR_LOOP \<or> get_tag g1 child = Some DFS_LOOP_INSIDE"
    by blast
  have vc: "child \<in> visited g1" using c1 by (auto simp: visited_def)
  have "dget g1 child \<noteq> None" using c1 by (auto dest: get_tag_dget)
  then obtain h where h: "set_tag child DFS_LOOP_INSIDE g1 = Some h"
    by (auto simp: set_tag_def)
  have "leads_to_cycle g1 child"
    using lc by (simp add: loop_mono_shape [OF mono1])
  from raise_tag [OF inv1 h vc _ this] c1
  have "loop_inv (insert root K) h" "loop_mono g1 h" by auto
  with mono1 g1 h rs r1 show ?thesis
    by (auto simp: set_tag_SomeD(2) [OF h] intro: loop_mono_trans)
qed

lemma scan_son_spec:
  assumes visit: "get_tag g child = Some DFS_UNCHECKED \<Longrightarrow>
      \<exists>h. visit child g = Some h \<and> loop_inv (insert root K) h \<and> loop_mono g h \<and> child \<in> visited h"
    and inv: "loop_inv (insert root K) g" and e: "edge g root child"
    and reach: "\<And>k. k \<in> insert root K \<Longrightarrow> (edge g)\<^sup>*\<^sup>* k root"
  shows "\<exists>h. scan_son visit root child g = Some h \<and> loop_inv (insert root K) h \<and> loop_mono g h
    \<and> (get_tag h child = Some DFS_OK \<or> get_tag h child = Some DFS_LOOP_INSIDE)
    \<and> (get_tag h root = Some DFS_TEMPORARY_CHECKED \<longrightarrow> get_tag h child = Some DFS_OK)"
proof -
  have "dget g child \<noteq> None" using inv e by (auto simp: loop_inv_def closed_graph_def)
  then obtain st0 where st0: "get_tag g child = Some st0"
    using inv by (auto simp: loop_inv_def loop_tags_def)
  have "\<exists>g1. (if st0 = DFS_UNCHECKED then visit child g else Some g) = Some g1
    \<and> loop_inv (insert root K) g1 \<and> loop_mono g g1 \<and> child \<in> visited g1"
    using visit inv st0 by (auto simp: visited_def)
  then obtain g1 where g1: "(if st0 = DFS_UNCHECKED then visit child g else Some g) = Some g1"
    and inv1: "loop_inv (insert root K) g1" and mono1: "loop_mono g g1"
    and vc: "child \<in> visited g1" by blast
  have e1: "edge g1 = edge g" using mono1 by (simp add: loop_mono_def same_shape_edge)
  from vc obtain cs where cs: "get_tag g1 child = Some cs" "cs \<noteq> DFS_UNCHECKED"
    by (auto simp: visited_def)
  have "dget g1 child \<noteq> None" using cs(1) by (simp add: get_tag_dget)
  then have "cs \<in> {DFS_TEMPORARY_CHECKED, DFS_OK, DFS_NEAR_LOOP, DFS_LOOP_INSIDE}"
    using inv1 cs by (auto simp: loop_inv_def loop_tags_def)
  then consider (tmp) "cs = DFS_TEMPORARY_CHECKED" | (ok) "cs = DFS_OK"
    | (near) "cs = DFS_NEAR_LOOP \<or> cs = DFS_LOOP_INSIDE" by auto
  then show ?thesis
  proof cases
    case tmp
    have "\<And>k. k \<in> insert root K \<Longrightarrow> (edge g1)\<^sup>*\<^sup>* k root" using reach by (simp add: e1)
    from scan_son_back_edge [OF inv1 _ this] e cs tmp obtain h where
      "Option.bind (set_tag child DFS_LOOP_INSIDE g1) (set_tag root DFS_LOOP_INSIDE) = Some h"
      "loop_inv (insert root K) h" "loop_mono g1 h"
      "get_tag h child = Some DFS_LOOP_INSIDE" "get_tag h root = Some DFS_LOOP_INSIDE"
      by (auto simp: e1)
    then show ?thesis
      using st0 g1 cs(1) tmp mono1 by (auto simp: scan_son_def intro: loop_mono_trans)
  next
    case ok
    then show ?thesis
      using st0 g1 cs(1) mono1 inv1 by (auto simp: scan_son_def)
  next
    case near
    from scan_son_near_loop [OF inv1] e cs near obtain h where
      "(case get_tag g1 root of None \<Rightarrow> None
          | Some root_status \<Rightarrow>
              Option.bind
                (if root_status \<noteq> DFS_LOOP_INSIDE then set_tag root DFS_NEAR_LOOP g1
                 else Some g1)
                (set_tag child DFS_LOOP_INSIDE)) = Some h"
      "loop_inv (insert root K) h" "loop_mono g1 h" "get_tag h child = Some DFS_LOOP_INSIDE"
      "get_tag h root = Some DFS_NEAR_LOOP \<or> get_tag h root = Some DFS_LOOP_INSIDE"
      by (auto simp: e1)
    then show ?thesis
      using st0 g1 cs(1) near mono1 unfolding scan_son_def
      by (auto intro: loop_mono_trans)
  qed
qed

text \<open>The loop over all the sons.\<close>

lemma scan_sons_spec:
  assumes visit: "\<And>child h. loop_inv (insert root K) h \<Longrightarrow> loop_mono g h \<Longrightarrow>
      get_tag h child = Some DFS_UNCHECKED \<Longrightarrow> edge g root child \<Longrightarrow>
      \<exists>h'. visit child h = Some h' \<and> loop_inv (insert root K) h' \<and> loop_mono h h'
          \<and> child \<in> visited h'"
    and inv: "loop_inv (insert root K) h" and mono: "loop_mono g h"
    and e: "\<And>c. c \<in> set cs \<Longrightarrow> edge g root c"
    and reach: "\<And>k. k \<in> insert root K \<Longrightarrow> (edge g)\<^sup>*\<^sup>* k root"
  shows "\<exists>h'. foldM (scan_son visit root) cs h = Some h' \<and> loop_inv (insert root K) h'
    \<and> loop_mono h h'
    \<and> (\<forall>c \<in> set cs. get_tag h' c = Some DFS_OK \<or> get_tag h' c = Some DFS_LOOP_INSIDE)
    \<and> (get_tag h' root = Some DFS_TEMPORARY_CHECKED \<longrightarrow>
         (\<forall>c \<in> set cs. get_tag h' c = Some DFS_OK))"
  using inv mono e
proof (induction cs arbitrary: h)
  case Nil
  then show ?case by simp
next
  case (Cons c cs)
  note E = loop_mono_shape(1) [OF Cons.prems(2)]
  have "edge g root c" using Cons.prems(3) by simp
  with E have ec: "edge h root c" by simp
  have "\<And>k. k \<in> insert root K \<Longrightarrow> (edge h)\<^sup>*\<^sup>* k root" using reach by (simp add: E)
  from scan_son_spec [OF _ Cons.prems(1) ec this] visit [OF Cons.prems(1,2) _ \<open>edge g root c\<close>]
  obtain h1 where h1: "scan_son visit root c h = Some h1" "loop_inv (insert root K) h1"
    "loop_mono h h1"
    "get_tag h1 c = Some DFS_OK \<or> get_tag h1 c = Some DFS_LOOP_INSIDE"
    "get_tag h1 root = Some DFS_TEMPORARY_CHECKED \<longrightarrow> get_tag h1 c = Some DFS_OK"
    by blast
  have "loop_mono g h1" using Cons.prems(2) h1(3) by (rule loop_mono_trans)
  moreover have "\<And>d. d \<in> set cs \<Longrightarrow> edge g root d" using Cons.prems(3) by simp
  ultimately have "\<exists>h2. foldM (scan_son visit root) cs h1 = Some h2 \<and> loop_inv (insert root K) h2
    \<and> loop_mono h1 h2
    \<and> (\<forall>c \<in> set cs. get_tag h2 c = Some DFS_OK \<or> get_tag h2 c = Some DFS_LOOP_INSIDE)
    \<and> (get_tag h2 root = Some DFS_TEMPORARY_CHECKED \<longrightarrow>
         (\<forall>c \<in> set cs. get_tag h2 c = Some DFS_OK))"
    by (rule Cons.IH [OF h1(2)])
  then obtain h2 where
    h2: "foldM (scan_son visit root) cs h1 = Some h2" "loop_inv (insert root K) h2"
    "loop_mono h1 h2"
    "\<forall>c \<in> set cs. get_tag h2 c = Some DFS_OK \<or> get_tag h2 c = Some DFS_LOOP_INSIDE"
    "get_tag h2 root = Some DFS_TEMPORARY_CHECKED \<longrightarrow>
         (\<forall>c \<in> set cs. get_tag h2 c = Some DFS_OK)"
    by (elim exE conjE) (rule that)
  have kept: "get_tag h2 c = get_tag h1 c"
    using h1(4) loop_monoD(1,2) [OF h2(3), of c] by auto
  have "root \<in> visited h1" using h1(2) by (simp add: loop_inv_def)
  then have "get_tag h2 root = Some DFS_TEMPORARY_CHECKED \<longrightarrow>
      get_tag h1 root = Some DFS_TEMPORARY_CHECKED"
    using loop_monoD(4) [OF h2(3)] by blast
  then have first: "get_tag h2 root = Some DFS_TEMPORARY_CHECKED \<longrightarrow> get_tag h2 c = Some DFS_OK"
    using kept h1(5) by simp
  show ?case
  proof (intro exI conjI)
    show "foldM (scan_son visit root) (c # cs) h = Some h2" using h1(1) h2(1) by simp
    show "loop_inv (insert root K) h2" by (rule h2(2))
    show "loop_mono h h2" using h1(3) h2(3) by (rule loop_mono_trans)
    show "\<forall>x \<in> set (c # cs). get_tag h2 x = Some DFS_OK \<or> get_tag h2 x = Some DFS_LOOP_INSIDE"
      using h1(4) h2(4) kept by simp
    show "get_tag h2 root = Some DFS_TEMPORARY_CHECKED \<longrightarrow>
        (\<forall>x \<in> set (c # cs). get_tag h2 x = Some DFS_OK)"
      using first h2(5) by simp
  qed
qed

text \<open>Starting and ending the search of one node.\<close>

lemma start_search:
  assumes inv: "loop_inv K g" and new: "get_tag g root = Some DFS_UNCHECKED"
    and g1: "set_tag root DFS_TEMPORARY_CHECKED g = Some g1"
  shows "loop_inv (insert root K) g1" and "loop_mono g g1"
    and "not_yet g1 = not_yet g - {root}"
proof -
  note shape = set_tag_SomeD(1) [OF g1]
  note tag = set_tag_SomeD(2) [OF g1]
  note same = same_shape_edge [OF shape] same_shape_cycle [OF shape] same_shape_dget [OF shape]
  have vis: "visited g1 = insert root (visited g)" and nr: "root \<notin> visited g"
    using new by (auto simp: visited_def tag)
  show ny: "not_yet g1 = not_yet g - {root}" using new by (auto simp: not_yet_def tag)
  show "loop_mono g g1"
    using shape vis ny new nr by (auto simp: loop_mono_def tag)
  have nb: "\<And>p. p \<in> visited g - K \<Longrightarrow> \<not> edge g p root"
    using inv new by (fastforce simp: loop_inv_def)
  show "loop_inv (insert root K) g1"
    using inv new nr nb unfolding loop_inv_def loop_tags_def same vis tag
    by (intro conjI) (auto split: if_splits)
qed

lemma end_search_ok:
  assumes inv: "loop_inv (insert root K) g" and nk: "root \<notin> K"
    and tmp: "get_tag g root = Some DFS_TEMPORARY_CHECKED"
    and ok: "\<And>c. edge g root c \<Longrightarrow> get_tag g c = Some DFS_OK"
    and h: "set_tag root DFS_OK g = Some h"
  shows "loop_inv K h" and "loop_mono g h"
proof -
  note shape = set_tag_SomeD(1) [OF h]
  note tag = set_tag_SomeD(2) [OF h]
  note same = same_shape_edge [OF shape] same_shape_cycle [OF shape] same_shape_dget [OF shape]
  have vis: "visited h = visited g" using tmp by (auto simp: visited_def tag)
  show "loop_mono g h"
    using shape vis tmp by (auto simp: loop_mono_def not_yet_def tag)
  have okreach: "get_tag g w = Some DFS_OK" if "(edge g)\<^sup>*\<^sup>* c w" "get_tag g c = Some DFS_OK" for c w
    using that by (induction rule: rtranclp_induct) (use inv in \<open>auto simp: loop_inv_def\<close>)
  have ncyc: "\<not> on_cycle g root"
  proof
    assume "on_cycle g root"
    then obtain c where "edge g root c" "(edge g)\<^sup>*\<^sup>* c root"
      unfolding on_cycle_def by (meson tranclpD)
    with okreach ok have "get_tag g root = Some DFS_OK" by blast
    with tmp show False by simp
  qed
  show "loop_inv K h"
    using inv nk tmp ok ncyc unfolding loop_inv_def loop_tags_def same vis tag
    by (intro conjI) (auto split: if_splits)
qed

lemma end_search_loop:
  assumes inv: "loop_inv (insert root K) g"
    and tag: "get_tag g root \<noteq> Some DFS_TEMPORARY_CHECKED"
    and ok: "\<And>c. edge g root c \<Longrightarrow>
        get_tag g c = Some DFS_OK \<or> get_tag g c = Some DFS_LOOP_INSIDE"
  shows "loop_inv K g"
  using inv tag ok unfolding loop_inv_def by (intro conjI) auto

theorem dfs_loop_search_spec:
  assumes "loop_inv K g" and "get_tag g root = Some DFS_UNCHECKED"
    and "\<And>k. k \<in> K \<Longrightarrow> (edge g)\<^sup>*\<^sup>* k root"
    and "finite (not_yet g)" and "card (not_yet g) \<le> fuel"
  shows "\<exists>h. dfs_loop_search fuel root g = Some h \<and> loop_inv K h \<and> loop_mono g h
    \<and> root \<in> visited h"
  using assms
proof (induction fuel arbitrary: K g root)
  case 0
  then have "not_yet g = {}" by simp
  with 0 show ?case by (auto simp: not_yet_def)
next
  case (Suc fuel)
  note inv = Suc.prems(1) and new = Suc.prems(2)
  have nk: "root \<notin> K" using inv new by (auto simp: loop_inv_def visited_def)
  have "dget g root \<noteq> None" using new by (rule get_tag_dget)
  then obtain g1 where g1: "set_tag root DFS_TEMPORARY_CHECKED g = Some g1"
    by (auto simp: set_tag_def)
  note start = start_search [OF inv new g1]
  note E1 = loop_mono_shape [OF start(2)]
  have "dget g1 root \<noteq> None" using \<open>dget g root \<noteq> None\<close> by (simp add: E1(7))
  then obtain nd where nd: "dget g1 root = Some nd" by auto
  have sn: "set (sons nd) = {c. edge g1 root c}" by (simp add: edge_def sons_of_def nd)
  have reach: "(edge g1)\<^sup>*\<^sup>* k root" if "k \<in> insert root K" for k
    using Suc.prems(3) that by (auto simp: E1(1))
  have fewer: "card (not_yet g1) \<le> fuel" "finite (not_yet g1)"
    using Suc.prems(2,4,5) start(3) by (auto simp: not_yet_def card_Diff_singleton_if)
  have visit: "\<exists>h'. dfs_loop_search fuel c h = Some h' \<and> loop_inv (insert root K) h'
      \<and> loop_mono h h' \<and> c \<in> visited h'"
    if "loop_inv (insert root K) h" "loop_mono g1 h" "get_tag h c = Some DFS_UNCHECKED"
      "edge g1 root c" for c h
  proof (rule Suc.IH [OF that(1,3)])
    fix k assume "k \<in> insert root K"
    with reach have "(edge g1)\<^sup>*\<^sup>* k root" by blast
    with that(4) show "(edge h)\<^sup>*\<^sup>* k c"
      by (simp add: loop_mono_shape(1) [OF that(2)])
  next
    have sub: "not_yet h \<subseteq> not_yet g1" using that(2) by (simp add: loop_mono_def)
    then show "finite (not_yet h)" using fewer(2) by (rule finite_subset)
    show "card (not_yet h) \<le> fuel" using card_mono [OF fewer(2) sub] fewer(1) by simp
  qed
  have "\<exists>h'. foldM (scan_son (dfs_loop_search fuel) root) (sons nd) g1 = Some h'
      \<and> loop_inv (insert root K) h' \<and> loop_mono g1 h'
      \<and> (\<forall>c \<in> set (sons nd). get_tag h' c = Some DFS_OK \<or> get_tag h' c = Some DFS_LOOP_INSIDE)
      \<and> (get_tag h' root = Some DFS_TEMPORARY_CHECKED \<longrightarrow>
           (\<forall>c \<in> set (sons nd). get_tag h' c = Some DFS_OK))"
    by (rule scan_sons_spec [where g = g1]) (use visit start(1) reach sn in auto)
  then obtain g2 where
    g2: "foldM (scan_son (dfs_loop_search fuel) root) (sons nd) g1 = Some g2"
    and inv2: "loop_inv (insert root K) g2" and mono2: "loop_mono g1 g2"
    and cs2: "\<And>c. edge g2 root c \<Longrightarrow> get_tag g2 c = Some DFS_OK \<or> get_tag g2 c = Some DFS_LOOP_INSIDE"
    and ok2: "\<And>c. get_tag g2 root = Some DFS_TEMPORARY_CHECKED \<Longrightarrow> edge g2 root c \<Longrightarrow>
        get_tag g2 c = Some DFS_OK"
    by (metis (no_types, lifting) loop_mono_shape(1) mem_Collect_eq sn)
  have mono: "loop_mono g g2" using start(2) mono2 by (rule loop_mono_trans)
  have vr: "root \<in> visited g2" using inv2 by (simp add: loop_inv_def)
  then obtain t where t: "get_tag g2 root = Some t" by (auto simp: visited_def)
  show ?case
  proof (cases "t = DFS_TEMPORARY_CHECKED")
    case True
    have "dget g2 root \<noteq> None" using t by (rule get_tag_dget)
    then obtain h where h: "set_tag root DFS_OK g2 = Some h" by (auto simp: set_tag_def)
    from end_search_ok [OF inv2 nk _ _ h] t True ok2
    have "loop_inv K h" "loop_mono g2 h" by auto
    moreover have "root \<in> visited h" using vr \<open>loop_mono g2 h\<close> by (auto simp: loop_mono_def)
    moreover have "loop_mono g h" using mono \<open>loop_mono g2 h\<close> by (rule loop_mono_trans)
    ultimately show ?thesis using h t True g1 nd g2 by simp
  next
    case False
    have "loop_inv K g2" using end_search_loop [OF inv2] t False cs2 by auto
    with mono vr t False g1 nd g2 show ?thesis by auto
  qed
qed

section \<open>\<open>loop_check\<close>\<close>

lemma dkeys_tag_all [simp]: "dkeys (tag_all t g) = dkeys g" "dkeys (untag_all g) = dkeys g"
  by (auto simp: dkeys_def tag_all_def untag_all_def)

lemma dget_tag_all:
  "dget (tag_all t g) v = map_option (\<lambda>nd. nd\<lparr>dfs_loop_status := Some t\<rparr>) (dget g v)"
  "dget (untag_all g) v = map_option (\<lambda>nd. nd\<lparr>dfs_loop_status := None\<rparr>) (dget g v)"
  by (induction g) (auto simp: tag_all_def untag_all_def)

lemma same_shape_tag_all: "same_shape g (tag_all t g)" "same_shape g (untag_all g)"
  by (auto simp: same_shape_def sons_of_def fun_eq_iff dget_tag_all split: option.splits)

lemma get_tag_tag_all: "get_tag (tag_all t g) v = (if dget g v = None then None else Some t)"
  by (auto simp: get_tag_def dget_tag_all)

lemma not_yet_bound:
  shows "finite (not_yet g)" and "card (not_yet g) \<le> length g"
proof -
  have sub: "not_yet g \<subseteq> set (dkeys g)"
    by (auto simp: not_yet_def in_dkeys_iff dest: get_tag_dget)
  then show "finite (not_yet g)" by (rule finite_subset) simp
  have "card (not_yet g) \<le> card (set (dkeys g))" using sub by (intro card_mono) simp_all
  also have "\<dots> \<le> length g" using card_length [of "dkeys g"] by (simp add: dkeys_def)
  finally show "card (not_yet g) \<le> length g" .
qed

lemma loop_inv_tag_all: "closed_graph g \<Longrightarrow> loop_inv {} (tag_all DFS_UNCHECKED g)"
  by (auto simp: loop_inv_def loop_tags_def visited_def get_tag_tag_all dget_tag_all
      same_shape_cycle [OF same_shape_tag_all(1)] split: if_splits)

lemma dkeys_length: "dkeys g = dkeys h \<Longrightarrow> length g = length h"
  by (metis dkeys_def length_map)

text \<open>Once no search is running, a visited node on a cycle is tagged as inside a loop.\<close>

lemma visited_cycle_inside:
  assumes inv: "loop_inv {} g" and v: "v \<in> visited g" and cyc: "on_cycle g v"
  shows "get_tag g v = Some DFS_LOOP_INSIDE"
proof -
  have step: "c \<in> visited g" if "p \<in> visited g" "edge g p c" for p c
  proof -
    have "get_tag g c = Some DFS_OK \<or> get_tag g c = Some DFS_LOOP_INSIDE"
      using inv that unfolding loop_inv_def by blast
    then show ?thesis by (auto simp: visited_def)
  qed
  have "w \<in> visited g" if "(edge g)\<^sup>*\<^sup>* v w" for w
    using that by (induction rule: rtranclp_induct) (auto intro: v step)
  moreover obtain p where "(edge g)\<^sup>*\<^sup>* v p" "edge g p v"
    using cyc unfolding on_cycle_def
    by (cases rule: tranclp.cases) (auto dest: tranclp_into_rtranclp)
  ultimately have "get_tag g v = Some DFS_OK \<or> get_tag g v = Some DFS_LOOP_INSIDE"
    using inv unfolding loop_inv_def by blast
  moreover have "get_tag g v \<noteq> Some DFS_OK" using inv cyc unfolding loop_inv_def by blast
  ultimately show ?thesis by simp
qed

lemma loop_check_step_spec:
  assumes inv: "loop_inv {} h" and mono: "loop_mono g h" and v: "v \<in> set (dkeys g)"
    and fuel: "length g \<le> fuel"
  shows "\<exists>h' l. loop_check_step fuel v (h, acc) = Some (h', acc @ l) \<and> loop_inv {} h'
    \<and> loop_mono h h' \<and> v \<in> visited h' \<and> (on_cycle g v \<longrightarrow> v \<in> set l)
    \<and> (\<forall>x \<in> set l. leads_to_cycle g x)"
proof -
  note S = loop_mono_shape [OF mono]
  have "dget h v \<noteq> None" using v by (simp add: S(7) in_dkeys_iff)
  then obtain t where t: "get_tag h v = Some t"
    using inv by (auto simp: loop_inv_def loop_tags_def)
  have "card (not_yet h) \<le> fuel"
    using not_yet_bound(2) [of h] fuel dkeys_length [OF S(5)] by simp
  then have "\<exists>h'. (if t = DFS_UNCHECKED then dfs_loop_search fuel v h else Some h) = Some h'
      \<and> loop_inv {} h' \<and> loop_mono h h' \<and> v \<in> visited h'"
    using dfs_loop_search_spec [OF inv, of v fuel] not_yet_bound(1) inv t
    by (auto simp: visited_def)
  then obtain h' where h': "(if t = DFS_UNCHECKED then dfs_loop_search fuel v h else Some h) = Some h'"
    and inv': "loop_inv {} h'" and mono': "loop_mono h h'" and v': "v \<in> visited h'"
    by (elim exE conjE) (rule that)
  note S' = loop_mono_shape [OF mono']
  from v' obtain t' where t': "get_tag h' v = Some t'" by (auto simp: visited_def)
  have "on_cycle g v \<Longrightarrow> t' = DFS_LOOP_INSIDE"
    using visited_cycle_inside [OF inv' v'] t' by (simp add: S S')
  moreover have "t' = DFS_LOOP_INSIDE \<Longrightarrow> leads_to_cycle g v"
    using inv' t' by (auto simp: loop_inv_def S S')
  ultimately show ?thesis
    using t h' t' inv' mono' v' unfolding loop_check_step_def
    by (intro exI [of _ h'] exI [of _ "if t' = DFS_LOOP_INSIDE then [v] else []"]) auto
qed

lemma loop_check_fold:
  assumes "loop_inv {} h" and "loop_mono g h" and "set vs \<subseteq> set (dkeys g)"
    and fuel: "length g \<le> fuel"
  shows "\<exists>h' l. foldM (loop_check_step fuel) vs (h, acc) = Some (h', acc @ l) \<and> loop_mono h h'
    \<and> (\<forall>v \<in> set vs. on_cycle g v \<longrightarrow> v \<in> set l) \<and> (\<forall>x \<in> set l. leads_to_cycle g x)"
  using assms(1-3)
proof (induction vs arbitrary: h acc)
  case Nil
  then show ?case by (intro exI [of _ h] exI [of _ "[]"]) simp
next
  case (Cons v vs)
  have v: "v \<in> set (dkeys g)" and vs: "set vs \<subseteq> set (dkeys g)" using Cons.prems(3) by auto
  from loop_check_step_spec [OF Cons.prems(1,2) v fuel, of acc] obtain h1 l1 where
    s1: "loop_check_step fuel v (h, acc) = Some (h1, acc @ l1)" and inv1: "loop_inv {} h1"
    and mono1: "loop_mono h h1" and c1: "on_cycle g v \<longrightarrow> v \<in> set l1"
    and l1: "\<forall>x \<in> set l1. leads_to_cycle g x"
    by (elim exE conjE) (rule that)
  have "loop_mono g h1" using Cons.prems(2) mono1 by (rule loop_mono_trans)
  from Cons.IH [OF inv1 this vs, of "acc @ l1"] obtain h2 l2 where
    s2: "foldM (loop_check_step fuel) vs (h1, acc @ l1) = Some (h2, (acc @ l1) @ l2)"
    and mono2: "loop_mono h1 h2" and c2: "\<forall>v \<in> set vs. on_cycle g v \<longrightarrow> v \<in> set l2"
    and l2: "\<forall>x \<in> set l2. leads_to_cycle g x"
    by (elim exE conjE) (rule that)
  show ?case
    by (intro exI [of _ h2] exI [of _ "l1 @ l2"])
      (use s1 s2 c1 c2 l1 l2 loop_mono_trans [OF mono1 mono2] in auto)
qed

lemma loop_check_result:
  assumes "closed_graph g"
  shows "\<exists>l h. loop_check g = Some (l, h) \<and> same_shape g h
    \<and> (\<forall>v. on_cycle g v \<longrightarrow> v \<in> set l) \<and> (\<forall>v \<in> set l. leads_to_cycle g v)"
proof -
  let ?g = "tag_all DFS_UNCHECKED g"
  note S = same_shape_tag_all(1) [of g DFS_UNCHECKED]
  have len: "length ?g \<le> Suc (length g)" by (simp add: tag_all_def)
  from loop_check_fold [OF loop_inv_tag_all [OF assms] loop_mono_refl _ len, of "dkeys g" "[]"]
  obtain h l where h: "foldM (loop_check_step (Suc (length g))) (dkeys g) (?g, []) = Some (h, l)"
    and m: "loop_mono ?g h" and c: "\<forall>v \<in> set (dkeys g). on_cycle ?g v \<longrightarrow> v \<in> set l"
    and l: "\<forall>x \<in> set l. leads_to_cycle ?g x"
    by (simp add: same_shape_def [THEN iffD1, OF S]) (elim exE conjE, rule that, simp_all)
  have "same_shape g (untag_all h)"
    using S m same_shape_tag_all(2) [of h] by (auto simp: loop_mono_def same_shape_def)
  moreover have "v \<in> set (dkeys g)" if "on_cycle g v" for v
    using that assms unfolding on_cycle_def closed_graph_def in_dkeys_iff
    by (metis not_Some_eq tranclp.cases)
  ultimately show ?thesis
    using h c l by (auto simp: loop_check_def loop_check_fuel_def same_shape_cycle [OF S])
qed

section \<open>What the loop check reports\<close>

text \<open>
  C9. On every graph whose edges lead to known nodes (\<open>add_edge\<close> only builds such graphs), \<open>loop_check\<close> returns without a \<open>KeyError\<close> and without exceeding a recursion depth
  of the number of nodes, leaves the nodes and edges alone, returns every node that is on a
  cycle, and returns only nodes from which a cycle can be reached.
\<close>

theorem loop_check_correct:
  assumes "closed_graph g"
  shows "\<exists>l h. loop_check g = Some (l, h) \<and> same_shape g h
    \<and> {v. on_cycle g v} \<subseteq> set l \<and> set l \<subseteq> {v. leads_to_cycle g v}"
  using loop_check_result [OF assms] by blast

definition three_nodes :: "nat graph" where
  "three_nodes = add_edge 3 3 (add_edge 2 3 (add_edge 1 2 (add_nodes [1, 2, 3, 4] [])))"

lemma edge_Nil [simp]: "\<not> edge [] u v"
  by (simp add: edge_def sons_of_def)

lemma sons_of_add_node: "sons_of (add_node n g) v = (if v = n then [] else sons_of g v)"
  by (simp add: sons_of_def add_node_def)

lemma edge_add_node: "edge (add_node n g) u v \<longleftrightarrow> u \<noteq> n \<and> edge g u v"
  by (simp add: edge_def sons_of_add_node)

lemma dget_add_node: "dget (add_node n g) v = None \<longleftrightarrow> v \<noteq> n \<and> dget g v = None"
  by (simp add: add_node_def)

lemma closed_add_node: "closed_graph g \<Longrightarrow> closed_graph (add_node n g)"
  by (auto simp: closed_graph_def edge_add_node dget_add_node)

lemma edge_unknown: "dget g u = None \<Longrightarrow> \<not> edge g u v"
  by (simp add: edge_def sons_of_def)

lemma edge_add_edge: "edge (add_edge a b g) u v \<longleftrightarrow> edge g u v \<or> u = a \<and> v = b"
proof -
  define g1 where "g1 = (if dhas g b then g else add_node b g)"
  have "edge g1 u v \<longleftrightarrow> edge g u v"
    by (auto simp: g1_def edge_add_node dhas_iff dest: edge_unknown)
  moreover have "edge (add_edge a b g) u v \<longleftrightarrow> edge g1 u v \<or> u = a \<and> v = b"
    by (auto simp: add_edge_def g1_def [symmetric] edge_def sons_of_def split: option.splits)
  ultimately show ?thesis by simp
qed

lemma dget_add_edge: "dget (add_edge a b g) v = None \<longleftrightarrow> v \<noteq> a \<and> v \<noteq> b \<and> dget g v = None"
  by (auto simp: add_edge_def add_node_def dhas_iff Let_def split: option.splits)

lemma closed_add_edge: "closed_graph g \<Longrightarrow> closed_graph (add_edge a b g)"
  by (auto simp: closed_graph_def edge_add_edge dget_add_edge)

lemma closed_add_nodes: "closed_graph g \<Longrightarrow> closed_graph (add_nodes ns g)"
  by (induction ns arbitrary: g) (simp_all add: closed_add_node)

lemma no_edge_add_nodes: "(\<And>u v. \<not> edge g u v) \<Longrightarrow> \<not> edge (add_nodes ns g) u v"
  by (induction ns arbitrary: g) (simp_all add: edge_add_node)

lemma closed_Nil [simp]: "closed_graph []"
  by (simp add: closed_graph_def)

lemma closed_three_nodes: "closed_graph three_nodes"
  unfolding three_nodes_def by (intro closed_add_edge closed_add_nodes) simp

theorem loop_check_correct_witness:
  "closed_graph three_nodes \<and> (\<exists>l h. loop_check three_nodes = Some (l, h) \<and> same_shape three_nodes h
    \<and> {v. on_cycle three_nodes v} \<subseteq> set l \<and> set l \<subseteq> {v. leads_to_cycle three_nodes v})"
  using loop_check_correct [OF closed_three_nodes] closed_three_nodes by blast

lemma loop_check_Nil_iff:
  assumes "closed_graph g"
  shows "(\<exists>h. loop_check g = Some ([], h)) \<longleftrightarrow> (\<forall>v. \<not> on_cycle g v)"
proof -
  from loop_check_result [OF assms] obtain l h where l: "loop_check g = Some (l, h)"
    "\<forall>v. on_cycle g v \<longrightarrow> v \<in> set l" "\<forall>v \<in> set l. leads_to_cycle g v"
    by (elim exE conjE) (rule that)
  have "l = [] \<longleftrightarrow> (\<forall>v. \<not> on_cycle g v)"
  proof
    show "\<forall>v. \<not> on_cycle g v" if "l = []" using l(2) that by auto
    show "l = []" if "\<forall>v. \<not> on_cycle g v"
      using l(3) that unfolding leads_to_cycle_def by (cases l) auto
  qed
  then show ?thesis using l(1) by auto
qed




section \<open>Loops in the parents of items\<close>

text \<open>
  The value of an attribute of an item: \<open>None\<close> (missing), one object or a list of objects.
  The graph's nodes are such objects, and \<open>None\<close> itself becomes a node when an item has the
  second attribute and not the first.
\<close>

datatype 'a attr = NoAttr | OneAttr 'a | ListAttr "'a list"

fun attr_objs :: "'a attr \<Rightarrow> 'a option list" where
  "attr_objs NoAttr = [None]"
| "attr_objs (OneAttr x) = [Some x]"
| "attr_objs (ListAttr xs) = map Some xs"

text \<open>An item is given by its two attribute values.\<close>

definition parents_nodes :: "('a attr \<times> 'a attr) list \<Rightarrow> 'a option graph" where
  "parents_nodes items =
     fold (\<lambda>(a1, a2) g. if a1 = NoAttr then g else add_nodes (attr_objs a1) g) items []"

definition item_edges :: "'a attr \<times> 'a attr \<Rightarrow> ('a option \<times> 'a option) list" where
  "item_edges it =
     (case it of (a1, a2) \<Rightarrow>
        if a2 = NoAttr then []
        else concat (map (\<lambda>o2. map (\<lambda>o1. (o1, o2)) (attr_objs a1)) (attr_objs a2)))"

definition no_loop_in_parents :: "('a attr \<times> 'a attr) list \<Rightarrow> 'a option list option" where
  "no_loop_in_parents items =
     map_option fst (loop_check
       (fold (\<lambda>(o1, o2). add_edge o1 o2) (concat (map item_edges items)) (parents_nodes items)))"

lemma fold_add_edge:
  assumes "closed_graph g"
  shows "closed_graph (fold (\<lambda>(o1, o2). add_edge o1 o2) es g)"
    and "edge (fold (\<lambda>(o1, o2). add_edge o1 o2) es g) u v \<longleftrightarrow> edge g u v \<or> (u, v) \<in> set es"
  using assms by (induction es arbitrary: g) (auto simp: closed_add_edge edge_add_edge)

lemma parents_nodes_edges:
  shows "closed_graph (parents_nodes items)" and "\<not> edge (parents_nodes items) u v"
proof -
  let ?f = "\<lambda>(a1, a2) g. if a1 = NoAttr then g else add_nodes (attr_objs a1) g"
  have "closed_graph (fold ?f items g) \<and> (\<forall>u v. \<not> edge (fold ?f items g) u v)"
    if "closed_graph g" "\<forall>u v. \<not> edge g u v" for g
    using that by (induction items arbitrary: g) (auto simp: closed_add_nodes no_edge_add_nodes)
  from this [of "[]"] show "closed_graph (parents_nodes items)" "\<not> edge (parents_nodes items) u v"
    by (simp_all add: parents_nodes_def)
qed

text \<open>
  C14. \<open>Items.no_loop_in_parents\<close> answers the empty list exactly when the relation between
  the objects of the first attribute and those of the second (parents and hosts, masters and
  dependents) has no cycle, and it always answers: whatever the items, no \<open>KeyError\<close>.
\<close>

theorem no_loop_in_parents_correct:
  "no_loop_in_parents items \<noteq> None
   \<and> (no_loop_in_parents items = Some [] \<longleftrightarrow> acyclic (\<Union>(set ` item_edges ` set items)))"
proof -
  let ?es = "concat (map item_edges items)"
  let ?g = "fold (\<lambda>(o1, o2). add_edge o1 o2) ?es (parents_nodes items)"
  have closed: "closed_graph ?g" by (intro fold_add_edge parents_nodes_edges)
  have E: "edge ?g = (\<lambda>u v. (u, v) \<in> (\<Union>(set ` item_edges ` set items)))"
    by (simp add: fun_eq_iff fold_add_edge(2) parents_nodes_edges)
  have "(\<forall>v. \<not> on_cycle ?g v) \<longleftrightarrow> acyclic (\<Union>(set ` item_edges ` set items))"
    unfolding on_cycle_def E tranclp_trancl_eq acyclic_def ..
  moreover have "\<exists>l h. loop_check ?g = Some (l, h)"
    using loop_check_result [OF closed] by blast
  ultimately show ?thesis
    using loop_check_Nil_iff [OF closed] unfolding no_loop_in_parents_def by auto
qed


section \<open>Accessibility packs\<close>

text \<open>
  \<open>dfs_get_all_childs\<close> returns \<open>list(ret)\<close> of a set, in no specified order: the pack is the
  set itself. One turn of its loop over the sons, then the search.
\<close>

definition gather_son ::
  "('a \<Rightarrow> 'a graph \<Rightarrow> ('a set \<times> 'a graph) option) \<Rightarrow> 'a \<Rightarrow> 'a set \<times> 'a graph \<Rightarrow>
   ('a set \<times> 'a graph) option" where
  "gather_son visit child s =
     (case s of (ret, g) \<Rightarrow>
     (case get_tag g child of None \<Rightarrow> None
      | Some t \<Rightarrow>
          if t = DFS_UNCHECKED
          then map_option (\<lambda>(r, g1). (ret \<union> r, g1)) (visit child g)
          else Some (ret, g)))"

fun dfs_get_all_childs :: "nat \<Rightarrow> 'a \<Rightarrow> 'a graph \<Rightarrow> ('a set \<times> 'a graph) option" where
  "dfs_get_all_childs 0 root g = None"
| "dfs_get_all_childs (Suc fuel) root g =
     (case set_tag root DFS_CHECKED g of None \<Rightarrow> None
      | Some g1 \<Rightarrow>
          foldM (gather_son (dfs_get_all_childs fuel)) (sons_of g1 root)
            (insert root (set (sons_of g1 root)), g1))"

definition pack_step ::
  "nat \<Rightarrow> 'a \<Rightarrow> 'a set list \<times> 'a graph \<Rightarrow> ('a set list \<times> 'a graph) option" where
  "pack_step fuel node_id s =
     (case s of (packs, g) \<Rightarrow>
     (case get_tag g node_id of None \<Rightarrow> None
      | Some t \<Rightarrow>
          if t = DFS_UNCHECKED
          then map_option (\<lambda>(r, g1). (packs @ [r], g1)) (dfs_get_all_childs fuel node_id g)
          else Some (packs, g)))"

definition get_accessibility_packs :: "'a graph \<Rightarrow> ('a set list \<times> 'a graph) option" where
  "get_accessibility_packs g =
     map_option (\<lambda>(packs, g1). (packs, untag_all g1))
       (foldM (pack_step (Suc (length g))) (dkeys g) ([], tag_all DFS_UNCHECKED g))"

text \<open>
  The contract of a (partial) search from \<open>root\<close>: the nodes it newly visits are in the result,
  so are their sons, which are all visited afterwards, and the result is reachable.
\<close>

definition gathers :: "'a \<Rightarrow> 'a graph \<Rightarrow> 'a set \<Rightarrow> 'a graph \<Rightarrow> bool" where
  "gathers root g ret h \<longleftrightarrow> same_shape g h \<and> visited g \<subseteq> visited h \<and> not_yet h \<subseteq> not_yet g
     \<and> not_yet g \<subseteq> not_yet h \<union> visited h \<and> visited h - visited g \<subseteq> ret
     \<and> ret \<subseteq> {v. (edge g)\<^sup>*\<^sup>* root v}
     \<and> (\<forall>p c. p \<in> visited h - visited g \<longrightarrow> edge g p c \<longrightarrow> c \<in> ret)"

lemma gathers_shape:
  assumes "gathers r g ret h"
  shows "edge h = edge g" and "dget h v = None \<longleftrightarrow> dget g v = None"
    and "closed_graph h = closed_graph g" and "dkeys h = dkeys g" and "sons_of h = sons_of g"
  using assms same_shape_edge [of g h] same_shape_dget [of g h v] same_shape_cycle(3) [of g h]
  by (auto simp: gathers_def same_shape_def)

lemma gathers_trans:
  assumes a: "gathers root g ret h" and b: "gathers child h r k"
    and reach: "(edge g)\<^sup>*\<^sup>* root child"
  shows "gathers root g (ret \<union> r) k"
proof -
  have r: "r \<subseteq> {v. (edge g)\<^sup>*\<^sup>* root v}"
    using b reach unfolding gathers_def gathers_shape(1) [OF a] by (auto intro: rtranclp_trans)
  show ?thesis
    using a b r unfolding gathers_def gathers_shape(1) [OF a]
    by (intro conjI) (blast intro: same_shape_trans)+
qed

lemma gathers_same: "gathers root g ret g \<longleftrightarrow> ret \<subseteq> {v. (edge g)\<^sup>*\<^sup>* root v}"
  by (auto simp: gathers_def)

lemma set_tag_gathers:
  assumes h: "set_tag root DFS_CHECKED g = Some h" and "root \<in> not_yet g"
  shows "gathers root g (insert root (set (sons_of g root))) h"
    and "root \<in> visited h" and "not_yet h = not_yet g - {root}"
proof -
  note tag = set_tag_SomeD(2) [OF h] and shape = set_tag_SomeD(1) [OF h]
  have new: "visited h = insert root (visited g)" by (auto simp: visited_def tag)
  show u: "not_yet h = not_yet g - {root}" by (auto simp: not_yet_def tag)
  show "root \<in> visited h" using new by simp
  have "set (sons_of g root) \<subseteq> {v. (edge g)\<^sup>*\<^sup>* root v}"
    by (auto simp: edge_def [symmetric])
  then show "gathers root g (insert root (set (sons_of g root))) h"
    using shape new u unfolding gathers_def by (auto simp: edge_def)
qed

definition all_tagged :: "'a graph \<Rightarrow> bool" where
  "all_tagged g \<longleftrightarrow> closed_graph g \<and> (\<forall>v. dget g v \<noteq> None \<longrightarrow> get_tag g v \<noteq> None)"

lemma all_tagged_mono:
  assumes "all_tagged g" and "gathers r g ret h"
  shows "all_tagged h"
  unfolding all_tagged_def
proof (intro conjI allI impI)
  show "closed_graph h" using assms by (simp add: gathers_shape [OF assms(2)] all_tagged_def)
  fix v
  assume "dget h v \<noteq> None"
  then obtain t where "get_tag g v = Some t"
    using assms(1) by (auto simp: gathers_shape [OF assms(2)] all_tagged_def)
  then have "v \<in> visited g \<or> v \<in> not_yet g" by (auto simp: visited_def not_yet_def)
  moreover have "get_tag h v = None \<Longrightarrow> v \<notin> visited h \<and> v \<notin> not_yet h"
    by (simp add: visited_def not_yet_def)
  moreover have "visited g \<subseteq> visited h" "not_yet g \<subseteq> not_yet h \<union> visited h"
    using assms(2) by (simp_all add: gathers_def)
  ultimately show "get_tag h v \<noteq> None" by blast
qed

definition sons_done :: "'a set \<Rightarrow> 'a graph \<Rightarrow> 'a graph \<Rightarrow> bool" where
  "sons_done R g h \<longleftrightarrow>
     (\<forall>p c. p \<in> visited h - visited g - R \<longrightarrow> edge g p c \<longrightarrow> c \<in> visited h)"

lemma sons_done_trans:
  assumes "sons_done R g h" and "sons_done {} h k" and "gathers a h r k" and "edge h = edge g"
  shows "sons_done R g k"
  unfolding sons_done_def
proof (intro allI impI)
  fix p c
  assume p: "p \<in> visited k - visited g - R" and e: "edge g p c"
  have "visited h \<subseteq> visited k" using assms(3) by (simp add: gathers_def)
  moreover have "c \<in> visited h" if "p \<in> visited h"
    using assms(1) p e that unfolding sons_done_def by blast
  moreover have "c \<in> visited k" if "p \<notin> visited h"
    using assms(2) p e that unfolding sons_done_def assms(4) by blast
  ultimately show "c \<in> visited k" by blast
qed

text \<open>The contract of the recursive call on graphs with at most \<open>fuel\<close> nodes left to visit.\<close>

definition visit_ok :: "nat \<Rightarrow> ('a \<Rightarrow> 'a graph \<Rightarrow> ('a set \<times> 'a graph) option) \<Rightarrow> bool" where
  "visit_ok fuel visit \<longleftrightarrow>
     (\<forall>c g. all_tagged g \<longrightarrow> c \<in> not_yet g \<longrightarrow> card (not_yet g) \<le> fuel \<longrightarrow>
       (\<exists>r k. visit c g = Some (r, k) \<and> gathers c g r k \<and> c \<in> visited k \<and> sons_done {} g k))"

lemma gather_son_spec:
  assumes tagged: "all_tagged g" and a: "gathers root g ret h" and d: "sons_done {root} g h"
    and e: "edge g root c" and fuel: "card (not_yet h) \<le> fuel"
    and IH: "visit_ok fuel visit"
  shows "\<exists>ret' k. gather_son visit c (ret, h) = Some (ret', k) \<and> gathers root g ret' k
    \<and> ret \<subseteq> ret' \<and> c \<in> visited k \<and> visited h \<subseteq> visited k \<and> not_yet k \<subseteq> not_yet h
    \<and> sons_done {root} g k"
proof -
  have tagged': "all_tagged h" using tagged a by (rule all_tagged_mono)
  have "dget h c \<noteq> None"
    using e tagged by (simp add: gathers_shape [OF a] all_tagged_def closed_graph_def)
  then obtain t where t: "get_tag h c = Some t"
    using tagged' by (auto simp: all_tagged_def)
  show ?thesis
  proof (cases "t = DFS_UNCHECKED")
    case True
    then have "c \<in> not_yet h" using t by (simp add: not_yet_def)
    from IH [unfolded visit_ok_def, rule_format, OF tagged' this fuel] obtain r k where v: "visit c h = Some (r, k)"
      and g: "gathers c h r k" and c: "c \<in> visited k" and dk: "sons_done {} h k"
      by (elim exE conjE) (rule that)
    have "gathers root g (ret \<union> r) k" using e by (intro gathers_trans [OF a g]) simp
    moreover have "sons_done {root} g k"
      using sons_done_trans [OF d dk g] gathers_shape(1) [OF a] by simp
    moreover have "visited h \<subseteq> visited k" "not_yet k \<subseteq> not_yet h"
      using g by (auto simp: gathers_def)
    ultimately show ?thesis using t v c True by (simp add: gather_son_def)
  next
    case False
    then have "c \<in> visited h" using t by (simp add: visited_def)
    then show ?thesis using t a d False by (simp add: gather_son_def)
  qed
qed

lemma gather_sons_spec:
  assumes tagged: "all_tagged g" and e: "set cs \<subseteq> set (sons_of g root)"
    and "gathers root g ret h" and "sons_done {root} g h" and "card (not_yet h) \<le> fuel"
    and IH: "visit_ok fuel visit"
  shows "\<exists>ret' k. foldM (gather_son visit) cs (ret, h) = Some (ret', k) \<and> gathers root g ret' k
    \<and> ret \<subseteq> ret' \<and> set cs \<subseteq> visited k \<and> visited h \<subseteq> visited k \<and> sons_done {root} g k"
  using e assms(3-5)
proof (induction cs arbitrary: ret h)
  case Nil
  then show ?case by simp
next
  case (Cons c cs)
  have e: "edge g root c" and cs: "set cs \<subseteq> set (sons_of g root)"
    using Cons.prems(1) by (auto simp: edge_def)
  from gather_son_spec [OF tagged Cons.prems(2,3) e Cons.prems(4) IH] obtain r1 k1 where
    s1: "gather_son visit c (ret, h) = Some (r1, k1)" and g1: "gathers root g r1 k1"
    and 1: "ret \<subseteq> r1" "c \<in> visited k1" "visited h \<subseteq> visited k1" "not_yet k1 \<subseteq> not_yet h"
    and d1: "sons_done {root} g k1"
    by (elim exE conjE) (rule that)
  have "card (not_yet k1) \<le> fuel"
    using card_mono [OF not_yet_bound(1) 1(4)] Cons.prems(4) by simp
  from Cons.IH [OF cs g1 d1 this] obtain r2 k2 where
    s2: "foldM (gather_son visit) cs (r1, k1) = Some (r2, k2)" and g2: "gathers root g r2 k2"
    and 2: "r1 \<subseteq> r2" "set cs \<subseteq> visited k2" "visited k1 \<subseteq> visited k2" "sons_done {root} g k2"
    by (elim exE conjE) (rule that)
  have "ret \<subseteq> r2" "set (c # cs) \<subseteq> visited k2" "visited h \<subseteq> visited k2" using 1 2 by auto
  then show ?case using s1 s2 g2 2(4) by auto
qed

lemma dfs_get_all_childs_spec: "visit_ok fuel (dfs_get_all_childs fuel)"
proof (induction fuel)
  case 0
  then show ?case by (auto simp: visit_ok_def not_yet_bound(1))
next
  case (Suc fuel)
  show ?case
    unfolding visit_ok_def
  proof (intro allI impI)
    fix root :: 'a and g
    assume tagged: "all_tagged g" and new: "root \<in> not_yet g" and le: "card (not_yet g) \<le> Suc fuel"
    have "dget g root \<noteq> None" using new by (auto simp: not_yet_def dest: get_tag_dget)
    then obtain g1 where g1: "set_tag root DFS_CHECKED g = Some g1" by (auto simp: set_tag_def)
    note G = set_tag_gathers [OF g1 new]
    have sons: "sons_of g1 root = sons_of g root" using gathers_shape(5) [OF G(1)] by simp
    have "card (not_yet g1) < card (not_yet g)"
      unfolding G(3) using new not_yet_bound(1) by (intro card_Diff1_less) auto
    then have fuel: "card (not_yet g1) \<le> fuel" using le by simp
    have "visited g1 - visited g = {root} \<or> visited g1 - visited g = {}"
      by (auto simp: visited_def set_tag_SomeD(2) [OF g1])
    then have "sons_done {root} g g1" by (auto simp: sons_done_def)
    from gather_sons_spec [OF tagged subset_refl G(1) this fuel Suc.IH] obtain ret h where
      f: "foldM (gather_son (dfs_get_all_childs fuel)) (sons_of g root)
         (insert root (set (sons_of g root)), g1) = Some (ret, h)"
      and g: "gathers root g ret h" and v: "set (sons_of g root) \<subseteq> visited h"
        "visited g1 \<subseteq> visited h" "sons_done {root} g h"
      by (elim exE conjE) (rule that)
    have "sons_done {} g h" using v(1,3) by (auto simp: sons_done_def edge_def)
    then show "\<exists>r k. dfs_get_all_childs (Suc fuel) root g = Some (r, k) \<and> gathers root g r k
        \<and> root \<in> visited k \<and> sons_done {} g k"
      using f g g1 v(2) G(2) sons by auto
  qed
qed

subsection \<open>The packs are the connected components\<close>

definition symmetric_graph :: "'a graph \<Rightarrow> bool" where
  "symmetric_graph g \<longleftrightarrow> (\<forall>u v. edge g u v \<longrightarrow> edge g v u)"

text \<open>Between two searches: what has been visited is a union of components, one per pack.\<close>

definition pack_inv :: "'a graph \<Rightarrow> 'a set list \<Rightarrow> 'a graph \<Rightarrow> bool" where
  "pack_inv g packs h \<longleftrightarrow> all_tagged h \<and> same_shape g h
     \<and> visited h = \<Union>(set packs)
     \<and> (\<forall>p c. p \<in> visited h \<longrightarrow> edge g p c \<longrightarrow> c \<in> visited h)
     \<and> (\<forall>P \<in> set packs. \<exists>v. P = {w. (edge g)\<^sup>*\<^sup>* v w})
     \<and> distinct packs \<and> pairwise disjnt (set packs)"

lemma pack_invD:
  assumes "pack_inv g packs h"
  shows "all_tagged h" and "same_shape g h" and "visited h = \<Union>(set packs)"
    and "p \<in> visited h \<Longrightarrow> edge g p c \<Longrightarrow> c \<in> visited h"
    and "P \<in> set packs \<Longrightarrow> \<exists>v. P = {w. (edge g)\<^sup>*\<^sup>* v w}"
    and "distinct packs" and "pairwise disjnt (set packs)"
  using assms unfolding pack_inv_def by blast+

lemma component_search:
  assumes sym: "symmetric_graph g" and inv: "pack_inv g packs h" and new: "root \<in> not_yet h"
    and g: "gathers root h r k" and rk: "root \<in> visited k" and d: "sons_done {} h k"
  shows "r = {w. (edge g)\<^sup>*\<^sup>* root w}" and "visited k = visited h \<union> r" and "disjnt (visited h) r"
proof -
  have E: "edge h = edge g"
    using inv same_shape_edge [of g h] by (simp add: pack_inv_def)
  have not_old: "root \<notin> visited h" using new by (auto simp: visited_def not_yet_def)
  have component_step: "c \<in> visited k - visited h \<and> c \<in> r"
    if p: "p \<in> visited k - visited h" and e: "edge g p c" for p c
  proof -
    have "edge g c p" using sym e by (simp add: symmetric_graph_def)
    then have "c \<notin> visited h" using pack_invD(4) [OF inv] p by (auto simp only: Diff_iff)
    moreover have "c \<in> visited k" using d p e unfolding sons_done_def E by blast
    moreover have "c \<in> r" using g p e unfolding gathers_def E by blast
    ultimately show ?thesis by blast
  qed
  have "root \<in> r" using g rk not_old unfolding gathers_def by blast
  have all: "w \<in> visited k - visited h \<and> w \<in> r" if "(edge g)\<^sup>*\<^sup>* root w" for w
    using that
  proof (induction rule: rtranclp_induct)
    case base
    then show ?case using rk not_old \<open>root \<in> r\<close> by simp
  next
    case (step p c)
    then have "p \<in> visited k - visited h" by simp
    from component_step [OF this step.hyps(2)] show ?case by simp
  qed
  show r: "r = {w. (edge g)\<^sup>*\<^sup>* root w}" using g all unfolding gathers_def E by blast
  show "visited k = visited h \<union> r" using g all unfolding gathers_def r by blast
  show "disjnt (visited h) r" using all unfolding r disjnt_def by blast
qed

lemma pack_step_spec:
  assumes sym: "symmetric_graph g" and inv: "pack_inv g packs h" and v: "v \<in> set (dkeys g)"
  shows "\<exists>packs' k. pack_step (Suc (length g)) v (packs, h) = Some (packs', k)
    \<and> pack_inv g packs' k \<and> v \<in> visited k \<and> visited h \<subseteq> visited k"
proof -
  have shape: "same_shape g h" using inv by (simp add: pack_inv_def)
  have "dget h v \<noteq> None" using v by (simp add: same_shape_dget [OF shape] in_dkeys_iff)
  then obtain t where t: "get_tag h v = Some t" using inv by (auto simp: pack_inv_def all_tagged_def)
  show ?thesis
  proof (cases "t = DFS_UNCHECKED")
    case False
    then show ?thesis using t inv by (auto simp: pack_step_def visited_def)
  next
    case True
    then have new: "v \<in> not_yet h" using t by (simp add: not_yet_def)
    have "length h = length g" using shape dkeys_length by (auto simp: same_shape_def)
    then have "card (not_yet h) \<le> Suc (length g)" using not_yet_bound(2) [of h] by simp
    from dfs_get_all_childs_spec [unfolded visit_ok_def, rule_format, OF pack_invD(1) [OF inv] new this]
    obtain r k where s: "dfs_get_all_childs (Suc (length g)) v h = Some (r, k)"
      and g: "gathers v h r k" and vk: "v \<in> visited k" and d: "sons_done {} h k"
      by (elim exE conjE) (rule that)
    note C = component_search [OF sym inv new g vk d]
    have tagged: "all_tagged k" using inv all_tagged_mono [OF _ g] by (simp add: pack_inv_def)
    have shape': "same_shape g k"
      using shape g unfolding gathers_def by (blast intro: same_shape_trans)
    have "v \<in> r" unfolding C(1) by simp
    have disj: "disjnt P r" if "P \<in> set packs" for P
      using C(3) that unfolding pack_invD(3) [OF inv] disjnt_def by blast
    have "r \<notin> set packs" using disj \<open>v \<in> r\<close> by (auto simp: disjnt_def)
    moreover have "pairwise disjnt (set (packs @ [r]))"
      using inv disj by (auto simp: pack_inv_def pairwise_insert disjnt_sym)
    moreover have "c \<in> visited k" if "p \<in> visited k" "edge g p c" for p c
      using pack_invD(4) [OF inv _ that(2)] that(1) rtranclp.rtrancl_into_rtrancl [where r = "edge g" and a = v and b = p and c = c] that(2)
      unfolding C(2) unfolding C(1) by blast
    moreover have "visited k = \<Union>(set (packs @ [r]))"
      using inv by (auto simp: C(2) pack_inv_def)
    ultimately have "pack_inv g (packs @ [r]) k"
      using inv tagged shape' C(1) unfolding pack_inv_def by (auto simp: C(1))
    then show ?thesis using s t True vk C(2) by (auto simp: pack_step_def)
  qed
qed

lemma pack_fold:
  assumes "symmetric_graph g" and "pack_inv g packs h" and "set vs \<subseteq> set (dkeys g)"
  shows "\<exists>packs' k. foldM (pack_step (Suc (length g))) vs (packs, h) = Some (packs', k)
    \<and> pack_inv g packs' k \<and> set vs \<subseteq> visited k \<and> visited h \<subseteq> visited k"
  using assms(2,3)
proof (induction vs arbitrary: packs h)
  case Nil
  then show ?case by simp
next
  case (Cons v vs)
  have v: "v \<in> set (dkeys g)" and vs: "set vs \<subseteq> set (dkeys g)" using Cons.prems(2) by auto
  from pack_step_spec [OF assms(1) Cons.prems(1) v] obtain p1 k1 where
    s1: "pack_step (Suc (length g)) v (packs, h) = Some (p1, k1)" and i1: "pack_inv g p1 k1"
    and 1: "v \<in> visited k1" "visited h \<subseteq> visited k1"
    by (elim exE conjE) (rule that)
  from Cons.IH [OF i1 vs] obtain p2 k2 where
    s2: "foldM (pack_step (Suc (length g))) vs (p1, k1) = Some (p2, k2)"
    and i2: "pack_inv g p2 k2" and 2: "set vs \<subseteq> visited k2" "visited k1 \<subseteq> visited k2"
    by (elim exE conjE) (rule that)
  have "set (v # vs) \<subseteq> visited k2" "visited h \<subseteq> visited k2" using 1 2 by auto
  then show ?case using s1 s2 i2 by auto
qed

lemma pack_inv_start: "closed_graph g \<Longrightarrow> pack_inv g [] (tag_all DFS_UNCHECKED g)"
  by (auto simp: pack_inv_def all_tagged_def same_shape_tag_all get_tag_tag_all dget_tag_all
      same_shape_cycle(3) [OF same_shape_tag_all(1)] visited_def split: if_splits)

text \<open>
  C10. On a graph with every edge in both directions, as the docstring of
  \<open>get_accessibility_packs\<close> asks, the packs are exactly the connected components: distinct,
  pairwise disjoint, each one the set of nodes reachable from one of its nodes, together
  covering every node.
\<close>

theorem accessibility_packs_are_components:
  assumes "closed_graph g" and "symmetric_graph g"
  shows "\<exists>packs h. get_accessibility_packs g = Some (packs, h) \<and> same_shape g h
    \<and> distinct packs \<and> pairwise disjnt (set packs)
    \<and> set packs = {{w. (edge g)\<^sup>*\<^sup>* v w} | v. v \<in> set (dkeys g)}"
proof -
  from pack_fold [OF assms(2) pack_inv_start [OF assms(1)] subset_refl] obtain packs k where
    f: "foldM (pack_step (Suc (length g))) (dkeys g) ([], tag_all DFS_UNCHECKED g) = Some (packs, k)"
    and inv: "pack_inv g packs k" and all: "set (dkeys g) \<subseteq> visited k"
    by (elim exE conjE) (rule that)
  let ?comp = "\<lambda>v. {w. (edge g)\<^sup>*\<^sup>* v w}"
  have rsym: "(edge g)\<^sup>*\<^sup>* w v" if "(edge g)\<^sup>*\<^sup>* v w" for v w
    using that assms(2) by (induction rule: rtranclp_induct)
      (auto simp: symmetric_graph_def intro: converse_rtranclp_into_rtranclp)
  have eq: "?comp w = ?comp v" if "w \<in> ?comp v" for v w
    using that rsym by (auto intro: rtranclp_trans)
  have mem: "\<exists>v. P = ?comp v \<and> v \<in> P" if "P \<in> set packs" for P
  proof -
    from pack_invD(5) [OF inv that] obtain v where "P = ?comp v" by (elim exE) (rule that)
    then show ?thesis by auto
  qed
  have known: "v \<in> set (dkeys g)" if "P \<in> set packs" "v \<in> P" for P v
    using inv that same_shape_dget [of g k v] unfolding pack_inv_def in_dkeys_iff
    by (auto simp: visited_def dest!: get_tag_dget)
  have "set packs = {?comp v | v. v \<in> set (dkeys g)}"
  proof (intro equalityI subsetI)
    fix P
    assume P: "P \<in> set packs"
    with mem [OF this] known show "P \<in> {?comp v | v. v \<in> set (dkeys g)}" by blast
  next
    fix P
    assume "P \<in> {?comp v | v. v \<in> set (dkeys g)}"
    then obtain v where v: "P = ?comp v" "v \<in> set (dkeys g)" by blast
    then have "v \<in> \<Union>(set packs)" using all inv by (auto simp: pack_inv_def)
    then obtain Q where Q: "Q \<in> set packs" "v \<in> Q" by blast
    from mem [OF Q(1)] obtain u where u: "Q = ?comp u" by blast
    with Q(2) have "v \<in> ?comp u" by simp
    then have "?comp v = ?comp u" by (rule eq)
    then have "P = Q" using u v(1) by simp
    then show "P \<in> set packs" using Q(1) by simp
  qed
  moreover have "same_shape g (untag_all k)"
    using inv same_shape_tag_all(2) [of k] unfolding pack_inv_def by (blast intro: same_shape_trans)
  ultimately show ?thesis using f inv by (simp add: get_accessibility_packs_def pack_inv_def)
qed

definition two_pairs :: "nat graph" where
  "two_pairs = add_edge 2 1 (add_edge 1 2 (add_nodes [1, 2, 3] []))"

lemma two_pairs_edges: "edge two_pairs u v \<longleftrightarrow> (u, v) \<in> {(1, 2), (2, 1)}"
  by (auto simp: two_pairs_def edge_add_edge edge_add_node)

lemma two_pairs_ok: "closed_graph two_pairs" "symmetric_graph two_pairs"
proof -
  show "closed_graph two_pairs"
    unfolding two_pairs_def by (intro closed_add_edge closed_add_nodes) simp
  show "symmetric_graph two_pairs" by (auto simp: symmetric_graph_def two_pairs_edges)
qed

theorem accessibility_packs_are_components_witness:
  "\<exists>packs h. get_accessibility_packs two_pairs = Some (packs, h) \<and> same_shape two_pairs h
    \<and> distinct packs \<and> pairwise disjnt (set packs)
    \<and> set packs = {{w. (edge two_pairs)\<^sup>*\<^sup>* v w} | v. v \<in> set (dkeys two_pairs)}"
  by (rule accessibility_packs_are_components [OF two_pairs_ok])

end
