(* ===== verification/PyFloat.thy ===== *)
theory PyFloat
  imports Prelude "HOL-Library.Log_Nat" Complex_Main
begin

text \<open>
  Python numbers as the code uses them: \<open>int()\<close> on strings, and the double-precision
  arithmetic of percentages. A finite double is the rational number it denotes; every
  operation rounds its exact result to 53 significant bits, ties to even. Overflow and
  subnormal results do not occur at the magnitudes the code computes with (percentages of
  counts) and are not modelled.
\<close>

section \<open>Rounding to a double\<close>

definition round_half_even :: "rat \<Rightarrow> int" where
  "round_half_even x =
     (let n = \<lfloor>x\<rfloor>; d = x - of_int n
      in if d < 1/2 then n else if d > 1/2 then n + 1 else if even n then n else n + 1)"

text \<open>The exponent \<open>e\<close> with \<open>2 ^ e \<le> x < 2 ^ (e + 1)\<close>, for a positive \<open>x\<close>.\<close>

definition binary_exponent :: "rat \<Rightarrow> int" where
  "binary_exponent x =
     (case quotient_of x of (p, q) \<Rightarrow>
        let e = bitlen p - bitlen q in if x < 2 powi e then e - 1 else e)"

definition fl :: "rat \<Rightarrow> rat" where
  "fl x =
     (if x = 0 then 0
      else let u = 2 powi (binary_exponent \<bar>x\<bar> - 52)
           in sgn x * of_int (round_half_even (\<bar>x\<bar> / u)) * u)"

lemma round_half_even_mono: "x \<le> y \<Longrightarrow> round_half_even x \<le> round_half_even y"
proof -
  assume le: "x \<le> y"
  have "\<lfloor>x\<rfloor> \<le> \<lfloor>y\<rfloor>" using le by (rule floor_mono)
  moreover have "round_half_even x \<le> \<lfloor>x\<rfloor> + 1" "\<lfloor>y\<rfloor> \<le> round_half_even y"
    by (auto simp: round_half_even_def Let_def)
  moreover have "round_half_even x \<le> round_half_even y" if "\<lfloor>x\<rfloor> = \<lfloor>y\<rfloor>"
    using le that by (auto simp: round_half_even_def Let_def)
  ultimately show ?thesis by linarith
qed

lemma round_half_even_of_int [simp]: "round_half_even (of_int n) = n"
  by (simp add: round_half_even_def)

lemma round_half_even_ge: "of_int n \<le> x \<Longrightarrow> n \<le> round_half_even x"
  using round_half_even_mono [of "of_int n" x] by simp

lemma round_half_even_le: "x \<le> of_int n \<Longrightarrow> round_half_even x \<le> n"
  using round_half_even_mono [of x "of_int n"] by simp

lemma binary_exponent_bounds:
  assumes "0 < x"
  shows "2 powi binary_exponent x \<le> x" and "x < 2 powi (binary_exponent x + 1)"
proof -
  obtain p q where pq: "quotient_of x = (p, q)" by (cases "quotient_of x")
  have q: "0 < q" using quotient_of_denom_pos [OF pq] .
  have x: "x = of_int p / of_int q" using quotient_of_div [OF pq] .
  have p: "0 < p" using assms q by (simp add: x zero_less_divide_iff)
  have p1: "2 powi (bitlen p - 1) \<le> (of_int p :: rat)" "(of_int p :: rat) < 2 powi (bitlen p)"
    if "0 < p" for p :: int
  proof -
    have "2 ^ nat (bitlen p - 1) \<le> p" "p < 2 ^ nat (bitlen p)" "0 < bitlen p"
      using that bitlen_bounds [of p] bitlen_ge_iff_power [of 1 p] by simp_all
    moreover from this have "(of_int (2 ^ nat (bitlen p - 1)) :: rat) \<le> of_int p"
      "(of_int p :: rat) < of_int (2 ^ nat (bitlen p))"
      by (simp_all only: of_int_le_iff of_int_less_iff)
    ultimately show "2 powi (bitlen p - 1) \<le> (of_int p :: rat)" "(of_int p :: rat) < 2 powi (bitlen p)"
      by (simp_all add: power_int_def)
  qed
  let ?e = "bitlen p - bitlen q"
  have "x < 2 powi (bitlen p) / 2 powi (bitlen q - 1)"
    unfolding x using p1 [OF p] p1 [OF q] p by (intro frac_less) auto
  also have "\<dots> = 2 powi (?e + 1)" by (simp add: power_int_diff [symmetric] algebra_simps)
  finally have up: "x < 2 powi (?e + 1)" .
  have "2 powi (?e - 1) = (2 powi (bitlen p - 1) / 2 powi (bitlen q) :: rat)"
    by (simp add: power_int_diff [symmetric] algebra_simps)
  also have "\<dots> < x"
    unfolding x using p1 [OF p] p1 [OF q] q by (intro frac_less2) auto
  finally have down: "2 powi (?e - 1) < x" .
  show "2 powi binary_exponent x \<le> x" "x < 2 powi (binary_exponent x + 1)"
    using up down by (auto simp: binary_exponent_def pq Let_def)
qed

lemma fl_0 [simp]: "fl 0 = 0"
  by (simp add: fl_def)

lemma fl_pos_bounds:
  assumes "0 < x"
  shows "2 powi binary_exponent x \<le> fl x" and "fl x \<le> 2 powi (binary_exponent x + 1)"
proof -
  let ?e = "binary_exponent x" and ?u = "2 powi (binary_exponent x - 52) :: rat"
  have u: "0 < ?u" by simp
  have lo: "of_int (2 ^ 52) * ?u = (2 powi ?e :: rat)"
    using power_int_add [of "2 :: rat" 52 "?e - 52"] by simp
  have hi: "of_int (2 ^ 53) * ?u = (2 powi (?e + 1) :: rat)"
    using power_int_add [of "2 :: rat" 53 "?e - 52"] by (simp add: algebra_simps)
  have "of_int (2 ^ 52) \<le> x / ?u" "x / ?u \<le> of_int (2 ^ 53)"
    using binary_exponent_bounds [OF assms] lo hi u by (simp_all add: field_simps)
  then have "(2 ^ 52 :: int) \<le> round_half_even (x / ?u)" "round_half_even (x / ?u) \<le> 2 ^ 53"
    by (blast intro: round_half_even_ge round_half_even_le)+
  then have "of_int (2 ^ 52) * ?u \<le> of_int (round_half_even (x / ?u)) * ?u"
    "of_int (round_half_even (x / ?u)) * ?u \<le> of_int (2 ^ 53) * ?u"
    using u by (intro mult_right_mono; simp only: of_int_le_iff; simp)+
  then show "2 powi ?e \<le> fl x" "fl x \<le> 2 powi (?e + 1)"
    using assms unfolding lo hi by (simp_all add: fl_def Let_def)
qed

lemma fl_mono:
  assumes "0 \<le> x" and "x \<le> y"
  shows "fl x \<le> fl y"
proof (cases "x = 0")
  case True
  then show ?thesis
    using assms fl_pos_bounds(1) [of y] by (cases "y = 0") (auto intro: order_trans [rotated])
next
  case False
  then have x: "0 < x" and y: "0 < y" using assms by auto
  show ?thesis
  proof (cases "binary_exponent x = binary_exponent y")
    case True
    let ?u = "2 powi (binary_exponent y - 52) :: rat"
    have "round_half_even (x / ?u) \<le> round_half_even (y / ?u)"
      using assms(2) by (intro round_half_even_mono divide_right_mono) simp_all
    then have "of_int (round_half_even (x / ?u)) * ?u \<le> of_int (round_half_even (y / ?u)) * ?u"
      by (intro mult_right_mono) simp_all
    then show ?thesis using x y True by (simp add: fl_def Let_def)
  next
    case False
    have "(2 :: rat) powi binary_exponent x < 2 powi (binary_exponent y + 1)"
      using binary_exponent_bounds(1) [OF x] binary_exponent_bounds(2) [OF y] assms(2) by linarith
    moreover have "(2 :: rat) powi (binary_exponent y + 1) \<le> 2 powi binary_exponent x"
      if "binary_exponent y + 1 \<le> binary_exponent x"
      using that by (intro power_int_increasing) simp_all
    ultimately have "binary_exponent x < binary_exponent y + 1" by (meson leD not_le)
    with False have "binary_exponent x + 1 \<le> binary_exponent y" by simp
    then have "(2 :: rat) powi (binary_exponent x + 1) \<le> 2 powi binary_exponent y"
      by (intro power_int_increasing) simp_all
    then show ?thesis using fl_pos_bounds(2) [OF x] fl_pos_bounds(1) [OF y] by linarith
  qed
qed

lemma fl_nonneg: "0 \<le> x \<Longrightarrow> 0 \<le> fl x"
  using fl_mono [of 0 x] by simp

end
