(* ===== verification/PyStr.thy ===== *)
theory PyStr
  imports Prelude "HOL-Library.Sublist"
begin

text \<open>
  Python's string operations on the strings the code handles (lists of ASCII characters):
  \<open>strip\<close>, \<open>split\<close>, \<open>startswith\<close>, \<open>endswith\<close>, \<open>str\<close> and \<open>int\<close> of a decimal numeral.
\<close>

definition is_space :: "char \<Rightarrow> bool" where
  "is_space c \<longleftrightarrow> (of_char c :: nat) \<in> {9, 10, 11, 12, 13, 28, 29, 30, 31, 32}"

definition lstrip :: "string \<Rightarrow> string" where
  "lstrip s = dropWhile is_space s"

definition strip :: "string \<Rightarrow> string" where
  "strip s = rev (lstrip (rev (lstrip s)))"

definition startswith :: "string \<Rightarrow> string \<Rightarrow> bool" where
  "startswith s p \<longleftrightarrow> prefix p s"

definition endswith :: "string \<Rightarrow> string \<Rightarrow> bool" where
  "endswith s p \<longleftrightarrow> suffix p s"

text \<open>\<open>s.split(c)\<close> with a one-character separator.\<close>

fun split_on :: "char \<Rightarrow> string \<Rightarrow> string list" where
  "split_on c [] = [[]]"
| "split_on c (x # xs) =
     (if x = c then [] # split_on c xs
      else (case split_on c xs of [] \<Rightarrow> [[x]] | w # ws \<Rightarrow> (x # w) # ws))"

definition is_digit :: "char \<Rightarrow> bool" where
  "is_digit c \<longleftrightarrow> 48 \<le> (of_char c :: nat) \<and> (of_char c :: nat) \<le> 57"

definition digit_value :: "char \<Rightarrow> nat" where
  "digit_value c = of_char c - 48"

definition digit_char :: "nat \<Rightarrow> char" where
  "digit_char n = char_of (48 + n)"

definition numeral_value :: "string \<Rightarrow> nat" where
  "numeral_value s = foldl (\<lambda>n c. 10 * n + digit_value c) 0 s"

definition py_nat :: "string \<Rightarrow> int option" where
  "py_nat s = (if s \<noteq> [] \<and> list_all is_digit s then Some (int (numeral_value s)) else None)"

text \<open>\<open>int(s)\<close>: \<open>None\<close> is a \<open>ValueError\<close>. Underscores between digits are not modelled.\<close>

definition py_int :: "string \<Rightarrow> int option" where
  "py_int s =
     (case strip s of
        [] \<Rightarrow> None
      | c # r \<Rightarrow> if c = CHR ''-'' then map_option uminus (py_nat r)
                 else if c = CHR ''+'' then py_nat r else py_nat (c # r))"

text \<open>\<open>str(n)\<close> of a non-negative integer.\<close>

fun py_str :: "nat \<Rightarrow> string" where
  "py_str n = (if n < 10 then [digit_char n] else py_str (n div 10) @ [digit_char (n mod 10)])"

declare py_str.simps [simp del]

lemma of_digit_char: "n < 10 \<Longrightarrow> (of_char (digit_char n) :: nat) = 48 + n"
  by (simp add: digit_char_def)

lemma digit_char_simps:
  assumes "n < 10"
  shows "is_digit (digit_char n)" and "digit_value (digit_char n) = n"
    and "\<not> is_space (digit_char n)"
    and "digit_char n \<noteq> CHR ''-''" and "digit_char n \<noteq> CHR ''+''" and "digit_char n \<noteq> CHR ''%''"
  using of_digit_char [OF assms] assms
  by (auto simp: is_digit_def digit_value_def is_space_def)

lemma py_str_chars: "\<forall>c \<in> set (py_str n). \<exists>d < 10. c = digit_char d"
  by (induction n rule: py_str.induct)
    (metis (no_types, lifting) UnE list.set(1,2) mod_less_divisor py_str.simps set_append
      singletonD zero_less_numeral)

lemma py_str_digits:
  shows "list_all is_digit (py_str n)" and "\<forall>c \<in> set (py_str n). \<not> is_space c"
    and "CHR ''-'' \<notin> set (py_str n)" and "CHR ''+'' \<notin> set (py_str n)"
    and "CHR ''%'' \<notin> set (py_str n)"
  using py_str_chars [of n] digit_char_simps by (fastforce simp: list_all_iff)+

lemma py_str_not_Nil [simp]: "py_str n \<noteq> []"
  by (subst py_str.simps) simp

lemma numeral_value_py_str: "numeral_value (py_str n) = n"
proof (induction n rule: py_str.induct)
  case (1 n)
  then show ?case
    by (subst py_str.simps) (auto simp: numeral_value_def digit_char_simps)
qed

lemma lstrip_id: "(\<forall>c \<in> set s. \<not> is_space c) \<Longrightarrow> lstrip s = s"
  by (cases s) (auto simp: lstrip_def)

lemma strip_id: "(\<forall>c \<in> set s. \<not> is_space c) \<Longrightarrow> strip s = s"
  by (simp add: strip_def lstrip_id)

lemma py_nat_py_str: "py_nat (py_str n) = Some (int n)"
  by (simp add: py_nat_def py_str_digits numeral_value_py_str)

lemma py_int_py_str [simp]: "py_int (py_str n) = Some (int n)"
proof -
  obtain c r where s: "py_str n = c # r" by (cases "py_str n") simp_all
  then have "c \<noteq> CHR ''-''" "c \<noteq> CHR ''+''"
    using py_str_digits(3,4) [of n] by (auto simp del: py_str.simps)
  then show ?thesis
    using py_nat_py_str [of n] s py_str_digits(2) [of n] by (simp add: py_int_def strip_id)
qed

lemma length_lstrip: "length (lstrip s) \<le> length s"
  by (simp add: lstrip_def length_dropWhile_le)

lemma length_strip: "length (strip s) \<le> length s"
  using length_lstrip [of "rev (lstrip s)"] length_lstrip [of s] by (simp add: strip_def)

lemma endswith_percent_py_str: "\<not> endswith (py_str n) ''%''"
proof
  assume "endswith (py_str n) ''%''"
  then have "set ''%'' \<subseteq> set (py_str n)" unfolding endswith_def by (rule set_mono_suffix)
  then show False using py_str_digits(5) [of n] by simp
qed

end
