(* ===== verification/DepNode.thy ===== *)
theory DepNode
  imports Prelude PyFloat PyStr
begin

text \<open>
  Business-rule trees: class \<open>DependencyNode\<close> of \<open>alignak/dependencynode.py\<close>. States are the
  state identifiers of hosts and services (0 ok/up, 1 warning/down, 2 critical, 3 unknown,
  4 unreachable). \<open>None\<close> stands for an exception of the Python code.
\<close>

section \<open>Trees\<close>

datatype operand = Op_None | Op_host | Op_service | Op_or | Op_and | Op_of | Op_object

text \<open>
  A son is a node, or the identifier of a host or service below a leaf; the parser can also leave
  Python's \<open>None\<close> among the sons. \<open>of_values\<close> keeps the three strings of the rule.
\<close>

datatype dnode =
    DNode (nd_operand: operand) (nd_sons: "dson list") (nd_of_values: "string \<times> string \<times> string")
      (nd_is_of_mul: bool) (nd_not_value: bool) (nd_errors: "string list")
and dson = SonId uuid | SonNode dnode | SonNone

definition new_dnode :: dnode where
  "new_dnode = DNode Op_None [] (''0'', ''0'', ''0'') False False []"

text \<open>
  What a leaf reads of a host or service: \<open>last_hard_state_id\<close>,
  \<open>problem_has_been_acknowledged\<close>, \<open>in_scheduled_downtime\<close>.
\<close>

type_synonym leaf = "int \<times> bool \<times> bool"

section \<open>States\<close>

definition get_reverse_state :: "int \<Rightarrow> int" where
  "get_reverse_state state =
     (if state = 1 then 1 else if state = 0 then 2 else if state = 2 then 0 else state)"

fun get_host_node_state :: "bool \<Rightarrow> leaf \<Rightarrow> int" where
  "get_host_node_state not_value (state, acknowledged, in_downtime) =
     (let state = (if state = 1 then 2 else state);
          state = (if acknowledged \<or> in_downtime then 0 else state)
      in if not_value then (if state \<noteq> 0 then 0 else 2) else state)"

fun get_service_node_state :: "bool \<Rightarrow> leaf \<Rightarrow> int" where
  "get_service_node_state not_value (state, acknowledged, in_downtime) =
     (let state = (if acknowledged \<or> in_downtime then 0 else state)
      in if not_value then (if state = 2 then 0 else if state = 0 then 2 else state) else state)"

text \<open>\<open>min\<close> and \<open>max\<close> raise \<open>ValueError\<close> on an empty sequence.\<close>

definition py_min :: "int list \<Rightarrow> int option" where
  "py_min xs = (case xs of [] \<Rightarrow> None | x # ys \<Rightarrow> Some (fold min ys x))"

definition py_max :: "int list \<Rightarrow> int option" where
  "py_max xs = (case xs of [] \<Rightarrow> None | x # ys \<Rightarrow> Some (fold max ys x))"

definition reverse_if :: "bool \<Rightarrow> int \<Rightarrow> int" where
  "reverse_if not_value state = (if not_value then get_reverse_state state else state)"

definition worst_state :: "int list \<Rightarrow> int option" where
  "worst_state states = (if 2 \<in> set states then Some 2 else py_max states)"

definition get_complex_or_node_state :: "bool \<Rightarrow> int list \<Rightarrow> int option" where
  "get_complex_or_node_state not_value states =
     map_option (reverse_if not_value) (py_min states)"

definition get_complex_and_node_state :: "bool \<Rightarrow> int list \<Rightarrow> int option" where
  "get_complex_and_node_state not_value states =
     map_option (reverse_if not_value) (worst_state states)"

text \<open>
  \<open>float(nb_real) / nb_tot * 100 >= nb_search\<close>: the division and the product round. The
  division raises when there is no son, \<open>int()\<close> when the string is no numeral.
\<close>

definition percent_of :: "nat \<Rightarrow> nat \<Rightarrow> rat" where
  "percent_of nb_real nb_tot = fl (fl (rat_of_nat nb_real / rat_of_nat nb_tot) * 100)"

definition get_state_for :: "nat \<Rightarrow> nat \<Rightarrow> string \<Rightarrow> bool option" where
  "get_state_for nb_tot nb_real nb_search =
     (if endswith nb_search ''%''
      then (case py_int (butlast nb_search) of None \<Rightarrow> None
            | Some n \<Rightarrow>
                if nb_tot = 0 then None
                else Some (percent_of nb_real nb_tot
                           \<ge> of_int (if n < 0 then max (100 + n) 0 else n)))
      else (case py_int nb_search of None \<Rightarrow> None
            | Some n \<Rightarrow> Some (int nb_real \<ge> (if n < 0 then max (int nb_tot + n) 0 else n))))"

definition nb_of :: "int \<Rightarrow> int list \<Rightarrow> nat" where
  "nb_of state states = count_list states state"

definition get_complex_xof_node_state ::
  "string \<times> string \<times> string \<Rightarrow> bool \<Rightarrow> bool \<Rightarrow> int list \<Rightarrow> int option" where
  "get_complex_xof_node_state of_values is_of_mul not_value states =
     (case of_values of (nb_search_ok, nb_search_warn, nb_search_crit) \<Rightarrow>
      let nb_sons = length states; nb_ok = nb_of 0 states; nb_warn = nb_of 1 states;
          nb_crit = nb_of 2 states
      in
      (case get_state_for nb_sons nb_ok nb_search_ok of None \<Rightarrow> None
       | Some ok_apply \<Rightarrow>
      (case get_state_for nb_sons (nb_warn + nb_crit) nb_search_warn of None \<Rightarrow> None
       | Some warn_apply \<Rightarrow>
      (case get_state_for nb_sons nb_crit nb_search_crit of None \<Rightarrow> None
       | Some crit_apply \<Rightarrow>
          if crit_apply then Some (reverse_if not_value 2)
          else if warn_apply then Some (reverse_if not_value 1)
          else if ok_apply then Some (reverse_if not_value 0)
          else if is_of_mul then Some (reverse_if not_value 0)
          else map_option (reverse_if not_value) (worst_state states)))))"

text \<open>
  \<open>get_state\<close> with the states of the sons. A leaf takes \<open>self.sons[0]\<close> and looks it up in
  the hosts or the services; a plain identifier below a complex node has no \<open>get_state\<close>. An
  unknown operand gives 4.
\<close>

fun get_state :: "(uuid \<Rightarrow> leaf option) \<Rightarrow> (uuid \<Rightarrow> leaf option) \<Rightarrow> dnode \<Rightarrow> int option"
and son_states :: "(uuid \<Rightarrow> leaf option) \<Rightarrow> (uuid \<Rightarrow> leaf option) \<Rightarrow> dson list \<Rightarrow> int list option"
where
  "get_state hosts services (DNode op sons of_values is_of_mul not_value errs) =
     (case op of
        Op_host \<Rightarrow> (case sons of SonId u # _ \<Rightarrow>
            map_option (get_host_node_state not_value) (hosts u) | _ \<Rightarrow> None)
      | Op_service \<Rightarrow> (case sons of SonId u # _ \<Rightarrow>
            map_option (get_service_node_state not_value) (services u) | _ \<Rightarrow> None)
      | Op_or \<Rightarrow> Option.bind (son_states hosts services sons)
                   (get_complex_or_node_state not_value)
      | Op_and \<Rightarrow> Option.bind (son_states hosts services sons)
                   (get_complex_and_node_state not_value)
      | Op_of \<Rightarrow> Option.bind (son_states hosts services sons)
                   (get_complex_xof_node_state of_values is_of_mul not_value)
      | _ \<Rightarrow> Some 4)"
| "son_states hosts services [] = Some []"
| "son_states hosts services (SonId u # sons) = None"
| "son_states hosts services (SonNone # sons) = None"
| "son_states hosts services (SonNode n # sons) =
     (case get_state hosts services n of None \<Rightarrow> None
      | Some st \<Rightarrow> map_option ((#) st) (son_states hosts services sons))"

text \<open>
  \<open>list_all_elements\<close> returns \<open>list(set(res))\<close>, in no specified order: a set.
\<close>

fun list_all_elements :: "dnode \<Rightarrow> uuid set option"
and sons_elements :: "dson list \<Rightarrow> uuid set option" where
  "list_all_elements (DNode op sons of_values is_of_mul not_value errs) =
     (if op = Op_host \<or> op = Op_service
      then (case sons of SonId u # _ \<Rightarrow> Some {u} | _ \<Rightarrow> None)
      else sons_elements sons)"
| "sons_elements [] = Some {}"
| "sons_elements (SonId u # sons) = None"
| "sons_elements (SonNone # sons) = None"
| "sons_elements (SonNode n # sons) =
     (case list_all_elements n of None \<Rightarrow> None
      | Some us \<Rightarrow> map_option ((\<union>) us) (sons_elements sons))"

definition switch_zero :: "nat \<Rightarrow> string \<Rightarrow> string" where
  "switch_zero nb_sons v = (if v = ''0'' then py_str nb_sons else v)"

fun switch_zeros_of_values :: "dnode \<Rightarrow> dnode" where
  "switch_zeros_of_values (DNode op sons (a, b, c) mul nv errs) =
     (let sw = switch_zero (length sons) in DNode op sons (sw a, sw b, sw c) mul nv errs)"

text \<open>
  \<open>is_valid\<close> collects the errors of invalid sons into the node, at every level. The sons are
  updated in place: the function returns the updated tree with the answer.
\<close>

fun is_valid :: "dnode \<Rightarrow> bool \<times> dnode"
and sons_valid :: "dson list \<Rightarrow> bool \<times> string list \<times> dson list" where
  "is_valid (DNode op sons ofv mul nv errs) =
     (case sons_valid sons of (valid, es, sons') \<Rightarrow>
        (sons \<noteq> [] \<and> valid, DNode op sons' ofv mul nv (errs @ es)))"
| "sons_valid [] = (True, [], [])"
| "sons_valid (SonId u # sons) =
     (case sons_valid sons of (valid, es, sons') \<Rightarrow> (valid, es, SonId u # sons'))"
| "sons_valid (SonNone # sons) =
     (case sons_valid sons of (valid, es, sons') \<Rightarrow> (valid, es, SonNone # sons'))"
| "sons_valid (SonNode n # sons) =
     (case is_valid n of (v, n') \<Rightarrow>
      case sons_valid sons of (valid, es, sons') \<Rightarrow>
        (v \<and> valid, (if v then [] else nd_errors n') @ es, SonNode n' # sons'))"

section \<open>Minimum, maximum and the worst state\<close>

lemma py_max_Some: "xs \<noteq> [] \<Longrightarrow> py_max xs = Some (Max (set xs))"
  by (cases xs) (simp_all del: set_simps add: py_max_def Max.set_eq_fold)

lemma py_min_Some: "xs \<noteq> [] \<Longrightarrow> py_min xs = Some (Min (set xs))"
  by (cases xs) (simp_all del: set_simps add: py_min_def Min.set_eq_fold)

lemma worst_state_Some: "xs \<noteq> [] \<Longrightarrow> \<exists>w \<in> set xs. worst_state xs = Some w"
  using Max_in [of "set xs"] by (auto simp: worst_state_def py_max_Some)

definition severity :: "int \<Rightarrow> nat" where
  "severity state = (if state = 0 then 0 else if state = 1 then 1 else if state = 3 then 2 else 3)"

lemma worst_state_severity:
  assumes "xs \<noteq> []" and "set xs \<subseteq> {0, 1, 2, 3}" and "worst_state xs = Some w" and "x \<in> set xs"
  shows "severity x \<le> severity w"
proof (cases "2 \<in> set xs")
  case True
  then show ?thesis using assms by (auto simp: worst_state_def severity_def)
next
  case False
  then have w: "w = Max (set xs)" using assms by (simp add: worst_state_def py_max_Some)
  have "x \<le> w" "w \<in> set xs" using assms(1,4) by (auto simp: w)
  moreover have "x \<in> {0, 1, 3}" "w \<in> {0, 1, 3}" using False assms(2,4) \<open>w \<in> set xs\<close> by auto
  ultimately show ?thesis by (auto simp: severity_def)
qed

section \<open>Rules over leaves that are up or down\<close>

text \<open>
  Trees of and, or and not whose leaves are hosts that are up or down and services that are
  ok or critical, and their Boolean reading. A leaf in downtime or acknowledged counts as
  good.
\<close>

fun binary_rule :: "(uuid \<Rightarrow> leaf option) \<Rightarrow> (uuid \<Rightarrow> leaf option) \<Rightarrow> dnode \<Rightarrow> bool"
and binary_sons :: "(uuid \<Rightarrow> leaf option) \<Rightarrow> (uuid \<Rightarrow> leaf option) \<Rightarrow> dson list \<Rightarrow> bool"
where
  "binary_rule hosts services (DNode op sons ofv mul nv errs) =
     (case op of
        Op_host \<Rightarrow> (case sons of SonId u # _ \<Rightarrow>
            (case hosts u of Some (st, _, _) \<Rightarrow> st = 0 \<or> st = 1 | None \<Rightarrow> False) | _ \<Rightarrow> False)
      | Op_service \<Rightarrow> (case sons of SonId u # _ \<Rightarrow>
            (case services u of Some (st, _, _) \<Rightarrow> st = 0 \<or> st = 2 | None \<Rightarrow> False) | _ \<Rightarrow> False)
      | Op_or \<Rightarrow> sons \<noteq> [] \<and> binary_sons hosts services sons
      | Op_and \<Rightarrow> sons \<noteq> [] \<and> binary_sons hosts services sons
      | _ \<Rightarrow> False)"
| "binary_sons hosts services [] = True"
| "binary_sons hosts services (SonId u # sons) = False"
| "binary_sons hosts services (SonNone # sons) = False"
| "binary_sons hosts services (SonNode n # sons) =
     (binary_rule hosts services n \<and> binary_sons hosts services sons)"

definition leaf_good :: "leaf option \<Rightarrow> bool" where
  "leaf_good l = (case l of Some (st, ack, dt) \<Rightarrow> ack \<or> dt \<or> st = 0 | None \<Rightarrow> False)"

fun rule_good :: "(uuid \<Rightarrow> leaf option) \<Rightarrow> (uuid \<Rightarrow> leaf option) \<Rightarrow> dnode \<Rightarrow> bool"
and sons_good :: "(uuid \<Rightarrow> leaf option) \<Rightarrow> (uuid \<Rightarrow> leaf option) \<Rightarrow> dson list \<Rightarrow> bool list"
where
  "rule_good hosts services (DNode op sons ofv mul nv errs) =
     ((case op of
        Op_host \<Rightarrow> (case sons of SonId u # _ \<Rightarrow> leaf_good (hosts u) | _ \<Rightarrow> False)
      | Op_service \<Rightarrow> (case sons of SonId u # _ \<Rightarrow> leaf_good (services u) | _ \<Rightarrow> False)
      | Op_or \<Rightarrow> True \<in> set (sons_good hosts services sons)
      | Op_and \<Rightarrow> False \<notin> set (sons_good hosts services sons)
      | _ \<Rightarrow> False) \<noteq> nv)"
| "sons_good hosts services [] = []"
| "sons_good hosts services (SonId u # sons) = sons_good hosts services sons"
| "sons_good hosts services (SonNone # sons) = sons_good hosts services sons"
| "sons_good hosts services (SonNode n # sons) =
     rule_good hosts services n # sons_good hosts services sons"

definition code_of :: "bool \<Rightarrow> int" where
  "code_of good = (if good then 0 else 2)"

lemma reverse_code_of [simp]: "reverse_if nv (code_of b) = code_of (b \<noteq> nv)"
  by (simp add: reverse_if_def get_reverse_state_def code_of_def)

lemma py_min_codes: "bs \<noteq> [] \<Longrightarrow> py_min (map code_of bs) = Some (code_of (True \<in> set bs))"
proof -
  assume bs: "bs \<noteq> []"
  have "Min (code_of ` set bs) = code_of (True \<in> set bs)"
    using bs by (intro Min_eqI) (auto simp: code_of_def image_iff neq_Nil_conv split: if_splits)
  with bs show ?thesis by (simp add: py_min_Some)
qed

lemma worst_codes: "bs \<noteq> [] \<Longrightarrow> worst_state (map code_of bs) = Some (code_of (False \<notin> set bs))"
proof (cases "False \<in> set bs")
  case True
  then have "2 \<in> set (map code_of bs)" by (auto simp: code_of_def image_iff)
  with True show ?thesis by (simp add: worst_state_def code_of_def)
next
  case False
  assume bs: "bs \<noteq> []"
  from False have all: "map code_of bs = map (\<lambda>_. 0) bs"
    by (intro map_cong refl) (metis (full_types) code_of_def)
  from bs show ?thesis unfolding all
    by (simp add: worst_state_def py_max_Some False code_of_def image_constant_conv image_iff)
qed

lemma get_node_state_binary:
  "st = 0 \<or> st = 1 \<Longrightarrow>
     get_host_node_state nv (st, ack, dt) = code_of (leaf_good (Some (st, ack, dt)) \<noteq> nv)"
  "st = 0 \<or> st = 2 \<Longrightarrow>
     get_service_node_state nv (st, ack, dt) = code_of (leaf_good (Some (st, ack, dt)) \<noteq> nv)"
  by (auto simp: leaf_good_def code_of_def)

lemma get_state_binary:
  "binary_rule h s n \<Longrightarrow> get_state h s n = Some (code_of (rule_good h s n))"
  "binary_sons h s sons \<Longrightarrow> son_states h s sons = Some (map code_of (sons_good h s sons))
     \<and> (sons \<noteq> [] \<longrightarrow> sons_good h s sons \<noteq> [])"
proof (induction h s n and h s sons rule: binary_rule_binary_sons.induct)
  case (1 h s op sons ofv mul nv errs)
  then show ?case
    by (cases op)
      (auto simp: get_complex_or_node_state_def get_complex_and_node_state_def py_min_codes
        worst_codes get_node_state_binary simp del: get_host_node_state.simps
        get_service_node_state.simps split: list.splits dson.splits option.splits)
qed auto

text \<open>
  C8. Business rules as logic: on a tree of and, or and not nodes over hosts that are up or
  down and services that are ok or critical, \<open>get_state\<close> returns 0 or 2 according to the
  Boolean value of the rule, where an acknowledged or downtimed leaf counts as good.
\<close>

theorem get_state_is_boolean:
  assumes "binary_rule hosts services n"
  shows "get_state hosts services n = Some (if rule_good hosts services n then 0 else 2)"
  using get_state_binary(1) [OF assms] by (simp add: code_of_def)

definition host_leaf :: "uuid \<Rightarrow> bool \<Rightarrow> dson" where
  "host_leaf u nv = SonNode (DNode Op_host [SonId u] (''0'', ''0'', ''0'') False nv [])"

definition example_rule :: dnode where
  "example_rule =
     DNode Op_and [host_leaf 1 False,
        SonNode (DNode Op_or [host_leaf 2 False, host_leaf 3 True] (''0'', ''0'', ''0'') False False [])]
       (''0'', ''0'', ''0'') False False []"

definition example_leaves :: "uuid \<Rightarrow> leaf option" where
  "example_leaves u =
     (if u = 1 then Some (0, False, False) else if u = 2 then Some (1, False, False)
      else if u = 3 then Some (1, True, False) else None)"

theorem get_state_is_boolean_witness:
  "binary_rule example_leaves example_leaves example_rule
   \<and> get_state example_leaves example_leaves example_rule = Some 2"
proof -
  have b: "binary_rule example_leaves example_leaves example_rule" by code_simp
  moreover have "\<not> rule_good example_leaves example_leaves example_rule" by code_simp
  ultimately show ?thesis using get_state_is_boolean [OF b] by simp
qed

section \<open>What a rule depends on\<close>

lemma get_state_elements:
  "list_all_elements n = Some us \<Longrightarrow> (\<forall>u \<in> us. h u = h' u \<and> s u = s' u) \<Longrightarrow>
     get_state h s n = get_state h' s' n"
  "sons_elements sons = Some us \<Longrightarrow> (\<forall>u \<in> us. h u = h' u \<and> s u = s' u) \<Longrightarrow>
     son_states h s sons = son_states h' s' sons"
proof (induction n and sons arbitrary: us and us rule: list_all_elements_sons_elements.induct)
  case (1 op sons ofv mul nv errs)
  then show ?case
    by (auto split: operand.splits list.splits dson.splits if_splits)
next
  case (5 n sons)
  from 5(3) obtain us1 us2 where u: "list_all_elements n = Some us1" "sons_elements sons = Some us2"
    "us = us1 \<union> us2" by (auto split: option.splits)
  have "get_state h s n = get_state h' s' n" using 5(4) by (intro 5(1) [OF u(1)]) (simp add: u(3))
  moreover have "son_states h s sons = son_states h' s' sons"
    using 5(4) by (intro 5(2) [OF u(1,2)]) (simp add: u(3))
  ultimately show ?case by (simp only: son_states.simps)
qed auto

text \<open>
  C17. \<open>list_all_elements\<close> names everything a rule reads: two situations in which the
  hosts and services it returns look the same give the rule the same state.
\<close>

theorem get_state_reads_its_elements:
  assumes "list_all_elements n = Some us"
    and "\<forall>u \<in> us. hosts u = hosts' u \<and> services u = services' u"
  shows "get_state hosts services n = get_state hosts' services' n"
  using get_state_elements(1) [OF assms] .

theorem get_state_reads_its_elements_witness:
  "list_all_elements example_rule = Some {1, 2, 3}
   \<and> get_state example_leaves example_leaves example_rule
     = get_state (example_leaves(7 := Some (2, False, False))) (\<lambda>u. example_leaves u) example_rule"
proof -
  have e: "list_all_elements example_rule = Some {1, 2, 3}" by (simp add: example_rule_def host_leaf_def insert_commute)
  show ?thesis
    using get_state_reads_its_elements [OF e, of example_leaves
        "example_leaves(7 := Some (2, False, False))" example_leaves example_leaves] e
    by simp
qed

section \<open>The and-node is the worst of its sons\<close>

text \<open>
  C16. An and-node that is not negated returns the state of one of its sons, and no son is
  more severe, in the order ok, warning, unknown, critical.
\<close>

theorem and_state_is_worst:
  assumes "states \<noteq> []" and "set states \<subseteq> {0, 1, 2, 3}"
  shows "\<exists>w \<in> set states. get_complex_and_node_state False states = Some w
    \<and> (\<forall>x \<in> set states. severity x \<le> severity w)"
  using worst_state_Some [OF assms(1)] worst_state_severity [OF assms]
  by (auto simp: get_complex_and_node_state_def reverse_if_def)

theorem and_state_is_worst_witness:
  "\<exists>w \<in> set [0, 3, 1]. get_complex_and_node_state False [0, 3, 1] = Some w
    \<and> (\<forall>x \<in> set [0, 3, 1]. severity x \<le> severity w)"
  by (rule and_state_is_worst) simp_all

section \<open>X of Y\<close>

lemma get_state_for_nat:
  "get_state_for t r (py_str n) = Some (n \<le> r)"
  by (simp add: get_state_for_def endswith_percent_py_str)

lemma nb_of_all: "set states \<subseteq> {a} \<Longrightarrow> nb_of a states = length states"
  by (induction states) (auto simp: nb_of_def)

lemma xof_simple:
  assumes n: "1 \<le> n" "n \<le> length states" and ids: "set states \<subseteq> {0..4}"
  shows "get_complex_xof_node_state
      (py_str n, py_str (length states), py_str (length states)) False False states = Some 0
    \<longleftrightarrow> n \<le> nb_of 0 states"
proof -
  have ne: "states \<noteq> []" using n by auto
  have sum: "nb_of 0 states + (nb_of 1 states + nb_of 2 states) \<le> length states"
    by (induction states) (auto simp: nb_of_def)
  let ?A = "n \<le> nb_of 0 states"
  have "\<not> length states \<le> nb_of 2 states" "\<not> length states \<le> nb_of 1 states + nb_of 2 states" if ?A
    using that sum n by linarith+
  moreover obtain w where w: "worst_state states = Some w" "w \<in> set states"
    using worst_state_Some [OF ne] by auto
  moreover have "w \<noteq> 0" if "\<not> ?A"
  proof
    assume "w = 0"
    then have "2 \<notin> set states" "Max (set states) = 0"
      using w ne by (auto simp: worst_state_def py_max_Some split: if_splits)
    then have "\<forall>x \<in> set states. x \<le> 0" by (metis List.finite_set Max_ge)
    with ids have "set states \<subseteq> {0}" by (metis antisym atLeastAtMost_iff singletonI subset_iff)
    then show False using nb_of_all [of states 0] n(2) that by simp
  qed
  ultimately show ?thesis
    by (auto simp: get_complex_xof_node_state_def get_state_for_nat reverse_if_def Let_def)
qed

text \<open>
  C15. A simple rule \<open>N of:\<close> over enough sons is ok exactly when at least \<open>N\<close> sons are ok:
  the two other thresholds, written 0 and replaced by the number of sons, only fire when no
  son is ok.
\<close>

theorem n_of_rule:
  assumes "son_states hosts services sons = Some states"
    and "1 \<le> n" and "n \<le> length states" and "set states \<subseteq> {0..4}" and "length sons = length states"
  shows "get_state hosts services (switch_zeros_of_values
      (DNode Op_of sons (py_str n, ''0'', ''0'') False False errs)) = Some 0
    \<longleftrightarrow> n \<le> nb_of 0 states"
proof -
  have "py_str n \<noteq> ''0''"
  proof
    assume "py_str n = ''0''"
    moreover have "py_str 0 = ''0''" by code_simp
    ultimately have "int n = int 0" using py_int_py_str [of n] py_int_py_str [of 0] by simp
    then show False using assms(2) by simp
  qed
  then show ?thesis
    using xof_simple [OF assms(2-4)] assms(1,5) by (simp add: switch_zero_def Let_def)
qed

theorem n_of_rule_witness:
  "get_state example_leaves example_leaves (switch_zeros_of_values
      (DNode Op_of [host_leaf 1 False, host_leaf 2 False, host_leaf 3 False] (py_str 2, ''0'', ''0'')
        False False [])) = Some 0"
proof -
  let ?sons = "[host_leaf 1 False, host_leaf 2 False, host_leaf 3 False]"
  have s: "son_states example_leaves example_leaves ?sons = Some [0, 2, 0]" by code_simp
  show ?thesis
    using n_of_rule [OF s, of 2] by (simp add: nb_of_def)
qed


section \<open>Percentages\<close>

lemma percent_of_mono: "a \<le> b \<Longrightarrow> percent_of a t \<le> percent_of b t"
  unfolding percent_of_def
  by (intro fl_mono mult_nonneg_nonneg mult_right_mono fl_nonneg divide_right_mono) simp_all

text \<open>
  C28. More sons in a state never make its threshold fail, rounding included; but a
  threshold in percent can fail when the exact percentage is reached: 29 ok sons of 100 do
  not satisfy \<open>29% of:\<close>, because 29/100 and its product by 100 are rounded.
\<close>

theorem threshold_monotone:
  "(get_state_for t a v = Some True \<longrightarrow> a \<le> b \<longrightarrow> get_state_for t b v = Some True)
   \<and> get_state_for 100 29 ''29%'' = Some False"
proof -
  have "get_state_for 100 29 ''29%'' = Some False" by code_simp
  moreover have "get_state_for t b v = Some True" if "get_state_for t a v = Some True" "a \<le> b"
    using that percent_of_mono [OF that(2), of t]
    by (auto simp: get_state_for_def split: option.splits if_splits)
  ultimately show ?thesis by blast
qed

theorem threshold_monotone_witness: "get_state_for 3 2 ''50%'' = Some True"
proof -
  have "get_state_for 3 2 ''50%'' = Some True" by code_simp
  then show ?thesis using threshold_monotone [of 3 2 "''50%''" 3] by blast
qed

end
