(* ===== verification/Types.thy ===== *)
theory Types
  imports Prelude PyFloat PyStr DepNode
begin

text \<open>
  The data of the scheduler: hosts and services (one record, \<open>item\<close>, for both classes: they
  share \<open>SchedulingItem\<close> and every field is used by at least one of the two), their checks,
  notifications, event handlers, downtimes, acknowledgements and comments, the attributes
  of the classes \<open>Host\<close> and \<open>Service\<close> (\<open>cls\<close>), and the \<open>world\<close> that holds them.

  Objects shared by reference in Python (a check is in the scheduler's dictionary, in the
  item's action queue and in the \<open>depend_on_me\<close> list of others) live in a store indexed by
  their identifier, and the holders keep the identifier. Times are whole seconds. Optional
  references (\<open>None\<close>, \<open>''\<close>, \<open>'0'\<close>) are options.
\<close>

section \<open>States, types and statuses\<close>

datatype state = PENDING | UP | DOWN | UNREACHABLE | OK | WARNING | CRITICAL | UNKNOWN

fun state_name :: "state \<Rightarrow> string" where
  "state_name PENDING = ''PENDING''"
| "state_name UP = ''UP''"
| "state_name DOWN = ''DOWN''"
| "state_name UNREACHABLE = ''UNREACHABLE''"
| "state_name OK = ''OK''"
| "state_name WARNING = ''WARNING''"
| "state_name CRITICAL = ''CRITICAL''"
| "state_name UNKNOWN = ''UNKNOWN''"

datatype state_kind = SOFT | HARD

fun kind_name :: "state_kind \<Rightarrow> string" where
  "kind_name SOFT = ''SOFT''"
| "kind_name HARD = ''HARD''"

datatype item_type = Host | Service

datatype n_type =
    PROBLEM | RECOVERY | ACKNOWLEDGEMENT | FLAPPINGSTART | FLAPPINGSTOP | FLAPPINGDISABLED
  | DOWNTIMESTART | DOWNTIMEEND | DOWNTIMECANCELLED | CUSTOM

text \<open>The statuses of an action; \<open>SCHEDULED\<close> is \<open>ACT_STATUS_SCHEDULED\<close> and so on.\<close>

datatype act_status =
    SCHEDULED | LAUNCHED | POLLED | QUEUED | WAIT_DEPEND | WAITING_ME | TIMEOUT | DONE
  | ZOMBIE | WAIT_CONSUME

datatype action_ref = CheckRef uuid | NotifRef uuid | EventRef uuid

text \<open>A passive result for an unknown host or service, read from the line of its command.\<close>

record unknown_result =
  ur_time_stamp :: int
  ur_host_name :: string
  ur_service_description :: "string option"
  ur_return_code :: string
  ur_output :: string
  ur_perf_data :: "string option"

datatype brok =
    MonitoringLog string string
  | UpdateStatusBrok | CheckResultBrok
  | AckRaiseBrok | AckExpireBrok | DowntimeRaiseBrok | DowntimeExpireBrok
  | NextScheduleBrok | NotificationBrok | SnapshotBrok string int
  | CommentBrok | ProgramStatusBrok | UnknownCheckResultBrok unknown_result

section \<open>Small objects\<close>

record command_call =
  cc_uuid :: uuid
  cc_name :: string
  cc_args :: "string list"
  cc_poller_tag :: string
  cc_reactionner_tag :: string
  cc_module_type :: string
  cc_timeout :: int
  cc_environment_macros :: bool

record comment =
  cm_author :: string
  cm_text :: string
  cm_comment_type :: int
  cm_entry_type :: int
  cm_source :: int
  cm_expires :: bool
  cm_ref :: uuid

record acknowledge =
  a_sticky :: bool
  a_notify :: bool
  a_end_time :: int
  a_author :: string
  a_comment :: string
  a_comment_id :: "uuid option"

text \<open>A dependency: the other end, the failure criteria, the period, the inheritance flag.\<close>

type_synonym dependency = "uuid \<times> string list \<times> uuid option \<times> bool"

record check =
  c_status :: act_status
  c_exit_status :: int
  c_output :: string
  c_long_output :: string
  c_perf_data :: string
  c_t_to_go :: int
  c_check_time :: int
  c_execution_time :: rat
  c_u_time :: rat
  c_s_time :: rat
  c_depend_on :: "uuid list"
  c_depend_on_me :: "uuid list"
  c_passive_check :: bool
  c_freshness_expiry_check :: bool
  c_dependency_check :: bool
  c_internal :: bool
  c_ref :: uuid
  c_command :: string
  c_timeout :: int
  c_poller_tag :: string
  c_module_type :: string
  c_env :: "(string \<times> string) list"
  c_last_poll :: int
  c_my_worker :: string
  c_creation_time :: int
  c_is_orphan :: bool

record notification =
  n_status :: act_status
  n_exit_status :: int
  n_ntype :: n_type
  n_command :: string
  n_command_call :: "command_call option"
  n_ref :: uuid
  n_contact :: "uuid option"
  n_contact_name :: string
  n_recipients :: "string set"
  n_t_to_go :: "int option"
  n_creation_time :: int
  n_timeout :: int
  n_notif_nb :: int
  n_escalated :: bool
  n_already_start_escalations :: "string list"
  n_reactionner_tag :: string
  n_module_type :: string
  n_environment_macros :: bool
  n_env :: "(string \<times> string) list"
  n_author :: string
  n_author_name :: string
  n_author_alias :: string
  n_author_comment :: string
  n_execution_time :: rat
  n_last_poll :: int
  n_my_worker :: string
  n_is_orphan :: bool

record event_handler =
  e_status :: act_status
  e_command :: string
  e_timeout :: int
  e_ref :: uuid
  e_reactionner_tag :: string
  e_module_type :: string
  e_is_snapshot :: bool
  e_t_to_go :: int
  e_exit_status :: int
  e_output :: string
  e_long_output :: string
  e_perf_data :: string
  e_check_time :: int
  e_execution_time :: rat
  e_last_poll :: int
  e_my_worker :: string
  e_creation_time :: int
  e_is_orphan :: bool

record downtime =
  d_ref :: uuid
  d_activate_me :: "uuid list"
  d_fixed :: bool
  d_start_time :: int
  d_end_time :: int
  d_real_end_time :: int
  d_duration :: int
  d_trigger_id :: "uuid option"
  d_author :: string
  d_comment :: string
  d_comment_id :: "uuid option"
  d_is_in_effect :: bool
  d_has_been_triggered :: bool
  d_can_be_deleted :: bool

section \<open>Class attributes\<close>

text \<open>
  What \<open>load_global_conf\<close> puts on the classes \<open>Host\<close> and \<open>Service\<close>.
\<close>

record cls =
  enable_problem_impacts_states_change :: bool
  enable_flap_detection :: bool
  flap_history :: int
  global_low_flap_threshold :: int
  global_high_flap_threshold :: int
  interval_length :: int
  max_check_spread :: int
  execute_checks :: bool
  cached_check_horizon :: int
  additional_freshness_latency :: int
  enable_event_handlers :: bool
  no_event_handlers_during_downtimes :: bool
  global_event_handler :: "command_call option"
  event_handler_timeout :: int
  check_timeout :: int
  notification_timeout :: int
  process_performance_data :: bool
  perfdata_command :: "command_call option"
  perfdata_timeout :: int
  enable_environment_macros :: bool
  enable_notifications :: bool
  check_for_orphaned :: bool
  accept_passive_checks :: bool
  global_check_freshness :: bool
  max_plugins_output_length :: int
  log_active_checks :: bool
  log_alerts :: bool
  log_notifications :: bool
  log_event_handlers :: bool
  log_snapshots :: bool
  log_flappings :: bool
  log_acknowledgements :: bool
  log_downtimes :: bool

end
