(* ===== verification/World.thy ===== *)
theory World
  imports Types
begin

text \<open>
  Hosts and services, contacts and their notification ways, escalations, and the world of
  the scheduler: the stores of every kind of object, the class attributes and the counters.
\<close>

section \<open>Hosts and services\<close>

text \<open>The configured properties (\<open>properties\<close> of \<open>SchedulingItem\<close>, \<open>Host\<close>, \<open>Service\<close>).\<close>

record item_conf =
  my_type :: item_type
  host_name :: string
  service_description :: string
  host :: "uuid option"
  services_of :: "uuid list"
  active_checks_enabled :: bool
  passive_checks_enabled :: bool
  check_command :: "command_call option"
  check_interval :: rat
  retry_interval :: rat
  max_check_attempts :: int
  check_period :: "uuid option"
  checkmodulations :: "uuid list"
  resultmodulations :: "uuid list"
  business_impact_modulations :: "uuid list"
  business_impact :: int
  freshness_threshold :: int
  freshness_state :: string
  flap_detection_enabled :: bool
  flap_detection_options :: "string list"
  low_flap_threshold :: int
  high_flap_threshold :: int
  is_volatile :: bool
  process_perf_data :: bool
  stalking_options :: "string list"
  event_handler_enabled :: bool
  event_handler_cmd :: "command_call option"
  snapshot_enabled :: bool
  snapshot_command :: "command_call option"
  snapshot_period :: "uuid option"
  snapshot_criteria :: "string list"
  snapshot_interval :: int
  notifications_enabled :: bool
  notification_period :: "uuid option"
  notification_options :: "string list"
  notification_interval :: int
  first_notification_delay :: int
  escalations :: "uuid list"
  contacts_of :: "uuid list"
  time_to_orphanage :: int
  maintenance_period :: "uuid option"
  check_freshness :: bool
  business_rule_smart_notifications :: bool
  business_rule_downtime_as_ack :: bool
  poller_tag :: string
  reactionner_tag :: string
  customs :: "(string, string) dict"
  modified_attributes :: int

text \<open>The running properties.\<close>

record item = item_conf +
  state :: state
  state_id :: int
  state_type :: state_kind
  state_type_id :: int
  last_state :: state
  last_state_type :: state_kind
  last_hard_state :: state
  last_hard_state_id :: int
  attempt :: int
  last_state_change :: int
  last_hard_state_change :: int
  last_state_update_time :: int
  duration_sec :: int
  last_time_up :: int
  last_time_down :: int
  last_time_ok :: int
  last_time_warning :: int
  last_time_critical :: int
  last_time_unknown :: int
  last_time_unreachable :: int
  plugin_output :: string
  long_output :: string
  perf_data :: string
  last_perf_data :: string
  last_chk :: int
  next_chk :: "int option"
  latency :: int
  execution_time :: rat
  u_time :: rat
  s_time :: rat
  has_been_checked :: int
  return_code :: int
  in_checking :: bool
  in_maintenance :: "uuid option"
  checks_in_progress :: "uuid list"
  notifications_in_progress :: "uuid list"
  flapping_changes :: "bool list"
  percent_state_change :: rat
  is_flapping :: bool
  acknowledgement :: "acknowledge option"
  problem_has_been_acknowledged :: bool
  comments :: "(uuid, comment) dict"
  downtimes :: "uuid list"
  scheduled_downtime_depth :: int
  in_scheduled_downtime :: bool
  in_scheduled_downtime_during_last_check :: bool
  is_problem :: bool
  is_impact :: bool
  my_own_business_impact :: int
  source_problems :: "uuid list"
  impacts :: "uuid list"
  state_before_impact :: state
  state_id_before_impact :: int
  state_changed_since_impact :: bool
  got_business_rule :: bool
  business_rule :: "dnode option"
  processed_business_rule :: string
  act_depend_of :: "dependency list"
  act_depend_of_me :: "dependency list"
  chk_depend_of :: "dependency list"
  chk_depend_of_me :: "dependency list"
  parent_dependencies :: "uuid list"
  child_dependencies :: "uuid list"
  in_hard_unknown_reach_phase :: bool
  was_in_hard_unknown_reach_phase :: bool
  state_before_hard_unknown_reach_phase :: state
  last_snapshot :: int
  last_check_command :: "string option"
  freshness_expired :: bool
  freshness_log_raised :: bool
  current_event_id :: nat
  last_event_id :: nat
  current_problem_id :: nat
  last_problem_id :: nat
  last_notification :: int
  current_notification_number :: int
  notified_contacts :: "string list"
  notified_contacts_ids :: "uuid list"
  actions :: "action_ref list"
  broks :: "brok list"

section \<open>Contacts, notification ways, escalations, modulations\<close>

record contact_downtime =
  cd_ref :: uuid
  cd_start_time :: int
  cd_end_time :: int
  cd_is_in_effect :: bool
  cd_can_be_deleted :: bool

record contact =
  contact_name :: string
  notificationways :: "uuid list"
  k_host_notifications_enabled :: bool
  k_service_notifications_enabled :: bool
  k_downtimes :: "(uuid, contact_downtime) dict"
  k_customs :: "(string, string) dict"
  k_modified_attributes :: int
  k_modified_host_attributes :: int
  k_modified_service_attributes :: int
  k_host_notification_period :: "uuid option"
  k_service_notification_period :: "uuid option"
  k_in_scheduled_downtime :: bool
  k_broks :: "brok list"

record notification_way =
  nw_host_notification_commands :: "command_call list"
  nw_service_notification_commands :: "command_call list"
  nw_host_notification_options :: "string list"
  nw_service_notification_options :: "string list"
  nw_host_notification_period :: "uuid option"
  nw_service_notification_period :: "uuid option"
  nw_min_business_impact :: int

record escalation =
  es_name :: string
  es_time_based :: bool
  es_first_notification :: int
  es_last_notification :: int
  es_first_notification_time :: int
  es_last_notification_time :: int
  es_notification_interval :: int
  es_period :: "uuid option"
  es_options :: "string list"
  es_contacts :: "uuid list"

record result_modulation =
  rm_period :: "uuid option"
  rm_exit_codes_match :: "int list"
  rm_exit_code_modulation :: "int option"

record check_modulation =
  km_check_command :: "command_call option"
  km_check_period :: "uuid option"

record business_impact_modulation =
  bm_business_impact :: int
  bm_modulation_period :: "uuid option"

section \<open>The world\<close>

text \<open>
  \<open>host_ids\<close> and \<open>service_ids\<close> are the iteration orders of \<open>Hosts\<close> and \<open>Services\<close>;
  \<open>sched_checks\<close> and \<open>sched_actions\<close> the keys of the scheduler's dictionaries \<open>checks\<close>
  and \<open>actions\<close>, of objects that are in the stores; \<open>last_event\<close> and \<open>last_problem\<close> the counters on the class
  \<open>SchedulingItem\<close>; \<open>next_uuid\<close> the supply of identifiers.
\<close>

record world =
  now :: int
  host_cls :: cls
  service_cls :: cls
  host_ids :: "uuid list"
  service_ids :: "uuid list"
  items :: "uuid \<Rightarrow> item option"
  checks :: "uuid \<Rightarrow> check option"
  notifs :: "uuid \<Rightarrow> notification option"
  events :: "uuid \<Rightarrow> event_handler option"
  downtime_store :: "uuid \<Rightarrow> downtime option"
  contact_store :: "uuid \<Rightarrow> contact option"
  sched_checks :: "uuid list"
  sched_actions :: "action_ref list"
  last_event :: nat
  last_problem :: nat
  next_uuid :: uuid

text \<open>
  What does not change while the scheduler runs, or is computed outside this model: the time
  periods (\<open>is_time_valid\<close> and \<open>get_next_valid_time_from_t\<close> of a period), the macro resolver,
  the modulations, notification ways and escalations.
\<close>

record env =
  tp_valid :: "uuid \<Rightarrow> int \<Rightarrow> bool"
  tp_next :: "uuid \<Rightarrow> int \<Rightarrow> int option"
  resolve_command :: "command_call \<Rightarrow> item \<Rightarrow> world \<Rightarrow> string"
  env_macros :: "item \<Rightarrow> world \<Rightarrow> (string \<times> string) list"
  resolve_notification :: "command_call \<Rightarrow> item \<Rightarrow> contact \<Rightarrow> notification \<Rightarrow> world \<Rightarrow> string"
  env_notification :: "item \<Rightarrow> contact \<Rightarrow> notification \<Rightarrow> world \<Rightarrow> (string \<times> string) list"
  result_modulations :: "uuid \<Rightarrow> result_modulation option"
  check_modulations :: "uuid \<Rightarrow> check_modulation option"
  bi_modulations :: "uuid \<Rightarrow> business_impact_modulation option"
  notifways :: "uuid \<Rightarrow> notification_way option"
  escalation_store :: "uuid \<Rightarrow> escalation option"

text \<open>No period means always; else ask the period.\<close>

definition period_valid :: "env \<Rightarrow> uuid option \<Rightarrow> int \<Rightarrow> bool" where
  "period_valid env p t = (case p of None \<Rightarrow> True | Some tp \<Rightarrow> tp_valid env tp t)"

definition ok_up :: "item \<Rightarrow> state" where
  "ok_up it = (if my_type it = Host then UP else OK)"

definition cls_of :: "world \<Rightarrow> item \<Rightarrow> cls" where
  "cls_of w it = (if my_type it = Host then host_cls w else service_cls w)"

section \<open>Access to the stores\<close>

text \<open>
  Looking up an unknown identifier raises \<open>KeyError\<close>: \<open>None\<close>. \<open>hosts[x] if x in hosts else
  services[x]\<close> is \<open>items w x\<close>; \<open>x in hosts\<close> is \<open>is_host w x\<close>.
\<close>

definition is_host :: "world \<Rightarrow> uuid \<Rightarrow> bool" where
  "is_host w u = (case items w u of Some it \<Rightarrow> my_type it = Host | None \<Rightarrow> False)"

definition upd_item :: "uuid \<Rightarrow> (item \<Rightarrow> item) \<Rightarrow> world \<Rightarrow> world option" where
  "upd_item u f w =
     (case items w u of None \<Rightarrow> None | Some it \<Rightarrow> Some (w\<lparr>items := (items w)(u \<mapsto> f it)\<rparr>))"

definition upd_check :: "uuid \<Rightarrow> (check \<Rightarrow> check) \<Rightarrow> world \<Rightarrow> world option" where
  "upd_check u f w =
     (case checks w u of None \<Rightarrow> None | Some c \<Rightarrow> Some (w\<lparr>checks := (checks w)(u \<mapsto> f c)\<rparr>))"

text \<open>The objects in the dictionary \<open>checks\<close> of the scheduler.\<close>

definition known_check :: "world \<Rightarrow> uuid \<Rightarrow> check option" where
  "known_check w cid = (if cid \<in> set (sched_checks w) then checks w cid else None)"

definition upd_known_check :: "uuid \<Rightarrow> (check \<Rightarrow> check) \<Rightarrow> world \<Rightarrow> world option" where
  "upd_known_check cid f w = (if cid \<in> set (sched_checks w) then upd_check cid f w else None)"

definition upd_notif :: "uuid \<Rightarrow> (notification \<Rightarrow> notification) \<Rightarrow> world \<Rightarrow> world option" where
  "upd_notif u f w =
     (case notifs w u of None \<Rightarrow> None | Some n \<Rightarrow> Some (w\<lparr>notifs := (notifs w)(u \<mapsto> f n)\<rparr>))"

definition upd_event ::
  "uuid \<Rightarrow> (event_handler \<Rightarrow> event_handler) \<Rightarrow> world \<Rightarrow> world option" where
  "upd_event u f w =
     (case events w u of None \<Rightarrow> None | Some e \<Rightarrow> Some (w\<lparr>events := (events w)(u \<mapsto> f e)\<rparr>))"

definition upd_downtime :: "uuid \<Rightarrow> (downtime \<Rightarrow> downtime) \<Rightarrow> world \<Rightarrow> world option" where
  "upd_downtime u f w =
     (case downtime_store w u of None \<Rightarrow> None
      | Some d \<Rightarrow> Some (w\<lparr>downtime_store := (downtime_store w)(u \<mapsto> f d)\<rparr>))"

lemma upd_item_eq: "items w u = Some it \<Longrightarrow> upd_item u f w = Some (w\<lparr>items := (items w)(u \<mapsto> f it)\<rparr>)"
  by (simp add: upd_item_def)

lemma upd_item_SomeE:
  assumes "upd_item u f w = Some w'"
  obtains it where "items w u = Some it" and "w' = w\<lparr>items := (items w)(u \<mapsto> f it)\<rparr>"
  using assms by (auto simp: upd_item_def split: option.splits)

end
