(* ===== verification/Logs.thy ===== *)
theory Logs
  imports World
begin

text \<open>
  The monitoring log entries hosts and services raise: the \<open>raise_*\<close> methods of
  \<open>alignak/objects/host.py\<close> and \<open>alignak/objects/service.py\<close>. Each appends a
  \<open>monitoring_log\<close> brok with its level and text to the item's broks, when the class
  attribute that enables this kind of log is set.
\<close>

section \<open>Formatting\<close>

definition fmt_int :: "int \<Rightarrow> string" where
  "fmt_int n = (if n < 0 then CHR ''-'' # py_str (nat (- n)) else py_str (nat n))"

text \<open>\<open>%.1f\<close>: correctly rounded, ties to even.\<close>

definition fmt_1f :: "rat \<Rightarrow> string" where
  "fmt_1f x =
     (let n = round_half_even (\<bar>x\<bar> * 10)
      in (if x < 0 then ''-'' else []) @ fmt_int (n div 10) @ ''.'' @ fmt_int (n mod 10))"

definition fields :: "string list \<Rightarrow> string" where
  "fields xs = concat (map (\<lambda>x. x @ '';'') (butlast xs)) @ (if xs = [] then [] else last xs)"

text \<open>\<open>Host.get_name\<close> and \<open>Service.get_name\<close>; the names a log entry starts with.\<close>

definition get_name :: "item \<Rightarrow> string" where
  "get_name it = (if my_type it = Host then host_name it else service_description it)"

definition add_log :: "string \<Rightarrow> string \<Rightarrow> item \<Rightarrow> item" where
  "add_log level text it = it\<lparr>broks := broks it @ [MonitoringLog level text]\<rparr>"

definition add_brok :: "brok \<Rightarrow> item \<Rightarrow> item" where
  "add_brok b it = it\<lparr>broks := broks it @ [b]\<rparr>"

text \<open>The log levels: hosts, services in a check result, services in other entries.\<close>

definition host_level :: "state \<Rightarrow> string" where
  "host_level s = (if s = DOWN then ''error'' else if s = UNREACHABLE then ''warning'' else ''info'')"

definition service_check_level :: "state \<Rightarrow> string" where
  "service_check_level s =
     (if s = WARNING \<or> s = UNREACHABLE then ''warning'' else if s = CRITICAL then ''error''
      else ''info'')"

definition service_level :: "state \<Rightarrow> string" where
  "service_level s =
     (if s = CRITICAL then ''error'' else if s = WARNING then ''warning'' else ''info'')"

fun ntype_name :: "n_type \<Rightarrow> string" where
  "ntype_name PROBLEM = ''PROBLEM''"
| "ntype_name RECOVERY = ''RECOVERY''"
| "ntype_name ACKNOWLEDGEMENT = ''ACKNOWLEDGEMENT''"
| "ntype_name FLAPPINGSTART = ''FLAPPINGSTART''"
| "ntype_name FLAPPINGSTOP = ''FLAPPINGSTOP''"
| "ntype_name FLAPPINGDISABLED = ''FLAPPINGDISABLED''"
| "ntype_name DOWNTIMESTART = ''DOWNTIMESTART''"
| "ntype_name DOWNTIMEEND = ''DOWNTIMEEND''"
| "ntype_name DOWNTIMECANCELLED = ''DOWNTIMECANCELLED''"
| "ntype_name CUSTOM = ''CUSTOM''"

text \<open>
  The name of a notification's command. A notification without a command call has no name
  to print (the code only logs child notifications, which have one).
\<close>

definition notif_command_name :: "notification \<Rightarrow> string" where
  "notif_command_name n = (case n_command_call n of Some c \<Rightarrow> cc_name c | None \<Rightarrow> [])"

section \<open>Entries of hosts\<close>

definition host_raise_check_result :: "cls \<Rightarrow> item \<Rightarrow> item" where
  "host_raise_check_result cl it =
     (if log_active_checks cl
      then add_log (host_level (state it))
        (''ACTIVE HOST CHECK: '' @ fields [host_name it,
          state_name (state it), fmt_int (attempt it), plugin_output it]) it
      else it)"

definition host_raise_alert_log_entry :: "cls \<Rightarrow> item \<Rightarrow> item" where
  "host_raise_alert_log_entry cl it =
     (if log_alerts cl
      then add_log (host_level (state it))
        (''HOST ALERT: '' @ fields [host_name it, state_name (state it),
          kind_name (state_type it), fmt_int (attempt it), plugin_output it]) it
      else it)"

definition host_raise_event_handler_log_entry :: "cls \<Rightarrow> command_call \<Rightarrow> item \<Rightarrow> item" where
  "host_raise_event_handler_log_entry cl cmd it =
     (if log_event_handlers cl
      then add_log (host_level (state it))
        (''HOST EVENT HANDLER: '' @ fields [host_name it,
          state_name (state it), kind_name (state_type it), fmt_int (attempt it), cc_name cmd]) it
      else it)"

definition host_raise_snapshot_log_entry :: "cls \<Rightarrow> command_call \<Rightarrow> item \<Rightarrow> item" where
  "host_raise_snapshot_log_entry cl cmd it =
     (if log_snapshots cl
      then add_log (host_level (state it))
        (''HOST SNAPSHOT: '' @ fields [host_name it,
          state_name (state it), kind_name (state_type it), fmt_int (attempt it), cc_name cmd]) it
      else it)"

definition host_raise_flapping_start_log_entry :: "cls \<Rightarrow> rat \<Rightarrow> int \<Rightarrow> item \<Rightarrow> item" where
  "host_raise_flapping_start_log_entry cl ratio threshold it =
     (if log_flappings cl
      then add_log ''info''
        (''HOST FLAPPING ALERT: '' @ fields [host_name it, ''STARTED'',
          '' Host appears to have started flapping ('' @ fmt_1f ratio @ ''% change >= ''
            @ fmt_1f (of_int threshold) @ ''% threshold)'']) it
      else it)"

definition host_raise_flapping_stop_log_entry :: "cls \<Rightarrow> rat \<Rightarrow> int \<Rightarrow> item \<Rightarrow> item" where
  "host_raise_flapping_stop_log_entry cl ratio threshold it =
     (if log_flappings cl
      then add_log ''info''
        (''HOST FLAPPING ALERT: '' @ fields [host_name it, ''STOPPED'',
          '' Host appears to have stopped flapping ('' @ fmt_1f ratio @ ''% change < ''
            @ fmt_1f (of_int threshold) @ ''% threshold)'']) it
      else it)"

definition host_raise_acknowledge_log_entry :: "cls \<Rightarrow> item \<Rightarrow> item" where
  "host_raise_acknowledge_log_entry cl it =
     (if log_acknowledgements cl
      then add_log ''info''
        (''HOST ACKNOWLEDGE ALERT: '' @ fields [host_name it, ''STARTED'',
          '' Host problem has been acknowledged'']) it
      else it)"

definition host_raise_unacknowledge_log_entry :: "cls \<Rightarrow> item \<Rightarrow> item" where
  "host_raise_unacknowledge_log_entry cl it =
     (if log_acknowledgements cl
      then add_log ''info''
        (''HOST ACKNOWLEDGE ALERT: '' @ fields [host_name it, ''EXPIRED'',
          '' Host problem acknowledge expired'']) it
      else it)"

definition host_raise_enter_downtime_log_entry :: "cls \<Rightarrow> item \<Rightarrow> item" where
  "host_raise_enter_downtime_log_entry cl it =
     (if log_downtimes cl
      then add_log ''info''
        (''HOST DOWNTIME ALERT: '' @ fields [host_name it, ''STARTED'',
          '' Host has entered a period of scheduled downtime'']) it
      else it)"

definition host_raise_exit_downtime_log_entry :: "cls \<Rightarrow> item \<Rightarrow> item" where
  "host_raise_exit_downtime_log_entry cl it =
     (if log_downtimes cl
      then add_log ''info''
        (''HOST DOWNTIME ALERT: '' @ fields [host_name it, ''STOPPED'',
          '' Host has exited from a period of scheduled downtime'']) it
      else it)"

definition host_raise_cancel_downtime_log_entry :: "cls \<Rightarrow> item \<Rightarrow> item" where
  "host_raise_cancel_downtime_log_entry cl it =
     (if log_downtimes cl
      then add_log ''info''
        (''HOST DOWNTIME ALERT: '' @ fields [host_name it, ''CANCELLED'',
          '' Scheduled downtime for host has been cancelled.'']) it
      else it)"

definition host_raise_notification_log_entry ::
  "cls \<Rightarrow> notification \<Rightarrow> string \<Rightarrow> item \<Rightarrow> item" where
  "host_raise_notification_log_entry cl n contact it =
     (if log_notifications cl
      then (let typed = n_ntype n \<noteq> PROBLEM \<and> n_ntype n \<noteq> RECOVERY;
                st = (if typed then ntype_name (n_ntype n) @ '' ('' @ state_name (state it) @ '')''
                      else state_name (state it))
            in add_log (if typed then ''info'' else host_level (state it))
                 (''HOST NOTIFICATION: '' @ fields [contact, get_name it, st,
                    fmt_int (n_notif_nb n), notif_command_name n, plugin_output it]) it)
      else it)"

section \<open>Entries of services\<close>

definition service_raise_check_result :: "cls \<Rightarrow> item \<Rightarrow> item" where
  "service_raise_check_result cl it =
     (if log_active_checks cl
      then add_log (service_check_level (state it))
        (''ACTIVE SERVICE CHECK: '' @ fields [host_name it, service_description it,
          state_name (state it), fmt_int (attempt it), plugin_output it]) it
      else it)"

definition service_raise_alert_log_entry :: "cls \<Rightarrow> item \<Rightarrow> item" where
  "service_raise_alert_log_entry cl it =
     (if log_alerts cl
      then add_log (service_level (state it))
        (''SERVICE ALERT: '' @ fields [host_name it, service_description it, state_name (state it),
          kind_name (state_type it), fmt_int (attempt it), plugin_output it]) it
      else it)"

definition service_raise_event_handler_log_entry :: "cls \<Rightarrow> command_call \<Rightarrow> item \<Rightarrow> item" where
  "service_raise_event_handler_log_entry cl cmd it =
     (if log_event_handlers cl
      then add_log (service_level (state it))
        (''SERVICE EVENT HANDLER: '' @ fields [host_name it, service_description it,
          state_name (state it), kind_name (state_type it), fmt_int (attempt it), cc_name cmd]) it
      else it)"

definition service_raise_snapshot_log_entry :: "cls \<Rightarrow> command_call \<Rightarrow> item \<Rightarrow> item" where
  "service_raise_snapshot_log_entry cl cmd it =
     (if log_snapshots cl
      then add_log (service_level (state it))
        (''SERVICE SNAPSHOT: '' @ fields [host_name it, service_description it,
          state_name (state it), kind_name (state_type it), fmt_int (attempt it), cc_name cmd]) it
      else it)"

definition service_raise_flapping_start_log_entry :: "cls \<Rightarrow> rat \<Rightarrow> int \<Rightarrow> item \<Rightarrow> item" where
  "service_raise_flapping_start_log_entry cl ratio threshold it =
     (if log_flappings cl
      then add_log ''info''
        (''SERVICE FLAPPING ALERT: '' @ fields [host_name it, service_description it, ''STARTED'',
          '' Service appears to have started flapping ('' @ fmt_1f ratio @ ''% change >= ''
            @ fmt_1f (of_int threshold) @ ''% threshold)'']) it
      else it)"

definition service_raise_flapping_stop_log_entry :: "cls \<Rightarrow> rat \<Rightarrow> int \<Rightarrow> item \<Rightarrow> item" where
  "service_raise_flapping_stop_log_entry cl ratio threshold it =
     (if log_flappings cl
      then add_log ''info''
        (''SERVICE FLAPPING ALERT: '' @ fields [host_name it, service_description it, ''STOPPED'',
          '' Service appears to have stopped flapping ('' @ fmt_1f ratio @ ''% change < ''
            @ fmt_1f (of_int threshold) @ ''% threshold)'']) it
      else it)"

definition service_raise_acknowledge_log_entry :: "cls \<Rightarrow> item \<Rightarrow> item" where
  "service_raise_acknowledge_log_entry cl it =
     (if log_acknowledgements cl
      then add_log ''info''
        (''SERVICE ACKNOWLEDGE ALERT: '' @ fields [host_name it, service_description it, ''STARTED'',
          '' Service problem has been acknowledged'']) it
      else it)"

definition service_raise_unacknowledge_log_entry :: "cls \<Rightarrow> item \<Rightarrow> item" where
  "service_raise_unacknowledge_log_entry cl it =
     (if log_acknowledgements cl
      then add_log ''info''
        (''SERVICE ACKNOWLEDGE ALERT: '' @ fields [host_name it, service_description it, ''EXPIRED'',
          '' Service problem acknowledge expired'']) it
      else it)"

definition service_raise_enter_downtime_log_entry :: "cls \<Rightarrow> item \<Rightarrow> item" where
  "service_raise_enter_downtime_log_entry cl it =
     (if log_downtimes cl
      then add_log ''info''
        (''SERVICE DOWNTIME ALERT: '' @ fields [host_name it, service_description it, ''STARTED'',
          '' Service has entered a period of scheduled downtime'']) it
      else it)"

definition service_raise_exit_downtime_log_entry :: "cls \<Rightarrow> item \<Rightarrow> item" where
  "service_raise_exit_downtime_log_entry cl it =
     (if log_downtimes cl
      then add_log ''info''
        (''SERVICE DOWNTIME ALERT: '' @ fields [host_name it, service_description it, ''STOPPED'',
          '' Service has exited from a period of scheduled downtime'']) it
      else it)"

definition service_raise_cancel_downtime_log_entry :: "cls \<Rightarrow> item \<Rightarrow> item" where
  "service_raise_cancel_downtime_log_entry cl it =
     (if log_downtimes cl
      then add_log ''info''
        (''SERVICE DOWNTIME ALERT: '' @ fields [host_name it, service_description it, ''CANCELLED'',
          '' Scheduled downtime for service has been cancelled.'']) it
      else it)"

definition service_raise_notification_log_entry ::
  "cls \<Rightarrow> notification \<Rightarrow> string \<Rightarrow> string \<Rightarrow> item \<Rightarrow> item" where
  "service_raise_notification_log_entry cl n contact host_ref it =
     (if log_notifications cl
      then (let typed = n_ntype n \<noteq> PROBLEM \<and> n_ntype n \<noteq> RECOVERY;
                st = (if typed then ntype_name (n_ntype n) @ '' ('' @ state_name (state it) @ '')''
                      else state_name (state it))
            in add_log (if typed then ''info'' else service_level (state it))
                 (''SERVICE NOTIFICATION: '' @ fields [contact, host_ref, get_name it, st,
                    fmt_int (n_notif_nb n), notif_command_name n, plugin_output it]) it)
      else it)"

section \<open>Dispatch on the class\<close>

definition raise_check_result :: "cls \<Rightarrow> item \<Rightarrow> item" where
  "raise_check_result cl it =
     (if my_type it = Host then host_raise_check_result cl it else service_raise_check_result cl it)"

definition raise_alert_log_entry :: "cls \<Rightarrow> item \<Rightarrow> item" where
  "raise_alert_log_entry cl it =
     (if my_type it = Host then host_raise_alert_log_entry cl it else service_raise_alert_log_entry cl it)"

definition raise_event_handler_log_entry :: "cls \<Rightarrow> command_call \<Rightarrow> item \<Rightarrow> item" where
  "raise_event_handler_log_entry cl cmd it =
     (if my_type it = Host then host_raise_event_handler_log_entry cl cmd it else service_raise_event_handler_log_entry cl cmd it)"

definition raise_snapshot_log_entry :: "cls \<Rightarrow> command_call \<Rightarrow> item \<Rightarrow> item" where
  "raise_snapshot_log_entry cl cmd it =
     (if my_type it = Host then host_raise_snapshot_log_entry cl cmd it else service_raise_snapshot_log_entry cl cmd it)"

definition raise_flapping_start_log_entry :: "cls \<Rightarrow> rat \<Rightarrow> int \<Rightarrow> item \<Rightarrow> item" where
  "raise_flapping_start_log_entry cl ratio threshold it =
     (if my_type it = Host then host_raise_flapping_start_log_entry cl ratio threshold it else service_raise_flapping_start_log_entry cl ratio threshold it)"

definition raise_flapping_stop_log_entry :: "cls \<Rightarrow> rat \<Rightarrow> int \<Rightarrow> item \<Rightarrow> item" where
  "raise_flapping_stop_log_entry cl ratio threshold it =
     (if my_type it = Host then host_raise_flapping_stop_log_entry cl ratio threshold it else service_raise_flapping_stop_log_entry cl ratio threshold it)"

definition raise_acknowledge_log_entry :: "cls \<Rightarrow> item \<Rightarrow> item" where
  "raise_acknowledge_log_entry cl it =
     (if my_type it = Host then host_raise_acknowledge_log_entry cl it else service_raise_acknowledge_log_entry cl it)"

definition raise_unacknowledge_log_entry :: "cls \<Rightarrow> item \<Rightarrow> item" where
  "raise_unacknowledge_log_entry cl it =
     (if my_type it = Host then host_raise_unacknowledge_log_entry cl it else service_raise_unacknowledge_log_entry cl it)"

definition raise_enter_downtime_log_entry :: "cls \<Rightarrow> item \<Rightarrow> item" where
  "raise_enter_downtime_log_entry cl it =
     (if my_type it = Host then host_raise_enter_downtime_log_entry cl it else service_raise_enter_downtime_log_entry cl it)"

definition raise_exit_downtime_log_entry :: "cls \<Rightarrow> item \<Rightarrow> item" where
  "raise_exit_downtime_log_entry cl it =
     (if my_type it = Host then host_raise_exit_downtime_log_entry cl it else service_raise_exit_downtime_log_entry cl it)"

definition raise_cancel_downtime_log_entry :: "cls \<Rightarrow> item \<Rightarrow> item" where
  "raise_cancel_downtime_log_entry cl it =
     (if my_type it = Host then host_raise_cancel_downtime_log_entry cl it else service_raise_cancel_downtime_log_entry cl it)"

definition raise_notification_log_entry ::
  "cls \<Rightarrow> notification \<Rightarrow> string \<Rightarrow> string \<Rightarrow> item \<Rightarrow> item" where
  "raise_notification_log_entry cl n contact host_ref it =
     (if my_type it = Host then host_raise_notification_log_entry cl n contact it
      else service_raise_notification_log_entry cl n contact host_ref it)"

end
