(* ===== verification/ItemState.thy ===== *)
theory ItemState
  imports Logs
begin

text \<open>
  What a host or service computes about itself without looking at any other object: the
  state tests, the attempt counter, the flapping history, the hard unknown phase, the
  impact state, the overall state, the progress lists (\<open>alignak/objects/host.py\<close>,
  \<open>service.py\<close>, \<open>schedulingitem.py\<close>).
\<close>

section \<open>Tests on the state\<close>

definition host_is_state :: "string \<Rightarrow> item \<Rightarrow> bool" where
  "host_is_state status it \<longleftrightarrow>
     status = state_name (state it)
     \<or> status = ''o'' \<and> state it = UP
     \<or> status = ''d'' \<and> state it = DOWN
     \<or> (status = ''u'' \<or> status = ''x'') \<and> state it = UNREACHABLE"

definition service_is_state :: "string \<Rightarrow> item \<Rightarrow> bool" where
  "service_is_state status it \<longleftrightarrow>
     status = state_name (state it)
     \<or> status = ''o'' \<and> state it = OK
     \<or> status = ''c'' \<and> state it = CRITICAL
     \<or> status = ''w'' \<and> state it = WARNING
     \<or> status = ''u'' \<and> state it = UNKNOWN
     \<or> status = ''x'' \<and> state it = UNREACHABLE"

definition is_state :: "string \<Rightarrow> item \<Rightarrow> bool" where
  "is_state status it =
     (if my_type it = Host then host_is_state status it else service_is_state status it)"

definition host_last_time_non_ok_or_up :: "item \<Rightarrow> int" where
  "host_last_time_non_ok_or_up it =
     (if last_time_down it > last_time_up it then last_time_down it else 0)"

definition service_last_time_non_ok_or_up :: "item \<Rightarrow> int" where
  "service_last_time_non_ok_or_up it =
     (case filter (\<lambda>x. x > last_time_ok it)
             [last_time_warning it, last_time_critical it, last_time_unknown it] of
        [] \<Rightarrow> 0
      | t # ts \<Rightarrow> fold min ts t)"

definition last_time_non_ok_or_up :: "item \<Rightarrow> int" where
  "last_time_non_ok_or_up it =
     (if my_type it = Host then host_last_time_non_ok_or_up it
      else service_last_time_non_ok_or_up it)"

definition service_overall_state_id :: "item \<Rightarrow> int" where
  "service_overall_state_id it =
     (if \<not> (active_checks_enabled it \<or> passive_checks_enabled it) then 5
      else if problem_has_been_acknowledged it then 1
      else if in_scheduled_downtime it then 2
      else if state_type it = HARD
      then (case state it of WARNING \<Rightarrow> 3 | CRITICAL \<Rightarrow> 4 | UNKNOWN \<Rightarrow> 3 | UNREACHABLE \<Rightarrow> 4 | _ \<Rightarrow> 0)
      else 0)"

section \<open>Attempts\<close>

definition add_attempt :: "item \<Rightarrow> item" where
  "add_attempt it =
     (let it1 = it\<lparr>attempt := attempt it + 1\<rparr>
      in it1\<lparr>attempt := min (attempt it1) (max_check_attempts it1)\<rparr>)"

definition is_max_attempts :: "item \<Rightarrow> bool" where
  "is_max_attempts it \<longleftrightarrow> attempt it \<ge> max_check_attempts it"

section \<open>Flapping history\<close>

definition add_flapping_change :: "cls \<Rightarrow> bool \<Rightarrow> item \<Rightarrow> item" where
  "add_flapping_change cl sample it =
     (if \<not> flap_detection_enabled it \<or> \<not> enable_flap_detection cl then it
      else let fc = flapping_changes it @ [sample]
           in it\<lparr>flapping_changes := if int (length fc) > flap_history cl then tl fc else fc\<rparr>)"

text \<open>
  The weighted percentage of changes, in doubles: a change at place \<open>i\<close> (from 1) adds
  \<open>i * (1.2 - 0.8) / flap_history + 0.8\<close>. Dividing by a zero \<open>flap_history\<close> raises.
\<close>

definition change_weight :: "int \<Rightarrow> nat \<Rightarrow> rat" where
  "change_weight history i =
     fl (fl (fl (of_nat i * fl (fl (12 / 10) - fl (8 / 10))) / of_int history) + fl (8 / 10))"

fun flapping_sum :: "int \<Rightarrow> nat \<Rightarrow> bool list \<Rightarrow> rat \<Rightarrow> rat" where
  "flapping_sum history i [] res = res"
| "flapping_sum history i (changed # cs) res =
     flapping_sum history (Suc i) cs
       (if changed then fl (res + change_weight history (Suc i)) else res)"

definition flapping_percent :: "int \<Rightarrow> bool list \<Rightarrow> rat option" where
  "flapping_percent history cs =
     (if history = 0 then None
      else Some (fl (fl (flapping_sum history 0 cs 0 / of_int history) * 100)))"

section \<open>The hard unknown or unreachable phase\<close>

definition update_hard_unknown_phase_state :: "item \<Rightarrow> item" where
  "update_hard_unknown_phase_state it =
     (let it1 = it\<lparr>was_in_hard_unknown_reach_phase := in_hard_unknown_reach_phase it\<rparr>;
          it2 = (if state_type it1 \<noteq> HARD \<or> last_state_type it1 \<noteq> HARD
                 then it1\<lparr>in_hard_unknown_reach_phase := False\<rparr> else it1);
          starts = (state it2 = UNKNOWN \<and> last_state it2 \<noteq> UNKNOWN
                    \<or> state it2 = UNREACHABLE \<and> last_state it2 \<noteq> UNREACHABLE)
      in if \<not> in_hard_unknown_reach_phase it2 \<and> starts
         then it2\<lparr>in_hard_unknown_reach_phase := True,
                  state_before_hard_unknown_reach_phase := last_state it2\<rparr>
         else
           let it3 = (if in_hard_unknown_reach_phase it2
                         \<and> state it2 \<noteq> UNKNOWN \<and> state it2 \<noteq> UNREACHABLE
                      then it2\<lparr>in_hard_unknown_reach_phase := False\<rparr> else it2)
           in if \<not> in_hard_unknown_reach_phase it3 \<and> was_in_hard_unknown_reach_phase it3
                 \<and> state it3 \<noteq> state_before_hard_unknown_reach_phase it3
              then it3\<lparr>was_in_hard_unknown_reach_phase := False\<rparr> else it3)"

section \<open>Impact and unreachable\<close>

definition set_unreachable :: "int \<Rightarrow> item \<Rightarrow> item" where
  "set_unreachable t it =
     it\<lparr>state_id := 4, state := UNREACHABLE, last_time_unreachable := t\<rparr>"

definition set_impact_state :: "cls \<Rightarrow> int \<Rightarrow> item \<Rightarrow> item" where
  "set_impact_state cl t it =
     (if enable_problem_impacts_states_change cl
      then set_unreachable t
        (it\<lparr>state_before_impact := state it, state_id_before_impact := state_id it,
            state_changed_since_impact := False\<rparr>)
      else it)"

definition unset_impact_state :: "cls \<Rightarrow> item \<Rightarrow> item" where
  "unset_impact_state cl it =
     (if enable_problem_impacts_states_change cl \<and> \<not> state_changed_since_impact it
      then it\<lparr>state := state_before_impact it, state_id := state_id_before_impact it\<rparr>
      else it)"

section \<open>Checks in progress, orphans, clock changes\<close>

definition update_in_checking :: "item \<Rightarrow> item" where
  "update_in_checking it = it\<lparr>in_checking := checks_in_progress it \<noteq> []\<rparr>"

definition remove_in_progress_check :: "uuid \<Rightarrow> item \<Rightarrow> item" where
  "remove_in_progress_check chk it =
     update_in_checking
       (if chk \<in> set (checks_in_progress it)
        then it\<lparr>checks_in_progress := remove1 chk (checks_in_progress it)\<rparr> else it)"

definition get_time_to_orphanage :: "cls \<Rightarrow> item \<Rightarrow> int" where
  "get_time_to_orphanage cl it =
     (if \<not> check_for_orphaned cl then 0
      else if time_to_orphanage it \<le> 0 then 0 else time_to_orphanage it)"

definition compensate_system_time_change :: "int \<Rightarrow> item \<Rightarrow> item" where
  "compensate_system_time_change difference it =
     it\<lparr>last_notification := max 0 (last_notification it + difference),
        last_state_change := max 0 (last_state_change it + difference),
        last_hard_state_change := max 0 (last_hard_state_change it + difference)\<rparr>"

text \<open>
  \<open>disable_active_checks\<close> completes the checks in progress with the item's present state;
  an unknown check raises.
\<close>

definition finish_check :: "int \<Rightarrow> item \<Rightarrow> check \<Rightarrow> check" where
  "finish_check t it c =
     c\<lparr>c_status := WAIT_CONSUME, c_exit_status := state_id it, c_output := plugin_output it,
       c_check_time := t, c_execution_time := 0, c_perf_data := perf_data it\<rparr>"

definition disable_active_checks :: "uuid \<Rightarrow> world \<Rightarrow> world option" where
  "disable_active_checks u w =
     (case items w u of None \<Rightarrow> None
      | Some it0 \<Rightarrow>
          let it = it0\<lparr>active_checks_enabled := False\<rparr>
          in foldM (\<lambda>c. upd_known_check c (finish_check (now w) it)) (checks_in_progress it)
               (w\<lparr>items := (items w)(u \<mapsto> it)\<rparr>))"

text \<open>The counters for the event and problem macros; the class counters are in the world.\<close>

definition update_event_and_problem_id ::
  "nat \<times> nat \<Rightarrow> item \<Rightarrow> (nat \<times> nat) \<times> item" where
  "update_event_and_problem_id counters it =
     (case counters of (ev, pb) \<Rightarrow>
        let new_problem = (\<lambda>it. ((ev + 1, pb + 1),
              it\<lparr>last_problem_id := current_problem_id it, current_problem_id := pb + 1\<rparr>))
        in if state it \<noteq> last_state it \<and> last_state it \<noteq> PENDING
              \<or> state it \<noteq> ok_up it \<and> last_state it = PENDING
           then let it1 = it\<lparr>last_event_id := current_event_id it, current_event_id := ev + 1\<rparr>
                in if state it1 \<noteq> ok_up it \<and> last_state it1 = PENDING then new_problem it1
                   else if ok_up it \<noteq> state it1 \<and> ok_up it \<noteq> last_state it1
                   then ((ev + 1, pb), it1)
                   else if state it1 = ok_up it
                   then ((ev + 1, pb), it1\<lparr>last_problem_id := current_problem_id it1,
                                          current_problem_id := 0\<rparr>)
                   else new_problem it1
           else ((ev, pb), it))"

section \<open>Dependency registration\<close>

text \<open>
  \<open>SchedulingItems.add_act_dependency\<close> and \<open>add_chk_dependency\<close>, of the hosts or of the
  services (\<open>kind\<close>). The third component of the check dependencies, the constant
  \<open>'logic_dep'\<close>, is left out. For an unknown son the code records an error and then fails on
  the unbound name: \<open>None\<close>.
\<close>

definition in_collection :: "item_type \<Rightarrow> world \<Rightarrow> uuid \<Rightarrow> bool" where
  "in_collection kind w u =
     (case items w u of Some it \<Rightarrow> my_type it = kind | None \<Rightarrow> False)"

definition link_parents :: "uuid \<Rightarrow> uuid \<Rightarrow> world \<Rightarrow> world option" where
  "link_parents son_id parent_id w =
     Option.bind
       (upd_item son_id (\<lambda>s. if parent_id \<in> set (parent_dependencies s) then s
          else s\<lparr>parent_dependencies := parent_dependencies s @ [parent_id]\<rparr>) w)
       (upd_item parent_id (\<lambda>p. if son_id \<in> set (child_dependencies p) then p
          else p\<lparr>child_dependencies := child_dependencies p @ [son_id]\<rparr>))"

definition add_act_dependency ::
  "item_type \<Rightarrow> uuid \<Rightarrow> uuid \<Rightarrow> string list \<Rightarrow> uuid option \<Rightarrow> bool \<Rightarrow> world \<Rightarrow> world option" where
  "add_act_dependency kind son_id parent_id criteria period inherits w =
     (if \<not> in_collection kind w son_id \<or> \<not> in_collection kind w parent_id then None
      else Option.bind
        (upd_item son_id (\<lambda>s. s\<lparr>act_depend_of := act_depend_of s
            @ [(parent_id, criteria, period, inherits)]\<rparr>) w) (\<lambda>w.
        Option.bind
        (upd_item parent_id (\<lambda>p. p\<lparr>act_depend_of_me := act_depend_of_me p
            @ [(son_id, criteria, period, inherits)]\<rparr>) w)
        (link_parents son_id parent_id)))"

definition add_chk_dependency ::
  "item_type \<Rightarrow> uuid \<Rightarrow> uuid \<Rightarrow> string list \<Rightarrow> uuid option \<Rightarrow> bool \<Rightarrow> world \<Rightarrow> world option" where
  "add_chk_dependency kind son_id parent_id criteria period inherits w =
     (if \<not> in_collection kind w son_id \<or> \<not> in_collection kind w parent_id then None
      else Option.bind
        (upd_item son_id (\<lambda>s. s\<lparr>chk_depend_of := chk_depend_of s
            @ [(parent_id, criteria, period, inherits)]\<rparr>) w) (\<lambda>w.
        Option.bind
        (upd_item parent_id (\<lambda>p. p\<lparr>chk_depend_of_me := chk_depend_of_me p
            @ [(son_id, criteria, period, inherits)]\<rparr>) w)
        (link_parents son_id parent_id)))"

end
