(* ===== verification/Notify.thy ===== *)
theory Notify
  imports ItemState
begin

text \<open>
  Raising notifications: when a host or a service blocks one (\<open>is_blocking_notifications\<close> of
  \<open>host.py\<close> and \<open>service.py\<close>), the creation of master notifications and the removal of
  those in progress (\<open>schedulingitem.py\<close>). \<open>None\<close> is a \<open>KeyError\<close> on a dangling reference.
\<close>

section \<open>Smart notifications of business rules\<close>

text \<open>
  Whether a source problem counts as acknowledged; the host of a service is looked up only
  when the tests before it fail.
\<close>

definition source_acknowledged :: "world \<Rightarrow> bool \<Rightarrow> item \<Rightarrow> bool option" where
  "source_acknowledged w downtime_as_ack src =
     (if last_hard_state_id src = 0 then Some False
      else if problem_has_been_acknowledged src then Some True
      else if downtime_as_ack
      then (if scheduled_downtime_depth src > 0 then Some True
            else if my_type src = Service
            then (case Option.bind (host src) (items w) of None \<Rightarrow> None
                  | Some h \<Rightarrow> Some (scheduled_downtime_depth h > 0))
            else Some False)
      else Some False)"

fun count_acknowledged :: "world \<Rightarrow> bool \<Rightarrow> uuid list \<Rightarrow> nat option" where
  "count_acknowledged w as_ack [] = Some 0"
| "count_acknowledged w as_ack (u # us) =
     (case Option.bind (items w u) (source_acknowledged w as_ack) of None \<Rightarrow> None
      | Some b \<Rightarrow> map_option (\<lambda>n. if b then Suc n else n) (count_acknowledged w as_ack us))"

definition business_rule_notification_is_blocked :: "world \<Rightarrow> item \<Rightarrow> bool option" where
  "business_rule_notification_is_blocked w it =
     map_option (\<lambda>n. n = length (source_problems it))
       (count_acknowledged w (business_rule_downtime_as_ack it) (source_problems it))"

text \<open>The last test of both \<open>is_blocking_notifications\<close>.\<close>

definition business_rule_blocks :: "world \<Rightarrow> n_type \<Rightarrow> item \<Rightarrow> bool option" where
  "business_rule_blocks w nt it =
     (if got_business_rule it \<and> business_rule_smart_notifications it
      then map_option (\<lambda>b. b \<and> nt = PROBLEM) (business_rule_notification_is_blocked w it)
      else Some False)"

section \<open>Blocked notifications\<close>

abbreviation flapping_type :: "n_type \<Rightarrow> bool" where
  "flapping_type nt \<equiv> nt = FLAPPINGSTART \<or> nt = FLAPPINGSTOP \<or> nt = FLAPPINGDISABLED"

abbreviation downtime_type :: "n_type \<Rightarrow> bool" where
  "downtime_type nt \<equiv> nt = DOWNTIMESTART \<or> nt = DOWNTIMEEND \<or> nt = DOWNTIMECANCELLED"

definition host_is_blocking_notifications ::
  "env \<Rightarrow> world \<Rightarrow> uuid option \<Rightarrow> n_type \<Rightarrow> int \<Rightarrow> item \<Rightarrow> bool option" where
  "host_is_blocking_notifications e w period nt t_wished it =
     (if \<not> enable_notifications (host_cls w) \<or> \<not> notifications_enabled it
         \<or> ''n'' \<in> set (notification_options it) then Some True
      else if \<not> period_valid e period t_wished then Some True
      else if (nt = PROBLEM \<or> nt = RECOVERY)
              \<and> (state it = DOWN \<and> ''d'' \<notin> set (notification_options it)
                 \<or> state it = UP \<and> ''r'' \<notin> set (notification_options it)
                 \<or> state it = UNREACHABLE \<and> ''x'' \<notin> set (notification_options it)) then Some True
      else if flapping_type nt \<and> ''f'' \<notin> set (notification_options it) then Some True
      else if downtime_type nt \<and> ''s'' \<notin> set (notification_options it) then Some True
      else if flapping_type nt \<and> scheduled_downtime_depth it > 0 then Some True
      else if nt = ACKNOWLEDGEMENT \<and> state it = ok_up it then Some True
      else if scheduled_downtime_depth it > 1
              \<and> nt \<noteq> DOWNTIMEEND \<and> nt \<noteq> DOWNTIMECANCELLED then Some True
      else if scheduled_downtime_depth it > 0
              \<and> (nt = PROBLEM \<or> nt = RECOVERY \<or> nt = ACKNOWLEDGEMENT) then Some True
      else if state_type it = SOFT \<and> nt = PROBLEM then Some True
      else if problem_has_been_acknowledged it
              \<and> nt \<noteq> ACKNOWLEDGEMENT \<and> \<not> downtime_type nt then Some True
      else if is_flapping it \<and> \<not> flapping_type nt then Some True
      else business_rule_blocks w nt it)"

definition service_is_blocking_notifications ::
  "env \<Rightarrow> world \<Rightarrow> uuid option \<Rightarrow> n_type \<Rightarrow> int \<Rightarrow> item \<Rightarrow> bool option" where
  "service_is_blocking_notifications e w period nt t_wished it =
     (case Option.bind (host it) (items w) of None \<Rightarrow> None
      | Some h \<Rightarrow>
      if \<not> enable_notifications (service_cls w) \<or> \<not> notifications_enabled it
         \<or> ''n'' \<in> set (notification_options it) then Some True
      else if \<not> period_valid e period t_wished then Some True
      else if (nt = PROBLEM \<or> nt = RECOVERY)
              \<and> (state it = UNKNOWN \<and> ''u'' \<notin> set (notification_options it)
                 \<or> state it = WARNING \<and> ''w'' \<notin> set (notification_options it)
                 \<or> state it = CRITICAL \<and> ''c'' \<notin> set (notification_options it)
                 \<or> state it = OK \<and> ''r'' \<notin> set (notification_options it)
                 \<or> state it = UNREACHABLE \<and> ''x'' \<notin> set (notification_options it)) then Some True
      else if flapping_type nt \<and> ''f'' \<notin> set (notification_options it) then Some True
      else if downtime_type nt \<and> ''s'' \<notin> set (notification_options it) then Some True
      else if nt = ACKNOWLEDGEMENT \<and> state it = ok_up it then Some True
      else if scheduled_downtime_depth h > 0 then Some True
      else if scheduled_downtime_depth it > 1
              \<and> nt \<noteq> DOWNTIMEEND \<and> nt \<noteq> DOWNTIMECANCELLED then Some True
      else if scheduled_downtime_depth it > 0
              \<and> (nt = PROBLEM \<or> nt = RECOVERY \<or> nt = ACKNOWLEDGEMENT \<or> flapping_type nt)
      then Some True
      else if state_type it = SOFT \<and> nt = PROBLEM
              \<or> problem_has_been_acknowledged it \<and> nt \<noteq> ACKNOWLEDGEMENT
              \<or> is_flapping it \<and> \<not> flapping_type nt
              \<or> state h \<noteq> ok_up h then Some True
      else business_rule_blocks w nt it)"

definition is_blocking_notifications ::
  "env \<Rightarrow> world \<Rightarrow> uuid option \<Rightarrow> n_type \<Rightarrow> int \<Rightarrow> item \<Rightarrow> bool option" where
  "is_blocking_notifications e w period nt t_wished it =
     (if my_type it = Host then host_is_blocking_notifications e w period nt t_wished it
      else service_is_blocking_notifications e w period nt t_wished it)"

section \<open>Creating notifications\<close>

definition new_notification :: "uuid \<Rightarrow> n_type \<Rightarrow> int \<Rightarrow> notification" where
  "new_notification ref nt t =
     \<lparr>n_status = SCHEDULED, n_exit_status = 3, n_ntype = nt, n_command = ''VOID'',
      n_command_call = None, n_ref = ref, n_contact = None, n_contact_name = [],
      n_recipients = {}, n_t_to_go = None, n_creation_time = t, n_timeout = 10, n_notif_nb = 1,
      n_escalated = False, n_already_start_escalations = [], n_reactionner_tag = ''None'',
      n_module_type = ''fork'', n_environment_macros = False, n_env = [],
      n_author = ''n/a'', n_author_name = ''n/a'', n_author_alias = ''n/a'',
      n_author_comment = ''n/a'', n_execution_time = 0, n_last_poll = 0, n_my_worker = ''none'',
      n_is_orphan = False\<rparr>"

text \<open>Author, its name and alias, and a comment, given with downtime notifications.\<close>

type_synonym author_data = "string \<times> string \<times> string \<times> string"

fun with_author :: "author_data \<Rightarrow> notification \<Rightarrow> notification" where
  "with_author (author, name, alias, comm) n =
     n\<lparr>n_author := author, n_author_name := name, n_author_alias := alias,
       n_author_comment := comm\<rparr>"

text \<open>
  The wished time and the time in the notification period; with a period, there may be no
  such time.
\<close>

definition notification_times ::
  "env \<Rightarrow> cls \<Rightarrow> uuid option \<Rightarrow> int \<Rightarrow> n_type \<Rightarrow> int option \<Rightarrow> item \<Rightarrow> int \<times> int option" where
  "notification_times e cl period t nt t_wished it =
     (case t_wished of Some tw \<Rightarrow> (tw, Some tw)
      | None \<Rightarrow>
          let tw = (if current_notification_number it = 0 \<and> nt = PROBLEM
                    then (let l = last_time_non_ok_or_up it
                          in (if l \<noteq> 0 then l + 1 else t)
                             + first_notification_delay it * interval_length cl)
                    else t)
          in (tw, case period of None \<Rightarrow> Some tw | Some p \<Rightarrow> tp_next e p tw))"

definition next_notification_number :: "n_type \<Rightarrow> item \<Rightarrow> int" where
  "next_notification_number nt it =
     (if nt = PROBLEM then current_notification_number it + 1
      else if nt = RECOVERY then 0 else current_notification_number it)"

definition create_notifications ::
  "env \<Rightarrow> uuid \<Rightarrow> n_type \<Rightarrow> uuid option \<Rightarrow> int option \<Rightarrow> author_data option \<Rightarrow> world \<Rightarrow> world option"
where
  "create_notifications e u nt period t_wished author w =
     (case items w u of None \<Rightarrow> None
      | Some it \<Rightarrow>
     (case notification_times e (cls_of w it) period (now w) nt t_wished it of (tw, new_t) \<Rightarrow>
     (case is_blocking_notifications e w period nt tw it of None \<Rightarrow> None
      | Some blocked \<Rightarrow>
          if blocked \<and> first_notification_delay it = 0 \<and> notification_interval it = 0
          then Some w
          else
            let nid = next_uuid w;
                n0 = (new_notification u nt (now w))
                  \<lparr>n_t_to_go := new_t, n_timeout := notification_timeout (cls_of w it),
                   n_notif_nb := next_notification_number nt it\<rparr>;
                n = (case author of
                       Some a \<Rightarrow> if nt = DOWNTIMESTART \<or> nt = DOWNTIMEEND then with_author a n0 else n0
                     | None \<Rightarrow> n0);
                it1 = (if nt = RECOVERY then it\<lparr>current_notification_number := 0\<rparr> else it);
                it2 = it1\<lparr>notifications_in_progress := notifications_in_progress it1 @ [nid],
                          actions := actions it1 @ [NotifRef nid]\<rparr>
            in Some (w\<lparr>items := (items w)(u \<mapsto> it2), notifs := (notifs w)(nid \<mapsto> n),
                       next_uuid := nid + 1\<rparr>))))"

section \<open>Removing notifications in progress\<close>

definition remove_in_progress_notification :: "uuid \<Rightarrow> uuid \<Rightarrow> world \<Rightarrow> world option" where
  "remove_in_progress_notification u nid w =
     (case items w u of None \<Rightarrow> None
      | Some it \<Rightarrow>
          if nid \<in> set (notifications_in_progress it)
          then Option.bind (upd_notif nid (\<lambda>n. n\<lparr>n_status := ZOMBIE\<rparr>) w)
                 (upd_item u (\<lambda>it. it\<lparr>notifications_in_progress :=
                    remove1 nid (notifications_in_progress it)\<rparr>))
          else Some w)"

definition keep_in_progress :: "bool \<Rightarrow> notification \<Rightarrow> bool" where
  "keep_in_progress master n \<longleftrightarrow>
     master \<and> n_contact n \<noteq> None
     \<or> downtime_type (n_ntype n) \<or> n_ntype n = CUSTOM \<or> n_ntype n = ACKNOWLEDGEMENT"

definition remove_in_progress_notifications :: "uuid \<Rightarrow> bool \<Rightarrow> world \<Rightarrow> world option" where
  "remove_in_progress_notifications u master w =
     (case items w u of None \<Rightarrow> None
      | Some it \<Rightarrow>
          foldM (\<lambda>nid w. case notifs w nid of None \<Rightarrow> None
                   | Some n \<Rightarrow> if keep_in_progress master n then Some w
                               else remove_in_progress_notification u nid w)
            (notifications_in_progress it) w)"

end
