(* ===== verification/Effects.thy ===== *)
theory Effects
  imports Notify
begin

text \<open>
  What a host or a service starts when its state is computed: flapping decisions, event
  handlers, snapshots, performance-data commands and acknowledgements
  (\<open>alignak/objects/schedulingitem.py\<close>), and the state computed from an exit status
  (\<open>host.py\<close>, \<open>service.py\<close>).
\<close>

section \<open>Flapping\<close>

text \<open>
  A change of the flapping flag: the log entry, the notifications in progress dropped, the
  new notification, the status brok.
\<close>

definition switch_flapping ::
  "env \<Rightarrow> uuid \<Rightarrow> uuid option \<Rightarrow> bool \<Rightarrow> (item \<Rightarrow> item) \<Rightarrow> n_type \<Rightarrow> world \<Rightarrow> world option" where
  "switch_flapping e u period flag entry nt w =
     Option.bind (upd_item u (\<lambda>it. entry (it\<lparr>is_flapping := flag\<rparr>)) w) (\<lambda>w.
     Option.bind (remove_in_progress_notifications u True w) (\<lambda>w.
     Option.bind (create_notifications e u nt period None None w)
       (upd_item u (add_brok UpdateStatusBrok))))"

definition update_flapping :: "env \<Rightarrow> uuid \<Rightarrow> uuid option \<Rightarrow> world \<Rightarrow> world option" where
  "update_flapping e u period w =
     (case items w u of None \<Rightarrow> None
      | Some it0 \<Rightarrow>
        let cl = cls_of w it0; history = flap_history cl
        in (case flapping_percent history (flapping_changes it0) of None \<Rightarrow> None
            | Some res \<Rightarrow>
              let it = it0\<lparr>percent_state_change := res\<rparr>;
                  w0 = w\<lparr>items := (items w)(u \<mapsto> it)\<rparr>;
                  is_full = (int (length (flapping_changes it)) \<ge> history);
                  low = (if low_flap_threshold it = -1 then global_low_flap_threshold cl
                         else low_flap_threshold it);
                  high = (if high_flap_threshold it = -1 then global_high_flap_threshold cl
                          else high_flap_threshold it);
                  stops = (is_flapping it \<and> res < of_int low \<and> is_full)
              in Option.bind
                   (if stops
                    then switch_flapping e u period False (raise_flapping_stop_log_entry cl res low)
                           FLAPPINGSTOP w0
                    else Some w0) (\<lambda>w1.
                 if \<not> (is_flapping it \<and> \<not> stops) \<and> res \<ge> of_int high \<and> is_full
                 then switch_flapping e u period True (raise_flapping_start_log_entry cl res high)
                        FLAPPINGSTART w1
                 else Some w1)))"

section \<open>The state of an exit status\<close>

text \<open>
  The state, its identifier, the code tested against \<open>flap_detection_options\<close>, and the
  function recording the time, for a host and for a service.
\<close>

definition host_state_of_exit :: "int \<Rightarrow> state \<times> int \<times> string \<times> (int \<Rightarrow> item \<Rightarrow> item)" where
  "host_state_of_exit status =
     (if status = 0 then (UP, 0, ''u'', \<lambda>t it. it\<lparr>last_time_up := t\<rparr>)
      else if status = 2 \<or> status = 3 then (DOWN, 1, ''d'', \<lambda>t it. it\<lparr>last_time_down := t\<rparr>)
      else if status = 4 then (UNREACHABLE, 4, ''x'', \<lambda>t it. it\<lparr>last_time_unreachable := t\<rparr>)
      else (DOWN, 1, ''d'', \<lambda>t it. it\<lparr>last_time_down := t\<rparr>))"

definition service_state_of_exit :: "int \<Rightarrow> state \<times> int \<times> string \<times> (int \<Rightarrow> item \<Rightarrow> item)" where
  "service_state_of_exit status =
     (if status = 0 then (OK, 0, ''o'', \<lambda>t it. it\<lparr>last_time_ok := t\<rparr>)
      else if status = 1 then (WARNING, 1, ''w'', \<lambda>t it. it\<lparr>last_time_warning := t\<rparr>)
      else if status = 2 then (CRITICAL, 2, ''c'', \<lambda>t it. it\<lparr>last_time_critical := t\<rparr>)
      else if status = 3 then (UNKNOWN, 3, ''u'', \<lambda>t it. it\<lparr>last_time_unknown := t\<rparr>)
      else if status = 4 then (UNREACHABLE, 4, ''x'', \<lambda>t it. it\<lparr>last_time_unreachable := t\<rparr>)
      else (CRITICAL, 2, ''c'', \<lambda>t it. it\<lparr>last_time_critical := t\<rparr>))"

definition state_of_exit :: "item_type \<Rightarrow> int \<Rightarrow> state \<times> int \<times> string \<times> (int \<Rightarrow> item \<Rightarrow> item)" where
  "state_of_exit ty status =
     (if ty = Host then host_state_of_exit status else service_state_of_exit status)"

text \<open>The state before this result, undoing an impact state no check has confirmed.\<close>

definition previous_state :: "cls \<Rightarrow> item \<Rightarrow> state" where
  "previous_state cl it =
     (if enable_problem_impacts_states_change cl \<and> is_impact it
         \<and> \<not> state_changed_since_impact it
      then state_before_impact it else state it)"

definition enter_state :: "cls \<Rightarrow> int \<Rightarrow> item \<Rightarrow> item" where
  "enter_state cl status it =
     (case state_of_exit (my_type it) status of (st, sid, code, record_time) \<Rightarrow>
        record_time (last_state_update_time it)
          (it\<lparr>last_state := previous_state cl it, state := st, state_id := sid\<rparr>))"

text \<open>
  The end of \<open>set_state_from_exit_status\<close>: a host that was unreachable and is down keeps its
  last state change.
\<close>

definition record_state_change :: "int \<Rightarrow> item \<Rightarrow> item" where
  "record_state_change t it =
     (let it1 = (if state it \<noteq> last_state it
                    \<and> \<not> (my_type it = Host \<and> state it = DOWN \<and> last_state it = UNREACHABLE)
                 then it\<lparr>last_state_change := last_state_update_time it\<rparr> else it)
      in it1\<lparr>duration_sec := t - last_state_change it1\<rparr>)"

definition set_state_from_exit_status ::
  "env \<Rightarrow> uuid \<Rightarrow> int \<Rightarrow> uuid option \<Rightarrow> world \<Rightarrow> world option" where
  "set_state_from_exit_status e u status period w =
     (case items w u of None \<Rightarrow> None
      | Some it0 \<Rightarrow>
        let cl = cls_of w it0; it = enter_state cl status it0;
            code = fst (snd (snd (state_of_exit (my_type it0) status)))
        in Option.bind
          (if code \<in> set (flap_detection_options it)
           then update_flapping e u period
             (w\<lparr>items := (items w)(u \<mapsto> add_flapping_change cl (state it \<noteq> last_state it) it)\<rparr>)
           else Some (w\<lparr>items := (items w)(u \<mapsto> it)\<rparr>))
          (upd_item u (record_state_change (now w))))"

section \<open>Event handlers, snapshots, performance data\<close>

definition push_event :: "uuid \<Rightarrow> event_handler \<Rightarrow> (item \<Rightarrow> item) \<Rightarrow> world \<Rightarrow> world option" where
  "push_event u ev f w =
     (let eid = next_uuid w
      in upd_item u (\<lambda>it. let it1 = f it in it1\<lparr>actions := actions it1 @ [EventRef eid]\<rparr>)
           (w\<lparr>events := (events w)(eid \<mapsto> ev), next_uuid := eid + 1\<rparr>))"

definition new_event :: "uuid \<Rightarrow> string \<Rightarrow> int \<Rightarrow> string \<Rightarrow> bool \<Rightarrow> int \<Rightarrow> event_handler" where
  "new_event ref cmd tmo tag snapshot t =
     \<lparr>e_status = SCHEDULED, e_command = cmd, e_timeout = tmo, e_ref = ref,
      e_reactionner_tag = tag, e_module_type = ''fork'', e_is_snapshot = snapshot, e_t_to_go = t,
      e_exit_status = 3, e_output = [], e_long_output = [], e_perf_data = [], e_check_time = 0,
      e_execution_time = 0, e_last_poll = 0, e_my_worker = ''none'', e_creation_time = t,
      e_is_orphan = False\<rparr>"

definition get_event_handlers :: "env \<Rightarrow> uuid \<Rightarrow> bool \<Rightarrow> world \<Rightarrow> world option" where
  "get_event_handlers e u ext_cmd w =
     (case items w u of None \<Rightarrow> None
      | Some it \<Rightarrow>
        let cl = cls_of w it
        in if \<not> ext_cmd \<and> (\<not> event_handler_enabled it \<or> \<not> enable_event_handlers cl) then Some w
           else if \<not> ext_cmd \<and> in_scheduled_downtime it \<and> no_event_handlers_during_downtimes cl
           then Some w
           else (case (case event_handler_cmd it of Some c \<Rightarrow> Some c
                       | None \<Rightarrow> global_event_handler cl) of
                   None \<Rightarrow> Some w
                 | Some c \<Rightarrow> push_event u
                     (new_event u (resolve_command e c it w) (event_handler_timeout cl)
                        (cc_reactionner_tag c) False (now w))
                     (raise_event_handler_log_entry cl c) w))"

definition get_snapshot :: "env \<Rightarrow> uuid \<Rightarrow> world \<Rightarrow> world option" where
  "get_snapshot e u w =
     (case items w u of None \<Rightarrow> None
      | Some it \<Rightarrow>
        let cl = cls_of w it
        in (case snapshot_command it of None \<Rightarrow> Some w
            | Some c \<Rightarrow>
                if \<not> snapshot_enabled it then Some w
                else if \<not> (\<exists>s \<in> set (snapshot_criteria it). is_state s it) then Some w
                else if last_snapshot it > now w - snapshot_interval it * interval_length cl
                then Some w
                else if \<not> period_valid e (snapshot_period it) (now w) then Some w
                else push_event u
                  (new_event u (resolve_command e c it w) (event_handler_timeout cl)
                     (cc_reactionner_tag c) True (now w))
                  (\<lambda>it. (raise_snapshot_log_entry cl c it)\<lparr>last_snapshot := now w\<rparr>) w))"

definition get_perfdata_command :: "env \<Rightarrow> uuid \<Rightarrow> world \<Rightarrow> world option" where
  "get_perfdata_command e u w =
     (case items w u of None \<Rightarrow> None
      | Some it \<Rightarrow>
        let cl = cls_of w it
        in if \<not> process_performance_data cl \<or> \<not> process_perf_data it then Some w
           else (case perfdata_command cl of None \<Rightarrow> Some w
                 | Some c \<Rightarrow> push_event u
                     (new_event u (resolve_command e c it w) (perfdata_timeout cl)
                        (cc_reactionner_tag c) False (now w)) (\<lambda>it. it) w))"

section \<open>Acknowledgements\<close>

definition del_comment :: "uuid option \<Rightarrow> item \<Rightarrow> item" where
  "del_comment c it = (case c of None \<Rightarrow> it | Some cid \<Rightarrow> it\<lparr>comments := ddel cid (comments it)\<rparr>)"

text \<open>
  \<open>acknowledge_problem\<close> for the item itself; the answer tells whether it was not ok.
  \<open>sticky\<close> is the number given by the caller; it is a boolean afterwards.
\<close>

definition acknowledge_self ::
  "env \<Rightarrow> uuid option \<Rightarrow> int \<Rightarrow> bool \<Rightarrow> string \<Rightarrow> string \<Rightarrow> int \<Rightarrow> uuid \<Rightarrow> world \<Rightarrow> world option" where
  "acknowledge_self e period sticky notify author text end_time u w =
     (case items w u of None \<Rightarrow> None
      | Some it \<Rightarrow>
        Option.bind
          (upd_item u (\<lambda>it.
             if problem_has_been_acknowledged it
             then (case acknowledgement it of None \<Rightarrow> it
                   | Some a \<Rightarrow> del_comment (a_comment_id a) it)
             else it) w) (\<lambda>w.
        Option.bind
          (if notify then create_notifications e u ACKNOWLEDGEMENT period None None w else Some w)
          (\<lambda>w.
        let cid = next_uuid w;
            ack = \<lparr>a_sticky = (sticky = 2), a_notify = notify, a_end_time = end_time,
                   a_author = author, a_comment = text, a_comment_id = Some cid\<rparr>;
            comm = \<lparr>cm_author = author, cm_text = text,
                    cm_comment_type = (if my_type it = Host then 1 else 2), cm_entry_type = 4,
                    cm_source = 0, cm_expires = False, cm_ref = u\<rparr>
        in upd_item u (\<lambda>it.
             raise_acknowledge_log_entry (cls_of w it)
               (add_brok UpdateStatusBrok
                 ((add_brok AckRaiseBrok
                    (it\<lparr>problem_has_been_acknowledged := True, acknowledgement := Some ack\<rparr>))
                  \<lparr>comments := dset cid comm (comments it)\<rparr>)))
             (w\<lparr>next_uuid := cid + 1\<rparr>))))"

text \<open>
  The method rebinds its parameter \<open>sticky\<close> to the boolean \<open>sticky == 2\<close> before it calls
  itself on the services of the host: there, \<open>True == 2\<close> is false. A boolean is passed on as
  the number 0 or 1.
\<close>

definition cascaded_sticky :: "bool \<Rightarrow> int \<Rightarrow> int" where
  "cascaded_sticky was_ok sticky = (if was_ok then sticky else if sticky = 2 then 1 else 0)"

definition acknowledge_problem ::
  "env \<Rightarrow> uuid option \<Rightarrow> int \<Rightarrow> bool \<Rightarrow> string \<Rightarrow> string \<Rightarrow> int \<Rightarrow> uuid \<Rightarrow> world \<Rightarrow> world option" where
  "acknowledge_problem e period sticky notify author text end_time u w =
     (case items w u of None \<Rightarrow> None
      | Some it \<Rightarrow>
        let was_ok = (state it = ok_up it)
        in Option.bind
          (if was_ok then Some w
           else acknowledge_self e period sticky notify author text end_time u w)
          (\<lambda>w.
            if my_type it = Host
            then foldM (\<lambda>s w. case items w s of None \<Rightarrow> Some w
                   | Some srv \<Rightarrow>
                       if my_type srv = Host then Some w
                       else if state srv = ok_up srv then Some w
                       else acknowledge_self e period (cascaded_sticky was_ok sticky) notify
                              author text end_time s w)
                 (services_of it) w
            else Some w))"

text \<open>
  \<open>unacknowledge_problem\<close> reads \<open>self.acknowledgement.get_expire_brok\<close>: an acknowledged
  problem without acknowledgement object raises.
\<close>

definition unacknowledge :: "cls \<Rightarrow> item \<Rightarrow> item option" where
  "unacknowledge cl it =
     (if problem_has_been_acknowledged it
      then (case acknowledgement it of None \<Rightarrow> None
            | Some a \<Rightarrow> Some (raise_unacknowledge_log_entry cl
                (add_brok UpdateStatusBrok
                  ((del_comment (a_comment_id a)
                     (add_brok AckExpireBrok (it\<lparr>problem_has_been_acknowledged := False\<rparr>)))
                   \<lparr>acknowledgement := None\<rparr>))))
      else Some it)"

definition unacknowledge_problem :: "uuid \<Rightarrow> world \<Rightarrow> world option" where
  "unacknowledge_problem u w =
     (case items w u of None \<Rightarrow> None
      | Some it \<Rightarrow> map_option (\<lambda>it'. w\<lparr>items := (items w)(u \<mapsto> it')\<rparr>)
          (unacknowledge (cls_of w it) it))"

definition unacknowledge_problem_if_not_sticky :: "uuid \<Rightarrow> world \<Rightarrow> world option" where
  "unacknowledge_problem_if_not_sticky u w =
     (case items w u of None \<Rightarrow> None
      | Some it \<Rightarrow>
          (case acknowledgement it of None \<Rightarrow> Some w
           | Some a \<Rightarrow> if a_sticky a then Some w else unacknowledge_problem u w))"

definition check_for_expire_acknowledge :: "uuid \<Rightarrow> world \<Rightarrow> world option" where
  "check_for_expire_acknowledge u w =
     (case items w u of None \<Rightarrow> None
      | Some it \<Rightarrow>
          (case acknowledgement it of None \<Rightarrow> Some w
           | Some a \<Rightarrow> if a_end_time a \<noteq> 0 \<and> a_end_time a < now w then unacknowledge_problem u w
                       else Some w))"

end
