(* ===== verification/Downtimes.thy ===== *)
theory Downtimes
  imports Effects
begin

text \<open>
  Scheduled downtimes of hosts and services (\<open>alignak/downtime.py\<close>) and of contacts
  (\<open>alignak/contactdowntime.py\<close>). The broks \<open>enter\<close>, \<open>exit\<close> and \<open>cancel\<close> return are the
  second component of their results; \<open>None\<close> is an exception.
\<close>

section \<open>Creation\<close>

text \<open>
  \<open>Downtime.__init__\<close> of a new downtime: a triggered downtime is never fixed, and the
  duration of a fixed one is its whole interval.
\<close>

definition new_downtime ::
  "uuid \<Rightarrow> bool \<Rightarrow> int \<Rightarrow> int \<Rightarrow> int \<Rightarrow> uuid option \<Rightarrow> string \<Rightarrow> string \<Rightarrow> downtime" where
  "new_downtime ref fixed start_time end_time duration trigger author text =
     (let fixed' = (if trigger \<noteq> None then False else fixed)
      in \<lparr>d_ref = ref, d_activate_me = [], d_fixed = fixed', d_start_time = start_time,
          d_end_time = end_time, d_real_end_time = end_time,
          d_duration = (if fixed' then end_time - start_time else duration),
          d_trigger_id = trigger, d_author = author, d_comment = text, d_comment_id = None,
          d_is_in_effect = False, d_has_been_triggered = False, d_can_be_deleted = False\<rparr>)"

definition trigger_me :: "uuid \<Rightarrow> downtime \<Rightarrow> downtime" where
  "trigger_me other d = d\<lparr>d_activate_me := d_activate_me d @ [other]\<rparr>"

definition add_downtime :: "uuid \<Rightarrow> uuid \<Rightarrow> world \<Rightarrow> world option" where
  "add_downtime u did =
     upd_item u (\<lambda>it. it\<lparr>downtimes :=
       (if did \<in> set (downtimes it) then downtimes it else downtimes it @ [did])\<rparr>)"

definition del_downtime :: "uuid \<Rightarrow> uuid \<Rightarrow> world \<Rightarrow> world option" where
  "del_downtime u did w =
     (case items w u of None \<Rightarrow> None
      | Some it \<Rightarrow>
          if did \<in> set (downtimes it)
          then Option.bind (upd_downtime did (\<lambda>d. d\<lparr>d_can_be_deleted := True\<rparr>) w)
                 (upd_item u (\<lambda>it. it\<lparr>downtimes := filter (\<lambda>x. x \<noteq> did) (downtimes it)\<rparr>))
          else Some w)"

section \<open>Entering\<close>

definition author_data_of :: "downtime \<Rightarrow> author_data" where
  "author_data_of d = (d_author d, ''Not available'', ''Not available'', d_comment d)"

text \<open>The downtime itself; a flexible one ends \<open>duration\<close> after it starts.\<close>

definition start_downtime :: "int \<Rightarrow> downtime \<Rightarrow> downtime" where
  "start_downtime t d =
     (let d1 = d\<lparr>d_is_in_effect := True\<rparr>
      in if \<not> d_fixed d then d1\<lparr>d_real_end_time := t + d_duration d\<rparr> else d1)"

text \<open>The part of \<open>enter\<close> before the triggered downtimes.\<close>

definition enter_item :: "env \<Rightarrow> downtime \<Rightarrow> world \<Rightarrow> (world \<times> brok list) option" where
  "enter_item e d w =
     (case upd_item (d_ref d) (\<lambda>it. it\<lparr>scheduled_downtime_depth := scheduled_downtime_depth it + 1,
                                       in_scheduled_downtime := True\<rparr>) w of None \<Rightarrow> None
      | Some w1 \<Rightarrow>
     (case items w1 (d_ref d) of None \<Rightarrow> None
      | Some it \<Rightarrow>
          if scheduled_downtime_depth it = 1
          then Option.bind (upd_item (d_ref d) (raise_enter_downtime_log_entry (cls_of w it)) w1) (\<lambda>w2.
               Option.bind (create_notifications e (d_ref d) DOWNTIMESTART (notification_period it)
                              None (Some (author_data_of d)) w2) (\<lambda>w3.
               map_option (\<lambda>w4. (w4, [DowntimeRaiseBrok]))
                 (if my_type it = Host
                  then acknowledge_problem e (notification_period it) 2 True ''Alignak''
                         ''Acknowledged because of an host downtime'' 0 (d_ref d) w3
                  else Some w3)))
          else Some (w1, [])))"

text \<open>
  A downtime activates those it triggers wherever they are registered, hosts first. The
  recursion follows the trigger chains: the fuel is its depth.
\<close>

fun downtime_enter :: "nat \<Rightarrow> env \<Rightarrow> uuid \<Rightarrow> world \<Rightarrow> (world \<times> brok list) option" where
  "downtime_enter 0 e did w = None"
| "downtime_enter (Suc fuel) e did w =
     (case downtime_store w did of None \<Rightarrow> None
      | Some d \<Rightarrow>
     (case enter_item e d (w\<lparr>downtime_store := (downtime_store w)(did \<mapsto> start_downtime (now w) d)\<rparr>)
      of None \<Rightarrow> None
      | Some s \<Rightarrow>
          foldM (\<lambda>other s. foldM (\<lambda>u s. case s of (w, bs) \<Rightarrow>
                  (case items w u of None \<Rightarrow> None
                   | Some it \<Rightarrow>
                       if other \<in> set (downtimes it)
                       then map_option (\<lambda>(w', bs'). (w', bs @ bs')) (downtime_enter fuel e other w)
                       else Some (w, bs)))
                (host_ids w @ service_ids w) s)
            (d_activate_me d) s))"

section \<open>Leaving\<close>

definition downtime_exit :: "env \<Rightarrow> uuid \<Rightarrow> world \<Rightarrow> (world \<times> brok list) option" where
  "downtime_exit e did w =
     (case downtime_store w did of None \<Rightarrow> None
      | Some d \<Rightarrow>
     (case items w (d_ref d) of None \<Rightarrow> None
      | Some it0 \<Rightarrow>
        Option.bind
          (if d_is_in_effect d
           then Option.bind (upd_downtime did (\<lambda>d. d\<lparr>d_is_in_effect := False\<rparr>) w) (\<lambda>w1.
                Option.bind (upd_item (d_ref d) (\<lambda>it. it\<lparr>scheduled_downtime_depth :=
                    scheduled_downtime_depth it - 1\<rparr>) w1) (\<lambda>w2.
                if scheduled_downtime_depth it0 - 1 = 0
                then Option.bind (upd_item (d_ref d) (raise_exit_downtime_log_entry (cls_of w it0)) w2)
                       (\<lambda>w3.
                     Option.bind (create_notifications e (d_ref d) DOWNTIMEEND
                         (notification_period it0) None (Some (author_data_of d)) w3) (\<lambda>w4.
                     map_option (\<lambda>w5. (w5, [DowntimeExpireBrok]))
                       (upd_item (d_ref d) (\<lambda>it. it\<lparr>in_scheduled_downtime := False\<rparr>) w4)))
                else Some (w2, [])))
           else Some (w, []))
          (\<lambda>(w6, bs).
           Option.bind (upd_downtime did (\<lambda>d. d\<lparr>d_can_be_deleted := True\<rparr>) w6) (\<lambda>w7.
           map_option (\<lambda>w8. (w8, bs))
             (upd_item (d_ref d) (\<lambda>it. (del_comment (d_comment_id d) it)
                \<lparr>in_scheduled_downtime_during_last_check := True\<rparr>) w7)))))"

text \<open>
  \<open>cancel\<close> lowers the depth whether or not the downtime is in effect. Its last loop calls
  \<open>cancel\<close> on the elements of \<open>activate_me\<close>, which are identifiers: \<open>AttributeError\<close>.
\<close>

definition cancel_item :: "cls \<Rightarrow> downtime \<Rightarrow> item \<Rightarrow> item" where
  "cancel_item cl d it =
     (let it1 = it\<lparr>scheduled_downtime_depth := scheduled_downtime_depth it - 1\<rparr>;
          it2 = (if scheduled_downtime_depth it1 = 0
                 then (raise_cancel_downtime_log_entry cl it1)\<lparr>in_scheduled_downtime := False\<rparr>
                 else it1)
      in (del_comment (d_comment_id d) it2)\<lparr>in_scheduled_downtime_during_last_check := True\<rparr>)"

definition downtime_cancel :: "uuid \<Rightarrow> world \<Rightarrow> (world \<times> brok list) option" where
  "downtime_cancel did w =
     (case downtime_store w did of None \<Rightarrow> None
      | Some d \<Rightarrow>
     (case items w (d_ref d) of None \<Rightarrow> None
      | Some it \<Rightarrow>
          if d_activate_me d \<noteq> [] then None
          else Some (w\<lparr>items := (items w)(d_ref d \<mapsto> cancel_item (cls_of w it) d it),
                       downtime_store := (downtime_store w)(did \<mapsto>
                         d\<lparr>d_is_in_effect := False, d_comment_id := None, d_can_be_deleted := True\<rparr>)\<rparr>,
                     if scheduled_downtime_depth it = 1 then [DowntimeExpireBrok] else [])))"

text \<open>
  The comment that announces a downtime; its text is formatted in local time
  (\<open>time.strftime\<close>), and given here.
\<close>

definition add_automatic_comment :: "string \<Rightarrow> uuid \<Rightarrow> world \<Rightarrow> world option" where
  "add_automatic_comment text did w =
     (case downtime_store w did of None \<Rightarrow> None
      | Some d \<Rightarrow>
        let cid = next_uuid w
        in upd_item (d_ref d) (\<lambda>it. it\<lparr>comments := dset cid
             \<lparr>cm_author = ''Alignak'', cm_text = text,
              cm_comment_type = (if my_type it = Host then 1 else 2), cm_entry_type = 2,
              cm_source = 0, cm_expires = False, cm_ref = d_ref d\<rparr> (comments it)\<rparr>)
           (w\<lparr>next_uuid := cid + 1,
              downtime_store := (downtime_store w)(did \<mapsto> d\<lparr>d_comment_id := Some cid\<rparr>)\<rparr>))"

section \<open>Flexible downtimes\<close>

definition starts_flexible :: "item \<Rightarrow> downtime \<Rightarrow> bool" where
  "starts_flexible it d \<longleftrightarrow>
     \<not> (d_fixed d \<or> d_is_in_effect d)
     \<and> d_start_time d \<le> last_chk it \<and> d_end_time d \<ge> last_chk it \<and> state_id it \<noteq> 0
     \<and> d_trigger_id d = None"

definition flexible_step ::
  "nat \<Rightarrow> env \<Rightarrow> uuid \<Rightarrow> uuid \<Rightarrow> world \<times> bool \<Rightarrow> (world \<times> bool) option" where
  "flexible_step fuel e u did s =
     (case s of (w, updated) \<Rightarrow>
     (case (downtime_store w did, items w u) of
        (Some d, Some it) \<Rightarrow>
          if starts_flexible it d
          then Option.bind (downtime_enter fuel e did w) (\<lambda>(w1, bs).
               map_option (\<lambda>w2. (w2, True)) (upd_item u (\<lambda>it. it\<lparr>broks := broks it @ bs\<rparr>) w1))
          else Some (w, updated)
      | _ \<Rightarrow> None))"

definition check_for_flexible_downtime :: "nat \<Rightarrow> env \<Rightarrow> uuid \<Rightarrow> world \<Rightarrow> world option" where
  "check_for_flexible_downtime fuel e u w =
     (case items w u of None \<Rightarrow> None
      | Some it \<Rightarrow>
          Option.bind (foldM (flexible_step fuel e u) (downtimes it) (w, False))
            (\<lambda>(w1, updated). if updated then upd_item u (add_brok UpdateStatusBrok) w1 else Some w1))"

section \<open>Downtimes of contacts\<close>

text \<open>
  The log entries of a contact are broks of the contact; \<open>enter\<close>, \<open>exit\<close> and \<open>cancel\<close> of a
  contact downtime.
\<close>

definition contact_log :: "string \<Rightarrow> string \<Rightarrow> contact \<Rightarrow> contact" where
  "contact_log kind sentence k =
     k\<lparr>k_broks := k_broks k @ [MonitoringLog ''info''
        (''CONTACT DOWNTIME ALERT: '' @ contact_name k @ '';'' @ kind @ ''; '' @ sentence)]\<rparr>"

definition contact_downtime_enter :: "contact \<Rightarrow> contact" where
  "contact_downtime_enter =
     contact_log ''STARTED'' ''Contact has entered a period of scheduled downtime''"

definition contact_downtime_exit :: "contact_downtime \<Rightarrow> contact \<Rightarrow> contact_downtime \<times> contact" where
  "contact_downtime_exit d k =
     (d\<lparr>cd_can_be_deleted := True\<rparr>,
      contact_log ''STOPPED'' ''Contact has exited from a period of scheduled downtime'' k)"

definition contact_downtime_cancel ::
  "contact_downtime \<Rightarrow> contact \<Rightarrow> contact_downtime \<times> contact" where
  "contact_downtime_cancel d k =
     (d\<lparr>cd_is_in_effect := False, cd_can_be_deleted := True\<rparr>,
      contact_log ''CANCELLED'' ''Scheduled downtime for contact has been cancelled.'' k)"

definition check_activation ::
  "int \<Rightarrow> contact_downtime \<Rightarrow> contact \<Rightarrow> contact_downtime \<times> contact" where
  "check_activation t d k =
     (let was = cd_is_in_effect d;
          d1 = d\<lparr>cd_is_in_effect := cd_start_time d \<le> t \<and> t \<le> cd_end_time d\<rparr>;
          k1 = (if \<not> was \<and> cd_is_in_effect d1 then contact_downtime_enter k else k)
      in if was \<and> \<not> cd_is_in_effect d1 then contact_downtime_exit d1 k1 else (d1, k1))"

end
