(* ===== verification/Contacts.thy ===== *)
theory Contacts
  imports Downtimes
begin

text \<open>
  Who is notified, and how: notification ways (\<open>alignak/objects/notificationway.py\<close>), contacts
  (\<open>contact.py\<close>) and escalations (\<open>escalation.py\<close>). \<open>None\<close> is an exception: a missing
  notification period, or an unknown notification way.
\<close>

section \<open>Notification ways\<close>

definition nw_host_notifications_enabled :: "notification_way \<Rightarrow> bool" where
  "nw_host_notifications_enabled nw \<longleftrightarrow> ''n'' \<notin> set (nw_host_notification_options nw)"

definition nw_service_notifications_enabled :: "notification_way \<Rightarrow> bool" where
  "nw_service_notifications_enabled nw \<longleftrightarrow> ''n'' \<notin> set (nw_service_notification_options nw)"

text \<open>The dictionaries \<open>short_states\<close>, for the states.\<close>

fun service_short_state :: "state \<Rightarrow> string option" where
  "service_short_state WARNING = Some ''w''"
| "service_short_state UNKNOWN = Some ''u''"
| "service_short_state CRITICAL = Some ''c''"
| "service_short_state UNREACHABLE = Some ''x''"
| "service_short_state _ = None"

fun host_short_state :: "state \<Rightarrow> string option" where
  "host_short_state DOWN = Some ''d''"
| "host_short_state UNREACHABLE = Some ''u''"
| "host_short_state _ = None"

text \<open>
  The answer inside the notification period; the type decides. A problem in a state that is
  not in the dictionary falls through every test.
\<close>

definition wants_type ::
  "(state \<Rightarrow> string option) \<Rightarrow> string list \<Rightarrow> string list \<Rightarrow> state \<Rightarrow> n_type \<Rightarrow> bool" where
  "wants_type short options downtime_options st nt =
     (if nt = PROBLEM \<and> short st \<noteq> None then the (short st) \<in> set options
      else if nt = RECOVERY then ''r'' \<in> set options
      else if nt = ACKNOWLEDGEMENT then True
      else if flapping_type nt then ''f'' \<in> set options
      else if downtime_type nt then ''s'' \<in> set downtime_options
      else False)"

definition nw_want_service_notification ::
  "env \<Rightarrow> int \<Rightarrow> state \<Rightarrow> n_type \<Rightarrow> int \<Rightarrow> command_call option \<Rightarrow> notification_way \<Rightarrow> bool option" where
  "nw_want_service_notification e timestamp st nt bi cmd nw =
     (if \<not> nw_service_notifications_enabled nw then Some False
      else if cmd \<noteq> None \<and> the cmd \<notin> set (nw_service_notification_commands nw) then Some False
      else if bi < nw_min_business_impact nw then Some False
      else (case nw_service_notification_period nw of None \<Rightarrow> None
            | Some p \<Rightarrow> Some (tp_valid e p timestamp
                \<and> wants_type service_short_state (nw_service_notification_options nw)
                    (nw_host_notification_options nw) st nt)))"

definition nw_want_host_notification ::
  "env \<Rightarrow> int \<Rightarrow> state \<Rightarrow> n_type \<Rightarrow> int \<Rightarrow> command_call option \<Rightarrow> notification_way \<Rightarrow> bool option" where
  "nw_want_host_notification e timestamp st nt bi cmd nw =
     (if \<not> nw_host_notifications_enabled nw then Some False
      else if bi < nw_min_business_impact nw then Some False
      else if cmd \<noteq> None \<and> the cmd \<notin> set (nw_host_notification_commands nw) then Some False
      else (case nw_host_notification_period nw of None \<Rightarrow> None
            | Some p \<Rightarrow> Some (tp_valid e p timestamp
                \<and> wants_type host_short_state (nw_host_notification_options nw)
                    (nw_host_notification_options nw) st nt)))"

definition nw_get_notification_commands :: "item_type \<Rightarrow> notification_way \<Rightarrow> command_call list" where
  "nw_get_notification_commands ty nw =
     (if ty = Host then nw_host_notification_commands nw else nw_service_notification_commands nw)"

section \<open>Contacts\<close>

text \<open>The loop over the notification ways, stopping at the first that wants the notification.\<close>

fun any_notification_way ::
  "env \<Rightarrow> (notification_way \<Rightarrow> bool option) \<Rightarrow> uuid list \<Rightarrow> bool option" where
  "any_notification_way e want [] = Some False"
| "any_notification_way e want (u # us) =
     (case Option.bind (notifways e u) want of None \<Rightarrow> None
      | Some b \<Rightarrow> if b then Some True else any_notification_way e want us)"

definition want_service_notification ::
  "env \<Rightarrow> int \<Rightarrow> state \<Rightarrow> n_type \<Rightarrow> int \<Rightarrow> command_call option \<Rightarrow> contact \<Rightarrow> (contact \<times> bool) option" where
  "want_service_notification e timestamp st nt bi cmd k =
     (if \<not> k_service_notifications_enabled k then Some (k, False)
      else if \<exists>d \<in> set (map snd (k_downtimes k)). cd_is_in_effect d
      then Some (k\<lparr>k_in_scheduled_downtime := True\<rparr>, False)
      else map_option (\<lambda>b. (k\<lparr>k_in_scheduled_downtime := False\<rparr>, b))
             (any_notification_way e (nw_want_service_notification e timestamp st nt bi cmd)
                (notificationways k)))"

text \<open>
  For hosts the loop runs over the keys of the dictionary of downtimes and reads
  \<open>is_in_effect\<close> on them: \<open>AttributeError\<close> as soon as the contact has a downtime.
\<close>

definition want_host_notification ::
  "env \<Rightarrow> int \<Rightarrow> state \<Rightarrow> n_type \<Rightarrow> int \<Rightarrow> command_call option \<Rightarrow> contact \<Rightarrow> (contact \<times> bool) option" where
  "want_host_notification e timestamp st nt bi cmd k =
     (if \<not> k_host_notifications_enabled k then Some (k, False)
      else if k_downtimes k \<noteq> [] then None
      else map_option (\<lambda>b. (k\<lparr>k_in_scheduled_downtime := False\<rparr>, b))
             (any_notification_way e (nw_want_host_notification e timestamp st nt bi cmd)
                (notificationways k)))"

fun get_notification_commands_loop :: "env \<Rightarrow> item_type \<Rightarrow> uuid list \<Rightarrow> command_call list option" where
  "get_notification_commands_loop e ty [] = Some []"
| "get_notification_commands_loop e ty (u # us) =
     (case notifways e u of None \<Rightarrow> None
      | Some nw \<Rightarrow> map_option (\<lambda>cs. nw_get_notification_commands ty nw @ cs)
                    (get_notification_commands_loop e ty us))"

text \<open>The list it also stores on the contact is not kept: nothing modelled reads it.\<close>

definition get_notification_commands :: "env \<Rightarrow> item_type \<Rightarrow> contact \<Rightarrow> command_call list option" where
  "get_notification_commands e ty k = get_notification_commands_loop e ty (notificationways k)"

text \<open>\<open>notification_is_blocked_by_contact\<close> of a host and of a service.\<close>

definition notification_is_blocked_by_contact ::
  "env \<Rightarrow> item \<Rightarrow> notification \<Rightarrow> contact \<Rightarrow> (contact \<times> bool) option" where
  "notification_is_blocked_by_contact e it n k =
     map_option (\<lambda>(k', b). (k', \<not> b))
       (if my_type it = Host
        then want_host_notification e (last_chk it) (state it) (n_ntype n) (business_impact it)
               (n_command_call n) k
        else want_service_notification e (last_chk it) (state it) (n_ntype n) (business_impact it)
               (n_command_call n) k)"

section \<open>Escalations\<close>

text \<open>\<open>Escalation.__init__\<close> replaces every \<open>u\<close> in the options by \<open>x\<close>.\<close>

definition escalation_options_of :: "string list \<Rightarrow> string list" where
  "escalation_options_of opts = map (map (\<lambda>c. if c = CHR ''u'' then CHR ''x'' else c)) opts"

fun escalation_short_state :: "state \<Rightarrow> string option" where
  "escalation_short_state WARNING = Some ''w''"
| "escalation_short_state UNKNOWN = Some ''u''"
| "escalation_short_state CRITICAL = Some ''c''"
| "escalation_short_state DOWN = Some ''d''"
| "escalation_short_state UNREACHABLE = Some ''x''"
| "escalation_short_state OK = Some ''o''"
| "escalation_short_state UP = Some ''o''"
| "escalation_short_state PENDING = None"

definition is_eligible ::
  "env \<Rightarrow> int \<Rightarrow> state \<Rightarrow> int \<Rightarrow> int \<Rightarrow> int \<Rightarrow> escalation \<Rightarrow> bool" where
  "is_eligible e timestamp status notif_number in_notif_time interval es =
     (if \<not> es_time_based es \<and> notif_number < es_first_notification es then False
      else if \<not> es_time_based es \<and> es_last_notification es \<noteq> 0
              \<and> notif_number > es_last_notification es then False
      else if es_time_based es \<and> in_notif_time < es_first_notification_time es * interval then False
      else if es_time_based es \<and> es_last_notification_time es \<noteq> 0
              \<and> in_notif_time > es_last_notification_time es * interval then False
      else if escalation_short_state status \<noteq> None
              \<and> the (escalation_short_state status) \<notin> set (es_options es) then False
      else if \<not> period_valid e (es_period es) timestamp then False
      else True)"

text \<open>The dictionary of \<open>get_next_notif_time\<close> differs in one entry: unreachable is \<open>u\<close>.\<close>

definition next_short_state :: "state \<Rightarrow> string option" where
  "next_short_state st = (if st = UNREACHABLE then Some ''u'' else escalation_short_state st)"

definition get_next_notif_time ::
  "env \<Rightarrow> int \<Rightarrow> state \<Rightarrow> int \<Rightarrow> int \<Rightarrow> escalation \<Rightarrow> int option" where
  "get_next_notif_time e t_wished status creation_time interval es =
     (if \<not> es_time_based es then None
      else if next_short_state status \<noteq> None
              \<and> the (next_short_state status) \<notin> set (es_options es) then None
      else let start = es_first_notification_time es * interval + creation_time
           in if start > t_wished then None
              else if \<not> period_valid e (es_period es) start then None
              else Some start)"

end
