(* ===== verification/Problem.thy ===== *)
theory Problem
  imports Effects
begin

text \<open>
  Problems and impacts (\<open>alignak/objects/schedulingitem.py\<close>): an item in a confirmed bad
  state becomes a problem and registers itself, recursively, in the items that depend on it;
  these become impacts. When it recovers, it unregisters.
\<close>

section \<open>Business impact\<close>

text \<open>The first modulation in its period applies.\<close>

fun first_modulation :: "env \<Rightarrow> int \<Rightarrow> uuid list \<Rightarrow> int option option" where
  "first_modulation e t [] = Some None"
| "first_modulation e t (m # ms) =
     (case bi_modulations e m of None \<Rightarrow> None
      | Some bm \<Rightarrow> if period_valid e (bm_modulation_period bm) t
                   then Some (Some (bm_business_impact bm)) else first_modulation e t ms)"

text \<open>
  The business impacts of the impacts that exist, hosts first; \<open>max\<close> of none of them raises.
\<close>

definition impacts_business_impact :: "world \<Rightarrow> uuid list \<Rightarrow> int option" where
  "impacts_business_impact w us =
     (let known = List.map_filter (items w) us
      in py_max (map business_impact (filter (\<lambda>i. my_type i = Host) known)
                 @ map business_impact (filter (\<lambda>i. my_type i = Service) known)))"

definition update_business_impact_value :: "env \<Rightarrow> uuid \<Rightarrow> world \<Rightarrow> world option" where
  "update_business_impact_value e u w =
     (case items w u of None \<Rightarrow> None
      | Some it0 \<Rightarrow>
        let it1 = (if my_own_business_impact it0 = -1
                   then it0\<lparr>my_own_business_impact := business_impact it0\<rparr> else it0)
        in (case first_modulation e (now w) (business_impact_modulations it1) of None \<Rightarrow> None
            | Some m \<Rightarrow>
              let it2 = (case m of None \<Rightarrow> it1 | Some b \<Rightarrow> it1\<lparr>business_impact := b\<rparr>);
                  w2 = w\<lparr>items := (items w)(u \<mapsto> it2)\<rparr>
              in if impacts it2 \<noteq> []
                 then (case impacts_business_impact w2 (impacts it2) of None \<Rightarrow> None
                       | Some b \<Rightarrow> Some (w\<lparr>items := (items w)(u \<mapsto>
                           it2\<lparr>business_impact := max (business_impact it2) b\<rparr>)\<rparr>))
                 else Some (w\<lparr>items := (items w)(u \<mapsto>
                        (if my_own_business_impact it2 \<noteq> -1 \<and> m = None
                         then it2\<lparr>business_impact := my_own_business_impact it2\<rparr>
                         else it2))\<rparr>)))"

section \<open>Unregistering\<close>

text \<open>\<open>list.remove\<close> raises when the problem is not in the list.\<close>

definition unregister :: "cls \<Rightarrow> uuid \<Rightarrow> item \<Rightarrow> item option" where
  "unregister cl prob it =
     (if prob \<notin> set (source_problems it) then None
      else
        let it1 = it\<lparr>source_problems := remove1 prob (source_problems it)\<rparr>;
            it2 = (if source_problems it1 = []
                   then unset_impact_state cl (it1\<lparr>is_impact := False\<rparr>) else it1)
        in Some (add_brok UpdateStatusBrok it2))"

definition unregister_a_problem :: "uuid \<Rightarrow> uuid \<Rightarrow> world \<Rightarrow> world option" where
  "unregister_a_problem prob u w =
     (case items w u of None \<Rightarrow> None
      | Some it \<Rightarrow> map_option (\<lambda>it'. w\<lparr>items := (items w)(u \<mapsto> it')\<rparr>)
          (unregister (cls_of w it) prob it))"

definition drop_impacts :: "uuid \<Rightarrow> world \<Rightarrow> world option" where
  "drop_impacts u w =
     (case items w u of None \<Rightarrow> None
      | Some it \<Rightarrow>
          Option.bind (upd_item u (\<lambda>it. it\<lparr>is_problem := False\<rparr>) w) (\<lambda>w1.
          Option.bind (foldM (unregister_a_problem u) (impacts it) w1)
            (upd_item u (\<lambda>it. it\<lparr>impacts := []\<rparr>))))"

definition no_more_a_problem :: "env \<Rightarrow> uuid \<Rightarrow> world \<Rightarrow> world option" where
  "no_more_a_problem e u w =
     (case items w u of None \<Rightarrow> None
      | Some it \<Rightarrow>
          Option.bind (if is_problem it then drop_impacts u w else Some w) (\<lambda>w1.
          Option.bind (update_business_impact_value e u w1) (\<lambda>w2.
          if is_problem it then upd_item u (add_brok UpdateStatusBrok) w2 else Some w2)))"

section \<open>Registering\<close>

text \<open>
  The loops over \<open>act_depend_of_me\<close>: for each dependent item, once for every criterion the
  item is in, when the dependency period allows. \<open>call\<close> is \<open>impact.register_a_problem\<close>;
  the state of the item is read again at each test.
\<close>

definition propagate_status ::
  "env \<Rightarrow> uuid \<Rightarrow> uuid \<Rightarrow> uuid option \<Rightarrow> (uuid \<Rightarrow> world \<Rightarrow> (world \<times> uuid list) option) \<Rightarrow> string
   \<Rightarrow> world \<times> uuid list \<Rightarrow> (world \<times> uuid list) option" where
  "propagate_status e u impact period call stat s =
     (case s of (w, acc) \<Rightarrow>
     (case items w u of None \<Rightarrow> None
      | Some it \<Rightarrow>
          if is_state stat it \<and> period_valid e period (now w)
          then map_option (\<lambda>(w', us). (w', acc @ us)) (call impact w)
          else Some (w, acc)))"

definition propagate ::
  "env \<Rightarrow> uuid \<Rightarrow> (uuid \<Rightarrow> world \<Rightarrow> (world \<times> uuid list) option) \<Rightarrow> dependency
   \<Rightarrow> world \<times> uuid list \<Rightarrow> (world \<times> uuid list) option" where
  "propagate e u call dep s =
     (case dep of (impact, status, period, _) \<Rightarrow>
        if items (fst s) impact = None then None
        else foldM (propagate_status e u impact period call) status s)"

text \<open>What \<open>register_a_problem\<close> does to the item itself, before the recursion.\<close>

definition become_impact :: "env \<Rightarrow> uuid \<Rightarrow> uuid \<Rightarrow> world \<Rightarrow> world option" where
  "become_impact e prob u w =
     (case items w u of None \<Rightarrow> None
      | Some it \<Rightarrow>
          Option.bind (upd_item u (\<lambda>it. it\<lparr>is_impact := True\<rparr>) w) (\<lambda>w1.
          Option.bind (if is_problem it then no_more_a_problem e u w1 else Some w1) (\<lambda>w2.
          upd_item u (\<lambda>it2.
            let it3 = (if is_impact it then it2 else set_impact_state (cls_of w it) (now w) it2)
            in if prob \<in> set (source_problems it3) then it3
               else it3\<lparr>source_problems := source_problems it3 @ [prob]\<rparr>) w2)))"

text \<open>
  The recursion stops at items that already have the problem; its depth is bounded by the
  number of items that do not.
\<close>

fun register_a_problem ::
  "nat \<Rightarrow> env \<Rightarrow> uuid \<Rightarrow> uuid \<Rightarrow> world \<Rightarrow> (world \<times> uuid list) option" where
  "register_a_problem 0 e prob u w = None"
| "register_a_problem (Suc fuel) e prob u w =
     (case items w u of None \<Rightarrow> None
      | Some it \<Rightarrow>
          if prob \<in> set (source_problems it) then Some (w, [])
          else Option.bind (become_impact e prob u w) (\<lambda>w1.
               Option.bind (foldM (propagate e u (register_a_problem fuel e prob))
                              (act_depend_of_me it) (w1, [u])) (\<lambda>(w2, us).
               map_option (\<lambda>w3. (w3, us)) (upd_item u (add_brok UpdateStatusBrok) w2))))"

text \<open>
  For a dependent item it does not know, \<open>set_myself_as_problem\<close> only warns, and goes on with
  the local variable \<open>impact\<close> of the turn before; there is none in the first turn
  (\<open>UnboundLocalError\<close>). That variable is the third component of the loop's state.
  \<open>self.impacts = list(set(...))\<close> keeps no particular order: the list without repetitions
  is taken in order of registration.
\<close>

definition propagate_own ::
  "env \<Rightarrow> uuid \<Rightarrow> (uuid \<Rightarrow> world \<Rightarrow> (world \<times> uuid list) option) \<Rightarrow> dependency
   \<Rightarrow> (world \<times> uuid list) \<times> uuid option \<Rightarrow> ((world \<times> uuid list) \<times> uuid option) option" where
  "propagate_own e u call dep s =
     (case dep of (impact_id, status, period, _) \<Rightarrow>
      case s of (wa, previous) \<Rightarrow>
        let impact = (if items (fst wa) impact_id = None then previous else Some impact_id)
        in map_option (\<lambda>wa'. (wa', impact))
             (foldM (propagate_status e u impact_id period
                 (\<lambda>_ w. case impact of None \<Rightarrow> None | Some i \<Rightarrow> call i w)) status wa))"

definition set_myself_as_problem :: "nat \<Rightarrow> env \<Rightarrow> uuid \<Rightarrow> world \<Rightarrow> world option" where
  "set_myself_as_problem fuel e u w =
     (case items w u of None \<Rightarrow> None
      | Some it \<Rightarrow>
          Option.bind (upd_item u (\<lambda>it. it\<lparr>is_problem := True\<rparr>) w) (\<lambda>w1.
          Option.bind (foldM (propagate_own e u (register_a_problem fuel e u))
                         (act_depend_of_me it) ((w1, impacts it), None)) (\<lambda>((w2, us), _).
          case items w2 u of None \<Rightarrow> None
          | Some it2 \<Rightarrow>
              if set us = set (impacts it2) then Some w2
              else Option.bind (upd_item u (\<lambda>it. it\<lparr>impacts := remdups us\<rparr>) w2) (\<lambda>w3.
                   Option.bind (update_business_impact_value e u w3)
                     (upd_item u (add_brok UpdateStatusBrok))))))"

end
