(* ===== verification/Launch.thy ===== *)
theory Launch
  imports Problem
begin

text \<open>
  Dependencies between items, the creation of checks, their scheduling and the freshness
  checks (\<open>alignak/objects/schedulingitem.py\<close>). \<open>None\<close> is an exception.
\<close>

section \<open>Dependencies for actions\<close>

text \<open>The loop over \<open>act_depend_of\<close>, with the answer built so far.\<close>

fun action_dependent_loop :: "world \<Rightarrow> dependency list \<Rightarrow> bool \<Rightarrow> bool option" where
  "action_dependent_loop w [] enable_action = Some enable_action"
| "action_dependent_loop w ((dep_id, status, _, _) # deps) enable_action =
     (if ''n'' \<in> set status then action_dependent_loop w deps True
      else (case items w dep_id of None \<Rightarrow> None
            | Some dep \<Rightarrow> action_dependent_loop w deps
                (if \<exists>st \<in> set status. is_state st dep then enable_action else True)))"

definition is_enable_action_dependent :: "world \<Rightarrow> item \<Rightarrow> bool option" where
  "is_enable_action_dependent w it = action_dependent_loop w (act_depend_of it) False"

definition bad_state :: "state \<Rightarrow> bool" where
  "bad_state s \<longleftrightarrow> s = DOWN \<or> s = CRITICAL \<or> s = UNKNOWN \<or> s = UNREACHABLE"

fun all_parents_down :: "world \<Rightarrow> dependency list \<Rightarrow> bool option" where
  "all_parents_down w [] = Some True"
| "all_parents_down w ((dep_id, _, _, _) # deps) =
     (case items w dep_id of None \<Rightarrow> None
      | Some dep \<Rightarrow> map_option (\<lambda>b. bad_state (state dep) \<and> b) (all_parents_down w deps))"

definition check_and_set_unreachability :: "uuid \<Rightarrow> world \<Rightarrow> world option" where
  "check_and_set_unreachability u w =
     (case items w u of None \<Rightarrow> None
      | Some it \<Rightarrow>
          (case all_parents_down w (act_depend_of it) of None \<Rightarrow> None
           | Some down \<Rightarrow> if down then upd_item u (set_unreachable (now w)) w else Some w))"

section \<open>Dependencies for checks\<close>

text \<open>
  \<open>do_i_raise_dependency\<close> climbs the check dependencies; the fuel is the depth of the climb
  (the dependencies loaded have no cycle: \<open>no_loop_in_parents\<close>).
\<close>

fun do_i_raise_dependency ::
  "nat \<Rightarrow> env \<Rightarrow> world \<Rightarrow> uuid \<Rightarrow> string list \<Rightarrow> bool \<Rightarrow> bool option"
and any_dependency_raises ::
  "nat \<Rightarrow> env \<Rightarrow> world \<Rightarrow> dependency list \<Rightarrow> bool option" where
  "do_i_raise_dependency 0 e w u status inherit_parents = None"
| "do_i_raise_dependency (Suc fuel) e w u status inherit_parents =
     (case items w u of None \<Rightarrow> None
      | Some it \<Rightarrow>
          if \<exists>st \<in> set status. is_state st it then Some True
          else if \<not> inherit_parents then Some False
          else any_dependency_raises fuel e w (chk_depend_of it))"
| "any_dependency_raises fuel e w [] = Some False"
| "any_dependency_raises fuel e w ((dep_id, dep_status, period, inh_parent) # deps) =
     (case do_i_raise_dependency fuel e w dep_id dep_status inh_parent of None \<Rightarrow> None
      | Some raises \<Rightarrow>
          if raises \<and> period_valid e period (now w) then Some True
          else any_dependency_raises fuel e w deps)"

fun no_check_loop :: "nat \<Rightarrow> env \<Rightarrow> world \<Rightarrow> dependency list \<Rightarrow> bool option" where
  "no_check_loop fuel e w [] = Some False"
| "no_check_loop fuel e w ((dep_id, status, period, inh_parent) # deps) =
     (if period_valid e period (now w)
      then (case do_i_raise_dependency fuel e w dep_id status inh_parent of None \<Rightarrow> None
            | Some raises \<Rightarrow> if raises then Some True else no_check_loop fuel e w deps)
      else no_check_loop fuel e w deps)"

definition is_no_check_dependent :: "nat \<Rightarrow> env \<Rightarrow> world \<Rightarrow> item \<Rightarrow> bool option" where
  "is_no_check_dependent fuel e w it = no_check_loop fuel e w (chk_depend_of it)"

section \<open>Launching a check\<close>

text \<open>\<open>Check.__init__\<close> makes a check internal when its command starts with an underscore.\<close>

definition new_check :: "int \<Rightarrow> uuid \<Rightarrow> string \<Rightarrow> int \<Rightarrow> bool \<Rightarrow> check" where
  "new_check t ref command timestamp internal =
     \<lparr>c_status = SCHEDULED, c_exit_status = 3, c_output = [], c_long_output = [],
      c_perf_data = [], c_t_to_go = timestamp, c_check_time = 0, c_execution_time = 0,
      c_u_time = 0, c_s_time = 0, c_depend_on = [], c_depend_on_me = [],
      c_passive_check = False, c_freshness_expiry_check = False, c_dependency_check = False,
      c_internal = (internal \<or> startswith command ''_''), c_ref = ref, c_command = command,
      c_timeout = 10, c_poller_tag = ''None'', c_module_type = ''fork'', c_env = [],
      c_last_poll = 0, c_my_worker = ''none'',
      c_creation_time = t, c_is_orphan = False\<rparr>"

text \<open>
  A dependency check while a check of the item is in progress: a copy, launched once, that
  the item does not count among its checks in progress.
\<close>

definition dependency_copy :: "int \<Rightarrow> item \<Rightarrow> uuid \<Rightarrow> int \<Rightarrow> uuid \<Rightarrow> check \<Rightarrow> check" where
  "dependency_copy t it u timestamp ref_check c =
     (new_check t u (c_command c) timestamp
        (got_business_rule it \<or> startswith (c_command c) ''_''))
     \<lparr>c_timeout := c_timeout c, c_poller_tag := c_poller_tag c, c_env := c_env c,
      c_module_type := c_module_type c, c_depend_on_me := [ref_check],
      c_dependency_check := True\<rparr>"

text \<open>The first check modulation in its period replaces the command.\<close>

fun modulated_command ::
  "env \<Rightarrow> int \<Rightarrow> uuid list \<Rightarrow> command_call \<Rightarrow> command_call option" where
  "modulated_command e t [] c = Some c"
| "modulated_command e t (m # ms) c =
     (case check_modulations e m of None \<Rightarrow> None
      | Some km \<Rightarrow>
          if period_valid e (km_check_period km) t
          then (case km_check_command km of None \<Rightarrow> modulated_command e t ms c
                | Some c' \<Rightarrow> Some c')
          else modulated_command e t ms c)"

text \<open>
  The check of an item with a check command, and of a passively checked host without one
  (its module type is \<open>None\<close>, here the empty string).
  Without a command the macro resolver is not set when the class asks for the environment
  macros: \<open>UnboundLocalError\<close>.
\<close>

definition build_check ::
  "env \<Rightarrow> world \<Rightarrow> item \<Rightarrow> uuid \<Rightarrow> int \<Rightarrow> uuid option \<Rightarrow> (check \<times> string option) option" where
  "build_check e w it u timestamp ref_check =
     (let cl = cls_of w it
      in case check_command it of
           None \<Rightarrow>
             if enable_environment_macros cl then None
             else Some ((new_check (now w) u [] timestamp (got_business_rule it))
                    \<lparr>c_timeout := check_timeout cl, c_module_type := [],
                      c_depend_on_me := (case ref_check of None \<Rightarrow> []
                       | Some r \<Rightarrow> [r])\<rparr>, None)
         | Some c0 \<Rightarrow>
             (case modulated_command e timestamp (checkmodulations it) c0 of None \<Rightarrow> None
              | Some c \<Rightarrow>
                let line = resolve_command e c it w
                in Some ((new_check (now w) u line timestamp (got_business_rule it))
                     \<lparr>c_timeout := (if cc_timeout c \<noteq> -1 then cc_timeout c else check_timeout cl),
                      c_poller_tag := cc_poller_tag c0, c_module_type := cc_module_type c0,
                      c_env := (if enable_environment_macros cl \<or> cc_environment_macros c
                                then env_macros e it w else []),
                      c_depend_on_me := (case ref_check of None \<Rightarrow> [] | Some r \<Rightarrow> [r])\<rparr>,
                     Some line)))"

definition push_check :: "uuid \<Rightarrow> check \<Rightarrow> (uuid \<Rightarrow> item \<Rightarrow> item) \<Rightarrow> world \<Rightarrow> (world \<times> uuid) option" where
  "push_check u c f w =
     (let cid = next_uuid w
      in map_option (\<lambda>w'. (w', cid))
           (upd_item u (\<lambda>it. let it1 = f cid it in it1\<lparr>actions := actions it1 @ [CheckRef cid]\<rparr>)
              (w\<lparr>checks := (checks w)(cid \<mapsto> c), next_uuid := cid + 1\<rparr>)))"

definition launch_new ::
  "nat \<Rightarrow> env \<Rightarrow> uuid \<Rightarrow> int \<Rightarrow> uuid option \<Rightarrow> bool \<Rightarrow> bool \<Rightarrow> world \<Rightarrow> (world \<times> uuid option) option"
where
  "launch_new fuel e u timestamp ref_check force for_dep w =
     (case items w u of None \<Rightarrow> None
      | Some it \<Rightarrow>
     (case (if force then Some False else is_no_check_dependent fuel e w it) of None \<Rightarrow> None
      | Some blocked \<Rightarrow>
          if blocked then map_option (\<lambda>w'. (w', None)) (upd_item u update_in_checking w)
          else if check_command it = None \<and> (my_type it = Service \<or> active_checks_enabled it)
          then Some (w, None)
          else if for_dep \<and> my_type it = Host \<and> passive_checks_enabled it
                  \<and> \<not> active_checks_enabled it
          then Some (w, None)
          else (case build_check e w (it\<lparr>last_check_command := None\<rparr>) u timestamp ref_check of
                  None \<Rightarrow> None
                | Some (c, line) \<Rightarrow>
                    map_option (\<lambda>(w', cid). (w', Some cid))
                      (push_check u c (\<lambda>cid it. update_in_checking
                         (it\<lparr>last_check_command := line,
                             checks_in_progress := checks_in_progress it @ [cid]\<rparr>)) w))))"

text \<open>
  \<open>launch_check\<close>: a forced check moves the one in progress, if its object is still known, to
  now; a dependency check of an item in checking is a copy; else a new check.
\<close>

definition launch_check ::
  "nat \<Rightarrow> env \<Rightarrow> uuid \<Rightarrow> int \<Rightarrow> uuid option \<Rightarrow> bool \<Rightarrow> bool \<Rightarrow> world \<Rightarrow> (world \<times> uuid option) option"
where
  "launch_check fuel e u timestamp ref_check force for_dep w0 =
     (case upd_item u update_in_checking w0 of None \<Rightarrow> None
      | Some w \<Rightarrow>
     (case items w u of None \<Rightarrow> None
      | Some it \<Rightarrow>
        let in_progress = (case checks_in_progress it of [] \<Rightarrow> None | c # _ \<Rightarrow> Some c)
        in (case (if force then Option.bind in_progress (known_check w) else None) of
              Some c \<Rightarrow> map_option (\<lambda>w'. (w', in_progress))
                (upd_check (hd (checks_in_progress it)) (\<lambda>c. c\<lparr>c_t_to_go := now w\<rparr>) w)
            | None \<Rightarrow>
              (case (if \<not> force \<and> in_checking it then ref_check else None) of
                 Some r \<Rightarrow>
                   (case Option.bind in_progress (known_check w) of None \<Rightarrow> None
                    | Some c \<Rightarrow> map_option (\<lambda>(w', cid). (w', Some cid))
                        (push_check u (dependency_copy (now w) it u timestamp r c) (\<lambda>_ it. it) w))
               | None \<Rightarrow> launch_new fuel e u timestamp ref_check force for_dep w))))"

section \<open>Checks of the dependencies\<close>

definition raise_dependency_step ::
  "nat \<Rightarrow> env \<Rightarrow> cls \<Rightarrow> uuid \<Rightarrow> dependency \<Rightarrow> world \<times> uuid list \<times> uuid list \<Rightarrow>
   (world \<times> uuid list \<times> uuid list) option" where
  "raise_dependency_step fuel e cl ref_check dep s =
     (case dep of (dep_id, _, period, _) \<Rightarrow>
      case s of (w, new, checking) \<Rightarrow>
     (case items w dep_id of None \<Rightarrow> None
      | Some d \<Rightarrow>
          if period_valid e period (now w)
             \<and> last_state_update_time d < now w - cached_check_horizon cl
             \<and> active_checks_enabled d
          then if \<not> in_checking d
               then map_option (\<lambda>(w', c). (w', (case c of None \<Rightarrow> new | Some cid \<Rightarrow> new @ [cid]), checking))
                      (launch_check fuel e dep_id (now w) (Some ref_check) False True w)
               else (case checks_in_progress d of [] \<Rightarrow> Some (w, new, checking)
                     | cid # _ \<Rightarrow> map_option (\<lambda>w'. (w', new, checking @ [cid]))
                         (upd_known_check cid (\<lambda>c. c\<lparr>c_depend_on_me := c_depend_on_me c @ [ref_check]\<rparr>) w))
          else Some (w, new, checking)))"

definition raise_dependencies_check ::
  "nat \<Rightarrow> env \<Rightarrow> uuid \<Rightarrow> uuid \<Rightarrow> world \<Rightarrow> (world \<times> uuid list \<times> uuid list) option" where
  "raise_dependencies_check fuel e u ref_check w =
     (case items w u of None \<Rightarrow> None
      | Some it \<Rightarrow> foldM (raise_dependency_step fuel e (cls_of w it) ref_check)
                     (act_depend_of it) (w, [], []))"

section \<open>Scheduling\<close>

definition py_int_of :: "rat \<Rightarrow> int" where
  "py_int_of x = (if x < 0 then - \<lfloor>- x\<rfloor> else \<lfloor>x\<rfloor>)"

text \<open>
  \<open>rnd1\<close> and \<open>rnd2\<close> are the results of the two calls \<open>random.uniform(0.0, 1.0)\<close>. The time
  period gives the next valid time from the integer part of its argument. Comparing
  \<open>None\<close>, a period's answer when it has no valid time any more, with a number raises
  \<open>TypeError\<close> (Python 3).
\<close>

definition check_seconds :: "cls \<Rightarrow> item \<Rightarrow> rat" where
  "check_seconds cl it =
     (if state_type it = HARD \<or> retry_interval it = 0
      then fl (check_interval it * of_int (interval_length cl))
      else fl (retry_interval it * of_int (interval_length cl)))"

definition next_time :: "env \<Rightarrow> uuid option \<Rightarrow> rat \<Rightarrow> int option" where
  "next_time e period t =
     (case period of None \<Rightarrow> Some (py_int_of t) | Some p \<Rightarrow> tp_next e p (py_int_of t))"

definition next_check_time ::
  "env \<Rightarrow> cls \<Rightarrow> rat \<Rightarrow> rat \<Rightarrow> int \<Rightarrow> item \<Rightarrow> int option option" where
  "next_check_time e cl rnd1 rnd2 t it =
     (let spread = of_int (max_check_spread cl * interval_length cl);
          interval = (if next_chk it = Some 0 then min (check_seconds cl it) spread
                      else check_seconds cl it);
          time_add = (if next_chk it = Some 0 then fl (interval * rnd1) else interval);
          base = (case next_chk it of None \<Rightarrow> t | Some n \<Rightarrow> if n = 0 then t else n);
          first = (if base \<le> t then next_time e (check_period it) (fl (of_int base + time_add))
                   else Some base)
      in case first of None \<Rightarrow> None
         | Some n \<Rightarrow>
             Some (if n < t
                   then next_time e (check_period it) (fl (of_int t + fl (min interval spread * rnd2)))
                   else Some n))"

text \<open>An interval of 0 is 5 minutes for a host, and no check at all for a service.\<close>

definition default_interval :: "cls \<Rightarrow> bool \<Rightarrow> item \<Rightarrow> item option" where
  "default_interval cl force it =
     (if check_interval it = 0 \<and> \<not> force
      then (if interval_length cl = 0 then None
            else Some (it\<lparr>check_interval := fl (300 / of_int (interval_length cl))\<rparr>))
      else Some it)"

definition schedule ::
  "nat \<Rightarrow> env \<Rightarrow> rat \<Rightarrow> rat \<Rightarrow> uuid \<Rightarrow> bool \<Rightarrow> int option \<Rightarrow> world \<Rightarrow> (world \<times> uuid option) option"
where
  "schedule fuel e rnd1 rnd2 u force force_time w =
     (case items w u of None \<Rightarrow> None
      | Some it0 \<Rightarrow>
        let cl = cls_of w it0; forced_time = (case force_time of None \<Rightarrow> False | Some t \<Rightarrow> t \<noteq> 0)
        in if in_checking it0 \<and> \<not> (force \<or> forced_time) then Some (w, None)
           else if (\<not> active_checks_enabled it0 \<or> \<not> execute_checks cl) \<and> \<not> force
           then Some (w, None)
           else if check_interval it0 = 0 \<and> \<not> force \<and> my_type it0 = Service then Some (w, None)
           else
             (case default_interval cl force it0 of None \<Rightarrow> None
              | Some it \<Rightarrow>
             (case (case force_time of Some t \<Rightarrow> Some (Some t)
                    | None \<Rightarrow> next_check_time e cl rnd1 rnd2 (now w) it) of None \<Rightarrow> None
              | Some nxt \<Rightarrow>
                let w1 = w\<lparr>items := (items w)(u \<mapsto> it\<lparr>next_chk := nxt\<rparr>)\<rparr>
                in (case nxt of None \<Rightarrow> Some (w1, None)
                    | Some t \<Rightarrow> launch_check fuel e u t None force False w1))))"

section \<open>Freshness\<close>

definition freshness_exit_status :: "item_type \<Rightarrow> string \<Rightarrow> int" where
  "freshness_exit_status ty s =
     (if ty = Host
      then (if s = ''o'' then 0 else if s = ''d'' then 2
            else if s = ''u'' \<or> s = ''x'' then 4 else 3)
      else (if s = ''o'' then 0 else if s = ''w'' then 1 else if s = ''c'' then 2
            else if s = ''u'' then 3 else if s = ''x'' then 4 else 3))"

text \<open>
  The output of a freshness check is its date in UTC, formatted by \<open>freshness_text\<close>
  (\<open>datetime.strftime\<close>).
\<close>

definition do_check_freshness ::
  "nat \<Rightarrow> env \<Rightarrow> (int \<Rightarrow> string) \<Rightarrow> uuid \<Rightarrow> int \<Rightarrow> world \<Rightarrow> (world \<times> uuid option) option" where
  "do_check_freshness fuel e freshness_text u when w =
     (case items w u of None \<Rightarrow> None
      | Some it0 \<Rightarrow>
        let cl = cls_of w it0
        in if in_checking it0 \<or> freshness_threshold it0 = 0 \<or> freshness_expired it0
           then Some (w, None)
           else
             let it = (if last_state_update_time it0 = 0
                       then it0\<lparr>last_state_update_time := when\<rparr> else it0);
                 w1 = w\<lparr>items := (items w)(u \<mapsto> it)\<rparr>
             in if last_state_update_time it
                   < when - (freshness_threshold it + additional_freshness_latency cl)
                   \<and> period_valid e (check_period it) when
                then (case launch_check fuel e u when None False False w1 of None \<Rightarrow> None
                      | Some (w2, None) \<Rightarrow> Some (w2, None)
                      | Some (w2, Some cid) \<Rightarrow>
                          map_option (\<lambda>w3. (w3, Some cid))
                            (upd_check cid (\<lambda>c. c\<lparr>c_freshness_expiry_check := True,
                               c_check_time := now w, c_output := freshness_text (now w),
                               c_exit_status := freshness_exit_status (my_type it)
                                 (freshness_state it)\<rparr>) w2))
                else Some (w1, None))"

end
