(* ===== verification/Consume.thy ===== *)
theory Consume
  imports Contacts Launch
begin

text \<open>
  \<open>SchedulingItem.consume_result\<close> (\<open>alignak/objects/schedulingitem.py\<close>): what a host or a
  service does with the result of a check. The method is cut where its comments cut it.
\<close>

section \<open>Stalking\<close>

text \<open>
  The strings of the statuses. \<open>manage_stalking\<close> compares with \<open>'waitconsume'\<close>; its only
  effect is a message to the daemon's log, here the Boolean that decides it.
\<close>

fun status_string :: "act_status \<Rightarrow> string" where
  "status_string SCHEDULED = ''scheduled''"
| "status_string LAUNCHED = ''launched''"
| "status_string POLLED = ''in_poller''"
| "status_string QUEUED = ''queued''"
| "status_string WAIT_DEPEND = ''wait_dependent''"
| "status_string WAITING_ME = ''wait_me''"
| "status_string TIMEOUT = ''timeout''"
| "status_string DONE = ''done''"
| "status_string ZOMBIE = ''zombie''"
| "status_string WAIT_CONSUME = ''wait_consume''"

definition host_manage_stalking :: "check \<Rightarrow> item \<Rightarrow> bool" where
  "host_manage_stalking c it \<longleftrightarrow>
     status_string (c_status c) = ''waitconsume''
     \<and> (c_exit_status c = 0 \<and> ''o'' \<in> set (stalking_options it)
        \<or> c_exit_status c = 1 \<and> ''d'' \<in> set (stalking_options it)
        \<or> c_exit_status c = 2 \<and> ''d'' \<in> set (stalking_options it))
     \<and> c_output c = plugin_output it"

definition service_manage_stalking :: "check \<Rightarrow> item \<Rightarrow> bool" where
  "service_manage_stalking c it \<longleftrightarrow>
     status_string (c_status c) = ''waitconsume''
     \<and> (c_exit_status c = 0 \<and> ''o'' \<in> set (stalking_options it)
        \<or> c_exit_status c = 1 \<and> ''w'' \<in> set (stalking_options it)
        \<or> c_exit_status c = 2 \<and> ''check'' \<in> set (stalking_options it)
        \<or> c_exit_status c = 3 \<and> ''u'' \<in> set (stalking_options it))
     \<and> c_output c \<noteq> plugin_output it"

section \<open>Reading the check\<close>

text \<open>A bad result that depends on other items waits for their checks.\<close>

definition waits_for_dependencies :: "check \<Rightarrow> item \<Rightarrow> bool" where
  "waits_for_dependencies c it \<longleftrightarrow>
     c_exit_status c \<noteq> 0 \<and> c_status c = WAIT_CONSUME \<and> act_depend_of it \<noteq> []"

definition wait_for_dependencies ::
  "nat \<Rightarrow> env \<Rightarrow> uuid \<Rightarrow> uuid \<Rightarrow> world \<Rightarrow> (world \<times> uuid list) option" where
  "wait_for_dependencies fuel e u cid w =
     Option.bind (upd_check cid (\<lambda>c. c\<lparr>c_status := WAIT_DEPEND\<rparr>) w) (\<lambda>w1.
     Option.bind (raise_dependencies_check fuel e u cid w1) (\<lambda>(w2, new, checking).
     map_option (\<lambda>w3. (w3, new))
       (upd_check cid (\<lambda>c. c\<lparr>c_depend_on := c_depend_on c @ new @ checking\<rparr>) w2)))"

definition read_check :: "cls \<Rightarrow> check \<Rightarrow> item \<Rightarrow> item" where
  "read_check cl c it =
     (let it1 = it\<lparr>latency := max 0 (c_check_time c - c_t_to_go c), has_been_checked := 1,
                   execution_time := c_execution_time c, u_time := c_u_time c, s_time := c_s_time c,
                   last_chk := c_check_time c, plugin_output := c_output c,
                   long_output := c_long_output c\<rparr>
      in if process_performance_data cl \<and> process_perf_data it1
         then it1\<lparr>last_perf_data := perf_data it1, perf_data := c_perf_data c\<rparr> else it1)"

definition module_return :: "env \<Rightarrow> int \<Rightarrow> result_modulation \<Rightarrow> int \<Rightarrow> int" where
  "module_return e t rm code =
     (if period_valid e (rm_period rm) t
      then (case rm_exit_code_modulation rm of None \<Rightarrow> code
            | Some m \<Rightarrow> if code \<in> set (rm_exit_codes_match rm) then m else code)
      else code)"

definition modulate_exit :: "env \<Rightarrow> int \<Rightarrow> uuid list \<Rightarrow> int \<Rightarrow> int option" where
  "modulate_exit e t mods status =
     foldM (\<lambda>m s. map_option (\<lambda>rm. module_return e t rm s) (result_modulations e m)) mods status"

text \<open>The exit status the state is computed from: modulated, and 2 for a host's 1.\<close>

definition effective_exit :: "env \<Rightarrow> int \<Rightarrow> check \<Rightarrow> item \<Rightarrow> int option" where
  "effective_exit e t c it =
     map_option (\<lambda>s. if \<not> c_freshness_expiry_check c \<and> s = 1 \<and> my_type it = Host then 2 else s)
       (modulate_exit e t (resultmodulations it) (c_exit_status c))"

text \<open>From the state change to the removal of the check from those in progress.\<close>

definition take_result ::
  "env \<Rightarrow> uuid \<Rightarrow> uuid \<Rightarrow> uuid option \<Rightarrow> bool \<Rightarrow> world \<Rightarrow> (world \<times> int) option" where
  "take_result e u cid period raise_log w =
     (case (items w u, checks w cid) of
        (Some it0, Some c) \<Rightarrow>
          (case effective_exit e (now w) c it0 of None \<Rightarrow> None
           | Some status \<Rightarrow>
             let cl = cls_of w it0;
                 it1 = read_check cl c it0;
                 it2 = (if c_freshness_expiry_check c then it1
                        else it1\<lparr>last_state_update_time := now w\<rparr>);
                 w1 = w\<lparr>items := (items w)(u \<mapsto> it2),
                        checks := (checks w)(cid \<mapsto> c\<lparr>c_exit_status := status\<rparr>)\<rparr>
             in Option.bind (set_state_from_exit_status e u status period w1) (\<lambda>w2.
                map_option (\<lambda>w3. (w3, status))
                  (upd_item u (\<lambda>it.
                     let it3 = it\<lparr>last_state_type := state_type it, return_code := status\<rparr>;
                         it4 = (if raise_log then raise_check_result cl it3 else it3)
                     in remove_in_progress_check cid (it4\<lparr>state_changed_since_impact := True\<rparr>)) w2)))
      | _ \<Rightarrow> None)"

text \<open>Dependencies decide whether actions are raised; the check is then waited for or done.\<close>

definition dependency_outcome :: "uuid \<Rightarrow> uuid \<Rightarrow> world \<Rightarrow> (world \<times> bool) option" where
  "dependency_outcome u cid w =
     (case (items w u, checks w cid) of
        (Some it, Some c) \<Rightarrow>
          Option.bind
            (if c_status c = WAIT_DEPEND
             then Option.bind (is_enable_action_dependent w it) (\<lambda>enable.
                  map_option (\<lambda>w'. (w', enable)) (check_and_set_unreachability u w))
             else Some (w, True)) (\<lambda>(w1, enable).
          if c_status c = WAIT_CONSUME \<or> c_status c = WAIT_DEPEND
          then map_option (\<lambda>w2. (w2, enable))
            (upd_check cid (\<lambda>c. c\<lparr>c_status := if c_depend_on_me c \<noteq> [] then WAITING_ME else ZOMBIE\<rparr>) w1)
          else Some (w1, enable))
      | _ \<Rightarrow> None)"

section \<open>The transitions\<close>

definition alert :: "uuid \<Rightarrow> world \<Rightarrow> world option" where
  "alert u w =
     (case items w u of None \<Rightarrow> None
      | Some it \<Rightarrow> upd_item u (raise_alert_log_entry (cls_of w it)) w)"

definition only_if :: "bool \<Rightarrow> (world \<Rightarrow> world option) \<Rightarrow> world \<Rightarrow> world option" where
  "only_if b f w = (if b then f w else Some w)"

definition ok_to_ok_item :: "item \<Rightarrow> item" where
  "ok_to_ok_item it =
     (if state_type it = SOFT \<and> last_state it \<noteq> PENDING
      then (if is_max_attempts it \<and> state_type it = SOFT
            then it\<lparr>state_type := HARD\<rparr> else it\<lparr>state_type := SOFT\<rparr>)
      else it\<lparr>attempt := 1, state_type := HARD\<rparr>)"

definition ok_to_ok :: "uuid \<Rightarrow> world \<Rightarrow> world option" where
  "ok_to_ok u w = Option.bind (unacknowledge_problem u w) (upd_item u ok_to_ok_item)"

definition bad_to_ok ::
  "env \<Rightarrow> uuid \<Rightarrow> uuid option \<Rightarrow> check \<Rightarrow> bool \<Rightarrow> world \<Rightarrow> world option" where
  "bad_to_ok e u period c enable w0 =
     Option.bind (unacknowledge_problem u w0) (\<lambda>w.
     case items w u of None \<Rightarrow> None
     | Some it \<Rightarrow>
         if state_type it = SOFT
         then Option.bind (upd_item u (if c_dependency_check c then (\<lambda>it. it) else add_attempt) w) (\<lambda>w1.
              Option.bind (alert u w1) (\<lambda>w2.
              Option.bind (get_event_handlers e u False w2)
                (upd_item u (\<lambda>it. it\<lparr>state_type := HARD, attempt := 1\<rparr>))))
         else Option.bind (alert u w) (\<lambda>w1.
              Option.bind (remove_in_progress_notifications u True w1) (\<lambda>w2.
              Option.bind (only_if enable (create_notifications e u RECOVERY period None None) w2) (\<lambda>w3.
              Option.bind (get_event_handlers e u False w3) (\<lambda>w4.
              Option.bind (upd_item u (\<lambda>it. it\<lparr>attempt := 1\<rparr>) w4)
                (no_more_a_problem e u))))))"

definition volatile_bad ::
  "nat \<Rightarrow> env \<Rightarrow> uuid \<Rightarrow> uuid option \<Rightarrow> bool \<Rightarrow> world \<Rightarrow> world option" where
  "volatile_bad fuel e u period enable w =
     Option.bind (upd_item u (\<lambda>it. it\<lparr>attempt := 1, state_type := HARD\<rparr>) w) (\<lambda>w1.
     Option.bind (alert u w1) (\<lambda>w2.
     Option.bind (check_for_flexible_downtime fuel e u w2) (\<lambda>w3.
     Option.bind (remove_in_progress_notifications u True w3) (\<lambda>w4.
     Option.bind (only_if enable (create_notifications e u PROBLEM period None None) w4) (\<lambda>w5.
     Option.bind (get_event_handlers e u False w5)
       (only_if enable (set_myself_as_problem fuel e u)))))))"

text \<open>Going to a hard problem state, from ok with one attempt or after the last soft attempt.\<close>

definition hard_problem ::
  "nat \<Rightarrow> env \<Rightarrow> uuid \<Rightarrow> uuid option \<Rightarrow> bool \<Rightarrow> world \<Rightarrow> world option" where
  "hard_problem fuel e u period enable w =
     Option.bind (upd_item u (\<lambda>it. it\<lparr>state_type := HARD\<rparr>) w) (\<lambda>w1.
     Option.bind (alert u w1) (\<lambda>w2.
     Option.bind (remove_in_progress_notifications u True w2) (\<lambda>w3.
     Option.bind (check_for_flexible_downtime fuel e u w3) (\<lambda>w4.
     Option.bind (only_if enable (create_notifications e u PROBLEM period None None) w4) (\<lambda>w5.
     Option.bind (get_event_handlers e u False w5)
       (only_if enable (set_myself_as_problem fuel e u)))))))"

definition ok_to_bad ::
  "nat \<Rightarrow> env \<Rightarrow> uuid \<Rightarrow> uuid option \<Rightarrow> bool \<Rightarrow> world \<Rightarrow> world option" where
  "ok_to_bad fuel e u period enable w0 =
     Option.bind (upd_item u (\<lambda>it. it\<lparr>attempt := 1\<rparr>) w0) (\<lambda>w.
     case items w u of None \<Rightarrow> None
     | Some it \<Rightarrow>
         if is_max_attempts it then hard_problem fuel e u period enable w
         else Option.bind (upd_item u (\<lambda>it. it\<lparr>state_type := if is_max_attempts it then HARD else SOFT\<rparr>) w)
                (\<lambda>w1. Option.bind (alert u w1) (get_event_handlers e u False)))"

definition soft_bad_to_bad ::
  "nat \<Rightarrow> env \<Rightarrow> uuid \<Rightarrow> uuid option \<Rightarrow> check \<Rightarrow> bool \<Rightarrow> world \<Rightarrow> world option" where
  "soft_bad_to_bad fuel e u period c enable w0 =
     Option.bind (upd_item u (if c_dependency_check c then (\<lambda>it. it) else add_attempt) w0) (\<lambda>w1.
     case items w1 u of None \<Rightarrow> None
     | Some it \<Rightarrow>
         Option.bind (only_if (state it \<noteq> last_state it) (unacknowledge_problem_if_not_sticky u) w1) (\<lambda>w2.
         if is_max_attempts it then hard_problem fuel e u period enable w2
         else Option.bind (alert u w2) (get_event_handlers e u False)))"

definition renotify :: "env \<Rightarrow> uuid \<Rightarrow> uuid option \<Rightarrow> bool \<Rightarrow> world \<Rightarrow> world option" where
  "renotify e u period enable w =
     Option.bind (remove_in_progress_notifications u True w)
       (only_if enable (create_notifications e u PROBLEM period None None))"

definition hard_bad_change ::
  "env \<Rightarrow> uuid \<Rightarrow> uuid option \<Rightarrow> bool \<Rightarrow> world \<Rightarrow> world option" where
  "hard_bad_change e u period enable w0 =
     Option.bind (upd_item u update_hard_unknown_phase_state w0) (\<lambda>w.
     case items w u of None \<Rightarrow> None
     | Some it \<Rightarrow>
         if \<not> in_hard_unknown_reach_phase it \<and> \<not> was_in_hard_unknown_reach_phase it
         then Option.bind (unacknowledge_problem_if_not_sticky u w) (\<lambda>w1.
              Option.bind (alert u w1) (\<lambda>w2.
              Option.bind (renotify e u period enable w2) (get_event_handlers e u False)))
         else Some w)"

definition hard_bad_to_bad ::
  "nat \<Rightarrow> env \<Rightarrow> uuid \<Rightarrow> uuid option \<Rightarrow> bool \<Rightarrow> world \<Rightarrow> world option" where
  "hard_bad_to_bad fuel e u period enable w =
     (case items w u of None \<Rightarrow> None
      | Some it \<Rightarrow>
          Option.bind
            (if state it \<noteq> last_state it then hard_bad_change e u period enable w
             else if in_scheduled_downtime_during_last_check it then renotify e u period enable w
             else Some w) (\<lambda>w1.
          Option.bind (only_if enable (set_myself_as_problem fuel e u) w1) (\<lambda>w2.
          case items w2 u of None \<Rightarrow> None
          | Some it2 \<Rightarrow>
              only_if (enable \<and> notifications_enabled it2 \<and> current_notification_number it2 = 0)
                (renotify e u period True) w2)))"

text \<open>The choice of the transition.\<close>

definition transition ::
  "nat \<Rightarrow> env \<Rightarrow> uuid \<Rightarrow> uuid option \<Rightarrow> check \<Rightarrow> int \<Rightarrow> bool \<Rightarrow> world \<Rightarrow> world option" where
  "transition fuel e u period c status enable w =
     (case items w u of None \<Rightarrow> None
      | Some it \<Rightarrow>
          if status = 0 \<and> (last_state it = ok_up it \<or> last_state it = PENDING) then ok_to_ok u w
          else if status = 0 then bad_to_ok e u period c enable w
          else if my_type it = Service \<and> is_volatile it then volatile_bad fuel e u period enable w
          else if last_state it = ok_up it \<or> last_state it = PENDING
          then ok_to_bad fuel e u period enable w
          else if state_type it = SOFT then soft_bad_to_bad fuel e u period c enable w
          else hard_bad_to_bad fuel e u period enable w)"

section \<open>The end of the method\<close>

definition close_states :: "int \<Rightarrow> bool \<Rightarrow> item \<Rightarrow> item" where
  "close_states t freshness it0 =
     (let it = (update_hard_unknown_phase_state it0)\<lparr>in_scheduled_downtime_during_last_check := False\<rparr>;
          it1 = (if state_type it = HARD
                 then it\<lparr>state_type_id := 1, last_hard_state := state it,
                         last_hard_state_id := state_id it\<rparr>
                 else it\<lparr>state_type_id := 0\<rparr>);
          it2 = (if state_type it1 = HARD
                    \<and> (last_state_type it1 = SOFT \<or> last_state it1 \<noteq> state it1)
                 then it1\<lparr>last_hard_state_change := t\<rparr> else it1)
      in if state_type it2 = HARD \<and> freshness
         then it2\<lparr>freshness_expired := True, last_hard_state_change := t\<rparr> else it2)"

definition close_result :: "env \<Rightarrow> uuid \<Rightarrow> bool \<Rightarrow> world \<Rightarrow> world option" where
  "close_result e u freshness w =
     (case items w u of None \<Rightarrow> None
      | Some it \<Rightarrow>
         (case update_event_and_problem_id (last_event w, last_problem w)
                 (close_states (now w) freshness it) of
            ((ev, pb), it1) \<Rightarrow>
              Option.bind (get_perfdata_command e u
                (w\<lparr>items := (items w)(u \<mapsto> add_brok CheckResultBrok it1),
                   last_event := ev, last_problem := pb\<rparr>)) (get_snapshot e u)))"

definition consume_result ::
  "nat \<Rightarrow> env \<Rightarrow> uuid \<Rightarrow> uuid \<Rightarrow> uuid option \<Rightarrow> bool \<Rightarrow> world \<Rightarrow> (world \<times> uuid list) option" where
  "consume_result fuel e u cid period raise_log w =
     (case (items w u, checks w cid) of
        (Some it0, Some c) \<Rightarrow>
          let it = (if c_freshness_expiry_check c then it0 else it0\<lparr>freshness_expired := False\<rparr>);
              w1 = w\<lparr>items := (items w)(u \<mapsto> it)\<rparr>
          in if waits_for_dependencies c it then wait_for_dependencies fuel e u cid w1
             else Option.bind (take_result e u cid period raise_log w1) (\<lambda>(w2, status).
                  Option.bind (dependency_outcome u cid w2) (\<lambda>(w3, enable).
                  Option.bind (transition fuel e u period c status enable w3) (\<lambda>w4.
                  map_option (\<lambda>w5. (w5, []))
                    (close_result e u (c_freshness_expiry_check c) w4))))
      | _ \<Rightarrow> None)"

end
