(* ===== verification/Frames.thy ===== *)
theory Frames
  imports Consume
begin

text \<open>
  What the side effects of a state change leave alone. \<open>sm\<close> forgets the fields of an item that
  notifications, event handlers, acknowledgements, downtimes and the problem/impact
  registration write; \<open>wcore\<close> forgets them in the whole world, with the stores of the
  objects these operations create. An operation keeps the rest when it keeps \<open>wcore\<close>.
\<close>

section \<open>The protected part\<close>

definition sm :: "item \<Rightarrow> item" where
  "sm it = it\<lparr>broks := [], actions := [], notifications_in_progress := [],
     current_notification_number := 0, scheduled_downtime_depth := 0,
     in_scheduled_downtime := False, problem_has_been_acknowledged := False,
     acknowledgement := None, comments := [], is_problem := False, is_impact := False,
     impacts := [], source_problems := [], business_impact := 0, my_own_business_impact := 0,
     state := PENDING, state_id := 0, last_time_unreachable := 0, state_before_impact := PENDING,
     state_id_before_impact := 0, state_changed_since_impact := False, last_snapshot := 0,
     is_flapping := False, percent_state_change := 0, in_hard_unknown_reach_phase := False,
     was_in_hard_unknown_reach_phase := False,
     state_before_hard_unknown_reach_phase := PENDING\<rparr>"

definition wcore :: "world \<Rightarrow> world" where
  "wcore w = w\<lparr>items := (\<lambda>u. map_option sm (items w u)), notifs := (\<lambda>_. None),
     events := (\<lambda>_. None), downtime_store := (\<lambda>_. None), next_uuid := 0\<rparr>"

lemma wcore_upd_item:
  assumes "items w u = Some it" and "sm it' = sm it"
  shows "wcore (w\<lparr>items := (items w)(u \<mapsto> it')\<rparr>) = wcore w"
  using assms by (auto simp: wcore_def fun_eq_iff)

lemma wcore_stores [simp]:
  "wcore (w\<lparr>notifs := x\<rparr>) = wcore w" "wcore (w\<lparr>events := y\<rparr>) = wcore w"
  "wcore (w\<lparr>downtime_store := z\<rparr>) = wcore w" "wcore (w\<lparr>next_uuid := n\<rparr>) = wcore w"
  by (simp_all add: wcore_def)

lemma wcoreD:
  assumes "wcore w' = wcore w"
  shows "now w' = now w" "checks w' = checks w" "host_cls w' = host_cls w"
    "service_cls w' = service_cls w" "host_ids w' = host_ids w" "service_ids w' = service_ids w"
    "last_event w' = last_event w" "last_problem w' = last_problem w"
    "map_option sm (items w' u) = map_option sm (items w u)" "sched_checks w' = sched_checks w"
proof -
  have "\<And>f. f (wcore w') = f (wcore w)" using assms by simp
  from this [of now] this [of checks] this [of host_cls] this [of service_cls] this [of host_ids]
    this [of service_ids] this [of last_event] this [of last_problem] this [of "\<lambda>w. items w u"]
    this [of sched_checks]
  show "now w' = now w" "checks w' = checks w" "host_cls w' = host_cls w"
    "service_cls w' = service_cls w" "host_ids w' = host_ids w" "service_ids w' = service_ids w"
    "last_event w' = last_event w" "last_problem w' = last_problem w"
    "map_option sm (items w' u) = map_option sm (items w u)" "sched_checks w' = sched_checks w"
    by (simp_all add: wcore_def)
qed

text \<open>The fields of the state machine can be read off \<open>sm\<close>.\<close>

lemma smD:
  assumes "sm it' = sm it"
  shows "attempt it' = attempt it" "max_check_attempts it' = max_check_attempts it"
    "state_type it' = state_type it" "state_type_id it' = state_type_id it"
    "last_state it' = last_state it" "last_state_type it' = last_state_type it"
    "last_hard_state it' = last_hard_state it" "last_hard_state_id it' = last_hard_state_id it"
    "my_type it' = my_type it" "is_volatile it' = is_volatile it"
    "act_depend_of it' = act_depend_of it" "act_depend_of_me it' = act_depend_of_me it"
    "checks_in_progress it' = checks_in_progress it" "in_checking it' = in_checking it"
    "last_chk it' = last_chk it" "flapping_changes it' = flapping_changes it"
    "notification_period it' = notification_period it"
    "downtimes it' = downtimes it" "services_of it' = services_of it" "host it' = host it"
proof -
  have "\<And>f. f (sm it') = f (sm it)" using assms by simp
  note * = this
  show "attempt it' = attempt it" using * [of attempt] by (simp add: sm_def)
  show "max_check_attempts it' = max_check_attempts it"
    using * [of max_check_attempts] by (simp add: sm_def)
  show "state_type it' = state_type it" using * [of state_type] by (simp add: sm_def)
  show "state_type_id it' = state_type_id it" using * [of state_type_id] by (simp add: sm_def)
  show "last_state it' = last_state it" using * [of last_state] by (simp add: sm_def)
  show "last_state_type it' = last_state_type it" using * [of last_state_type] by (simp add: sm_def)
  show "last_hard_state it' = last_hard_state it" using * [of last_hard_state] by (simp add: sm_def)
  show "last_hard_state_id it' = last_hard_state_id it"
    using * [of last_hard_state_id] by (simp add: sm_def)
  show "my_type it' = my_type it" using * [of my_type] by (simp add: sm_def)
  show "is_volatile it' = is_volatile it" using * [of is_volatile] by (simp add: sm_def)
  show "act_depend_of it' = act_depend_of it" using * [of act_depend_of] by (simp add: sm_def)
  show "act_depend_of_me it' = act_depend_of_me it"
    using * [of act_depend_of_me] by (simp add: sm_def)
  show "checks_in_progress it' = checks_in_progress it"
    using * [of checks_in_progress] by (simp add: sm_def)
  show "in_checking it' = in_checking it" using * [of in_checking] by (simp add: sm_def)
  show "last_chk it' = last_chk it" using * [of last_chk] by (simp add: sm_def)
  show "flapping_changes it' = flapping_changes it" using * [of flapping_changes] by (simp add: sm_def)
  show "notification_period it' = notification_period it"
    using * [of notification_period] by (simp add: sm_def)
  show "downtimes it' = downtimes it" using * [of downtimes] by (simp add: sm_def)
  show "services_of it' = services_of it" using * [of services_of] by (simp add: sm_def)
  show "host it' = host it" using * [of host] by (simp add: sm_def)
qed

text \<open>
  The finer observation of what notifications, log entries, event handlers and the flapping
  flag leave alone: the state, the acknowledgement, the downtimes, the problem fields too.
\<close>

definition nq :: "item \<Rightarrow> item" where
  "nq it = it\<lparr>broks := [], actions := [], notifications_in_progress := [],
     current_notification_number := 0, last_snapshot := 0, is_flapping := False,
     percent_state_change := 0\<rparr>"

definition ncore :: "world \<Rightarrow> world" where
  "ncore w = w\<lparr>items := (\<lambda>u. map_option nq (items w u)), notifs := (\<lambda>_. None),
     events := (\<lambda>_. None), next_uuid := 0\<rparr>"

lemma ncore_upd_item:
  assumes "items w u = Some it" and "nq it' = nq it"
  shows "ncore (w\<lparr>items := (items w)(u \<mapsto> it')\<rparr>) = ncore w"
  using assms by (auto simp: ncore_def fun_eq_iff)

lemma ncore_stores [simp]:
  "ncore (w\<lparr>notifs := x\<rparr>) = ncore w" "ncore (w\<lparr>events := y\<rparr>) = ncore w"
  "ncore (w\<lparr>next_uuid := n\<rparr>) = ncore w"
  by (simp_all add: ncore_def)

lemma ncoreD:
  assumes "ncore w' = ncore w" and "items w u = Some it"
  shows "\<exists>it'. items w' u = Some it' \<and> nq it' = nq it"
proof -
  have "items (ncore w') u = items (ncore w) u" using assms(1) by simp
  with assms(2) show ?thesis by (auto simp: ncore_def)
qed

text \<open>Between the two: what acknowledgements and downtimes leave alone too.\<close>

definition ak :: "item \<Rightarrow> item" where
  "ak it = it\<lparr>broks := [], actions := [], notifications_in_progress := [],
     current_notification_number := 0, last_snapshot := 0, is_flapping := False,
     percent_state_change := 0, scheduled_downtime_depth := 0,
     in_scheduled_downtime := False, problem_has_been_acknowledged := False,
     acknowledgement := None, comments := []\<rparr>"

definition acore :: "world \<Rightarrow> world" where
  "acore w = w\<lparr>items := (\<lambda>u. map_option ak (items w u)), notifs := (\<lambda>_. None),
     events := (\<lambda>_. None), downtime_store := (\<lambda>_. None), next_uuid := 0\<rparr>"

lemma acore_upd_item:
  assumes "items w u = Some it" and "ak it' = ak it"
  shows "acore (w\<lparr>items := (items w)(u \<mapsto> it')\<rparr>) = acore w"
  using assms by (auto simp: acore_def fun_eq_iff)

lemma acore_stores [simp]:
  "acore (w\<lparr>notifs := x\<rparr>) = acore w" "acore (w\<lparr>events := y\<rparr>) = acore w"
  "acore (w\<lparr>downtime_store := z\<rparr>) = acore w" "acore (w\<lparr>next_uuid := n\<rparr>) = acore w"
  by (simp_all add: acore_def)

lemma sm_ak: "sm (ak it) = sm it"
  by (simp add: sm_def ak_def)

lemma ak_nq: "ak (nq it) = ak it"
  by (simp add: ak_def nq_def)

lemma wcore_acore: "wcore (acore w) = wcore w"
  by (auto simp: wcore_def acore_def fun_eq_iff sm_ak option.map_comp o_def)

lemma acore_ncore: "acore (ncore w) = acore w"
  by (auto simp: acore_def ncore_def fun_eq_iff ak_nq option.map_comp o_def)

lemma acore_wcore: "acore w' = acore w \<Longrightarrow> wcore w' = wcore w"
  by (metis wcore_acore)

lemma ncore_acore: "ncore w' = ncore w \<Longrightarrow> acore w' = acore w"
  by (metis acore_ncore)

lemma keeps_acore_wcore: "keeps acore w r \<Longrightarrow> keeps wcore w r"
  by (rule keepsI) (metis keepsD acore_wcore)

lemma keeps_ncore_acore: "keeps ncore w r \<Longrightarrow> keeps acore w r"
  by (rule keepsI) (metis keepsD ncore_acore)

lemma acoreD:
  assumes "acore w' = acore w" and "items w u = Some it"
  shows "\<exists>it'. items w' u = Some it' \<and> ak it' = ak it"
proof -
  have "items (acore w') u = items (acore w) u" using assms(1) by simp
  with assms(2) show ?thesis by (auto simp: acore_def)
qed

lemma akD:
  assumes "ak it' = ak it"
  shows "sm it' = sm it" and "state it' = state it" and "state_id it' = state_id it"
    and "is_problem it' = is_problem it" and "is_impact it' = is_impact it"
    and "impacts it' = impacts it" and "source_problems it' = source_problems it"
    and "state_changed_since_impact it' = state_changed_since_impact it"
    and "state_before_impact it' = state_before_impact it"
proof -
  have *: "\<And>f. f (ak it') = f (ak it)" using assms by simp
  show "sm it' = sm it" using * [of sm] by (simp add: sm_ak)
  show "state it' = state it" using * [of state] by (simp add: ak_def)
  show "state_id it' = state_id it" using * [of state_id] by (simp add: ak_def)
  show "is_problem it' = is_problem it" using * [of is_problem] by (simp add: ak_def)
  show "is_impact it' = is_impact it" using * [of is_impact] by (simp add: ak_def)
  show "impacts it' = impacts it" using * [of impacts] by (simp add: ak_def)
  show "source_problems it' = source_problems it" using * [of source_problems] by (simp add: ak_def)
  show "state_changed_since_impact it' = state_changed_since_impact it"
    using * [of state_changed_since_impact] by (simp add: ak_def)
  show "state_before_impact it' = state_before_impact it"
    using * [of state_before_impact] by (simp add: ak_def)
qed

lemma ncore_downtimes: "ncore w' = ncore w \<Longrightarrow> downtime_store w' = downtime_store w"
proof -
  assume "ncore w' = ncore w"
  then have "downtime_store (ncore w') = downtime_store (ncore w)" by simp
  then show ?thesis by (simp add: ncore_def)
qed

lemma nqD:
  assumes "nq it' = nq it"
  shows "ak it' = ak it"
    and "problem_has_been_acknowledged it' = problem_has_been_acknowledged it"
    and "acknowledgement it' = acknowledgement it"
    and "scheduled_downtime_depth it' = scheduled_downtime_depth it"
    and "in_scheduled_downtime it' = in_scheduled_downtime it"
proof -
  have *: "\<And>f. f (nq it') = f (nq it)" using assms by simp
  show "ak it' = ak it" using * [of ak] by (simp add: ak_nq)
  show "problem_has_been_acknowledged it' = problem_has_been_acknowledged it"
    using * [of problem_has_been_acknowledged] by (simp add: nq_def)
  show "acknowledgement it' = acknowledgement it" using * [of acknowledgement] by (simp add: nq_def)
  show "scheduled_downtime_depth it' = scheduled_downtime_depth it"
    using * [of scheduled_downtime_depth] by (simp add: nq_def)
  show "in_scheduled_downtime it' = in_scheduled_downtime it"
    using * [of in_scheduled_downtime] by (simp add: nq_def)
qed

section \<open>Updates of one item\<close>

lemma upd_item_frame:
  assumes "upd_item u f w = Some w'" and "\<And>it. sm (f it) = sm it"
  shows "wcore w' = wcore w"
  using assms by (auto elim!: upd_item_SomeE intro: wcore_upd_item)

lemmas log_defs =
  raise_alert_log_entry_def host_raise_alert_log_entry_def service_raise_alert_log_entry_def
  raise_event_handler_log_entry_def host_raise_event_handler_log_entry_def
  service_raise_event_handler_log_entry_def raise_snapshot_log_entry_def
  host_raise_snapshot_log_entry_def service_raise_snapshot_log_entry_def
  raise_flapping_start_log_entry_def host_raise_flapping_start_log_entry_def
  service_raise_flapping_start_log_entry_def raise_flapping_stop_log_entry_def
  host_raise_flapping_stop_log_entry_def service_raise_flapping_stop_log_entry_def
  raise_acknowledge_log_entry_def host_raise_acknowledge_log_entry_def
  service_raise_acknowledge_log_entry_def raise_unacknowledge_log_entry_def
  host_raise_unacknowledge_log_entry_def service_raise_unacknowledge_log_entry_def
  raise_enter_downtime_log_entry_def host_raise_enter_downtime_log_entry_def
  service_raise_enter_downtime_log_entry_def raise_exit_downtime_log_entry_def
  host_raise_exit_downtime_log_entry_def service_raise_exit_downtime_log_entry_def
  raise_cancel_downtime_log_entry_def host_raise_cancel_downtime_log_entry_def
  service_raise_cancel_downtime_log_entry_def raise_check_result_def
  host_raise_check_result_def service_raise_check_result_def
  raise_notification_log_entry_def host_raise_notification_log_entry_def
  service_raise_notification_log_entry_def Let_def

text \<open>A log entry only changes the broks.\<close>

definition only_broks :: "item \<Rightarrow> item \<Rightarrow> bool" where
  "only_broks it it' \<longleftrightarrow> (\<exists>bs. it' = it\<lparr>broks := bs\<rparr>)"

lemma only_broks_refl: "only_broks it it"
  by (simp add: only_broks_def exI [of _ "broks it"])

lemma only_broks_add_log: "only_broks it (add_log l m it)"
  by (auto simp: only_broks_def add_log_def)

lemma only_broks_add_brok: "only_broks it (add_brok b it)"
  by (auto simp: only_broks_def add_brok_def)

lemma only_broks_if: "only_broks it (if c then x else y) = (if c then only_broks it x else only_broks it y)"
  by simp

lemma log_only_broks [intro, simp]:
  "only_broks it (raise_alert_log_entry cl it)" "only_broks it (raise_event_handler_log_entry cl c it)"
  "only_broks it (raise_snapshot_log_entry cl c it)"
  "only_broks it (raise_flapping_start_log_entry cl r t it)"
  "only_broks it (raise_flapping_stop_log_entry cl r t it)"
  "only_broks it (raise_acknowledge_log_entry cl it)"
  "only_broks it (raise_unacknowledge_log_entry cl it)"
  "only_broks it (raise_enter_downtime_log_entry cl it)"
  "only_broks it (raise_exit_downtime_log_entry cl it)"
  "only_broks it (raise_cancel_downtime_log_entry cl it)"
  "only_broks it (raise_check_result cl it)"
  "only_broks it (add_brok b it)"
  "only_broks it (raise_notification_log_entry cl n k h it)"
  by (simp_all only: log_defs only_broks_add_log only_broks_add_brok only_broks_refl
      only_broks_if if_cancel simp_thms)

lemma sm_broks [simp]: "only_broks it it' \<Longrightarrow> sm it' = sm it"
  by (auto simp: only_broks_def sm_def)

lemma nq_broks [simp]: "only_broks it it' \<Longrightarrow> nq it' = nq it"
  by (auto simp: only_broks_def nq_def)

lemma nq_log [simp]:
  "nq (raise_alert_log_entry cl it) = nq it" "nq (raise_event_handler_log_entry cl c it) = nq it"
  "nq (raise_snapshot_log_entry cl c it) = nq it" "nq (raise_check_result cl it) = nq it"
  "nq (raise_flapping_start_log_entry cl r t it) = nq it"
  "nq (raise_flapping_stop_log_entry cl r t it) = nq it"
  "nq (add_brok b it) = nq it"
  by simp_all

lemma sm_log [simp]:
  "sm (raise_alert_log_entry cl it) = sm it" "sm (raise_event_handler_log_entry cl c it) = sm it"
  "sm (raise_snapshot_log_entry cl c it) = sm it" "sm (raise_acknowledge_log_entry cl it) = sm it"
  "sm (raise_unacknowledge_log_entry cl it) = sm it" "sm (raise_check_result cl it) = sm it"
  "sm (raise_enter_downtime_log_entry cl it) = sm it" "sm (add_brok b it) = sm it"
  by simp_all

lemma ak_broks [simp]: "only_broks it it' \<Longrightarrow> ak it' = ak it"
  by (auto simp: only_broks_def ak_def)

lemma ak_log [simp]:
  "ak (raise_acknowledge_log_entry cl it) = ak it" "ak (raise_unacknowledge_log_entry cl it) = ak it"
  "ak (raise_enter_downtime_log_entry cl it) = ak it" "ak (add_brok b it) = ak it"
  by simp_all

lemma ak_del_comment [simp]: "ak (del_comment c it) = ak it"
  by (simp add: del_comment_def ak_def split: option.splits)

lemma sm_del_comment [simp]: "sm (del_comment c it) = sm it"
  by (simp add: del_comment_def sm_def split: option.splits)

end
