(* ===== verification/Quiet.thy ===== *)
theory Quiet
  imports Frames
begin

text \<open>
  The side effects of a state change keep the protected part of the world (\<open>wcore\<close>), and so
  the attempt counter, the state type and the last states of every item.
\<close>

named_theorems quiet \<open>operations that keep the protected part of the world\<close>

lemma keeps_upd_item [quiet]:
  "wcore w1 = wcore w \<Longrightarrow> (\<And>it. sm (f it) = sm it) \<Longrightarrow> keeps wcore w (upd_item u f w1)"
  by (rule keepsI) (metis upd_item_frame)

named_theorems nquiet \<open>operations that keep the finer observation \<open>ncore\<close>\<close>

lemma ncore_upd_item':
  "ncore w1 = ncore w \<Longrightarrow> (\<And>it. nq (f it) = nq it) \<Longrightarrow> keeps ncore w (upd_item u f w1)"
  by (rule keepsI) (metis ncore_upd_item upd_item_SomeE)

section \<open>Notifications\<close>

lemma upd_notif_nquiet [nquiet]: "keeps ncore w (upd_notif nid f w)"
  by (auto simp: upd_notif_def split: option.splits)

lemma create_notifications_nquiet [nquiet]:
  "keeps ncore w (create_notifications e u nt period tw author w)"
proof -
  have "ncore (w\<lparr>items := (items w)(u \<mapsto> it'), notifs := x, next_uuid := n\<rparr>) = ncore w"
    if "items w u = Some it" "nq it' = nq it" for it it' x n
    using ncore_upd_item [OF that] by (simp add: ncore_def)
  then show ?thesis
    by (auto simp: create_notifications_def nq_def Let_def split: option.splits prod.splits)
qed

lemma remove_in_progress_notification_nquiet [nquiet]:
  "keeps ncore w (remove_in_progress_notification u nid w)"
  by (auto simp: remove_in_progress_notification_def nq_def split: option.splits
      intro!: keeps_bind nquiet ncore_upd_item')

lemma remove_in_progress_notifications_nquiet [nquiet]:
  "keeps ncore w (remove_in_progress_notifications u master w)"
  by (auto simp: remove_in_progress_notifications_def split: option.splits
      intro!: keeps_foldM nquiet)

lemma only_if_quiet: "(b \<Longrightarrow> keeps obs w (f w)) \<Longrightarrow> keeps obs w (only_if b f w)"
  by (simp add: only_if_def)

lemma alert_nquiet [nquiet]: "keeps ncore w (alert u w)"
  by (auto simp: alert_def split: option.splits intro!: ncore_upd_item')

lemma renotify_nquiet [nquiet]: "keeps ncore w (renotify e u period enable w)"
  unfolding renotify_def by (intro keeps_bind only_if_quiet nquiet)

section \<open>Flapping\<close>

lemma nq_flag: "nq (it\<lparr>is_flapping := b\<rparr>) = nq it"
  by (simp add: nq_def)

lemma switch_flapping_nquiet:
  assumes "\<And>it. nq (entry it) = nq it"
  shows "keeps ncore w (switch_flapping e u period flag entry nt w)"
  unfolding switch_flapping_def
  by (intro keeps_bind nquiet ncore_upd_item') (simp_all add: assms nq_flag)

lemma keeps_ncore_set:
  assumes "items w u = Some it" and "nq it' = nq it"
    and "keeps ncore (w\<lparr>items := (items w)(u \<mapsto> it')\<rparr>) r"
  shows "keeps ncore w r"
  using ncore_upd_item [OF assms(1,2)] assms(3) by (rule keeps_from)

lemma update_flapping_nquiet [nquiet]: "keeps ncore w (update_flapping e u period w)"
proof (cases "items w u")
  case (Some it)
  have percent: "nq (it\<lparr>percent_state_change := res\<rparr>) = nq it" for res
    by (simp add: nq_def)
  show ?thesis
  proof (cases "flapping_percent (flap_history (cls_of w it)) (flapping_changes it)")
    case (Some res)
    show ?thesis
      unfolding update_flapping_def Let_def \<open>items w u = Some it\<close> option.case Some
      by (rule keeps_ncore_set [OF \<open>items w u = Some it\<close> percent [of res]], rule keeps_bind)
        (simp_all add: switch_flapping_nquiet)
  qed (simp add: update_flapping_def \<open>items w u = Some it\<close> Let_def)
qed (simp add: update_flapping_def)

section \<open>Event handlers\<close>

lemma push_event_nquiet:
  assumes "\<And>it. nq (f it) = nq it"
  shows "keeps ncore w (push_event u ev f w)"
proof -
  have "nq (let it1 = f it in it1\<lparr>actions := actions it1 @ [a]\<rparr>) = nq it" for it a
    using assms [of it] by (simp add: nq_def Let_def)
  then show ?thesis
    unfolding push_event_def Let_def by (intro ncore_upd_item') simp_all
qed

lemma get_event_handlers_nquiet [nquiet]: "keeps ncore w (get_event_handlers e u ext w)"
  by (auto simp: get_event_handlers_def Let_def split: option.splits intro!: push_event_nquiet)

lemma get_snapshot_nquiet [nquiet]: "keeps ncore w (get_snapshot e u w)"
proof -
  have "nq ((raise_snapshot_log_entry cl c it)\<lparr>last_snapshot := t\<rparr>) = nq it" for cl c it t
    using nq_log(3) [of cl c it] by (simp add: nq_def)
  then show ?thesis
    by (auto simp: get_snapshot_def Let_def split: option.splits intro!: push_event_nquiet)
qed

lemma get_perfdata_command_nquiet [nquiet]: "keeps ncore w (get_perfdata_command e u w)"
  by (auto simp: get_perfdata_command_def Let_def split: option.splits intro!: push_event_nquiet)

named_theorems aquiet \<open>operations that keep the observation \<open>acore\<close>\<close>

lemmas ncore_aquiet [aquiet] = nquiet [THEN keeps_ncore_acore]

section \<open>Acknowledgements\<close>

lemma acore_upd_item':
  "acore w1 = acore w \<Longrightarrow> (\<And>it. ak (f it) = ak it) \<Longrightarrow> keeps acore w (upd_item u f w1)"
  by (rule keepsI) (metis acore_upd_item upd_item_SomeE)

lemma ak_absorb:
  "ak (it\<lparr>acknowledgement := a\<rparr>) = ak it" "ak (it\<lparr>problem_has_been_acknowledged := b\<rparr>) = ak it"
  "ak (it\<lparr>comments := c\<rparr>) = ak it" "ak (it\<lparr>broks := d\<rparr>) = ak it"
  "ak (it\<lparr>scheduled_downtime_depth := i\<rparr>) = ak it" "ak (it\<lparr>in_scheduled_downtime := x\<rparr>) = ak it"
  by (simp_all add: ak_def)

lemma unacknowledge_ak: "unacknowledge cl it = Some it' \<Longrightarrow> ak it' = ak it"
  by (auto simp: unacknowledge_def ak_absorb split: if_splits option.splits)

lemma unacknowledge_problem_aquiet [aquiet]: "keeps acore w (unacknowledge_problem u w)"
  by (auto simp: unacknowledge_problem_def split: option.splits
      intro!: keepsI acore_upd_item dest: unacknowledge_ak)

lemma unacknowledge_problem_if_not_sticky_aquiet [aquiet]:
  "keeps acore w (unacknowledge_problem_if_not_sticky u w)"
  by (auto simp: unacknowledge_problem_if_not_sticky_def split: option.splits intro!: aquiet)

lemma acknowledge_self_aquiet [aquiet]:
  "keeps acore w (acknowledge_self e period sticky notify author text end_time u w)"
  unfolding acknowledge_self_def Let_def
  by (auto split: option.splits intro!: keeps_bind aquiet acore_upd_item' simp: ak_absorb)

lemma acknowledge_problem_aquiet [aquiet]:
  "keeps acore w (acknowledge_problem e period sticky notify author text end_time u w)"
  unfolding acknowledge_problem_def Let_def
  by (auto split: option.splits intro!: keeps_bind keeps_foldM aquiet)

section \<open>Downtimes\<close>

lemma keepsp_case:
  assumes "keeps obs w r" and "\<And>w1. r = Some w1 \<Longrightarrow> keepsp obs w1 (g w1)"
  shows "keepsp obs w (case r of None \<Rightarrow> None | Some w1 \<Rightarrow> g w1)"
  using assms by (cases r) auto

lemma enter_item_aquiet: "keepsp acore w (enter_item e d w)"
  unfolding enter_item_def
proof (rule keepsp_case)
  show "keeps acore w (upd_item (d_ref d) (\<lambda>it. it\<lparr>scheduled_downtime_depth :=
      scheduled_downtime_depth it + 1, in_scheduled_downtime := True\<rparr>) w)"
    by (rule acore_upd_item') (simp_all add: ak_absorb)
qed (auto split: option.splits simp: ak_absorb intro!: keeps_bindp keepsp_map aquiet acore_upd_item')

lemma downtime_enter_aquiet: "keepsp acore w (downtime_enter fuel e did w)"
proof (induction fuel arbitrary: did w)
  case 0
  then show ?case by simp
next
  case (Suc fuel)
  let ?f = "\<lambda>other u s. case s of (w, bs) \<Rightarrow>
        (case items w u of None \<Rightarrow> None
         | Some it \<Rightarrow>
             if other \<in> set (downtimes it)
             then map_option (\<lambda>(w', bs'). (w', bs @ bs')) (downtime_enter fuel e other w)
             else Some (w, bs))"
  have step: "keepsp acore (fst s) (?f other u s)" for other u s
    using Suc.IH [of "fst s" other]
    by (cases s) (auto split: option.splits simp: post_def)
  have loop: "keepsp acore (fst s) (foldM (\<lambda>other s. foldM (?f other) us s) ds s)" for us ds s
    by (rule keepsp_foldM) (rule keepsp_foldM [OF step])
  show ?case
  proof (cases "downtime_store w did")
    case (Some d)
    let ?w = "w\<lparr>downtime_store := (downtime_store w)(did \<mapsto> start_downtime (now w) d)\<rparr>"
    show ?thesis
    proof (cases "enter_item e d ?w")
      case (Some s)
      have "acore (fst s) = acore ?w"
        using enter_item_aquiet [of ?w e d] Some by (cases s) simp
      with loop [of s] show ?thesis
        using Some \<open>downtime_store w did = Some d\<close> by (simp add: post_def)
    qed (simp add: Some)
  qed simp
qed

lemma check_for_flexible_downtime_aquiet [aquiet]:
  "keeps acore w (check_for_flexible_downtime fuel e u w)"
proof -
  have step: "keepsp acore (fst s) (flexible_step fuel e u did s)" for did s
  proof (cases s)
    case (Pair w b)
    have "keepsp acore w (Option.bind (downtime_enter fuel e did w)
        (\<lambda>(w1, bs). map_option (\<lambda>w2. (w2, True)) (upd_item u (\<lambda>it. it\<lparr>broks := broks it @ bs\<rparr>) w1)))"
      by (rule keepsp_bindp [OF downtime_enter_aquiet])
        (auto intro!: keepsp_map acore_upd_item' simp: ak_absorb)
    then show ?thesis by (auto simp: Pair flexible_step_def split: option.splits)
  qed
  have fold: "keepsp acore w (foldM (flexible_step fuel e u) ds (w, False))" for ds
    using keepsp_foldM [of ds acore "flexible_step fuel e u" "(w, False)"] step by simp
  show ?thesis
    unfolding check_for_flexible_downtime_def
    by (auto split: option.splits intro!: keepsp_bind [OF fold] aquiet acore_upd_item')
qed

lemmas acore_quiet [quiet] = aquiet [THEN keeps_acore_wcore]

section \<open>Problems and impacts\<close>

lemma sm_absorb:
  "sm (it\<lparr>acknowledgement := a\<rparr>) = sm it" "sm (it\<lparr>problem_has_been_acknowledged := b\<rparr>) = sm it"
  "sm (it\<lparr>comments := c\<rparr>) = sm it" "sm (it\<lparr>broks := d\<rparr>) = sm it"
  "sm (it\<lparr>is_problem := x\<rparr>) = sm it" "sm (it\<lparr>is_impact := x\<rparr>) = sm it"
  "sm (it\<lparr>impacts := l\<rparr>) = sm it" "sm (it\<lparr>source_problems := l\<rparr>) = sm it"
  "sm (it\<lparr>business_impact := i\<rparr>) = sm it" "sm (it\<lparr>my_own_business_impact := i\<rparr>) = sm it"
  "sm (it\<lparr>scheduled_downtime_depth := i\<rparr>) = sm it" "sm (it\<lparr>in_scheduled_downtime := x\<rparr>) = sm it"
  "sm (it\<lparr>notifications_in_progress := l\<rparr>) = sm it" "sm (it\<lparr>actions := ac\<rparr>) = sm it"
  "sm (it\<lparr>state := s\<rparr>) = sm it" "sm (it\<lparr>state_id := i\<rparr>) = sm it"
  "sm (it\<lparr>last_time_unreachable := i\<rparr>) = sm it" "sm (it\<lparr>state_before_impact := s\<rparr>) = sm it"
  "sm (it\<lparr>state_id_before_impact := i\<rparr>) = sm it"
  "sm (it\<lparr>state_changed_since_impact := x\<rparr>) = sm it"
  by (simp_all add: sm_def)

lemma sm_business:
  assumes "update_business_impact_value e u w = Some w'"
  shows "wcore w' = wcore w"
  using assms
  by (auto simp: update_business_impact_value_def Let_def sm_absorb
      split: option.splits if_splits intro!: wcore_upd_item)

lemma update_business_impact_value_quiet [quiet]:
  "keeps wcore w (update_business_impact_value e u w)"
  by (rule keepsI) (rule sm_business)

lemma unregister_sm: "unregister cl prob it = Some it' \<Longrightarrow> sm it' = sm it"
  by (auto simp: unregister_def Let_def unset_impact_state_def sm_absorb split: if_splits)

lemma unregister_a_problem_quiet [quiet]: "keeps wcore w (unregister_a_problem prob u w)"
  by (auto simp: unregister_a_problem_def split: option.splits
      intro!: keepsI wcore_upd_item dest: unregister_sm)

lemma drop_impacts_quiet [quiet]: "keeps wcore w (drop_impacts u w)"
  unfolding drop_impacts_def
  by (auto split: option.splits simp: sm_absorb intro!: keeps_bind keeps_foldM quiet)

lemma no_more_a_problem_quiet [quiet]: "keeps wcore w (no_more_a_problem e u w)"
  unfolding no_more_a_problem_def
  by (auto split: option.splits intro!: keeps_bind quiet)

lemma set_impact_sm [simp]: "sm (set_impact_state cl t it) = sm it"
  by (simp add: set_impact_state_def set_unreachable_def sm_absorb)

lemma become_impact_quiet [quiet]: "keeps wcore w (become_impact e prob u w)"
  unfolding become_impact_def
  by (auto split: option.splits simp: sm_absorb Let_def intro!: keeps_bind quiet)

lemma propagate_status_quiet:
  assumes "\<And>w. keepsp wcore w (call impact w)"
  shows "keepsp wcore (fst s) (propagate_status e u impact period call stat s)"
  using assms
  by (cases s) (auto simp: propagate_status_def post_def split: option.splits)

lemma propagate_quiet:
  assumes "\<And>impact w. keepsp wcore w (call impact w)"
  shows "keepsp wcore (fst s) (propagate e u call dep s)"
  unfolding propagate_def
  by (auto split: prod.splits intro!: keepsp_foldM propagate_status_quiet assms)

lemma register_a_problem_quiet: "keepsp wcore w (register_a_problem fuel e prob u w)"
proof (induction fuel arbitrary: u w)
  case (Suc fuel)
  have fold: "keepsp wcore w (foldM (propagate e u (register_a_problem fuel e prob)) deps (w, us))"
    for deps w us
    using keepsp_foldM [of deps wcore "propagate e u (register_a_problem fuel e prob)" "(w, us)"]
      propagate_quiet [of "register_a_problem fuel e prob"] Suc.IH by simp
  show ?case
    by (auto split: option.splits intro!: keeps_bindp keepsp_bindp [OF fold] keepsp_map quiet)
qed simp

lemma propagate_own_quiet:
  assumes "\<And>impact w. keepsp wcore w (call impact w)"
  shows "post (\<lambda>s'. wcore (fst (fst s')) = wcore (fst (fst s))) (propagate_own e u call dep s)"
proof -
  obtain impact_id status period inh where dep: "dep = (impact_id, status, period, inh)"
    by (cases dep) auto
  obtain wa previous where s: "s = (wa, previous)" by (cases s)
  define impact where "impact = (if items (fst wa) impact_id = None then previous else Some impact_id)"
  have "keepsp wcore (fst wa) (foldM (propagate_status e u impact_id period
      (\<lambda>_ w. case impact of None \<Rightarrow> None | Some i \<Rightarrow> call i w)) status wa)"
    by (rule keepsp_foldM, rule propagate_status_quiet) (auto split: option.splits intro: assms)
  then show ?thesis
    by (auto simp: dep s propagate_own_def Let_def impact_def [symmetric] post_def)
qed

lemma set_myself_as_problem_quiet [quiet]: "keeps wcore w (set_myself_as_problem fuel e u w)"
proof -
  have fold: "post (\<lambda>s'. wcore (fst (fst s')) = wcore (fst (fst s)))
      (foldM (propagate_own e u (register_a_problem fuel e u)) deps s)" for deps s
    by (rule post_foldM [where P = "\<lambda>s'. wcore (fst (fst s')) = wcore (fst (fst s))"])
      (auto intro: post_mono [OF propagate_own_quiet [OF register_a_problem_quiet]])
  have main: "keeps wcore w (Option.bind (foldM (propagate_own e u (register_a_problem fuel e u)) deps
      ((w, us), None)) (\<lambda>((w2, us), _). g w2 us))" if "\<And>w2 us. keeps wcore w2 (g w2 us)" for deps w us g
  proof (cases "foldM (propagate_own e u (register_a_problem fuel e u)) deps ((w, us), None)")
    case (Some s)
    then have "wcore (fst (fst s)) = wcore w"
      using fold [where deps = deps and s = "((w, us), None)"] by simp
    then show ?thesis using Some that by (cases s) (auto intro: keeps_from)
  qed simp
  have final: "keeps wcore w2 (case items w2 u of None \<Rightarrow> None
          | Some it2 \<Rightarrow>
              if set us = set (impacts it2) then Some w2
              else Option.bind (upd_item u (\<lambda>it. it\<lparr>impacts := remdups us\<rparr>) w2) (\<lambda>w3.
                   Option.bind (update_business_impact_value e u w3)
                     (upd_item u (add_brok UpdateStatusBrok))))" for w2 us
  proof (cases "items w2 u")
    case (Some it2)
    have "keeps wcore w2 (Option.bind (upd_item u (\<lambda>it. it\<lparr>impacts := remdups us\<rparr>) w2) (\<lambda>w3.
        Option.bind (update_business_impact_value e u w3) (upd_item u (add_brok UpdateStatusBrok))))"
      by (intro keeps_bind keeps_upd_item update_business_impact_value_quiet refl sm_absorb sm_log)
    then show ?thesis by (simp only: Some option.case) simp
  qed simp
  show ?thesis
  proof (cases "items w u")
    case (Some it)
    show ?thesis
      unfolding set_myself_as_problem_def Some option.case
      by (rule keeps_bind [OF keeps_upd_item]) (rule refl sm_absorb main final)+
  qed (simp add: set_myself_as_problem_def)
qed

end
