(* ===== verification/Samples.thy ===== *)
theory Samples
  imports Consume
begin

text \<open>
  A small concrete installation, on which the theorems are applied: a host \<open>0\<close> and its
  service \<open>1\<close>, with the result of a check for each.
\<close>

definition sample_cls :: cls where
  "sample_cls =
    \<lparr>enable_problem_impacts_states_change = False, enable_flap_detection = False,
     flap_history = 20, global_low_flap_threshold = 20, global_high_flap_threshold = 30,
     interval_length = 60, max_check_spread = 5, execute_checks = True, cached_check_horizon = 0,
     additional_freshness_latency = 0, enable_event_handlers = False,
     no_event_handlers_during_downtimes = False, global_event_handler = None,
     event_handler_timeout = 30, check_timeout = 30, notification_timeout = 30,
     process_performance_data = False, perfdata_command = None, perfdata_timeout = 0,
     enable_environment_macros = False, enable_notifications = True, check_for_orphaned = False,
     accept_passive_checks = True, global_check_freshness = True, max_plugins_output_length = 8192,
     log_active_checks = False, log_alerts = False, log_notifications = False,
     log_event_handlers = False, log_snapshots = False, log_flappings = False,
     log_acknowledgements = False, log_downtimes = False\<rparr>"

definition sample_item :: "item_type \<Rightarrow> uuid option \<Rightarrow> item" where
  "sample_item ty h =
    \<lparr>my_type = ty, host_name = ''h'', service_description = [], host = h,
     services_of = [], active_checks_enabled = True, passive_checks_enabled = True,
     check_command = Some \<lparr>cc_uuid = 0, cc_name = ''ping'', cc_args = [], cc_poller_tag = ''None'', cc_reactionner_tag = ''None'', cc_module_type = ''fork'', cc_timeout = -1, cc_environment_macros = False\<rparr>,
     check_interval = 5, retry_interval = 1, max_check_attempts = 3, check_period = None,
     checkmodulations = [], resultmodulations = [], business_impact_modulations = [],
     business_impact = 2, freshness_threshold = 0, freshness_state = ''x'',
     flap_detection_enabled = False, flap_detection_options = [], low_flap_threshold = -1,
     high_flap_threshold = -1, is_volatile = False, process_perf_data = False,
     stalking_options = [], event_handler_enabled = False, event_handler_cmd = None,
     snapshot_enabled = False, snapshot_command = None, snapshot_period = None,
     snapshot_criteria = [], snapshot_interval = 0, notifications_enabled = True,
     notification_period = None,
     notification_options = [''d'', ''u'', ''w'', ''c'', ''x'', ''r'', ''f'', ''s''],
     notification_interval = 60, first_notification_delay = 0, escalations = [],
     contacts_of = [], time_to_orphanage = 0, maintenance_period = None, check_freshness = False, business_rule_smart_notifications = False,
     business_rule_downtime_as_ack = False, poller_tag = ''None'', reactionner_tag = ''None'',
     customs = [], modified_attributes = 0,
     state = PENDING, state_id = 0, state_type = HARD, state_type_id = 0, last_state = PENDING,
     last_state_type = HARD, last_hard_state = PENDING, last_hard_state_id = 0, attempt = 0,
     last_state_change = 0, last_hard_state_change = 0, last_state_update_time = 0,
     duration_sec = 0, last_time_up = 0, last_time_down = 0, last_time_ok = 0,
     last_time_warning = 0, last_time_critical = 0, last_time_unknown = 0,
     last_time_unreachable = 0, plugin_output = [], long_output = [], perf_data = [],
     last_perf_data = [], last_chk = 0, next_chk = None, latency = 0, execution_time = 0,
     u_time = 0, s_time = 0, has_been_checked = 0, return_code = 0, in_checking = False, in_maintenance = None,
     checks_in_progress = [], notifications_in_progress = [], flapping_changes = [],
     percent_state_change = 0, is_flapping = False, acknowledgement = None,
     problem_has_been_acknowledged = False, comments = [], downtimes = [],
     scheduled_downtime_depth = 0, in_scheduled_downtime = False,
     in_scheduled_downtime_during_last_check = False, is_problem = False, is_impact = False,
     my_own_business_impact = -1, source_problems = [], impacts = [],
     state_before_impact = PENDING, state_id_before_impact = 0,
     state_changed_since_impact = False, got_business_rule = False, business_rule = None,
     processed_business_rule = [], act_depend_of = [], act_depend_of_me = [], chk_depend_of = [],
     chk_depend_of_me = [], parent_dependencies = [], child_dependencies = [],
     in_hard_unknown_reach_phase = False, was_in_hard_unknown_reach_phase = False,
     state_before_hard_unknown_reach_phase = PENDING, last_snapshot = 0,
     last_check_command = None, freshness_expired = False, freshness_log_raised = False,
     current_event_id = 0, last_event_id = 0, current_problem_id = 0, last_problem_id = 0,
     last_notification = 0, current_notification_number = 0, notified_contacts = [],
     notified_contacts_ids = [], actions = [], broks = []\<rparr>"

definition sample_check :: "uuid \<Rightarrow> int \<Rightarrow> check" where
  "sample_check u status = (new_check 100 u ''ping'' 100 False)\<lparr>c_status := WAIT_CONSUME,
     c_exit_status := status, c_check_time := 100\<rparr>"

definition sample_env :: env where
  "sample_env = \<lparr>tp_valid = (\<lambda>_ _. True), tp_next = (\<lambda>_ t. Some t),
     resolve_command = (\<lambda>c _ _. cc_name c), env_macros = (\<lambda>_ _. []),
     resolve_notification = (\<lambda>c _ _ _ _. cc_name c), env_notification = (\<lambda>_ _ _ _. []),
     result_modulations = (\<lambda>_. None), check_modulations = (\<lambda>_. None),
     bi_modulations = (\<lambda>_. None), notifways = (\<lambda>_. None), escalation_store = (\<lambda>_. None)\<rparr>"

definition sample_world :: "item \<Rightarrow> item \<Rightarrow> int \<Rightarrow> int \<Rightarrow> world" where
  "sample_world h s hs ss = \<lparr>now = 100, host_cls = sample_cls, service_cls = sample_cls,
     host_ids = [0], service_ids = [1],
     items = [0 \<mapsto> h, 1 \<mapsto> s], checks = [10 \<mapsto> sample_check 0 hs, 11 \<mapsto> sample_check 1 ss],
     notifs = (\<lambda>_. None), events = (\<lambda>_. None), downtime_store = (\<lambda>_. None),
     contact_store = (\<lambda>_. None), sched_checks = [10, 11], sched_actions = [],
     last_event = 0, last_problem = 0, next_uuid = 100\<rparr>"

definition sample_host :: item where "sample_host = (sample_item Host None)\<lparr>services_of := [1]\<rparr>"
definition sample_service :: item where "sample_service = sample_item Service (Some 0)"

text \<open>The results of the sample checks are consumed.\<close>

lemma sample_runs:
  "consume_result 5 sample_env 1 11 None False (sample_world sample_host sample_service 0 2) \<noteq> None"
  by code_simp

end
