(* ===== verification/StateMachine.thy ===== *)
theory StateMachine
  imports Quiet Samples
begin

text \<open>
  The state machine of a host or service: what \<open>consume_result\<close> does to the state type and the
  attempt counter, as an abstract machine, and the proof that the method implements it.
\<close>

section \<open>The abstract machine\<close>

text \<open>
  The state before the result: \<open>Fresh\<close> for pending, \<open>Good\<close> for ok/up, \<open>Bad\<close> for the others.
\<close>

datatype before = Fresh | Good | Bad

definition before_of :: "item \<Rightarrow> state \<Rightarrow> before" where
  "before_of it s = (if s = PENDING then Fresh else if s = ok_up it then Good else Bad)"

fun machine :: "bool \<Rightarrow> int \<Rightarrow> bool \<Rightarrow> before \<Rightarrow> bool \<Rightarrow> state_kind \<times> int \<Rightarrow> state_kind \<times> int" where
  "machine volatile maxi dependent_check b ok (ty, n) =
     (if ok
      then (if b = Bad then (HARD, 1)
            else if ty = SOFT \<and> b = Good then (if n \<ge> maxi then HARD else SOFT, n)
            else (HARD, 1))
      else if volatile then (HARD, 1)
      else if b \<noteq> Bad then (if 1 \<ge> maxi then HARD else SOFT, 1)
      else if ty = SOFT
      then (let n' = (if dependent_check then n else min (n + 1) maxi)
            in (if n' \<ge> maxi then HARD else SOFT, n'))
      else (HARD, n))"

section \<open>Reading the result\<close>

lemma nq_record_state_change: "nq (record_state_change t it) = record_state_change t (nq it)"
  by (simp add: record_state_change_def nq_def Let_def)

text \<open>The item after \<open>set_state_from_exit_status\<close>, up to notifications and the flapping flag.\<close>

definition entered :: "cls \<Rightarrow> int \<Rightarrow> int \<Rightarrow> item \<Rightarrow> item" where
  "entered cl t status it =
     (let it1 = enter_state cl status it;
          code = fst (snd (snd (state_of_exit (my_type it) status)))
      in record_state_change t
           (if code \<in> set (flap_detection_options it1)
            then add_flapping_change cl (state it1 \<noteq> last_state it1) it1 else it1))"

text \<open>The item but for its time stamps and its flapping history.\<close>

definition tm :: "item \<Rightarrow> item" where
  "tm it = it\<lparr>last_state_change := 0, duration_sec := 0, last_time_up := 0, last_time_down := 0,
     last_time_ok := 0, last_time_warning := 0, last_time_critical := 0, last_time_unknown := 0,
     last_time_unreachable := 0, flapping_changes := []\<rparr>"

lemma tm_absorb:
  "tm (it\<lparr>last_time_up := t\<rparr>) = tm it" "tm (it\<lparr>last_time_down := t\<rparr>) = tm it"
  "tm (it\<lparr>last_time_ok := t\<rparr>) = tm it" "tm (it\<lparr>last_time_warning := t\<rparr>) = tm it"
  "tm (it\<lparr>last_time_critical := t\<rparr>) = tm it" "tm (it\<lparr>last_time_unknown := t\<rparr>) = tm it"
  "tm (it\<lparr>last_time_unreachable := t\<rparr>) = tm it" "tm (it\<lparr>last_state_change := t\<rparr>) = tm it"
  "tm (it\<lparr>duration_sec := t\<rparr>) = tm it" "tm (it\<lparr>flapping_changes := l\<rparr>) = tm it"
  by (simp_all add: tm_def)

lemma tm_record_time: "tm ((snd (snd (snd (state_of_exit ty status)))) t it) = tm it"
  by (simp add: state_of_exit_def host_state_of_exit_def service_state_of_exit_def tm_absorb)

lemma tm_entered:
  "tm (entered cl t status it) = tm (it\<lparr>last_state := previous_state cl it,
     state := fst (state_of_exit (my_type it) status),
     state_id := fst (snd (state_of_exit (my_type it) status))\<rparr>)"
proof -
  have "tm (record_state_change t x) = tm x" for x
    by (simp add: record_state_change_def Let_def tm_absorb)
  moreover have "tm (add_flapping_change cl b x) = tm x" for b x
    by (simp add: add_flapping_change_def Let_def tm_absorb)
  moreover have "tm (enter_state cl status it) = tm (it\<lparr>last_state := previous_state cl it,
     state := fst (state_of_exit (my_type it) status),
     state_id := fst (snd (state_of_exit (my_type it) status))\<rparr>)"
    by (simp add: enter_state_def case_prod_unfold tm_record_time)
  ultimately show ?thesis by (simp add: entered_def Let_def)
qed

lemma entered_fields:
  "state_type (entered cl t status i) = state_type i"
  "attempt (entered cl t status i) = attempt i"
  "max_check_attempts (entered cl t status i) = max_check_attempts i"
  "my_type (entered cl t status i) = my_type i"
  "is_volatile (entered cl t status i) = is_volatile i"
  "last_state (entered cl t status i) = previous_state cl i"
  "act_depend_of (entered cl t status i) = act_depend_of i"
  "act_depend_of_me (entered cl t status i) = act_depend_of_me i"
  "state (entered cl t status i) = fst (state_of_exit (my_type i) status)"
  "state_id (entered cl t status i) = fst (snd (state_of_exit (my_type i) status))"
  "last_hard_state (entered cl t status i) = last_hard_state i"
  "last_hard_state_id (entered cl t status i) = last_hard_state_id i"
  "checks_in_progress (entered cl t status i) = checks_in_progress i"
  "is_impact (entered cl t status i) = is_impact i"
  "is_problem (entered cl t status i) = is_problem i"
  "impacts (entered cl t status i) = impacts i"
  using tm_entered [of cl t status i, THEN arg_cong, of state_type]
    tm_entered [of cl t status i, THEN arg_cong, of attempt]
    tm_entered [of cl t status i, THEN arg_cong, of max_check_attempts]
    tm_entered [of cl t status i, THEN arg_cong, of my_type]
    tm_entered [of cl t status i, THEN arg_cong, of is_volatile]
    tm_entered [of cl t status i, THEN arg_cong, of last_state]
    tm_entered [of cl t status i, THEN arg_cong, of act_depend_of]
    tm_entered [of cl t status i, THEN arg_cong, of act_depend_of_me]
    tm_entered [of cl t status i, THEN arg_cong, of state]
    tm_entered [of cl t status i, THEN arg_cong, of state_id]
    tm_entered [of cl t status i, THEN arg_cong, of last_hard_state]
    tm_entered [of cl t status i, THEN arg_cong, of last_hard_state_id]
    tm_entered [of cl t status i, THEN arg_cong, of checks_in_progress]
    tm_entered [of cl t status i, THEN arg_cong, of is_impact]
    tm_entered [of cl t status i, THEN arg_cong, of is_problem]
    tm_entered [of cl t status i, THEN arg_cong, of impacts]
  by (simp_all add: tm_def)

lemma ncore_upd_other:
  assumes "ncore w1 = ncore (w\<lparr>items := (items w)(u \<mapsto> it1)\<rparr>)" and "upd_item u f w1 = Some w'"
    and "\<And>a b. nq a = nq b \<Longrightarrow> nq (f a) = nq (g b)"
  shows "ncore w' = ncore (w\<lparr>items := (items w)(u \<mapsto> g it1)\<rparr>)"
proof -
  from assms(2) obtain it where it: "items w1 u = Some it"
    and w': "w' = w1\<lparr>items := (items w1)(u \<mapsto> f it)\<rparr>" by (rule upd_item_SomeE)
  have "items (ncore w1) = items (ncore (w\<lparr>items := (items w)(u \<mapsto> it1)\<rparr>))" using assms(1) by simp
  then have I: "map_option nq (items w1 v) = (if v = u then Some (nq it1) else map_option nq (items w v))"
    for v by (simp add: ncore_def fun_eq_iff split: if_splits)
  have "nq it = nq it1" using I [of u] it by simp
  then have f: "nq (f it) = nq (g it1)" by (rule assms(3))
  have "ncore w' = (ncore w1)\<lparr>items := (\<lambda>v. if v = u then Some (nq (f it)) else map_option nq (items w1 v))\<rparr>"
    by (simp add: w' ncore_def fun_eq_iff)
  also have "\<dots> = (ncore (w\<lparr>items := (items w)(u \<mapsto> it1)\<rparr>))
      \<lparr>items := (\<lambda>v. if v = u then Some (nq (g it1)) else map_option nq (items w v))\<rparr>"
    by (simp add: assms(1) f I fun_eq_iff cong: if_cong)
  also have "\<dots> = ncore (w\<lparr>items := (items w)(u \<mapsto> g it1)\<rparr>)"
    by (simp add: ncore_def fun_eq_iff)
  finally show ?thesis .
qed

lemma set_state_from_exit_status_effect:
  assumes "set_state_from_exit_status e u status period w = Some w'" and it: "items w u = Some it"
  shows "ncore w' = ncore (w\<lparr>items := (items w)(u \<mapsto> entered (cls_of w it) (now w) status it)\<rparr>)"
proof -
  let ?it1 = "enter_state (cls_of w it) status it"
  let ?code = "fst (snd (snd (state_of_exit (my_type it) status)))"
  let ?it2 = "if ?code \<in> set (flap_detection_options ?it1)
    then add_flapping_change (cls_of w it) (state ?it1 \<noteq> last_state ?it1) ?it1 else ?it1"
  from assms obtain w1 where
    w1: "(if ?code \<in> set (flap_detection_options ?it1)
          then update_flapping e u period (w\<lparr>items := (items w)(u \<mapsto> ?it2)\<rparr>)
          else Some (w\<lparr>items := (items w)(u \<mapsto> ?it2)\<rparr>)) = Some w1"
    and w': "upd_item u (record_state_change (now w)) w1 = Some w'"
    by (auto simp: set_state_from_exit_status_def Let_def Option.bind_eq_Some_conv split: if_splits)
  have "ncore w1 = ncore (w\<lparr>items := (items w)(u \<mapsto> ?it2)\<rparr>)"
    using w1 keepsD [OF update_flapping_nquiet] by (auto split: if_splits)
  from ncore_upd_other [OF this w', of "record_state_change (now w)"] show ?thesis
    by (simp add: entered_def Let_def nq_record_state_change)
qed

text \<open>The item after \<open>take_result\<close>, up to the same.\<close>

definition taken :: "cls \<Rightarrow> int \<Rightarrow> uuid \<Rightarrow> check \<Rightarrow> int \<Rightarrow> item \<Rightarrow> item" where
  "taken cl t cid c status it =
     (let it1 = read_check cl c it;
          it2 = (if c_freshness_expiry_check c then it1 else it1\<lparr>last_state_update_time := t\<rparr>);
          it3 = entered cl t status it2
      in remove_in_progress_check cid
           (it3\<lparr>last_state_type := state_type it3, return_code := status,
                state_changed_since_impact := True\<rparr>))"

lemma remove_in_progress_check_eq:
  "remove_in_progress_check cid it = it\<lparr>checks_in_progress := remove1 cid (checks_in_progress it),
     in_checking := remove1 cid (checks_in_progress it) \<noteq> []\<rparr>"
  by (cases "cid \<in> set (checks_in_progress it)")
    (simp_all add: remove_in_progress_check_def update_in_checking_def remove1_idem)

text \<open>Raising the log of the result does not matter for the observation.\<close>

lemma nq_finish:
  assumes "nq a = nq b"
  shows "nq (let it3 = a\<lparr>last_state_type := state_type a, return_code := status\<rparr>;
                 it4 = (if raise_log then raise_check_result cl it3 else it3)
             in remove_in_progress_check cid (it4\<lparr>state_changed_since_impact := True\<rparr>))
       = nq (remove_in_progress_check cid
           (b\<lparr>last_state_type := state_type b, return_code := status,
              state_changed_since_impact := True\<rparr>))"
proof -
  have fields: "state_type a = state_type b" "checks_in_progress a = checks_in_progress b"
    using assms by (metis akD(1) nqD(1) smD(3), metis akD(1) nqD(1) smD(13))
  let ?a = "a\<lparr>last_state_type := state_type a, return_code := status\<rparr>"
  let ?log = "if raise_log then raise_check_result cl ?a else ?a"
  obtain bs where log: "?log = ?a\<lparr>broks := bs\<rparr>"
  proof (cases raise_log)
    case True
    then show ?thesis using log_only_broks(11) [of ?a cl] that by (auto simp: only_broks_def)
  next
    case False
    then show ?thesis using that [of "broks a"] by simp
  qed
  have upd: "nq (remove_in_progress_check cid (x\<lparr>broks := bs, state_changed_since_impact := True\<rparr>))
     = (nq x)\<lparr>state_changed_since_impact := True, checks_in_progress :=
          remove1 cid (checks_in_progress x),
        in_checking := remove1 cid (checks_in_progress x) \<noteq> []\<rparr>" for x bs
    by (simp add: remove_in_progress_check_eq nq_def)
  let ?b = "b\<lparr>last_state_type := state_type b, return_code := status\<rparr>"
  have "nq ?a = (nq a)\<lparr>last_state_type := state_type b, return_code := status\<rparr>"
    by (simp add: nq_def fields)
  also have "\<dots> = nq ?b" by (simp add: assms) (simp add: nq_def)
  finally have nqa: "nq ?a = nq ?b" .
  have cip: "checks_in_progress ?a = checks_in_progress ?b" by (simp add: fields)
  have b: "?b\<lparr>broks := broks b\<rparr> = ?b" by simp
  have "nq (remove_in_progress_check cid (?a\<lparr>broks := bs, state_changed_since_impact := True\<rparr>))
      = nq (remove_in_progress_check cid (?b\<lparr>broks := broks b, state_changed_since_impact := True\<rparr>))"
    unfolding upd nqa cip ..
  then show ?thesis unfolding Let_def log b .
qed

lemma take_result_effect:
  assumes "take_result e u cid period raise_log w = Some (w', status)"
    and it: "items w u = Some it" and c: "checks w cid = Some c"
  shows "effective_exit e (now w) c it = Some status"
    and "ncore w' = ncore (w\<lparr>items := (items w)(u \<mapsto> taken (cls_of w it) (now w) cid c status it),
           checks := (checks w)(cid \<mapsto> c\<lparr>c_exit_status := status\<rparr>)\<rparr>)"
proof -
  let ?cl = "cls_of w it"
  let ?it1 = "read_check ?cl c it"
  let ?it2 = "if c_freshness_expiry_check c then ?it1 else ?it1\<lparr>last_state_update_time := now w\<rparr>"
  let ?w1 = "w\<lparr>items := (items w)(u \<mapsto> ?it2), checks := (checks w)(cid \<mapsto> c\<lparr>c_exit_status := status\<rparr>)\<rparr>"
  let ?f = "\<lambda>it. let it3 = it\<lparr>last_state_type := state_type it, return_code := status\<rparr>;
      it4 = (if raise_log then raise_check_result ?cl it3 else it3)
    in remove_in_progress_check cid (it4\<lparr>state_changed_since_impact := True\<rparr>)"
  from assms obtain w2 where s: "effective_exit e (now w) c it = Some status"
    and w2: "set_state_from_exit_status e u status period ?w1 = Some w2"
    and w': "upd_item u ?f w2 = Some w'"
    by (auto simp: take_result_def Let_def Option.bind_eq_Some_conv split: option.splits)
  show "effective_exit e (now w) c it = Some status" by (rule s)
  have cl: "cls_of ?w1 ?it2 = ?cl"
    by (simp add: cls_of_def read_check_def Let_def)
  have it2: "items ?w1 u = Some ?it2" by simp
  have "ncore w2 = ncore (?w1\<lparr>items := (items ?w1)(u \<mapsto> entered (cls_of ?w1 ?it2) (now ?w1) status ?it2)\<rparr>)"
    by (rule set_state_from_exit_status_effect [OF w2 it2])
  then have e2: "ncore w2 = ncore (?w1\<lparr>items := (items ?w1)(u \<mapsto> entered ?cl (now w) status ?it2)\<rparr>)"
    unfolding cl by simp
  let ?g = "\<lambda>b. remove_in_progress_check cid (b\<lparr>last_state_type := state_type b, return_code := status,
      state_changed_since_impact := True\<rparr>)"
  have "ncore w' = ncore (?w1\<lparr>items := (items ?w1)(u \<mapsto> ?g (entered ?cl (now w) status ?it2))\<rparr>)"
    by (rule ncore_upd_other [OF e2 w']) (rule nq_finish)
  moreover have "taken ?cl (now w) cid c status it = ?g (entered ?cl (now w) status ?it2)"
    by (simp add: taken_def Let_def split del: if_split)
  moreover have "?w1\<lparr>items := (items ?w1)(u \<mapsto> x)\<rparr>
      = w\<lparr>items := (items w)(u \<mapsto> x), checks := (checks w)(cid \<mapsto> c\<lparr>c_exit_status := status\<rparr>)\<rparr>" for x
    by simp
  ultimately show "ncore w' = ncore (w\<lparr>items := (items w)(u \<mapsto> taken ?cl (now w) cid c status it),
      checks := (checks w)(cid \<mapsto> c\<lparr>c_exit_status := status\<rparr>)\<rparr>)"
    by metis
qed

lemma taken_fields:
  assumes it': "it' = taken cl t cid c status it"
  shows "state_type it' = state_type it" "attempt it' = attempt it"
    "max_check_attempts it' = max_check_attempts it" "my_type it' = my_type it"
    "is_volatile it' = is_volatile it" "last_state it' = previous_state cl it"
    "last_state_type it' = state_type it" "act_depend_of it' = act_depend_of it"
    "act_depend_of_me it' = act_depend_of_me it" "state_changed_since_impact it'"
    "state it' = fst (state_of_exit (my_type it) status)"
    "state_id it' = fst (snd (state_of_exit (my_type it) status))"
    "last_hard_state it' = last_hard_state it" "last_hard_state_id it' = last_hard_state_id it"
    "checks_in_progress it' = remove1 cid (checks_in_progress it)"
    "in_checking it' \<longleftrightarrow> checks_in_progress it' \<noteq> []"
    "is_impact it' = is_impact it" "is_problem it' = is_problem it" "impacts it' = impacts it"
proof -
  define it2 where "it2 = (if c_freshness_expiry_check c then read_check cl c it
    else (read_check cl c it)\<lparr>last_state_update_time := t\<rparr>)"
  have r: "state_type it2 = state_type it" "attempt it2 = attempt it"
    "max_check_attempts it2 = max_check_attempts it" "my_type it2 = my_type it"
    "is_volatile it2 = is_volatile it" "act_depend_of it2 = act_depend_of it" "act_depend_of_me it2 = act_depend_of_me it"
    "last_hard_state it2 = last_hard_state it" "last_hard_state_id it2 = last_hard_state_id it"
    "checks_in_progress it2 = checks_in_progress it" "is_impact it2 = is_impact it"
    "is_problem it2 = is_problem it" "impacts it2 = impacts it"
    by (simp_all add: it2_def read_check_def Let_def)
  have "state it2 = state it" "state_before_impact it2 = state_before_impact it"
    "state_changed_since_impact it2 = state_changed_since_impact it"
    by (simp_all add: it2_def read_check_def Let_def)
  with r have p: "previous_state cl it2 = previous_state cl it"
    by (simp add: previous_state_def)
  define E where "E = entered cl t status it2"
  have e: "state_type E = state_type it" "attempt E = attempt it"
    "max_check_attempts E = max_check_attempts it" "my_type E = my_type it"
    "is_volatile E = is_volatile it" "last_state E = previous_state cl it"
    "act_depend_of E = act_depend_of it" "act_depend_of_me E = act_depend_of_me it"
    "state E = fst (state_of_exit (my_type it) status)"
    "state_id E = fst (snd (state_of_exit (my_type it) status))"
    "last_hard_state E = last_hard_state it" "last_hard_state_id E = last_hard_state_id it"
    "checks_in_progress E = checks_in_progress it" "is_impact E = is_impact it"
    "is_problem E = is_problem it" "impacts E = impacts it"
    by (simp_all add: E_def entered_fields r p)
  have "it' = E\<lparr>last_state_type := state_type E, return_code := status,
      state_changed_since_impact := True, checks_in_progress := remove1 cid (checks_in_progress E),
      in_checking := remove1 cid (checks_in_progress E) \<noteq> []\<rparr>"
    by (simp add: it' taken_def it2_def E_def Let_def remove_in_progress_check_eq split del: if_split)
  then show "state_type it' = state_type it" "attempt it' = attempt it"
    "max_check_attempts it' = max_check_attempts it" "my_type it' = my_type it"
    "is_volatile it' = is_volatile it" "last_state it' = previous_state cl it"
    "last_state_type it' = state_type it" "act_depend_of it' = act_depend_of it"
    "act_depend_of_me it' = act_depend_of_me it" "state_changed_since_impact it'"
    "state it' = fst (state_of_exit (my_type it) status)"
    "state_id it' = fst (snd (state_of_exit (my_type it) status))"
    "last_hard_state it' = last_hard_state it" "last_hard_state_id it' = last_hard_state_id it"
    "checks_in_progress it' = remove1 cid (checks_in_progress it)"
    "in_checking it' \<longleftrightarrow> checks_in_progress it' \<noteq> []"
    "is_impact it' = is_impact it" "is_problem it' = is_problem it" "impacts it' = impacts it"
    by (simp_all add: e)
qed

section \<open>The dependencies\<close>

text \<open>Up to the unreachable state, an item is unchanged.\<close>

lemma sm_set_unreachable: "sm (set_unreachable t it) = sm it"
  by (simp add: set_unreachable_def sm_def)

lemma check_and_set_unreachability_quiet [quiet]:
  "keeps wcore w (check_and_set_unreachability u w)"
  by (auto simp: check_and_set_unreachability_def sm_set_unreachable split: option.splits
      intro!: quiet)

lemma wcore_check: "wcore w' = wcore w \<Longrightarrow> wcore (w'\<lparr>checks := x\<rparr>) = wcore (w\<lparr>checks := x\<rparr>)"
proof -
  assume "wcore w' = wcore w"
  moreover have "wcore (v\<lparr>checks := x\<rparr>) = (wcore v)\<lparr>checks := x\<rparr>" for v
    by (simp add: wcore_def)
  ultimately show ?thesis by simp
qed

text \<open>The check is finished, or waited for by others.\<close>

definition final_status :: "check \<Rightarrow> act_status" where
  "final_status c =
     (if c_status c = WAIT_CONSUME \<or> c_status c = WAIT_DEPEND
      then (if c_depend_on_me c \<noteq> [] then WAITING_ME else ZOMBIE) else c_status c)"

lemma dependency_outcome_effect:
  assumes run: "dependency_outcome u cid w = Some (w', enable)" and c: "checks w cid = Some c"
  shows "wcore w' = wcore (w\<lparr>checks := (checks w)(cid \<mapsto> c\<lparr>c_status := final_status c\<rparr>)\<rparr>)"
proof -
  let ?f = "\<lambda>c. c\<lparr>c_status := if c_depend_on_me c \<noteq> [] then WAITING_ME else ZOMBIE\<rparr>"
  from run c obtain w1 where w1: "wcore w1 = wcore w"
    and w': "(if c_status c = WAIT_CONSUME \<or> c_status c = WAIT_DEPEND then upd_check cid ?f w1 else Some w1)
       = Some w'"
    by (auto simp: dependency_outcome_def Option.bind_eq_Some_conv split: option.splits if_splits
        dest!: keepsD [OF check_and_set_unreachability_quiet])
  have c1: "checks w1 = checks w" by (rule wcoreD(2) [OF w1])
  have "w' = w1\<lparr>checks := (checks w)(cid \<mapsto> c\<lparr>c_status := final_status c\<rparr>)\<rparr>"
  proof (cases "c_status c = WAIT_CONSUME \<or> c_status c = WAIT_DEPEND")
    case True
    then show ?thesis using w' c c1 by (auto simp: upd_check_def final_status_def)
  next
    case False
    have "(checks w)(cid \<mapsto> c) = checks w1" using c c1 by auto
    then show ?thesis using False w' by (simp add: final_status_def)
  qed
  then show ?thesis using wcore_check [OF w1] by simp
qed

section \<open>The transition\<close>

text \<open>The item after the transition, up to what its side effects write.\<close>

definition machine_of :: "check \<Rightarrow> int \<Rightarrow> item \<Rightarrow> state_kind \<times> int" where
  "machine_of c status it =
     machine (my_type it = Service \<and> is_volatile it) (max_check_attempts it) (c_dependency_check c)
       (before_of it (last_state it)) (status = 0) (state_type it, attempt it)"

definition set_machine :: "state_kind \<times> int \<Rightarrow> item \<Rightarrow> item" where
  "set_machine m it = it\<lparr>state_type := fst m, attempt := snd m\<rparr>"

lemma sm_set_machine:
  assumes "sm a = sm b"
  shows "sm (set_machine m a) = sm (set_machine m b)"
proof -
  have "sm (set_machine m x) = set_machine m (sm x)" for x by (simp add: sm_def set_machine_def)
  then show ?thesis using assms by simp
qed

text \<open>
  \<open>in_kind w u w' ty n\<close>: the worlds agree but for the state type and the attempt of the item
  \<open>u\<close>, which are \<open>ty\<close> and \<open>n\<close> in the second.
\<close>

definition moved :: "uuid \<Rightarrow> world \<Rightarrow> state_kind \<times> int \<Rightarrow> world \<Rightarrow> bool" where
  "moved u w m w' \<longleftrightarrow>
     (\<exists>it. items w u = Some it \<and> wcore w' = wcore (w\<lparr>items := (items w)(u \<mapsto> set_machine m it)\<rparr>))"

lemma moved_quiet: "moved u w m w' \<Longrightarrow> wcore w'' = wcore w' \<Longrightarrow> moved u w m w''"
  by (simp add: moved_def)

lemma wcore_item:
  assumes "wcore w' = wcore w" and "items w u = Some it"
  obtains it' where "items w' u = Some it'" and "sm it' = sm it"
  using wcoreD(9) [OF assms(1), of u] assms(2) by auto

lemma wcore_set:
  assumes "wcore w' = wcore w" and "sm a = sm b"
  shows "wcore (w'\<lparr>items := (items w')(u \<mapsto> a)\<rparr>) = wcore (w\<lparr>items := (items w)(u \<mapsto> b)\<rparr>)"
proof -
  have I: "map_option sm (items w' v) = map_option sm (items w v)" for v
    by (rule wcoreD(9) [OF assms(1)])
  have "wcore (w'\<lparr>items := (items w')(u \<mapsto> a)\<rparr>)
      = (wcore w')\<lparr>items := (\<lambda>v. if v = u then Some (sm a) else map_option sm (items w' v))\<rparr>"
    by (simp add: wcore_def fun_eq_iff)
  also have "\<dots> = (wcore w)\<lparr>items := (\<lambda>v. if v = u then Some (sm b) else map_option sm (items w v))\<rparr>"
    by (simp add: assms I cong: if_cong)
  also have "\<dots> = wcore (w\<lparr>items := (items w)(u \<mapsto> b)\<rparr>)"
    by (simp add: wcore_def fun_eq_iff)
  finally show ?thesis .
qed

lemma moved_item:
  assumes "moved u w m w'"
  obtains it it' where "items w u = Some it" and "items w' u = Some it'"
    and "sm it' = sm (set_machine m it)"
proof -
  from assms obtain it where it: "items w u = Some it"
    and w': "wcore w' = wcore (w\<lparr>items := (items w)(u \<mapsto> set_machine m it)\<rparr>)"
    by (auto simp: moved_def)
  from wcore_item [OF w', of u "set_machine m it"] that it show thesis by auto
qed

lemma moved_other:
  assumes "moved u w m w'" and "v \<noteq> u"
  shows "map_option sm (items w' v) = map_option sm (items w v)"
proof -
  from assms(1) obtain it where
    w': "wcore w' = wcore (w\<lparr>items := (items w)(u \<mapsto> set_machine m it)\<rparr>)"
    by (auto simp: moved_def)
  from wcoreD(9) [OF w', of v] assms(2) show ?thesis by simp
qed

lemma moved_upd:
  assumes "moved u w m w1" and "upd_item u f w1 = Some w'"
    and "\<And>it it0. sm it = sm (set_machine m it0) \<Longrightarrow> items w u = Some it0 \<Longrightarrow>
      sm (f it) = sm (set_machine m' it0)"
  shows "moved u w m' w'"
proof -
  from assms(1) obtain it where it: "items w u = Some it"
    and w1: "wcore w1 = wcore (w\<lparr>items := (items w)(u \<mapsto> set_machine m it)\<rparr>)"
    by (auto simp: moved_def)
  from assms(2) obtain it1 where it1: "items w1 u = Some it1"
    and w': "w' = w1\<lparr>items := (items w1)(u \<mapsto> f it1)\<rparr>" by (rule upd_item_SomeE)
  have "map_option sm (items w1 u) = Some (sm (set_machine m it))"
    using wcoreD(9) [OF w1, of u] by simp
  then have "sm it1 = sm (set_machine m it)" using it1 by simp
  then have "sm (f it1) = sm (set_machine m' it)" using assms(3) it by blast
  from wcore_set [OF w1 this] show ?thesis
    using it by (auto simp: moved_def w')
qed

lemma moved_refl: "items w u = Some it \<Longrightarrow> moved u w (state_type it, attempt it) w"
  by (auto simp: moved_def set_machine_def wcore_def fun_eq_iff intro!: exI [of _ it])

lemma quiet_unack: "keeps wcore w (unacknowledge_problem u w)"
  by (rule quiet)

lemma quiet_alert: "keeps wcore w (alert u w)"
  by (rule quiet)

lemma quiet_events: "keeps wcore w (get_event_handlers e u ext w)"
  by (rule quiet)

text \<open>Chains of operations, as rules for \<open>post (moved u w m)\<close>.\<close>

lemma moved_keeps: "moved u w m w1 \<Longrightarrow> keeps wcore w1 r \<Longrightarrow> post (moved u w m) r"
  by (rule postI) (metis keepsD moved_quiet)

lemma moved_step:
  "moved u w m w1 \<Longrightarrow> (\<And>it it0. sm it = sm (set_machine m it0) \<Longrightarrow> items w u = Some it0 \<Longrightarrow>
      sm (f it) = sm (set_machine m' it0)) \<Longrightarrow> post (moved u w m') (upd_item u f w1)"
  by (rule postI) (rule moved_upd)

lemma moved_bind:
  "post (moved u w m) r \<Longrightarrow> (\<And>w1. moved u w m w1 \<Longrightarrow> post (moved u w m') (g w1)) \<Longrightarrow>
   post (moved u w m') (Option.bind r g)"
  by (rule post_bind)

lemma moved_then_quiet:
  "moved u w m w1 \<Longrightarrow> keeps wcore w1 r \<Longrightarrow> (\<And>w2. moved u w m w2 \<Longrightarrow> post (moved u w m') (g w2)) \<Longrightarrow>
   post (moved u w m') (Option.bind r g)"
  by (rule moved_bind [OF moved_keeps])

lemma sm_kind: "sm it = sm (set_machine (ty, n) it0) \<Longrightarrow>
    sm (it\<lparr>state_type := ty'\<rparr>) = sm (set_machine (ty', n) it0)"
  "sm it = sm (set_machine (ty, n) it0) \<Longrightarrow>
    sm (it\<lparr>attempt := n'\<rparr>) = sm (set_machine (ty, n') it0)"
proof -
  have u: "sm (x\<lparr>state_type := ty'\<rparr>) = (sm x)\<lparr>state_type := ty'\<rparr>"
    "sm (x\<lparr>attempt := n'\<rparr>) = (sm x)\<lparr>attempt := n'\<rparr>" for x
    by (simp_all add: sm_def)
  have m: "(set_machine (ty, n) x)\<lparr>state_type := ty'\<rparr> = set_machine (ty', n) x"
    "(set_machine (ty, n) x)\<lparr>attempt := n'\<rparr> = set_machine (ty, n') x" for x
    by (simp_all add: set_machine_def)
  assume "sm it = sm (set_machine (ty, n) it0)"
  then show "sm (it\<lparr>state_type := ty'\<rparr>) = sm (set_machine (ty', n) it0)"
    "sm (it\<lparr>attempt := n'\<rparr>) = sm (set_machine (ty, n') it0)"
    unfolding u m [symmetric] by simp_all
qed

lemma set_kind_attempt:
  "(it :: item)\<lparr>state_type := ty, attempt := n\<rparr> = it\<lparr>attempt := n, state_type := ty\<rparr>"
  by simp

lemma sm_add_attempt: "sm it = sm (set_machine (ty, n) it0) \<Longrightarrow>
    sm (add_attempt it) = sm (set_machine (ty, min (n + 1) (max_check_attempts it0)) it0)"
proof -
  assume h: "sm it = sm (set_machine (ty, n) it0)"
  have "attempt it = n" "max_check_attempts it = max_check_attempts it0"
    using smD(1,2) [OF h] by (simp_all add: set_machine_def)
  then have "add_attempt it = it\<lparr>attempt := min (n + 1) (max_check_attempts it0)\<rparr>"
    by (simp add: add_attempt_def Let_def)
  then show ?thesis using sm_kind(2) [OF h] by simp
qed

lemma hard_problem_moved:
  assumes "moved u w (ty, n) w1"
  shows "post (moved u w (HARD, n)) (hard_problem fuel e u period enable w1)"
  unfolding hard_problem_def
  apply (rule moved_bind [OF moved_step [OF assms]], erule sm_kind)
  apply (rule moved_keeps, assumption)
  apply (intro keeps_bind only_if_quiet quiet)
  done

lemma volatile_bad_moved:
  assumes "moved u w m w1"
  shows "post (moved u w (HARD, 1)) (volatile_bad fuel e u period enable w1)"
proof -
  obtain ty n where m: "m = (ty, n)" by (cases m)
  show ?thesis
    unfolding volatile_bad_def
    apply (rule moved_bind [OF moved_step [OF assms, where m' = "(HARD, 1)"]])
     apply (auto simp: m intro!: sm_kind(1) sm_kind(2)) [1]
    apply (rule moved_keeps, assumption)
    apply (intro keeps_bind only_if_quiet quiet)
    done
qed

text \<open>What the tests of the transitions read.\<close>

lemma moved_reads:
  assumes "sm it = sm (set_machine (ty, n) it0)"
  shows "state_type it = ty" "attempt it = n" "last_state it = last_state it0"
    "max_check_attempts it = max_check_attempts it0" "my_type it = my_type it0"
    "is_volatile it = is_volatile it0" "ok_up it = ok_up it0"
    "is_max_attempts it \<longleftrightarrow> n \<ge> max_check_attempts it0"
  using smD [OF assms] by (simp_all add: set_machine_def ok_up_def is_max_attempts_def)

lemma ok_to_bad_moved:
  assumes "items w u = Some it"
  shows "post (moved u w (if 1 \<ge> max_check_attempts it then HARD else SOFT, 1))
    (ok_to_bad fuel e u period enable w)"
  unfolding ok_to_bad_def
proof (rule moved_bind [OF moved_step [OF moved_refl [OF assms]]])
  fix w1
  assume m1: "moved u w (state_type it, 1) w1"
  then obtain it1 where it1: "items w1 u = Some it1" and s1: "sm it1 = sm (set_machine (state_type it, 1) it)"
    by (rule moved_item) (use assms in auto)
  note r = moved_reads [OF s1]
  show "post (moved u w (if 1 \<ge> max_check_attempts it then HARD else SOFT, 1))
    (case items w1 u of None \<Rightarrow> None
     | Some it \<Rightarrow>
         if is_max_attempts it then hard_problem fuel e u period enable w1
         else Option.bind (upd_item u (\<lambda>it. it\<lparr>state_type := if is_max_attempts it then HARD else SOFT\<rparr>) w1)
                (\<lambda>w1. Option.bind (alert u w1) (get_event_handlers e u False)))"
  proof (cases "1 \<ge> max_check_attempts it")
    case True
    then show ?thesis using hard_problem_moved [OF m1] by (simp add: it1 r)
  next
    case False
    have "post (moved u w (SOFT, 1)) (upd_item u (\<lambda>it. it\<lparr>state_type := if is_max_attempts it then HARD else SOFT\<rparr>) w1)"
    proof (rule moved_step [OF m1])
      fix x x0
      assume x: "sm x = sm (set_machine (state_type it, 1) x0)" and "items w u = Some x0"
      then have "\<not> is_max_attempts x" using assms False moved_reads(8) [OF x] by simp
      then show "sm (x\<lparr>state_type := if is_max_attempts x then HARD else SOFT\<rparr>) = sm (set_machine (SOFT, 1) x0)"
        using sm_kind(1) [OF x] by simp
    qed
    then have "post (moved u w (SOFT, 1)) (Option.bind (upd_item u (\<lambda>it. it\<lparr>state_type := if is_max_attempts it then HARD else SOFT\<rparr>) w1)
                (\<lambda>w1. Option.bind (alert u w1) (get_event_handlers e u False)))"
      by (rule moved_bind) (rule moved_keeps, assumption, intro keeps_bind quiet)
    then show ?thesis using False by (simp add: it1 r)
  qed
qed (rule sm_kind)

lemma soft_bad_to_bad_moved:
  assumes "items w u = Some it"
  shows "post (moved u w (if c_dependency_check c then (if attempt it \<ge> max_check_attempts it then HARD else state_type it, attempt it)
     else (if min (attempt it + 1) (max_check_attempts it) \<ge> max_check_attempts it then HARD else state_type it,
         min (attempt it + 1) (max_check_attempts it))))
    (soft_bad_to_bad fuel e u period c enable w)"
proof -
  let ?n = "if c_dependency_check c then attempt it else min (attempt it + 1) (max_check_attempts it)"
  have "post (moved u w (state_type it, ?n)) (upd_item u (if c_dependency_check c then (\<lambda>it. it) else add_attempt) w)"
    by (rule moved_step [OF moved_refl [OF assms]]) (use assms sm_add_attempt in auto)
  then have "post (moved u w (if ?n \<ge> max_check_attempts it then HARD else state_type it, ?n))
    (soft_bad_to_bad fuel e u period c enable w)"
    unfolding soft_bad_to_bad_def
  proof (rule moved_bind)
    fix w1
    assume m1: "moved u w (state_type it, ?n) w1"
    then obtain it1 where it1: "items w1 u = Some it1" and s1: "sm it1 = sm (set_machine (state_type it, ?n) it)"
      by (rule moved_item) (use assms in auto)
    note r = moved_reads(8) [OF s1]
    have q: "keeps wcore w1 (only_if b (unacknowledge_problem_if_not_sticky u) w1)" for b
      by (intro only_if_quiet quiet)
    show "post (moved u w (if ?n \<ge> max_check_attempts it then HARD else state_type it, ?n))
      (case items w1 u of None \<Rightarrow> None
       | Some it \<Rightarrow>
           Option.bind (only_if (state it \<noteq> last_state it) (unacknowledge_problem_if_not_sticky u) w1) (\<lambda>w2.
           if is_max_attempts it then hard_problem fuel e u period enable w2
           else Option.bind (alert u w2) (get_event_handlers e u False)))"
      unfolding it1 option.case r
    proof (rule moved_then_quiet [OF m1 q])
      fix w2
      assume m2: "moved u w (state_type it, ?n) w2"
      have "post (moved u w (state_type it, ?n)) (Option.bind (alert u w2) (get_event_handlers e u False))"
        by (rule moved_keeps [OF m2]) (intro keeps_bind quiet)
      then show "post (moved u w (if ?n \<ge> max_check_attempts it then HARD else state_type it, ?n))
          (if max_check_attempts it \<le> ?n then hard_problem fuel e u period enable w2
           else Option.bind (alert u w2) (get_event_handlers e u False))"
        using hard_problem_moved [OF m2, of fuel e period enable]
        by (cases "max_check_attempts it \<le> ?n") (simp_all only: if_True if_False)
    qed
  qed
  then show ?thesis by (simp split: if_splits)
qed

lemma ok_to_ok_moved:
  assumes "items w u = Some it"
  shows "post (moved u w (if state_type it = SOFT \<and> last_state it \<noteq> PENDING
      then (if attempt it \<ge> max_check_attempts it then HARD else SOFT, attempt it) else (HARD, 1)))
    (ok_to_ok u w)"
  unfolding ok_to_ok_def
proof (rule moved_then_quiet [OF moved_refl [OF assms] quiet_unack], rule moved_step, assumption)
  fix x x0
  assume x: "sm x = sm (set_machine (state_type it, attempt it) x0)" and "items w u = Some x0"
  then have x0: "x0 = it" using assms by simp
  note r = moved_reads [OF x]
  show "sm (ok_to_ok_item x) = sm (set_machine (if state_type it = SOFT \<and> last_state it \<noteq> PENDING
      then (if attempt it \<ge> max_check_attempts it then HARD else SOFT, attempt it) else (HARD, 1)) x0)"
    using sm_kind(1) [OF x] sm_kind(1) [OF sm_kind(2) [OF x]]
    by (auto simp: ok_to_ok_item_def r x0)
qed

lemma bad_to_ok_moved:
  assumes "items w u = Some it"
  shows "post (moved u w (HARD, 1)) (bad_to_ok e u period c enable w)"
  unfolding bad_to_ok_def
proof (rule moved_then_quiet [OF moved_refl [OF assms] quiet_unack])
  fix w1
  assume m1: "moved u w (state_type it, attempt it) w1"
  then obtain it1 where it1: "items w1 u = Some it1"
    and s1: "sm it1 = sm (set_machine (state_type it, attempt it) it)"
    by (rule moved_item) (use assms in auto)
  note r = moved_reads(1) [OF s1]
  show "post (moved u w (HARD, 1)) (case items w1 u of None \<Rightarrow> None
     | Some it \<Rightarrow>
         if state_type it = SOFT
         then Option.bind (upd_item u (if c_dependency_check c then (\<lambda>it. it) else add_attempt) w1) (\<lambda>w1.
              Option.bind (alert u w1) (\<lambda>w2.
              Option.bind (get_event_handlers e u False w2)
                (upd_item u (\<lambda>it. it\<lparr>state_type := HARD, attempt := 1\<rparr>))))
         else Option.bind (alert u w1) (\<lambda>w1.
              Option.bind (remove_in_progress_notifications u True w1) (\<lambda>w2.
              Option.bind (only_if enable (create_notifications e u RECOVERY period None None) w2) (\<lambda>w3.
              Option.bind (get_event_handlers e u False w3) (\<lambda>w4.
              Option.bind (upd_item u (\<lambda>it. it\<lparr>attempt := 1\<rparr>) w4)
                (no_more_a_problem e u))))))"
  proof (cases "state_type it = SOFT")
    case True
    let ?n = "if c_dependency_check c then attempt it else min (attempt it + 1) (max_check_attempts it)"
    have "post (moved u w (state_type it, ?n)) (upd_item u (if c_dependency_check c then (\<lambda>it. it) else add_attempt) w1)"
      by (rule moved_step [OF m1]) (use assms sm_add_attempt in auto)
    then have "post (moved u w (HARD, 1)) (Option.bind (upd_item u (if c_dependency_check c then (\<lambda>it. it) else add_attempt) w1) (\<lambda>w1.
              Option.bind (alert u w1) (\<lambda>w2.
              Option.bind (get_event_handlers e u False w2)
                (upd_item u (\<lambda>it. it\<lparr>state_type := HARD, attempt := 1\<rparr>)))))"
      apply (rule moved_bind)
      apply (rule moved_then_quiet, assumption, rule quiet_alert)
      apply (rule moved_then_quiet, assumption, rule quiet_events)
      apply (rule moved_step, assumption, drule sm_kind(2) [where n' = 1], drule sm_kind(1) [where ty' = HARD])
      apply (simp add: set_kind_attempt)
      done
    then show ?thesis using True by (simp add: it1 r)
  next
    case False
    then have hard: "state_type it = HARD" by (cases "state_type it") simp_all
    have "post (moved u w (HARD, 1)) (Option.bind (alert u w1) (\<lambda>w1.
              Option.bind (remove_in_progress_notifications u True w1) (\<lambda>w2.
              Option.bind (only_if enable (create_notifications e u RECOVERY period None None) w2) (\<lambda>w3.
              Option.bind (get_event_handlers e u False w3) (\<lambda>w4.
              Option.bind (upd_item u (\<lambda>it. it\<lparr>attempt := 1\<rparr>) w4)
                (no_more_a_problem e u))))))"
      apply (rule moved_then_quiet [OF m1 [unfolded hard] quiet_alert])
      apply (rule moved_then_quiet, assumption, rule quiet)
      apply (rule moved_then_quiet, assumption, rule only_if_quiet, rule quiet)
      apply (rule moved_then_quiet, assumption, rule quiet_events)
      apply (rule moved_bind, rule moved_step, assumption, erule sm_kind(2))
      apply (rule moved_keeps, assumption, rule quiet)
      done
    then show ?thesis using False by (simp add: it1 r)
  qed
qed

text \<open>The item but for its hard unknown phase.\<close>

definition pm :: "item \<Rightarrow> item" where
  "pm it = it\<lparr>in_hard_unknown_reach_phase := False, was_in_hard_unknown_reach_phase := False,
     state_before_hard_unknown_reach_phase := PENDING\<rparr>"

lemma pm_phase:
  "pm (it\<lparr>was_in_hard_unknown_reach_phase := b\<rparr>) = pm it"
  "pm (it\<lparr>in_hard_unknown_reach_phase := b\<rparr>) = pm it"
  "pm (it\<lparr>state_before_hard_unknown_reach_phase := s\<rparr>) = pm it"
  by (simp_all add: pm_def)

lemma pm_let:
  fixes it :: item
  assumes "pm v = pm it" and "\<And>x. pm x = pm it \<Longrightarrow> pm (f x) = pm it"
  shows "pm (Let v f) = pm it"
  using assms by (simp add: Let_def)

lemma pm_update_hard_unknown: "pm (update_hard_unknown_phase_state it) = pm it"
proof -
  have if_pm: "pm x = pm it \<Longrightarrow> pm y = pm it \<Longrightarrow> pm (if b then x else y) = pm it" for b and x y :: item
    by simp
  show ?thesis
    unfolding update_hard_unknown_phase_state_def Let_def [where s = "_ \<or> _"]
    by (intro pm_let if_pm) (simp_all only: pm_phase)
qed

lemma sm_update_hard_unknown [simp]: "sm (update_hard_unknown_phase_state it) = sm it"
proof -
  have "sm (pm x) = sm x" for x by (simp add: sm_def pm_def)
  then show ?thesis using pm_update_hard_unknown [of it] by metis
qed

lemma renotify_quiet: "keeps wcore w (renotify e u period enable w)"
  by (rule quiet)

lemma hard_bad_change_quiet: "keeps wcore w (hard_bad_change e u period enable w)"
  unfolding hard_bad_change_def
  by (rule keeps_bind) (auto split: option.splits intro!: keeps_bind renotify_quiet quiet)

lemma hard_bad_to_bad_quiet: "keeps wcore w (hard_bad_to_bad fuel e u period enable w)"
  unfolding hard_bad_to_bad_def
  by (auto split: option.splits intro!: keeps_bind only_if_quiet hard_bad_change_quiet quiet)

text \<open>The transition is the machine.\<close>

lemma transition_moved:
  assumes it: "items w u = Some it"
  shows "post (moved u w (machine_of c status it)) (transition fuel e u period c status enable w)"
proof -
  have p: "ok_up it \<noteq> PENDING" by (simp add: ok_up_def)
  consider (ok) "status = 0" "last_state it = ok_up it \<or> last_state it = PENDING"
    | (recover) "status = 0" "last_state it \<noteq> ok_up it" "last_state it \<noteq> PENDING"
    | (volatile) "status \<noteq> 0" "my_type it = Service \<and> is_volatile it"
    | (fall) "status \<noteq> 0" "\<not> (my_type it = Service \<and> is_volatile it)"
        "last_state it = ok_up it \<or> last_state it = PENDING"
    | (soft) "status \<noteq> 0" "\<not> (my_type it = Service \<and> is_volatile it)"
        "last_state it \<noteq> ok_up it" "last_state it \<noteq> PENDING" "state_type it = SOFT"
    | (hard) "status \<noteq> 0" "\<not> (my_type it = Service \<and> is_volatile it)"
        "last_state it \<noteq> ok_up it" "last_state it \<noteq> PENDING" "state_type it = HARD"
    by (cases "state_type it") blast+
  then show ?thesis
  proof cases
    case ok
    then show ?thesis using ok_to_ok_moved [OF it] p
      by (auto simp: transition_def it machine_of_def before_of_def split: if_splits)
  next
    case recover
    then show ?thesis using bad_to_ok_moved [OF it]
      by (simp add: transition_def it machine_of_def before_of_def)
  next
    case volatile
    then show ?thesis using volatile_bad_moved [OF moved_refl [OF it]]
      by (simp add: transition_def it machine_of_def)
  next
    case fall
    then show ?thesis using ok_to_bad_moved [OF it]
      by (auto simp: transition_def it machine_of_def before_of_def)
  next
    case soft
    have "machine_of c status it = (if c_dependency_check c
        then (if attempt it \<ge> max_check_attempts it then HARD else state_type it, attempt it)
        else (if min (attempt it + 1) (max_check_attempts it) \<ge> max_check_attempts it then HARD
              else state_type it, min (attempt it + 1) (max_check_attempts it)))"
      using soft by (auto simp: machine_of_def before_of_def Let_def)
    then show ?thesis using soft_bad_to_bad_moved [OF it, of c fuel e period enable] soft
      by (simp only: transition_def it option.case if_False de_Morgan_disj simp_thms HOL.not_False_eq_True if_True)
  next
    case hard
    then show ?thesis using moved_keeps [OF moved_refl [OF it] hard_bad_to_bad_quiet]
      by (auto simp: transition_def it machine_of_def before_of_def)
  qed
qed

section \<open>The end of the method\<close>

lemma update_hard_unknown_fields:
  fixes it :: item
  defines "x \<equiv> update_hard_unknown_phase_state it"
  shows "state_type x = state_type it" "attempt x = attempt it" "state x = state it"
    "state_id x = state_id it" "last_state x = last_state it"
    "last_state_type x = last_state_type it" "last_hard_state x = last_hard_state it"
    "last_hard_state_id x = last_hard_state_id it" "checks_in_progress x = checks_in_progress it"
    "in_checking x = in_checking it" "my_type x = my_type it"
    "max_check_attempts x = max_check_attempts it"
    "problem_has_been_acknowledged x = problem_has_been_acknowledged it"
    "is_problem x = is_problem it"
  using pm_update_hard_unknown [of it, folded x_def, THEN arg_cong, of state_type]
    pm_update_hard_unknown [of it, folded x_def, THEN arg_cong, of attempt]
    pm_update_hard_unknown [of it, folded x_def, THEN arg_cong, of state]
    pm_update_hard_unknown [of it, folded x_def, THEN arg_cong, of state_id]
    pm_update_hard_unknown [of it, folded x_def, THEN arg_cong, of last_state]
    pm_update_hard_unknown [of it, folded x_def, THEN arg_cong, of last_state_type]
    pm_update_hard_unknown [of it, folded x_def, THEN arg_cong, of last_hard_state]
    pm_update_hard_unknown [of it, folded x_def, THEN arg_cong, of last_hard_state_id]
    pm_update_hard_unknown [of it, folded x_def, THEN arg_cong, of checks_in_progress]
    pm_update_hard_unknown [of it, folded x_def, THEN arg_cong, of in_checking]
    pm_update_hard_unknown [of it, folded x_def, THEN arg_cong, of my_type]
    pm_update_hard_unknown [of it, folded x_def, THEN arg_cong, of max_check_attempts]
    pm_update_hard_unknown [of it, folded x_def, THEN arg_cong, of problem_has_been_acknowledged]
    pm_update_hard_unknown [of it, folded x_def, THEN arg_cong, of is_problem]
  by (simp_all add: pm_def)

lemma close_states_fields:
  "state_type (close_states t f it) = state_type it" "attempt (close_states t f it) = attempt it"
  "state (close_states t f it) = state it" "state_id (close_states t f it) = state_id it"
  "last_state (close_states t f it) = last_state it"
  "checks_in_progress (close_states t f it) = checks_in_progress it"
  "in_checking (close_states t f it) = in_checking it"
  "my_type (close_states t f it) = my_type it"
  "max_check_attempts (close_states t f it) = max_check_attempts it"
  "problem_has_been_acknowledged (close_states t f it) = problem_has_been_acknowledged it"
  "is_problem (close_states t f it) = is_problem it"
  "state_type_id (close_states t f it) = (if state_type it = HARD then 1 else 0)"
  "last_hard_state (close_states t f it) = (if state_type it = HARD then state it else last_hard_state it)"
  "last_hard_state_id (close_states t f it)
     = (if state_type it = HARD then state_id it else last_hard_state_id it)"
  "\<not> in_scheduled_downtime_during_last_check (close_states t f it)"
  by (simp_all add: close_states_def Let_def update_hard_unknown_fields)

definition em :: "item \<Rightarrow> item" where
  "em it = it\<lparr>last_event_id := 0, current_event_id := 0, last_problem_id := 0, current_problem_id := 0\<rparr>"

lemma em_absorb:
  "em (it\<lparr>last_event_id := n\<rparr>) = em it" "em (it\<lparr>current_event_id := n\<rparr>) = em it"
  "em (it\<lparr>last_problem_id := n\<rparr>) = em it" "em (it\<lparr>current_problem_id := n\<rparr>) = em it"
  by (simp_all add: em_def)

lemma em_update_ids: "em (snd (update_event_and_problem_id k it)) = em it"
  by (cases k) (simp add: update_event_and_problem_id_def Let_def em_absorb)

text \<open>The item at the end, up to notifications and event handlers.\<close>

definition closed :: "nat \<times> nat \<Rightarrow> int \<Rightarrow> bool \<Rightarrow> item \<Rightarrow> item" where
  "closed k t freshness it = snd (update_event_and_problem_id k (close_states t freshness it))"

lemma closed_fields:
  assumes x: "x = closed k t f it"
  shows "state_type x = state_type it" "attempt x = attempt it" "state x = state it"
    "state_id x = state_id it" "last_state x = last_state it"
    "checks_in_progress x = checks_in_progress it" "in_checking x = in_checking it"
    "my_type x = my_type it" "max_check_attempts x = max_check_attempts it"
    "problem_has_been_acknowledged x = problem_has_been_acknowledged it"
    "is_problem x = is_problem it"
    "state_type_id x = (if state_type it = HARD then 1 else 0)"
    "last_hard_state x = (if state_type it = HARD then state it else last_hard_state it)"
    "last_hard_state_id x = (if state_type it = HARD then state_id it else last_hard_state_id it)"
proof -
  have "em x = em (close_states t f it)" by (simp add: x closed_def em_update_ids)
  note e = this [THEN arg_cong]
  show "state_type x = state_type it" "attempt x = attempt it" "state x = state it"
    "state_id x = state_id it" "last_state x = last_state it"
    "checks_in_progress x = checks_in_progress it" "in_checking x = in_checking it"
    "my_type x = my_type it" "max_check_attempts x = max_check_attempts it"
    "problem_has_been_acknowledged x = problem_has_been_acknowledged it"
    "is_problem x = is_problem it"
    "state_type_id x = (if state_type it = HARD then 1 else 0)"
    "last_hard_state x = (if state_type it = HARD then state it else last_hard_state it)"
    "last_hard_state_id x = (if state_type it = HARD then state_id it else last_hard_state_id it)"
    using e [of state_type] e [of attempt] e [of state] e [of state_id] e [of last_state]
      e [of checks_in_progress] e [of in_checking] e [of my_type] e [of max_check_attempts]
      e [of problem_has_been_acknowledged] e [of is_problem] e [of state_type_id]
      e [of last_hard_state] e [of last_hard_state_id]
    by (simp_all add: em_def close_states_fields)
qed

lemma close_result_effect:
  assumes "close_result e u freshness w = Some w'" and it: "items w u = Some it"
  obtains k it' where "items w' u = Some it'" and "nq it' = nq (closed k (now w) freshness it)"
    and "checks w' = checks w" and "sched_checks w' = sched_checks w" and "\<And>v. v \<noteq> u \<Longrightarrow> map_option nq (items w' v) = map_option nq (items w v)"
proof -
  let ?k = "(last_event w, last_problem w)"
  obtain ev pb where u: "update_event_and_problem_id ?k (close_states (now w) freshness it)
      = ((ev, pb), closed ?k (now w) freshness it)"
    by (metis closed_def prod.collapse)
  let ?w = "w\<lparr>items := (items w)(u \<mapsto> add_brok CheckResultBrok (closed ?k (now w) freshness it)),
      last_event := ev, last_problem := pb\<rparr>"
  from assms(1) have "Option.bind (get_perfdata_command e u ?w) (get_snapshot e u) = Some w'"
    by (simp add: close_result_def it u)
  moreover have "keeps ncore ?w (Option.bind (get_perfdata_command e u ?w) (get_snapshot e u))"
    by (intro keeps_bind nquiet)
  ultimately have n: "ncore w' = ncore ?w" by (metis keepsD)
  have I: "map_option nq (items w' v) = map_option nq (items ?w v)" for v
    using arg_cong [OF n, of items] by (simp add: ncore_def fun_eq_iff)
  have "checks w' = checks w" "sched_checks w' = sched_checks w"
    using arg_cong [OF n, of checks] arg_cong [OF n, of sched_checks] by (simp_all add: ncore_def)
  moreover obtain it' where "items w' u = Some it'" "nq it' = nq (closed ?k (now w) freshness it)"
    using I [of u] by auto
  moreover have "map_option nq (items w' v) = map_option nq (items w v)" if "v \<noteq> u" for v
    using I [of v] that by simp
  ultimately show thesis using that by blast
qed

section \<open>The whole method\<close>

lemma previous_state_freshness:
  "previous_state cl (it\<lparr>freshness_expired := b\<rparr>) = previous_state cl it"
  "machine_of c s (it\<lparr>freshness_expired := b\<rparr>) = machine_of c s it"
  by (simp_all add: previous_state_def machine_of_def before_of_def ok_up_def)

text \<open>The state and what follows from the hard state, of the item before and after.\<close>

definition consumed :: "uuid \<Rightarrow> check \<Rightarrow> int \<Rightarrow> cls \<Rightarrow> item \<Rightarrow> item \<Rightarrow> bool" where
  "consumed cid c status cl it it' \<longleftrightarrow>
     (state_type it', attempt it')
       = machine (my_type it = Service \<and> is_volatile it) (max_check_attempts it) (c_dependency_check c)
           (before_of it (previous_state cl it)) (status = 0) (state_type it, attempt it)
     \<and> max_check_attempts it' = max_check_attempts it \<and> my_type it' = my_type it
     \<and> last_state it' = previous_state cl it
     \<and> checks_in_progress it' = remove1 cid (checks_in_progress it)
     \<and> in_checking it' = (checks_in_progress it' \<noteq> [])
     \<and> state_type_id it' = (if state_type it' = HARD then 1 else 0)
     \<and> (state_type it' = HARD \<longrightarrow> last_hard_state it' = state it' \<and> last_hard_state_id it' = state_id it')
     \<and> (state_type it' = SOFT \<longrightarrow> last_hard_state it' = last_hard_state it
          \<and> last_hard_state_id it' = last_hard_state_id it)"

lemma consume_result_consumed:
  assumes run: "consume_result fuel e u cid period raise_log w = Some (w', us)"
    and it: "items w u = Some it" and c: "checks w cid = Some c"
    and ready: "\<not> waits_for_dependencies c it"
  shows "\<exists>it' status. effective_exit e (now w) c it = Some status \<and> items w' u = Some it'
    \<and> consumed cid c status (cls_of w it) it it' \<and> us = []
    \<and> checks w' = (checks w)(cid \<mapsto> c\<lparr>c_exit_status := status, c_status := final_status c\<rparr>)
    \<and> sched_checks w' = sched_checks w
    \<and> (\<forall>v. v \<noteq> u \<longrightarrow> map_option sm (items w' v) = map_option sm (items w v))"
proof -
  define it1 where "it1 = (if c_freshness_expiry_check c then it else it\<lparr>freshness_expired := False\<rparr>)"
  define w1 where "w1 = w\<lparr>items := (items w)(u \<mapsto> it1)\<rparr>"
  have ready1: "\<not> waits_for_dependencies c it1"
    using ready by (simp add: it1_def waits_for_dependencies_def)
  obtain w2 status w3 enable w4
    where w2: "take_result e u cid period raise_log w1 = Some (w2, status)"
      and w3: "dependency_outcome u cid w2 = Some (w3, enable)"
      and w4: "transition fuel e u period c status enable w3 = Some w4"
      and w5: "close_result e u (c_freshness_expiry_check c) w4 = Some w'" and us: "us = []"
    using run ready1
    by (auto simp: consume_result_def it c w1_def it1_def Let_def Option.bind_eq_Some_conv
        split: if_splits)
  have i1: "items w1 u = Some it1" and c1: "checks w1 cid = Some c" by (simp_all add: w1_def c)
  have cl1: "cls_of w1 it1 = cls_of w it" by (simp add: cls_of_def w1_def it1_def)
  note t = take_result_effect [OF w2 i1 c1]
  define tk where "tk = taken (cls_of w it) (now w1) cid c status it1"
  note tf = taken_fields [OF tk_def]
  have st: "effective_exit e (now w) c it = Some status"
  proof -
    have "effective_exit e (now w) c it1 = effective_exit e (now w) c it"
      by (simp add: it1_def effective_exit_def)
    then show ?thesis using t(1) by (simp add: w1_def)
  qed
  have w2c: "wcore w2 = wcore (w1\<lparr>items := (items w1)(u \<mapsto> tk),
      checks := (checks w1)(cid \<mapsto> c\<lparr>c_exit_status := status\<rparr>)\<rparr>)"
    by (rule acore_wcore [OF ncore_acore [OF t(2) [unfolded cl1, folded tk_def]]])
  let ?c = "c\<lparr>c_exit_status := status\<rparr>"
  have c2: "checks w2 = (checks w)(cid \<mapsto> ?c)"
    using wcoreD(2) [OF w2c] by (simp add: w1_def)
  then have w3c: "wcore w3 = wcore (w2\<lparr>checks := (checks w2)(cid \<mapsto> ?c\<lparr>c_status := final_status ?c\<rparr>)\<rparr>)"
    using dependency_outcome_effect [OF w3] by simp
  have c3: "checks w3 = (checks w)(cid \<mapsto> c\<lparr>c_exit_status := status, c_status := final_status c\<rparr>)"
    using wcoreD(2) [OF w3c] by (simp add: c2 final_status_def)
  have I3: "map_option sm (items w3 v) = (if v = u then Some (sm tk) else map_option sm (items w v))" for v
    using wcoreD(9) [OF w3c, of v] wcoreD(9) [OF w2c, of v] by (simp add: w1_def)
  obtain it3 where it3: "items w3 u = Some it3" "sm it3 = sm tk"
    using I3 [of u] by auto
  have m: "moved u w3 (machine_of c status it3) w4"
    using transition_moved [OF it3(1)] w4 by (simp add: post_def)
  obtain it4 where it4: "items w4 u = Some it4" "sm it4 = sm (set_machine (machine_of c status it3) it3)"
    using m it3(1) by (elim moved_item) auto
  have I4: "map_option sm (items w4 v) = map_option sm (items w3 v)" if "v \<noteq> u" for v
    by (rule moved_other [OF m that])
  obtain k it5 where it5: "items w' u = Some it5"
      "nq it5 = nq (closed k (now w4) (c_freshness_expiry_check c) it4)"
    and c5: "checks w' = checks w4" "sched_checks w' = sched_checks w4"
    and I5: "\<And>v. v \<noteq> u \<Longrightarrow> map_option nq (items w' v) = map_option nq (items w4 v)"
    using close_result_effect [OF w5 it4(1)] by metis
  have "checks w4 = checks w3" "sched_checks w4 = sched_checks w3"
    using m by (auto simp: moved_def dest: wcoreD(2,10))
  moreover have "sched_checks w3 = sched_checks w"
    using wcoreD(10) [OF w3c] wcoreD(10) [OF w2c] by (simp add: w1_def)
  ultimately have sc: "sched_checks w' = sched_checks w" using c5 by simp
  have "checks w4 = checks w3" using m by (auto simp: moved_def dest: wcoreD(2))
  then have cs: "checks w' = (checks w)(cid \<mapsto> c\<lparr>c_exit_status := status, c_status := final_status c\<rparr>)"
    using c5 c3 by simp
  have s5: "sm it5 = sm (closed k (now w4) (c_freshness_expiry_check c) it4)"
    and q5: "state it5 = state (closed k (now w4) (c_freshness_expiry_check c) it4)"
      "state_id it5 = state_id (closed k (now w4) (c_freshness_expiry_check c) it4)"
    using akD(1-3) [OF nqD(1) [OF it5(2)]] .
  note d5 = smD [OF s5] and d4 = smD [OF it4(2)] and d3 = smD [OF it3(2)]
  note cf = closed_fields [OF refl, of k "now w4" "c_freshness_expiry_check c" it4]
  have same: "state_type it1 = state_type it" "attempt it1 = attempt it" "my_type it1 = my_type it"
    "max_check_attempts it1 = max_check_attempts it" "is_volatile it1 = is_volatile it"
    "previous_state (cls_of w it) it1 = previous_state (cls_of w it) it"
    "checks_in_progress it1 = checks_in_progress it" "last_hard_state it1 = last_hard_state it"
    "last_hard_state_id it1 = last_hard_state_id it"
    by (simp_all add: it1_def previous_state_freshness)
  have mach: "machine_of c status it3
      = machine (my_type it = Service \<and> is_volatile it) (max_check_attempts it) (c_dependency_check c)
          (before_of it (previous_state (cls_of w it) it)) (status = 0) (state_type it, attempt it)"
    by (simp add: machine_of_def before_of_def ok_up_def d3 tf same)
  have mt: "state_type it5 = fst (machine_of c status it3)" "attempt it5 = snd (machine_of c status it3)"
    by (simp_all add: d5 cf d4 set_machine_def)
  have "(state_type it5, attempt it5) = machine_of c status it3" by (simp only: mt prod.collapse)
  then have c1: "(state_type it5, attempt it5)
      = machine (my_type it = Service \<and> is_volatile it) (max_check_attempts it) (c_dependency_check c)
          (before_of it (previous_state (cls_of w it) it)) (status = 0) (state_type it, attempt it)"
    by (simp only: mach)
  have c2: "max_check_attempts it5 = max_check_attempts it" "my_type it5 = my_type it"
    "last_state it5 = previous_state (cls_of w it) it"
    "checks_in_progress it5 = remove1 cid (checks_in_progress it)"
    "in_checking it5 = (checks_in_progress it5 \<noteq> [])"
    "state_type_id it5 = (if state_type it5 = HARD then 1 else 0)"
    "state_type it5 = HARD \<longrightarrow> last_hard_state it5 = state it5 \<and> last_hard_state_id it5 = state_id it5"
    "state_type it5 = SOFT \<longrightarrow> last_hard_state it5 = last_hard_state it
      \<and> last_hard_state_id it5 = last_hard_state_id it"
    by (simp_all add: d5 q5 cf d4 d3 tf same set_machine_def)
  have "consumed cid c status (cls_of w it) it it5"
    unfolding consumed_def by (intro conjI) (fact c1 c2)+
  moreover have "map_option sm (items w' v) = map_option sm (items w v)" if "v \<noteq> u" for v
  proof -
    have "map_option sm (items w' v) = map_option sm (items w4 v)"
      using I5 [OF that] by (cases "items w' v"; cases "items w4 v") (auto dest: nqD(1) akD(1))
    then show ?thesis using I4 [OF that] I3 [of v] that by simp
  qed
  ultimately show ?thesis using st it5(1) us cs sc by blast
qed

text \<open>
  C1. \<open>consume_result\<close> implements the state machine: when the result of a check is not put on hold
  for the checks of its dependencies, the new state type and attempt of the item are those of
  the abstract machine \<open>machine\<close>, from the old ones, the state before the result and whether the
  effective exit status (after the result modulations) is 0; nothing the method does on the
  way (notifications, event handlers, acknowledgements, downtimes, problem and impact
  registration) disturbs them.
\<close>

theorem consume_result_refines_machine:
  assumes "consume_result fuel e u cid period raise_log w = Some (w', us)"
    and "items w u = Some it" and "checks w cid = Some c" and "\<not> waits_for_dependencies c it"
  shows "\<exists>it' status. items w' u = Some it' \<and> effective_exit e (now w) c it = Some status
    \<and> (state_type it', attempt it')
      = machine (my_type it = Service \<and> is_volatile it) (max_check_attempts it) (c_dependency_check c)
          (before_of it (previous_state (cls_of w it) it)) (status = 0) (state_type it, attempt it)"
  using consume_result_consumed [OF assms] unfolding consumed_def by blast

theorem consume_result_refines_machine_witness:
  "\<exists>it' status. items (fst (the (consume_result 5 sample_env 1 11 None False
        (sample_world sample_host sample_service 0 2)))) 1 = Some it'
    \<and> effective_exit sample_env 100 (sample_check 1 2) sample_service = Some status
    \<and> (state_type it', attempt it') = machine False 3 False Fresh (status = 0) (HARD, 0)"
proof -
  let ?w = "sample_world sample_host sample_service 0 2"
  obtain w' us where r: "consume_result 5 sample_env 1 11 None False ?w = Some (w', us)"
    using sample_runs(1) by (cases "consume_result 5 sample_env 1 11 None False ?w") auto
  have i: "items ?w 1 = Some sample_service" "checks ?w 11 = Some (sample_check 1 2)"
    by (simp_all add: sample_world_def)
  have n: "\<not> waits_for_dependencies (sample_check 1 2) sample_service"
    by (simp add: waits_for_dependencies_def sample_service_def sample_item_def)
  show ?thesis
    using consume_result_refines_machine [OF r i n] r
    by (simp add: sample_service_def sample_item_def sample_world_def sample_check_def new_check_def
        previous_state_def before_of_def)
qed

text \<open>
  C5. After a result is consumed the item is coherent: the state type and its number agree, the
  last hard state is the present state when the state is hard and is untouched when it is
  soft, the last state is the state before the result, the check is no longer in progress,
  and \<open>in_checking\<close> says exactly whether other checks are. The other items keep their attempts,
  state types, last states and checks in progress (all that \<open>sm\<close> keeps).
\<close>

theorem consume_result_leaves_coherent_states:
  assumes "consume_result fuel e u cid period raise_log w = Some (w', us)"
    and "items w u = Some it" and "checks w cid = Some c" and "\<not> waits_for_dependencies c it"
  shows "\<exists>it'. items w' u = Some it'
     \<and> state_type_id it' = (if state_type it' = HARD then 1 else 0)
     \<and> (if state_type it' = HARD
        then last_hard_state it' = state it' \<and> last_hard_state_id it' = state_id it'
        else last_hard_state it' = last_hard_state it \<and> last_hard_state_id it' = last_hard_state_id it)
     \<and> last_state it' = previous_state (cls_of w it) it
     \<and> checks_in_progress it' = remove1 cid (checks_in_progress it)
     \<and> in_checking it' = (checks_in_progress it' \<noteq> [])
     \<and> (\<forall>v. v = u \<or> map_option sm (items w' v) = map_option sm (items w v))"
proof -
  obtain it' status where it': "items w' u = Some it'" "consumed cid c status (cls_of w it) it it'"
    and others: "\<forall>v. v \<noteq> u \<longrightarrow> map_option sm (items w' v) = map_option sm (items w v)"
    using consume_result_consumed [OF assms] by blast
  have "state_type it' = HARD \<or> state_type it' = SOFT" by (cases "state_type it'") simp_all
  then show ?thesis using it' others unfolding consumed_def by auto
qed

theorem consume_result_leaves_coherent_states_witness:
  "\<exists>it'. items (fst (the (consume_result 5 sample_env 1 11 None False
        (sample_world sample_host sample_service 0 2)))) 1 = Some it'
    \<and> state_type_id it' = (if state_type it' = HARD then 1 else 0)"
proof -
  let ?w = "sample_world sample_host sample_service 0 2"
  obtain w' us where r: "consume_result 5 sample_env 1 11 None False ?w = Some (w', us)"
    using sample_runs(1) by (cases "consume_result 5 sample_env 1 11 None False ?w") auto
  have i: "items ?w 1 = Some sample_service" "checks ?w 11 = Some (sample_check 1 2)"
    by (simp_all add: sample_world_def)
  have n: "\<not> waits_for_dependencies (sample_check 1 2) sample_service"
    by (simp add: waits_for_dependencies_def sample_service_def sample_item_def)
  show ?thesis
    using consume_result_leaves_coherent_states [OF r i n] r by auto
qed

end
