(* ===== verification/Scatter.thy ===== *)
theory Scatter
  imports Consume
begin

text \<open>
  A master notification becomes one child for each contact and command
  (\<open>is_escalable\<close>, \<open>get_next_notification_time\<close>, \<open>get_escalable_contacts\<close>,
  \<open>scatter_notification\<close> and the methods around them, \<open>alignak/objects/schedulingitem.py\<close>).
\<close>

section \<open>Escalations of a notification\<close>

text \<open>
  The escalations of an item that are eligible for a notification, in order; an unknown
  escalation raises. \<open>is_escalable\<close> stops at the first one, before any later unknown
  escalation. A notification without a time is never launchable, so it is not scattered;
  computing its escalations raises.
\<close>

definition eligible_for :: "env \<Rightarrow> world \<Rightarrow> item \<Rightarrow> notification \<Rightarrow> escalation \<Rightarrow> bool option" where
  "eligible_for e w it n es =
     (case n_t_to_go n of None \<Rightarrow> None
      | Some t \<Rightarrow> Some (is_eligible e t (state it) (n_notif_nb n) (now w - n_creation_time n)
                           (interval_length (cls_of w it)) es))"

fun is_escalable_loop :: "env \<Rightarrow> world \<Rightarrow> item \<Rightarrow> notification \<Rightarrow> uuid list \<Rightarrow> bool option" where
  "is_escalable_loop e w it n [] = Some False"
| "is_escalable_loop e w it n (u # us) =
     (case Option.bind (escalation_store e u) (eligible_for e w it n) of None \<Rightarrow> None
      | Some b \<Rightarrow> if b then Some True else is_escalable_loop e w it n us)"

definition is_escalable :: "env \<Rightarrow> world \<Rightarrow> item \<Rightarrow> notification \<Rightarrow> bool option" where
  "is_escalable e w it n = is_escalable_loop e w it n (escalations it)"

fun eligible_escalations ::
  "env \<Rightarrow> world \<Rightarrow> item \<Rightarrow> notification \<Rightarrow> uuid list \<Rightarrow> escalation list option" where
  "eligible_escalations e w it n [] = Some []"
| "eligible_escalations e w it n (u # us) =
     (case escalation_store e u of None \<Rightarrow> None
      | Some es \<Rightarrow>
     (case eligible_for e w it n es of None \<Rightarrow> None
      | Some b \<Rightarrow> map_option (\<lambda>r. if b then es # r else r) (eligible_escalations e w it n us)))"

text \<open>
  The contacts of the eligible escalations, without repetitions (their order, that of a
  Python set, is not specified: first come, first served here), and the names of the
  escalations marked as started.
\<close>

definition get_escalable_contacts ::
  "env \<Rightarrow> world \<Rightarrow> item \<Rightarrow> notification \<Rightarrow> (notification \<times> uuid list) option" where
  "get_escalable_contacts e w it n =
     map_option (\<lambda>ess.
        (n\<lparr>n_already_start_escalations := fold (\<lambda>es names.
             if es_name es \<in> set names then names else names @ [es_name es]) ess
             (n_already_start_escalations n)\<rparr>,
         remdups (concat (map es_contacts ess))))
       (eligible_escalations e w it n (escalations it))"

definition escalation_interval :: "int \<Rightarrow> escalation list \<Rightarrow> int" where
  "escalation_interval own ess =
     fold (\<lambda>es i. if es_notification_interval es \<noteq> -1 \<and> es_notification_interval es < i
                  then es_notification_interval es else i) ess own"

definition standard_time :: "int \<Rightarrow> int \<Rightarrow> int \<Rightarrow> int" where
  "standard_time t t_to_go seconds =
     (if t_to_go + seconds < t then t + seconds else t_to_go + seconds)"

text \<open>The second loop: an escalation not yet started may ask for an earlier time.\<close>

definition earlier_start :: "env \<Rightarrow> world \<Rightarrow> item \<Rightarrow> notification \<Rightarrow> int \<Rightarrow> uuid \<Rightarrow> int \<Rightarrow> int option" where
  "earlier_start e w it n std u res =
     (case escalation_store e u of None \<Rightarrow> None
      | Some es \<Rightarrow>
          if es_name es \<in> set (n_already_start_escalations n) then Some res
          else (case get_next_notif_time e std (state it) (n_creation_time n)
                       (interval_length (cls_of w it)) es of
                  None \<Rightarrow> Some res
                | Some t \<Rightarrow> Some (if now w < t \<and> t < res then t else res)))"

definition get_next_notification_time :: "env \<Rightarrow> world \<Rightarrow> item \<Rightarrow> notification \<Rightarrow> int option" where
  "get_next_notification_time e w it n =
     (case (n_t_to_go n, eligible_escalations e w it n (escalations it)) of
        (Some t, Some ess) \<Rightarrow>
          let seconds = escalation_interval (notification_interval it) ess
                          * interval_length (cls_of w it);
              std = standard_time (now w) t seconds
          in foldM (earlier_start e w it n std) (escalations it) std
      | _ \<Rightarrow> None)"

section \<open>Children\<close>

definition update_notification_command ::
  "env \<Rightarrow> world \<Rightarrow> item \<Rightarrow> contact \<Rightarrow> notification \<Rightarrow> notification option" where
  "update_notification_command e w it k n =
     (case n_command_call n of None \<Rightarrow> None
      | Some c \<Rightarrow>
          let n1 = n\<lparr>n_command := resolve_notification e c it k n w\<rparr>
          in Some (if enable_environment_macros (cls_of w it) \<or> n_environment_macros n
                   then n1\<lparr>n_env := env_notification e it k n1 w\<rparr> else n1))"

text \<open>The log of a service's notification names its host: it raises without one.\<close>

definition log_notification ::
  "cls \<Rightarrow> notification \<Rightarrow> contact \<Rightarrow> item option \<Rightarrow> item \<Rightarrow> item option" where
  "log_notification cl n k host_ref it =
     (case host_ref of
        None \<Rightarrow> if my_type it = Service \<and> log_notifications cl then None
                else Some (raise_notification_log_entry cl n (contact_name k) [] it)
      | Some h \<Rightarrow> Some (raise_notification_log_entry cl n (contact_name k) (get_name h) it))"

definition remember_contact :: "uuid \<Rightarrow> string \<Rightarrow> item \<Rightarrow> item" where
  "remember_contact ku name it =
     it\<lparr>notified_contacts_ids := (if ku \<in> set (notified_contacts_ids it)
           then notified_contacts_ids it else notified_contacts_ids it @ [ku]),
        notified_contacts := (if name \<in> set (notified_contacts it)
           then notified_contacts it else notified_contacts it @ [name])\<rparr>"

text \<open>The only caller's use: a notification that the reactionner has taken.\<close>

definition prepare_notification_for_sending ::
  "env \<Rightarrow> uuid \<Rightarrow> uuid \<Rightarrow> uuid \<Rightarrow> item option \<Rightarrow> world \<Rightarrow> world option" where
  "prepare_notification_for_sending e u nid ku host_ref w =
     (case (items w u, notifs w nid, contact_store w ku) of
        (Some it, Some n, Some k) \<Rightarrow>
          if n_status n \<noteq> POLLED then Some w
          else (case update_notification_command e w it k n of None \<Rightarrow> None
                | Some n1 \<Rightarrow>
                    map_option (\<lambda>it1. w\<lparr>items := (items w)(u \<mapsto> it1), notifs := (notifs w)(nid \<mapsto> n1)\<rparr>)
                      (log_notification (cls_of w it) n1 k host_ref
                         (remember_contact ku (contact_name k) it)))
      | _ \<Rightarrow> None)"

definition new_child ::
  "cls \<Rightarrow> uuid \<Rightarrow> notification \<Rightarrow> uuid \<Rightarrow> contact \<Rightarrow> string set \<Rightarrow> bool \<Rightarrow> command_call \<Rightarrow> int
   \<Rightarrow> notification" where
  "new_child cl u master ku k names escalated cmd t =
     (new_notification u (n_ntype master) t)
       \<lparr>n_command_call := Some cmd, n_contact := Some ku, n_contact_name := contact_name k,
        n_recipients := names, n_t_to_go := n_t_to_go master, n_escalated := escalated,
        n_timeout := notification_timeout cl, n_notif_nb := n_notif_nb master,
        n_reactionner_tag := cc_reactionner_tag cmd,
        n_environment_macros := cc_environment_macros cmd, n_author := n_author master,
        n_author_name := n_author_name master, n_author_alias := n_author_alias master,
        n_author_comment := n_author_comment master\<rparr>"

text \<open>One command of one recipient; the second component of the state is the children so far.\<close>

definition scatter_command ::
  "env \<Rightarrow> uuid \<Rightarrow> notification \<Rightarrow> item option \<Rightarrow> string set \<Rightarrow> bool \<Rightarrow> uuid \<Rightarrow> command_call
   \<Rightarrow> world \<times> uuid list \<Rightarrow> (world \<times> uuid list) option" where
  "scatter_command e u master host_ref names escalated ku cmd s =
     (case s of (w, children) \<Rightarrow>
     (case (items w u, contact_store w ku) of
        (Some it, Some k) \<Rightarrow>
          let child = new_child (cls_of w it) u master ku k names escalated cmd (now w);
              cid = next_uuid w
          in (case notification_is_blocked_by_contact e it child k of None \<Rightarrow> None
              | Some (k1, blocked) \<Rightarrow>
                  let w1 = w\<lparr>contact_store := (contact_store w)(ku \<mapsto> k1), next_uuid := cid + 1\<rparr>
                  in if blocked then Some (w1, children)
                     else
                       (case update_notification_command e w1 it k1 child of None \<Rightarrow> None
                        | Some child1 \<Rightarrow>
                       (case log_notification (cls_of w it) child1 k1 host_ref it of None \<Rightarrow> None
                        | Some it1 \<Rightarrow>
                            let it2 = it1\<lparr>notifications_in_progress :=
                                            notifications_in_progress it1 @ [cid]\<rparr>;
                                it3 = (if n_ntype master = PROBLEM
                                       then remember_contact ku (contact_name k) it2 else it2)
                            in Some (w1\<lparr>items := (items w)(u \<mapsto> it3),
                                        notifs := (notifs w)(cid \<mapsto> child1)\<rparr>,
                                     children @ [cid]))))
      | _ \<Rightarrow> None))"

text \<open>The contacts to notify, before those already notified are left out.\<close>

definition notification_contacts ::
  "env \<Rightarrow> uuid \<Rightarrow> uuid \<Rightarrow> world \<Rightarrow> (world \<times> uuid list \<times> bool) option" where
  "notification_contacts e u nid w =
     (case (items w u, notifs w nid) of
        (Some it, Some n) \<Rightarrow>
          if n_ntype n = RECOVERY
          then Some (w\<lparr>items := (items w)(u \<mapsto> it\<lparr>notified_contacts := [], notified_contacts_ids := []\<rparr>)\<rparr>,
                     (if first_notification_delay it \<noteq> 0 \<and> notified_contacts_ids it = [] then []
                      else notified_contacts_ids it), False)
          else (case is_escalable e w it n of None \<Rightarrow> None
                | Some escalable \<Rightarrow>
                    if escalable
                    then map_option (\<lambda>(n1, ks). (w\<lparr>notifs := (notifs w)(nid \<mapsto> n1)\<rparr>, ks, True))
                           (get_escalable_contacts e w it n)
                    else Some (w, contacts_of it, False))
      | _ \<Rightarrow> None)"

text \<open>
  Without repeated notifications, a contact is not notified again of a hard problem whose
  state has not changed.
\<close>

definition already_notified :: "n_type \<Rightarrow> item \<Rightarrow> uuid \<Rightarrow> bool" where
  "already_notified nt it ku \<longleftrightarrow>
     nt = PROBLEM \<and> notification_interval it = 0 \<and> state_type it = HARD
     \<and> last_state_type it = state_type it \<and> state it = last_state it
     \<and> ku \<in> set (notified_contacts_ids it)"

definition recipients_of :: "n_type \<Rightarrow> item \<Rightarrow> uuid list \<Rightarrow> uuid list" where
  "recipients_of nt it ks = filter (\<lambda>ku. \<not> already_notified nt it ku) ks"

definition scatter_contact ::
  "env \<Rightarrow> uuid \<Rightarrow> notification \<Rightarrow> item option \<Rightarrow> string set \<Rightarrow> bool \<Rightarrow> uuid
   \<Rightarrow> world \<times> uuid list \<Rightarrow> (world \<times> uuid list) option" where
  "scatter_contact e u master host_ref names escalated ku s =
     (case (items (fst s) u, contact_store (fst s) ku) of
        (Some it, Some k) \<Rightarrow>
          (case get_notification_commands e (my_type it) k of None \<Rightarrow> None
           | Some cmds \<Rightarrow> foldM (scatter_command e u master host_ref names escalated ku) cmds s)
      | _ \<Rightarrow> None)"

definition scatter_notification ::
  "env \<Rightarrow> uuid \<Rightarrow> uuid \<Rightarrow> item option \<Rightarrow> world \<Rightarrow> (world \<times> uuid list) option" where
  "scatter_notification e u nid host_ref w =
     (case notifs w nid of None \<Rightarrow> None
      | Some n0 \<Rightarrow>
          if n_contact n0 \<noteq> None then Some (w, [])
          else
            Option.bind (notification_contacts e u nid w) (\<lambda>(w1, ks, escalated).
            case (items w1 u, notifs w1 nid) of
              (Some it, Some n) \<Rightarrow>
                let rs = recipients_of (n_ntype n) it ks
                in if \<exists>ku \<in> set rs. contact_store w1 ku = None then None
                   else foldM (scatter_contact e u n host_ref
                                 (set (map (\<lambda>ku. contact_name (the (contact_store w1 ku))) rs)) escalated)
                          rs (w1, [])
            | _ \<Rightarrow> None))"

end
