(* ===== verification/PyRegex.thy ===== *)
theory PyRegex
  imports PyStr
begin

text \<open>
  What the code uses of Python's \<open>re\<close>: \<open>search\<close> and \<open>match\<close> with patterns that are sequences of
  repeated character classes, some of them groups. Repetition is greedy, and gives back one
  character at a time when what follows does not match.
\<close>

record re_item =
  re_class :: "char \<Rightarrow> bool"
  re_min :: nat
  re_max :: "nat option"
  re_group :: bool

type_synonym pattern = "re_item list"

fun first_some :: "('a \<Rightarrow> 'b option) \<Rightarrow> 'a list \<Rightarrow> 'b option" where
  "first_some f [] = None"
| "first_some f (x # xs) = (case f x of None \<Rightarrow> first_some f xs | Some y \<Rightarrow> Some y)"

lemma first_some_cong [fundef_cong]:
  "xs = ys \<Longrightarrow> (\<And>x. x \<in> set ys \<Longrightarrow> f x = g x) \<Longrightarrow> first_some f xs = first_some g ys"
  by (induction ys arbitrary: xs) (auto split: option.splits)

definition run_length :: "re_item \<Rightarrow> string \<Rightarrow> nat" where
  "run_length p s =
     (let n = length (takeWhile (re_class p) s) in case re_max p of None \<Rightarrow> n | Some k \<Rightarrow> min n k)"

text \<open>The groups of the first match at the start of the string, \<open>None\<close> when there is none.\<close>

fun match_here :: "pattern \<Rightarrow> string \<Rightarrow> string list option" where
  "match_here [] s = Some []"
| "match_here (p # ps) s =
     first_some (\<lambda>k. map_option (\<lambda>gs. if re_group p then take k s # gs else gs) (match_here ps (drop k s)))
       (rev [re_min p..<Suc (run_length p s)])"

definition re_search :: "pattern \<Rightarrow> string \<Rightarrow> string list option" where
  "re_search ps s = first_some (\<lambda>i. match_here ps (drop i s)) [0..<Suc (length s)]"

text \<open>Parts of patterns: literal text, a group of a repeated class, a repeated class.\<close>

definition lit :: "string \<Rightarrow> pattern" where
  "lit s = map (\<lambda>c. \<lparr>re_class = (\<lambda>x. x = c), re_min = 1, re_max = Some 1, re_group = False\<rparr>) s"

definition group_of :: "(char \<Rightarrow> bool) \<Rightarrow> nat \<Rightarrow> nat option \<Rightarrow> pattern" where
  "group_of c lo hi = [\<lparr>re_class = c, re_min = lo, re_max = hi, re_group = True\<rparr>]"

definition many_of :: "(char \<Rightarrow> bool) \<Rightarrow> nat \<Rightarrow> pattern" where
  "many_of c lo = [\<lparr>re_class = c, re_min = lo, re_max = None, re_group = False\<rparr>]"

definition is_lower :: "char \<Rightarrow> bool" where
  "is_lower c \<longleftrightarrow> (let n = of_char c :: nat in 97 \<le> n \<and> n \<le> 122)"

lemma length_groups_match_here:
  "match_here ps s = Some gs \<Longrightarrow> length gs = length (filter re_group ps)"
proof (induction ps arbitrary: s gs)
  case (Cons p ps)
  have "first_some f xs = Some y \<Longrightarrow> \<exists>x. f x = Some y" for f :: "nat \<Rightarrow> string list option" and xs y
    by (induction xs) (auto split: option.splits)
  from this [OF Cons.prems [unfolded match_here.simps]] Cons.IH show ?case by auto
qed simp

end
