(* ===== verification/RuleParse.thy ===== *)
theory RuleParse
  imports DepNode PyRegex
begin

text \<open>
  \<open>DependencyNodeFactory\<close> of \<open>alignak/dependencynode.py\<close>: the parser of business rules, with the
  filters of \<open>alignak/util.py\<close> that its expressions stand for. \<open>None\<close> is an exception; the parser can
  also return Python's \<open>None\<close>, which is the inner option.
\<close>

section \<open>Hosts and services\<close>

text \<open>What the filters read, in the order of the lists; the matching of regular expressions of the
  user is a parameter (\<open>None\<close> is \<open>re.error\<close>).\<close>

record cat_host =
  ch_uuid :: uuid
  ch_name :: string
  ch_hostgroups :: "uuid list"
  ch_tags :: "string list"
  ch_labels :: "string list"

record cat_service =
  cs_uuid :: uuid
  cs_description :: string
  cs_host :: uuid
  cs_servicegroups :: "uuid list"
  cs_labels :: "string list"

record catalog =
  cat_hosts :: "cat_host list"
  cat_services :: "cat_service list"
  host_by_name :: "string \<Rightarrow> uuid option"
  service_by_name :: "string \<Rightarrow> string \<Rightarrow> uuid option"
  hostgroup_name :: "uuid \<Rightarrow> string option"
  servicegroup_name :: "uuid \<Rightarrow> string option"
  re_compile :: "string \<Rightarrow> (string \<Rightarrow> bool) option"

definition cat_host_of :: "catalog \<Rightarrow> uuid \<Rightarrow> cat_host option" where
  "cat_host_of cat u = find (\<lambda>h. ch_uuid h = u) (cat_hosts cat)"

section \<open>Filters\<close>

type_synonym host_filter = "cat_host \<Rightarrow> bool option"
type_synonym service_filter = "cat_service \<Rightarrow> bool option"

text \<open>\<open>group in [groups[g].name for g in ...]\<close>: an unknown group is a \<open>KeyError\<close>.\<close>

fun in_groups :: "(uuid \<Rightarrow> string option) \<Rightarrow> string \<Rightarrow> uuid list \<Rightarrow> bool option" where
  "in_groups name_of wanted [] = Some False"
| "in_groups name_of wanted (g # gs) =
     Option.bind (name_of g) (\<lambda>n. map_option (\<lambda>r. n = wanted \<or> r) (in_groups name_of wanted gs))"

definition has_tag :: "string \<Rightarrow> string list \<Rightarrow> bool" where
  "has_tag tpl tags \<longleftrightarrow> tpl \<in> set (map strip tags)"

definition of_host :: "catalog \<Rightarrow> host_filter \<Rightarrow> service_filter" where
  "of_host cat f s = Option.bind (cat_host_of cat (cs_host s)) f"

definition host_flags :: string where "host_flags = ''grlt''"
definition service_flags :: string where "service_flags = ''grl''"

definition flagged_pattern :: "string \<Rightarrow> pattern" where
  "flagged_pattern flags =
     group_of (\<lambda>c. c \<in> set flags) 1 None @ lit '':'' @ group_of (\<lambda>c. c \<noteq> CHR 0x0A) 0 None"

text \<open>
  \<open>get_host_filters\<close>, \<open>get_srv_host_filters\<close> and \<open>get_srv_service_filters\<close>. Building a filter from a
  regular expression can raise \<open>re.error\<close>.
\<close>

definition host_condition :: "catalog \<Rightarrow> string \<Rightarrow> host_filter option" where
  "host_condition cat expr =
     (if expr = ''*'' then Some (\<lambda>_. Some True)
      else case match_here (flagged_pattern host_flags) expr of
        None \<Rightarrow> Some (\<lambda>h. Some (ch_name h = expr))
      | Some g \<Rightarrow>
          let flags = g ! 0; e = g ! 1
          in if CHR ''g'' \<in> set flags then Some (\<lambda>h. in_groups (hostgroup_name cat) e (ch_hostgroups h))
             else if CHR ''r'' \<in> set flags
             then map_option (\<lambda>m h. Some (m (ch_name h))) (re_compile cat e)
             else if CHR ''l'' \<in> set flags then Some (\<lambda>h. Some (e \<in> set (ch_labels h)))
             else if CHR ''t'' \<in> set flags then Some (\<lambda>h. Some (has_tag e (ch_tags h)))
             else Some (\<lambda>_. Some False))"

definition get_host_filters :: "catalog \<Rightarrow> string \<Rightarrow> host_filter option" where
  "get_host_filters = host_condition"

definition get_srv_host_filters :: "catalog \<Rightarrow> string \<Rightarrow> service_filter option" where
  "get_srv_host_filters cat expr =
     (if expr = ''*'' then Some (\<lambda>_. Some True) else map_option (of_host cat) (host_condition cat expr))"

definition get_srv_service_filters :: "catalog \<Rightarrow> string \<Rightarrow> service_filter option" where
  "get_srv_service_filters cat expr =
     (if expr = ''*'' then Some (\<lambda>_. Some True)
      else case match_here (flagged_pattern service_flags) expr of
        None \<Rightarrow> Some (\<lambda>s. Some (cs_description s = expr))
      | Some g \<Rightarrow>
          let flags = g ! 0; e = g ! 1
          in if CHR ''g'' \<in> set flags then Some (\<lambda>s. in_groups (servicegroup_name cat) e (cs_servicegroups s))
             else if CHR ''r'' \<in> set flags
             then map_option (\<lambda>m s. Some (m (cs_description s))) (re_compile cat e)
             else if CHR ''l'' \<in> set flags then Some (\<lambda>s. Some (e \<in> set (cs_labels s)))
             else Some (\<lambda>_. Some False))"

text \<open>\<open>find_by_filter\<close>: the items all filters accept; the first one that refuses ends the question.\<close>

fun all_filters :: "('a \<Rightarrow> bool option) list \<Rightarrow> 'a \<Rightarrow> bool option" where
  "all_filters [] x = Some True"
| "all_filters (f # fs) x = Option.bind (f x) (\<lambda>v. if v then all_filters fs x else Some False)"

fun find_by_filter :: "('a \<Rightarrow> bool option) list \<Rightarrow> 'a list \<Rightarrow> 'a list option" where
  "find_by_filter fs [] = Some []"
| "find_by_filter fs (x # xs) =
     Option.bind (all_filters fs x) (\<lambda>v. map_option (\<lambda>ys. if v then x # ys else ys) (find_by_filter fs xs))"

section \<open>Simple patterns\<close>

text \<open>\<open>eval_xof_pattern\<close>: the operand, the values, and what follows \<open>of:\<close>.\<close>

definition opt_char :: "char \<Rightarrow> pattern" where
  "opt_char c = group_of (\<lambda>x. x = c) 0 (Some 1)"

definition xof_pattern :: pattern where
  "xof_pattern =
     opt_char (CHR ''-'') @ group_of is_digit 1 None @ opt_char (CHR ''%'') @ many_of (\<lambda>c. c = CHR '','') 0
     @ opt_char (CHR ''-'') @ group_of is_digit 0 None @ opt_char (CHR ''%'') @ many_of (\<lambda>c. c = CHR '','') 0
     @ opt_char (CHR ''-'') @ group_of is_digit 0 None @ opt_char (CHR ''%'')
     @ many_of (\<lambda>c. c = CHR '' '') 0 @ lit ''of:'' @ many_of (\<lambda>c. c = CHR '' '') 0
     @ group_of (\<lambda>c. c \<noteq> CHR 0x0A) 1 None"

record xof =
  xof_operand :: operand
  xof_values :: "string \<times> string \<times> string"
  xof_mul :: bool

definition eval_xof_pattern :: "string \<Rightarrow> xof \<times> string" where
  "eval_xof_pattern pat =
     (case match_here xof_pattern pat of
        None \<Rightarrow> (\<lparr>xof_operand = Op_None, xof_values = (''0'', ''0'', ''0''), xof_mul = False\<rparr>, pat)
      | Some g \<Rightarrow>
          let a = concat (take 3 g); b = concat (take 3 (drop 3 g)); c = concat (take 3 (drop 6 g));
              mul = (b \<noteq> [] \<and> c \<noteq> [])
          in (\<lparr>xof_operand = Op_of, xof_values = (if mul then (a, b, c) else (a, ''0'', ''0'')),
               xof_mul = mul\<rparr>, g ! 9))"

definition node_of :: "xof \<Rightarrow> operand \<Rightarrow> dson list \<Rightarrow> bool \<Rightarrow> string list \<Rightarrow> dnode" where
  "node_of x op sons nv errs = DNode op sons (xof_values x) (xof_mul x) nv errs"

text \<open>\<open>find_object\<close>: a host, or a service of a host; without a name the host of the rule's item.\<close>

definition find_object :: "catalog \<Rightarrow> string \<Rightarrow> string \<Rightarrow> (operand \<times> uuid) option \<times> string" where
  "find_object cat bound pat =
     (let elts = split_on (CHR '','') pat;
          h0 = strip (hd elts); h = (if h0 = [] then bound else h0)
      in case tl elts of
           [] \<Rightarrow> (map_option (\<lambda>u. (Op_host, u)) (host_by_name cat h), ''business rule uses unknown host '' @ h)
         | d0 # _ \<Rightarrow>
             let d = strip d0
             in (map_option (\<lambda>u. (Op_service, u)) (service_by_name cat h d),
                 ''business rule uses unknown service '' @ h @ ''/'' @ d))"

definition expression_son :: "operand \<Rightarrow> uuid \<Rightarrow> dson" where
  "expression_son op u = SonNode (DNode op [SonId u] (''0'', ''0'', ''0'') False False [])"

text \<open>
  \<open>expand_expression\<close>: the sons, and the error. More than one comma is a \<open>ValueError\<close>, which is not
  caught; \<open>re.error\<close> is.
\<close>

definition expand_expression :: "catalog \<Rightarrow> string \<Rightarrow> string \<Rightarrow> bool \<Rightarrow> (dson list \<times> string list) option" where
  "expand_expression cat bound pat running =
     (let elts0 = map strip (split_on (CHR '','') pat);
          elts = (if hd elts0 = [] then bound # tl elts0 else elts0);
          found = (case elts of
              [h, s] \<Rightarrow>
                (case (get_srv_host_filters cat h, get_srv_service_filters cat s) of
                   (Some fh, Some fs) \<Rightarrow>
                     map_option (\<lambda>xs. Some (map (\<lambda>x. expression_son Op_service (cs_uuid x)) xs))
                       (find_by_filter [fh, fs] (cat_services cat))
                 | _ \<Rightarrow> Some None)
            | [h] \<Rightarrow>
                (case get_host_filters cat h of
                   Some fh \<Rightarrow>
                     map_option (\<lambda>xs. Some (map (\<lambda>x. expression_son Op_host (ch_uuid x)) xs))
                       (find_by_filter [fh] (cat_hosts cat))
                 | None \<Rightarrow> Some None)
            | _ \<Rightarrow> None)
      in Option.bind found (\<lambda>r. case r of
           Some (x # xs) \<Rightarrow> Some (x # xs, [])
         | _ \<Rightarrow>
             if running then None
             else Some ([], [if r = None then ''business rule uses invalid regex '' @ pat
                             else ''business rule got an empty result for pattern '' @ [CHR 0x27] @ pat @ [CHR 0x27]])))"

text \<open>
  Is a pattern an expression: it starts with flags or a star and a colon, or, after a comma and
  blanks, ends with flags, a colon and text without a line break, or with a star.
\<close>

definition ends_expression :: "string \<Rightarrow> bool" where
  "ends_expression s0 =
     (let s = dropWhile is_space s0; f = takeWhile (\<lambda>c. c \<in> set service_flags) s; r = drop (length f) s;
          cut = (\<lambda>t. if t \<noteq> [] \<and> last t = CHR 0x0A then butlast t else t)
      in f \<noteq> [] \<and> r \<noteq> [] \<and> hd r = CHR '':'' \<and> CHR 0x0A \<notin> set (cut (tl r)) \<or> cut s = ''*'')"

definition is_expression :: "string \<Rightarrow> bool" where
  "is_expression pat \<longleftrightarrow>
     match_here (group_of (\<lambda>c. c \<in> set host_flags) 1 None @ lit '':'') pat \<noteq> None
     \<or> startswith pat ''*:''
     \<or> list_ex (\<lambda>i. pat ! i = CHR '','' \<and> ends_expression (drop (i + 1) pat)) [0..<length pat]"

definition eval_simple_cor_pattern :: "catalog \<Rightarrow> string \<Rightarrow> bool \<Rightarrow> string \<Rightarrow> dnode option" where
  "eval_simple_cor_pattern cat bound running pat0 =
     (let (x, pat1) = eval_xof_pattern pat0;
          nv = startswith pat1 ''!''; pat = (if nv then tl pat1 else pat1)
      in if is_expression pat
         then map_option (\<lambda>(sons, errs).
                switch_zeros_of_values
                  (node_of x (if xof_operand x = Op_of then Op_of else Op_and) sons nv errs))
              (expand_expression cat bound pat running)
         else (case find_object cat bound pat of
                 (Some (op, u), _) \<Rightarrow> Some (node_of x op [SonId u] nv [])
               | (None, err) \<Rightarrow>
                   if running then None else Some (node_of x Op_object [] nv [err])))"

section \<open>Complex patterns\<close>

text \<open>
  The loop over the characters: \<open>cuts\<close> are the texts of the sons with their \<open>!\<close>, in order. It
  stops, with \<open>mixed\<close>, at an operator that is not the one met before.
\<close>

record cutting =
  in_par :: bool
  tmp :: string
  son_is_not :: bool
  stacked :: int
  cut_operand :: operand
  cuts :: "(string \<times> bool) list"
  mixed :: bool

definition cut_son :: "cutting \<Rightarrow> cutting" where
  "cut_son k = k\<lparr>cuts := cuts k @ [(tmp k, son_is_not k)], son_is_not := False\<rparr>"

definition cut_char :: "char \<Rightarrow> cutting \<Rightarrow> cutting" where
  "cut_char c k =
     (if mixed k then k
      else if c = CHR ''('' then
        (let k1 = k\<lparr>stacked := stacked k + 1, in_par := True, tmp := strip (tmp k)\<rparr>
         in if stacked k1 > 1 then k1\<lparr>tmp := tmp k1 @ [c]\<rparr> else k1)
      else if c = CHR '')'' then
        (let k1 = k\<lparr>stacked := stacked k - 1\<rparr>
         in if stacked k1 < 0 then k1
            else if stacked k1 = 0
            then (cut_son (k1\<lparr>tmp := strip (tmp k1)\<rparr>))\<lparr>in_par := False, tmp := []\<rparr>
            else k1\<lparr>tmp := tmp k1 @ [c]\<rparr>)
      else if in_par k then k\<lparr>tmp := tmp k @ [c]\<rparr>
      else if c = CHR ''!'' then
        (let t = strip (tmp k)
         in if t \<noteq> [] \<and> hd t \<noteq> CHR ''!'' then k\<lparr>tmp := t\<rparr> else k\<lparr>tmp := t, son_is_not := True\<rparr>)
      else if c = CHR ''&'' \<or> c = CHR ''|'' then
        (let op = (if c = CHR ''&'' then Op_and else Op_or); k1 = k\<lparr>tmp := strip (tmp k)\<rparr>
         in if cut_operand k1 \<noteq> Op_None \<and> cut_operand k1 \<noteq> Op_of \<and> op \<noteq> cut_operand k1
            then k1\<lparr>mixed := True\<rparr>
            else let k2 = (if cut_operand k1 = Op_of then k1 else k1\<lparr>cut_operand := op\<rparr>)
                 in (if tmp k2 \<noteq> [] then cut_son k2 else k2)\<lparr>tmp := []\<rparr>)
      else k\<lparr>tmp := tmp k @ [c]\<rparr>)"

definition cut_end :: "cutting \<Rightarrow> cutting" where
  "cut_end k =
     (if mixed k then k
      else let k1 = k\<lparr>tmp := strip (tmp k)\<rparr> in if tmp k1 \<noteq> [] then cut_son k1 else k1)"

definition start_cutting :: "operand \<Rightarrow> cutting" where
  "start_cutting op =
     \<lparr>in_par = False, tmp = [], son_is_not = False, stacked = 0, cut_operand = op, cuts = [], mixed = False\<rparr>"

definition cut_pattern :: "operand \<Rightarrow> string \<Rightarrow> cutting" where
  "cut_pattern op pat = cut_end (fold cut_char pat (start_cutting op))"

definition is_complex :: "string \<Rightarrow> bool" where
  "is_complex pat \<longleftrightarrow> list_ex (\<lambda>c. c \<in> set ''()&|'') pat"

text \<open>The sons, one after the other; \<open>!\<close> before a son that is \<open>None\<close> is an \<open>AttributeError\<close>.\<close>

definition put_not :: "bool \<Rightarrow> dnode option \<Rightarrow> dson option" where
  "put_not nt r =
     (case r of
        None \<Rightarrow> if nt then None else Some SonNone
      | Some (DNode op sons ofv mul nv errs) \<Rightarrow> Some (SonNode (DNode op sons ofv mul (nt \<or> nv) errs)))"

fun map_sons :: "(string \<Rightarrow> dnode option option) \<Rightarrow> (string \<times> bool) list \<Rightarrow> dson list option" where
  "map_sons f [] = Some []"
| "map_sons f ((s, nt) # cs) =
     Option.bind (f s) (\<lambda>r. Option.bind (put_not nt r) (\<lambda>son.
       map_option (\<lambda>sons. son # sons) (map_sons f cs)))"

lemma map_sons_cong [fundef_cong]:
  "cs = ds \<Longrightarrow> (\<And>s nt. (s, nt) \<in> set ds \<Longrightarrow> f s = g s) \<Longrightarrow> map_sons f cs = map_sons g ds"
proof (induction ds arbitrary: cs)
  case (Cons d ds)
  obtain s nt where d: "d = (s, nt)" by (cases d)
  have "f s = g s" "map_sons f ds = map_sons g ds"
    using Cons.prems(2) [of s nt] Cons.IH [OF refl] Cons.prems(2) by (auto simp: d)
  with Cons.prems(1) show ?case by (simp add: d)
qed simp

text \<open>What is left of a pattern is not longer, and shorter when an \<open>of:\<close> was read.\<close>

lemma first_some_SomeD: "first_some f xs = Some y \<Longrightarrow> \<exists>x \<in> set xs. f x = Some y"
  by (induction xs) (auto split: option.splits)

text \<open>The least number of characters before the group number \<open>i\<close>.\<close>

fun least_before :: "pattern \<Rightarrow> nat \<Rightarrow> nat" where
  "least_before [] i = 0"
| "least_before (p # ps) i =
     (if re_group p then (case i of 0 \<Rightarrow> 0 | Suc j \<Rightarrow> re_min p + least_before ps j)
      else re_min p + least_before ps i)"

lemma run_length_le: "run_length p s \<le> length s"
  using length_takeWhile_le [of "re_class p" s]
  by (auto simp: run_length_def Let_def split: option.splits)

lemma match_here_group_bound:
  "match_here ps s = Some gs \<Longrightarrow> i < length gs \<Longrightarrow> length (gs ! i) + least_before ps i \<le> length s"
proof (induction ps arbitrary: s gs i)
  case (Cons p ps)
  obtain k gs' where k: "re_min p \<le> k" "k \<le> run_length p s" "match_here ps (drop k s) = Some gs'"
    "gs = (if re_group p then take k s # gs' else gs')"
    using first_some_SomeD [OF Cons.prems(1) [unfolded match_here.simps]] by auto
  note le = run_length_le [of p s]
  show ?case
  proof (cases "re_group p \<and> i = 0")
    case True
    then show ?thesis using k le by simp
  next
    case False
    define j where "j = (if re_group p then i - 1 else i)"
    have j: "gs ! i = gs' ! j" "j < length gs'" "least_before (p # ps) i = re_min p + least_before ps j"
      using False k(4) Cons.prems(2) by (auto simp: j_def split: nat.splits if_splits)
    from Cons.IH [OF k(3) j(2)] show ?thesis using j k le by simp
  qed
qed simp

lemma eval_xof_shorter:
  assumes "eval_xof_pattern pat = (x, rest)"
  shows "rest = pat \<or> length rest < length pat"
proof (cases "match_here xof_pattern pat")
  case (Some g)
  have "length g = 10"
    using length_groups_match_here [OF Some] by (simp add: xof_pattern_def opt_char_def group_of_def many_of_def lit_def)
  moreover have "least_before xof_pattern 9 = 4" by code_simp
  ultimately have "length (g ! 9) + 4 \<le> length pat" using match_here_group_bound [OF Some, of 9] by simp
  moreover have "rest = g ! 9" using assms Some by (simp add: eval_xof_pattern_def Let_def)
  ultimately show ?thesis by simp
qed (use assms in \<open>simp add: eval_xof_pattern_def\<close>)

text \<open>Every text that is cut out is shorter than the pattern.\<close>

definition short :: "nat \<Rightarrow> string \<Rightarrow> cutting \<Rightarrow> bool" where
  "short n rest k \<longleftrightarrow> length (tmp k) + length rest < n \<and> (\<forall>c \<in> set (cuts k). length (fst c) < n)"

lemma short_step: "short n (c # rest) k \<Longrightarrow> short n rest (cut_char c k)"
  using length_strip [of "tmp k"]
  by (auto simp: short_def cut_char_def cut_son_def Let_def)

lemma short_fold: "short n s k \<Longrightarrow> short n [] (fold cut_char s k)"
proof (induction s arbitrary: k)
  case (Cons c s)
  from Cons.IH [OF short_step [OF Cons.prems]] show ?case by simp
qed simp

text \<open>Before the first of the characters that make a pattern complex.\<close>

definition plain_so_far :: "nat \<Rightarrow> string \<Rightarrow> cutting \<Rightarrow> bool" where
  "plain_so_far n rest k \<longleftrightarrow> length (tmp k) + length rest \<le> n \<and> cuts k = [] \<and> \<not> in_par k \<and> stacked k = 0"

lemma plain_step:
  assumes "plain_so_far n (c # rest) k" and "\<not> mixed k"
  shows "if c \<in> set ''()&|'' then short n rest (cut_char c k)
    else plain_so_far n rest (cut_char c k) \<and> \<not> mixed (cut_char c k)"
  using assms length_strip [of "tmp k"]
  by (auto simp: short_def plain_so_far_def cut_char_def cut_son_def Let_def)

lemma plain_fold:
  "plain_so_far n s k \<Longrightarrow> \<not> mixed k \<Longrightarrow> is_complex s \<Longrightarrow> short n [] (fold cut_char s k)"
proof (induction s arbitrary: k)
  case (Cons c s)
  show ?case
  proof (cases "c \<in> set ''()&|''")
    case True
    then show ?thesis using plain_step [OF Cons.prems(1,2)] short_fold by simp
  next
    case False
    then have "is_complex s" using Cons.prems(3) by (auto simp: is_complex_def)
    then show ?thesis using plain_step [OF Cons.prems(1,2)] Cons.IH [of "cut_char c k"] False by simp
  qed
qed (simp add: is_complex_def)

lemma short_cut_end: "short n [] k \<Longrightarrow> c \<in> set (cuts (cut_end k)) \<Longrightarrow> length (fst c) < n"
  using length_strip [of "tmp k"] by (auto simp: cut_end_def short_def cut_son_def Let_def split: if_splits)

lemma cut_pattern_shorter:
  assumes "is_complex pat" and "eval_xof_pattern pat = (x, rest)" and "(s, nt) \<in> set (cuts (cut_pattern op rest))"
  shows "length s < length pat"
proof -
  have "short (length pat) [] (fold cut_char rest (start_cutting op))"
  proof (cases "rest = pat")
    case True
    then show ?thesis
      using assms(1) by (intro plain_fold) (simp_all add: plain_so_far_def start_cutting_def)
  next
    case False
    then show ?thesis
      using eval_xof_shorter [OF assms(2)] by (intro short_fold) (simp add: short_def start_cutting_def)
  qed
  from short_cut_end [OF this] assms(3) show ?thesis by (auto simp: cut_pattern_def)
qed

text \<open>
  \<open>eval_cor_pattern\<close> and \<open>eval_complex_cor_pattern\<close>. An operator that is mixed with another one makes
  the method return \<open>None\<close>, after the sons before it were read.
\<close>

function eval_cor_pattern :: "catalog \<Rightarrow> string \<Rightarrow> bool \<Rightarrow> string \<Rightarrow> dnode option option" where
  "eval_cor_pattern cat bound running pat0 =
     (if \<not> is_complex (strip pat0)
      then map_option Some (eval_simple_cor_pattern cat bound running (strip pat0))
      else (case eval_xof_pattern (strip pat0) of (x, rest) \<Rightarrow>
        Option.bind (map_sons (eval_cor_pattern cat bound running) (cuts (cut_pattern (xof_operand x) rest)))
          (\<lambda>sons.
             if mixed (cut_pattern (xof_operand x) rest) then Some None
             else Some (Some (switch_zeros_of_values
               (node_of x (cut_operand (cut_pattern (xof_operand x) rest)) sons False []))))))"
  by auto
termination
proof (relation "measure (\<lambda>(_, _, _, pat). length pat)", goal_cases)
  case (2 cat bound running pat0 x rest s nt)
  have "length s < length (strip pat0)"
    by (rule cut_pattern_shorter [of _ x rest s nt]) (use 2 in auto)
  then show ?case using length_strip [of pat0] by simp
qed simp

declare eval_cor_pattern.simps [simp del]

end
