(* ===== verification/Scheduler.thy ===== *)
theory Scheduler
  imports Scatter RuleParse
begin

text \<open>
  The scheduler's queues (\<open>alignak/scheduler.py\<close>): what it takes in, what it gives to the
  pollers and reactionners, what it does with their results.

  \<open>sched\<close> is the object \<open>Scheduler\<close>: the world of the items with its dictionaries \<open>checks\<close>
  and \<open>actions\<close>, the queue of results, the queues of the brokers and the counters. \<open>params\<close>
  is what does not change: the configuration pushed by the arbiter (\<open>pushed_conf\<close>), the
  objects of \<open>env\<close>, and the library functions that format dates or draw numbers. \<open>None\<close> is an
  exception that leaves the method.
\<close>

section \<open>State\<close>

text \<open>The result of an action, as it comes back from a satellite: a copy of the action.\<close>

record action_result =
  r_action :: action_ref
  r_status :: act_status
  r_exit_status :: int
  r_output :: string
  r_long_output :: string
  r_perf_data :: string
  r_check_time :: int
  r_execution_time :: rat
  r_u_time :: rat
  r_s_time :: rat
  r_passive_check :: bool
  r_is_snapshot :: bool

text \<open>
  What is in the queue \<open>waiting_results\<close>: a result of a satellite, or (checks of freshness) the
  check itself, an object of the scheduler.
\<close>

datatype queued = Returned action_result | Raised uuid

text \<open>The recurrent works, in the order of their numbers.\<close>

datatype work =
    Update_downtimes_and_comments | Schedule | Check_freshness | Consume_results
  | Get_new_actions | Scatter_master_notifications | Get_new_broks | Delete_zombie_checks
  | Delete_zombie_actions | Clean_caches | Update_retention | Check_orphaned
  | Update_program_status | Check_for_system_time_change | Manage_internal_checks
  | Clean_queues | Update_business_values | Reset_topology_change_flag
  | Check_for_expire_acknowledge | Send_broks_to_modules | Get_objects_from_from_queues
  | Get_latency_average_percentile

record sched =
  wd :: world
  recurrent_works :: "(work \<times> int) list"
  must_schedule :: bool
  ticks :: nat
  contact_ids :: "uuid list"
  waiting_results :: "queued list"
  brokers :: "(uuid, brok list) dict"
  event_log :: "brok list"
  nb_checks :: nat
  nb_internal_checks :: nat
  nb_broks :: nat
  nb_notifications :: nat
  nb_event_handlers :: nat
  nb_checks_launched :: nat
  nb_actions_launched :: nat
  nb_checks_results :: nat
  nb_checks_results_timeout :: nat
  nb_checks_results_active :: nat
  nb_checks_results_passive :: nat
  nb_actions_results :: nat
  nb_actions_results_timeout :: nat
  nb_checks_dropped :: nat
  nb_broks_dropped :: nat
  nb_actions_dropped :: nat

record params =
  pe :: env
  depth :: nat
  timeout_exit_status :: int
  conf_log_active_checks :: bool
  tick_clean_queues :: int
  check_host_freshness :: bool
  check_service_freshness :: bool
  host_freshness_check_interval :: nat
  service_freshness_check_interval :: nat
  tp_next_invalid :: "uuid \<Rightarrow> int \<Rightarrow> int option"
  random_uniform :: "uuid \<Rightarrow> int \<Rightarrow> rat \<times> rat"
  random_choice :: "string list \<Rightarrow> string"
  percent_format :: "string \<Rightarrow> int \<Rightarrow> string option"
  resolve_rule :: "string \<Rightarrow> item \<Rightarrow> world \<Rightarrow> string"
  rule_catalog :: "world \<Rightarrow> catalog"
  bound_host_name :: "item \<Rightarrow> string"
  business_rule_output :: "item \<Rightarrow> world \<Rightarrow> string option"
  business_rule_error :: "item \<Rightarrow> world \<Rightarrow> string"
  by_creation :: "brok list \<Rightarrow> brok list"
  freshness_text :: "int \<Rightarrow> string"
  stale_text :: "int \<Rightarrow> int \<Rightarrow> string"
  downtime_text :: "downtime \<Rightarrow> item_type \<Rightarrow> string"

definition on_world :: "(world \<Rightarrow> world option) \<Rightarrow> sched \<Rightarrow> sched option" where
  "on_world f s = map_option (\<lambda>w. s\<lparr>wd := w\<rparr>) (f (wd s))"

text \<open>\<open>find_item_by_id\<close> for the identifiers the scheduler looks up: those of hosts and services.\<close>

definition find_item_by_id :: "sched \<Rightarrow> uuid \<Rightarrow> item option" where
  "find_item_by_id s u = items (wd s) u"

definition all_my_hosts_and_services :: "sched \<Rightarrow> uuid list" where
  "all_my_hosts_and_services s = host_ids (wd s) @ service_ids (wd s)"

definition reset :: "sched \<Rightarrow> sched" where
  "reset s = s\<lparr>waiting_results := [], wd := (wd s)\<lparr>sched_checks := [], sched_actions := []\<rparr>\<rparr>"

section \<open>Adding\<close>

text \<open>A brok goes to one broker, if it is known, or to all; a log is an event too.\<close>

definition sched_add_brok :: "brok \<Rightarrow> uuid option \<Rightarrow> sched \<Rightarrow> sched" where
  "sched_add_brok b broker s0 =
     (let s = (case b of MonitoringLog _ _ \<Rightarrow> s0\<lparr>event_log := event_log s0 @ [b]\<rparr> | _ \<Rightarrow> s0)
      in case broker of
           Some k \<Rightarrow>
             (case dget (brokers s) k of None \<Rightarrow> s
              | Some q \<Rightarrow> s\<lparr>brokers := dset k (q @ [b]) (brokers s), nb_broks := nb_broks s + 1\<rparr>)
         | None \<Rightarrow> s\<lparr>brokers := map (\<lambda>(k, q). (k, q @ [b])) (brokers s),
                     nb_broks := nb_broks s + length (brokers s)\<rparr>)"

definition sched_add_broks :: "brok list \<Rightarrow> sched \<Rightarrow> sched" where
  "sched_add_broks bs s = fold (\<lambda>b. sched_add_brok b None) bs s"

definition add_notification :: "uuid \<Rightarrow> sched \<Rightarrow> sched option" where
  "add_notification nid s =
     (case notifs (wd s) nid of None \<Rightarrow> None
      | Some n \<Rightarrow>
          if NotifRef nid \<in> set (sched_actions (wd s)) then Some s
          else let s1 = s\<lparr>wd := (wd s)\<lparr>sched_actions := sched_actions (wd s) @ [NotifRef nid]\<rparr>,
                          nb_notifications := nb_notifications s + 1\<rparr>
               in Some (if n_contact n \<noteq> None then sched_add_brok NotificationBrok None s1 else s1))"

definition add_check :: "uuid \<Rightarrow> sched \<Rightarrow> sched option" where
  "add_check cid s =
     (case checks (wd s) cid of None \<Rightarrow> None
      | Some c \<Rightarrow>
          if cid \<in> set (sched_checks (wd s)) then Some s
          else let s1 = s\<lparr>wd := (wd s)\<lparr>sched_checks := sched_checks (wd s) @ [cid]\<rparr>,
                          nb_checks := nb_checks s + 1\<rparr>
               in (case find_item_by_id s (c_ref c) of None \<Rightarrow> None
                   | Some it \<Rightarrow> Some (if active_checks_enabled it
                                       then sched_add_brok NextScheduleBrok None s1 else s1)))"

definition add_event_handler :: "uuid \<Rightarrow> sched \<Rightarrow> sched option" where
  "add_event_handler eid s =
     (if EventRef eid \<in> set (sched_actions (wd s)) then Some s
      else Some (s\<lparr>wd := (wd s)\<lparr>sched_actions := sched_actions (wd s) @ [EventRef eid]\<rparr>,
                   nb_event_handlers := nb_event_handlers s + 1\<rparr>))"

fun add :: "action_ref \<Rightarrow> sched \<Rightarrow> sched option" where
  "add (CheckRef cid) s = add_check cid s"
| "add (NotifRef nid) s = add_notification nid s"
| "add (EventRef eid) s = add_event_handler eid s"

definition add_optional_check :: "uuid option \<Rightarrow> sched \<Rightarrow> sched option" where
  "add_optional_check c s = (case c of None \<Rightarrow> Some s | Some cid \<Rightarrow> add_check cid s)"

text \<open>What the items have raised since the last turn.\<close>

definition get_new_actions :: "sched \<Rightarrow> sched option" where
  "get_new_actions s =
     foldM (\<lambda>u s. case find_item_by_id s u of None \<Rightarrow> None
         | Some it \<Rightarrow> Option.bind (foldM add (actions it) s)
             (on_world (upd_item u (\<lambda>it. it\<lparr>actions := []\<rparr>))))
       (all_my_hosts_and_services s) s"

definition get_new_broks :: "sched \<Rightarrow> sched option" where
  "get_new_broks s =
     Option.bind
       (foldM (\<lambda>u s. case find_item_by_id s u of None \<Rightarrow> None
            | Some it \<Rightarrow> on_world (upd_item u (\<lambda>it. it\<lparr>broks := []\<rparr>)) (sched_add_broks (broks it) s))
          (all_my_hosts_and_services s) s)
       (\<lambda>s. foldM (\<lambda>ku s. case contact_store (wd s) ku of None \<Rightarrow> None
            | Some k \<Rightarrow> on_world (\<lambda>w. Some (w\<lparr>contact_store := (contact_store w)(ku \<mapsto> k\<lparr>k_broks := []\<rparr>)\<rparr>))
                (sched_add_broks (k_broks k) s))
          (contact_ids s) s)"

section \<open>Giving work to the satellites\<close>

definition poller_takes :: "string list \<Rightarrow> string list \<Rightarrow> int \<Rightarrow> check \<Rightarrow> bool" where
  "poller_takes tags types t c \<longleftrightarrow>
     \<not> c_internal c \<and> c_poller_tag c \<in> set tags \<and> c_module_type c \<in> set types
     \<and> c_status c = SCHEDULED \<and> t \<ge> c_t_to_go c"

definition take_check ::
  "string list \<Rightarrow> string list \<Rightarrow> string \<Rightarrow> uuid \<Rightarrow> sched \<times> action_ref list
   \<Rightarrow> (sched \<times> action_ref list) option" where
  "take_check tags types worker cid sr =
     (case sr of (s, res) \<Rightarrow>
     (case checks (wd s) cid of None \<Rightarrow> None
      | Some c \<Rightarrow>
          if poller_takes tags types (now (wd s)) c
          then map_option (\<lambda>s1. (s1\<lparr>nb_checks_launched := nb_checks_launched s1 + 1\<rparr>,
                                 res @ [CheckRef cid]))
                 (on_world (upd_check cid (\<lambda>c. c\<lparr>c_status := POLLED, c_my_worker := worker\<rparr>)) s)
          else Some (s, res)))"

text \<open>Master notifications are never given; the flag \<open>internal\<close> of an action is never set.\<close>

definition reactionner_takes_notification :: "string list \<Rightarrow> string list \<Rightarrow> int \<Rightarrow> notification \<Rightarrow> bool" where
  "reactionner_takes_notification tags types t n \<longleftrightarrow>
     n_contact n \<noteq> None \<and> n_reactionner_tag n \<in> set tags \<and> n_module_type n \<in> set types
     \<and> n_status n = SCHEDULED \<and> (case n_t_to_go n of None \<Rightarrow> False | Some g \<Rightarrow> t \<ge> g)"

definition reactionner_takes_event :: "string list \<Rightarrow> string list \<Rightarrow> int \<Rightarrow> event_handler \<Rightarrow> bool" where
  "reactionner_takes_event tags types t ev \<longleftrightarrow>
     e_reactionner_tag ev \<in> set tags \<and> e_module_type ev \<in> set types
     \<and> e_status ev = SCHEDULED \<and> t \<ge> e_t_to_go ev"

definition take_action ::
  "string list \<Rightarrow> string list \<Rightarrow> string \<Rightarrow> action_ref \<Rightarrow> sched \<times> action_ref list
   \<Rightarrow> (sched \<times> action_ref list) option" where
  "take_action tags types worker a sr =
     (case sr of (s, res) \<Rightarrow>
      let launched = (\<lambda>s1. (s1\<lparr>nb_actions_launched := nb_actions_launched s1 + 1\<rparr>, res @ [a]))
      in case a of
        CheckRef cid \<Rightarrow> Some (s, res)
      | NotifRef nid \<Rightarrow>
          (case notifs (wd s) nid of None \<Rightarrow> None
           | Some n \<Rightarrow>
               if reactionner_takes_notification tags types (now (wd s)) n
               then map_option launched
                      (on_world (upd_notif nid (\<lambda>n. n\<lparr>n_status := POLLED, n_my_worker := worker\<rparr>)) s)
               else Some (s, res))
      | EventRef eid \<Rightarrow>
          (case events (wd s) eid of None \<Rightarrow> None
           | Some ev \<Rightarrow>
               if reactionner_takes_event tags types (now (wd s)) ev
               then map_option launched
                      (on_world (upd_event eid (\<lambda>v. v\<lparr>e_status := POLLED, e_my_worker := worker\<rparr>)) s)
               else Some (s, res)))"

definition get_to_run_checks ::
  "bool \<Rightarrow> bool \<Rightarrow> string list \<Rightarrow> string list \<Rightarrow> string \<Rightarrow> string list \<Rightarrow> sched
   \<Rightarrow> (sched \<times> action_ref list) option" where
  "get_to_run_checks do_checks do_actions poller_tags reactionner_tags worker types s =
     Option.bind
       (if do_checks then foldM (take_check poller_tags types worker) (sched_checks (wd s)) (s, [])
        else Some (s, []))
       (\<lambda>(s1, res).
        if do_actions
        then foldM (take_action reactionner_tags types worker) (sched_actions (wd s1)) (s1, res)
        else Some (s1, res))"

section \<open>Results\<close>

definition get_return_from :: "action_result \<Rightarrow> check \<Rightarrow> check" where
  "get_return_from r c =
     c\<lparr>c_exit_status := r_exit_status r, c_output := r_output r, c_long_output := r_long_output r,
       c_check_time := r_check_time r, c_execution_time := r_execution_time r,
       c_perf_data := r_perf_data r, c_u_time := r_u_time r, c_s_time := r_s_time r\<rparr>"

definition event_get_return_from :: "action_result \<Rightarrow> event_handler \<Rightarrow> event_handler" where
  "event_get_return_from r v =
     v\<lparr>e_exit_status := r_exit_status r, e_output := r_output r, e_long_output := r_long_output r,
       e_check_time := r_check_time r, e_execution_time := r_execution_time r,
       e_perf_data := r_perf_data r\<rparr>"

text \<open>
  A notification: an unknown one is dropped; when its item is unknown, the \<open>AttributeError\<close>
  is caught after the result has been copied.
\<close>

definition manage_notification_result :: "action_result \<Rightarrow> uuid \<Rightarrow> sched \<Rightarrow> sched option" where
  "manage_notification_result r nid s =
     (if NotifRef nid \<notin> set (sched_actions (wd s)) then Some s
      else
        Option.bind (on_world (upd_notif nid (\<lambda>n. n\<lparr>n_exit_status := r_exit_status r,
                       n_execution_time := r_execution_time r\<rparr>)) s) (\<lambda>s1.
        case notifs (wd s1) nid of None \<Rightarrow> None
        | Some n \<Rightarrow>
          (case find_item_by_id s1 (n_ref n) of None \<Rightarrow> Some s1
           | Some it \<Rightarrow>
               Option.bind (on_world (upd_item (n_ref n) (\<lambda>it. it\<lparr>
                   notifications_in_progress := remove1 nid (notifications_in_progress it),
                   last_notification := r_check_time r\<rparr>)) s1) (\<lambda>s2.
               map_option (\<lambda>s3.
                   let s4 = sched_add_brok UpdateStatusBrok None s3
                   in if r_status r = TIMEOUT
                      then s4\<lparr>nb_actions_results_timeout := nb_actions_results_timeout s4 + 1\<rparr>
                      else s4\<lparr>nb_actions_results := nb_actions_results s4 + 1\<rparr>)
                 (on_world (upd_notif nid (\<lambda>n. n\<lparr>n_status := ZOMBIE\<rparr>)) s2)))))"

text \<open>
  A check: the result is copied into the check only in the last branch, not after a time-out.
  A time-out whose item is unknown ends in a caught \<open>AttributeError\<close>.
\<close>

definition manage_check_result :: "action_result \<Rightarrow> uuid \<Rightarrow> sched \<Rightarrow> sched option" where
  "manage_check_result r cid s =
     (case known_check (wd s) cid of None \<Rightarrow> Some s
      | Some c \<Rightarrow>
          let waiting = on_world (upd_check cid (\<lambda>c. c\<lparr>c_status := WAIT_CONSUME\<rparr>))
          in if r_status r = TIMEOUT
             then (if find_item_by_id s (c_ref c) = None then Some s
                   else waiting (s\<lparr>nb_checks_results_timeout := nb_checks_results_timeout s + 1\<rparr>))
             else
               let s1 = s\<lparr>nb_checks_results := nb_checks_results s + 1\<rparr>
               in if r_passive_check r
                  then waiting (s1\<lparr>nb_checks_results_passive := nb_checks_results_passive s1 + 1\<rparr>)
                  else Option.bind (on_world (upd_check cid (get_return_from r))
                         (s1\<lparr>nb_checks_results_active := nb_checks_results_active s1 + 1\<rparr>)) waiting)"

text \<open>
  An event handler: its time-out branch looks the action up among the checks, and the
  \<open>KeyError\<close> is not caught.
\<close>

definition manage_event_result :: "action_result \<Rightarrow> uuid \<Rightarrow> sched \<Rightarrow> sched option" where
  "manage_event_result r eid s =
     (if EventRef eid \<notin> set (sched_actions (wd s)) then Some s
      else
        Option.bind (on_world (upd_event eid (\<lambda>v. v\<lparr>e_status := ZOMBIE\<rparr>)) s) (\<lambda>s1.
        Option.bind
          (if r_status r = TIMEOUT
           then (case known_check (wd s1) eid of None \<Rightarrow> None
                 | Some c \<Rightarrow> Some (find_item_by_id s1 (c_ref c) \<noteq> None,
                     if find_item_by_id s1 (c_ref c) = None then s1
                     else s1\<lparr>nb_actions_results_timeout := nb_actions_results_timeout s1 + 1\<rparr>))
           else Some (True, s1\<lparr>nb_actions_results := nb_actions_results s1 + 1\<rparr>)) (\<lambda>(goes_on, s2).
        if goes_on \<and> r_is_snapshot r
        then Option.bind (on_world (upd_event eid (event_get_return_from r)) s2) (\<lambda>s3.
             case events (wd s3) eid of None \<Rightarrow> None
             | Some v \<Rightarrow>
                 if find_item_by_id s3 (e_ref v) = None then Some s3
                 else Some (sched_add_brok (SnapshotBrok (e_output v) (e_exit_status v)) None s3))
        else Some s2)))"

definition manage_results :: "action_result \<Rightarrow> sched \<Rightarrow> sched option" where
  "manage_results r s =
     (case r_action r of
        NotifRef nid \<Rightarrow> manage_notification_result r nid s
      | CheckRef cid \<Rightarrow> manage_check_result r cid s
      | EventRef eid \<Rightarrow> manage_event_result r eid s)"

section \<open>Consuming the results\<close>

text \<open>One call of \<open>consume_result\<close>, and the dependency checks it raises added.\<close>

definition consume_check :: "params \<Rightarrow> uuid \<Rightarrow> sched \<Rightarrow> sched option" where
  "consume_check p cid s =
     (case checks (wd s) cid of None \<Rightarrow> None
      | Some c \<Rightarrow>
     (case find_item_by_id s (c_ref c) of None \<Rightarrow> None
      | Some it \<Rightarrow>
          Option.bind (consume_result (depth p) (pe p) (c_ref c) cid (notification_period it)
                         (conf_log_active_checks p \<and> \<not> c_passive_check c) (wd s)) (\<lambda>(w, new).
          foldM add_check new (s\<lparr>wd := w\<rparr>))))"

definition consume_waiting :: "params \<Rightarrow> sched \<Rightarrow> sched option" where
  "consume_waiting p s =
     foldM (\<lambda>cid s. case checks (wd s) cid of None \<Rightarrow> None
         | Some c \<Rightarrow> if c_status c = WAIT_CONSUME then consume_check p cid s else Some s)
       (sched_checks (wd s)) s"

text \<open>
  A check others wait for: it leaves their \<open>depend_on\<close> (\<open>list.remove\<close> raises if it is not
  there) and becomes a zombie.
\<close>

definition release_one :: "uuid \<Rightarrow> uuid \<Rightarrow> world \<Rightarrow> world option" where
  "release_one cid d w =
     (case checks w d of None \<Rightarrow> None
      | Some c \<Rightarrow> if cid \<in> set (c_depend_on c)
                  then upd_check d (\<lambda>c. c\<lparr>c_depend_on := remove1 cid (c_depend_on c)\<rparr>) w else None)"

definition release :: "uuid \<Rightarrow> world \<times> bool \<Rightarrow> (world \<times> bool) option" where
  "release cid wb =
     (case wb of (w, resolved) \<Rightarrow>
     (case checks w cid of None \<Rightarrow> None
      | Some c \<Rightarrow>
          if c_status c = WAITING_ME
          then Option.bind (foldM (release_one cid) (c_depend_on_me c) w) (\<lambda>w1.
               map_option (\<lambda>w2. (w2, resolved \<or> c_depend_on_me c \<noteq> []))
                 (upd_check cid (\<lambda>c. c\<lparr>c_status := ZOMBIE\<rparr>) w1))
          else Some (w, resolved)))"

definition consume_dependent :: "params \<Rightarrow> sched \<Rightarrow> sched option" where
  "consume_dependent p s =
     foldM (\<lambda>cid s. case checks (wd s) cid of None \<Rightarrow> None
         | Some c \<Rightarrow> if c_status c = WAIT_DEPEND \<and> c_depend_on c = [] then consume_check p cid s
                     else Some s)
       (sched_checks (wd s)) s"

text \<open>One turn of the loop that resolves the dependencies.\<close>

definition resolve_turn :: "params \<Rightarrow> sched \<Rightarrow> (sched \<times> bool) option" where
  "resolve_turn p s =
     Option.bind (foldM release (sched_checks (wd s)) (wd s, False)) (\<lambda>(w, resolved).
     map_option (\<lambda>s1. (s1, resolved)) (consume_dependent p (s\<lparr>wd := w\<rparr>)))"

end
