(* ===== verification/Resolve.thy ===== *)
theory Resolve
  imports Scheduler StateMachine
begin

text \<open>
  The loop of \<open>consume_results\<close> that resolves the dependencies between checks ends: every turn
  that resolves one makes a check go on from \<open>wait_dependent\<close> to \<open>wait_me\<close> or \<open>zombie\<close>, or from
  \<open>wait_me\<close> to \<open>zombie\<close>, and none ever goes back.
\<close>

section \<open>The measure\<close>

fun weight :: "act_status \<Rightarrow> nat" where
  "weight WAIT_DEPEND = 2"
| "weight WAITING_ME = 1"
| "weight _ = 0"

definition weight_of :: "world \<Rightarrow> uuid \<Rightarrow> nat" where
  "weight_of w cid = (case checks w cid of None \<Rightarrow> 0 | Some c \<Rightarrow> weight (c_status c))"

definition unresolved :: "world \<Rightarrow> nat" where
  "unresolved w = sum_list (map (weight_of w) (sched_checks w))"

text \<open>No check gains weight and the dictionary of checks keeps its keys.\<close>

definition lighter :: "world \<Rightarrow> world \<Rightarrow> bool" where
  "lighter w w' \<longleftrightarrow> sched_checks w' = sched_checks w \<and> (\<forall>c. weight_of w' c \<le> weight_of w c)"

lemma lighter_refl: "lighter w w"
  by (simp add: lighter_def)

lemma lighter_trans: "lighter w1 w2 \<Longrightarrow> lighter w2 w3 \<Longrightarrow> lighter w1 w3"
  by (auto simp: lighter_def intro: le_trans)

lemma lighter_unresolved: "lighter w w' \<Longrightarrow> unresolved w' \<le> unresolved w"
  by (auto simp: lighter_def unresolved_def intro: sum_list_mono)

lemma lighter_strict:
  assumes "lighter w w'" and "cid \<in> set (sched_checks w)" and "weight_of w' cid < weight_of w cid"
  shows "unresolved w' < unresolved w"
proof -
  have *: "cid \<in> set xs \<Longrightarrow> \<forall>c. f c \<le> g c \<Longrightarrow> f cid < g cid \<Longrightarrow> sum_list (map f xs) < sum_list (map g xs)"
    for xs and f g :: "uuid \<Rightarrow> nat"
  proof (induction xs)
    case (Cons x xs)
    have "sum_list (map f xs) \<le> sum_list (map g xs)" using Cons.prems(2) by (intro sum_list_mono) auto
    moreover have "f x \<le> g x" using Cons.prems(2) by simp
    ultimately show ?case using Cons by (cases "x = cid") (auto intro: add_less_le_mono add_le_less_mono)
  qed simp
  show ?thesis
    using *[OF assms(2), of "weight_of w'" "weight_of w"] assms(1,3) by (simp add: lighter_def unresolved_def)
qed

section \<open>Releasing\<close>

lemma upd_check_weight:
  assumes "upd_check d f w = Some w'" and "\<And>c. checks w d = Some c \<Longrightarrow> weight (c_status (f c)) \<le> weight (c_status c)"
  shows "lighter w w'"
  using assms by (auto simp: upd_check_def lighter_def weight_of_def split: option.splits if_splits)

lemma release_one_lighter: "release_one cid d w = Some w' \<Longrightarrow> lighter w w'"
  by (auto simp: release_one_def split: option.splits if_splits intro: upd_check_weight)

lemma release_lighter:
  assumes "release cid (w, b) = Some (w', b')"
  shows "lighter w w' \<and> (b' \<and> \<not> b \<longrightarrow> weight_of w' cid < weight_of w cid)"
proof -
  from assms obtain c where c: "checks w cid = Some c" by (auto simp: release_def split: option.splits)
  show ?thesis
  proof (cases "c_status c = WAITING_ME")
    case True
    with assms c obtain w1 where w1: "foldM (release_one cid) (c_depend_on_me c) w = Some w1"
      and w': "upd_check cid (\<lambda>c. c\<lparr>c_status := ZOMBIE\<rparr>) w1 = Some w'"
      by (auto simp: release_def Option.bind_eq_Some_conv)
    have l1: "lighter w w1"
      by (rule foldM_relation [OF w1]) (auto intro: lighter_refl lighter_trans release_one_lighter)
    have l2: "lighter w1 w'" by (rule upd_check_weight [OF w']) simp
    have "weight_of w' cid = 0" using w' by (auto simp: upd_check_def weight_of_def split: option.splits)
    moreover have "weight_of w cid = 1" using c True by (simp add: weight_of_def)
    ultimately show ?thesis using lighter_trans [OF l1 l2] by simp
  next
    case False
    then show ?thesis using assms c by (auto simp: release_def lighter_refl)
  qed
qed

lemma release_all_lighter:
  assumes "foldM release cids (w, b) = Some (w', b')" and "set cids \<subseteq> set (sched_checks w)"
  shows "lighter w w' \<and> (b' \<and> \<not> b \<longrightarrow> unresolved w' < unresolved w)"
  using assms
proof (induction cids arbitrary: w b)
  case Nil
  then show ?case by (simp add: lighter_refl)
next
  case (Cons cid cids)
  from Cons.prems(1) obtain w1 b1 where r: "release cid (w, b) = Some (w1, b1)"
    and rest: "foldM release cids (w1, b1) = Some (w', b')"
    by (auto split: option.splits)
  note l = release_lighter [OF r]
  have "set cids \<subseteq> set (sched_checks w1)" using l Cons.prems(2) by (auto simp: lighter_def)
  note ih = Cons.IH [OF rest this]
  have l13: "lighter w w'" using l ih lighter_trans by blast
  moreover have "unresolved w' < unresolved w" if "b'" "\<not> b"
  proof (cases b1)
    case True
    then have "unresolved w1 < unresolved w"
      using l that lighter_strict [of w w1 cid] Cons.prems(2) by simp
    then show ?thesis using ih lighter_unresolved [of w1 w'] by simp
  next
    case False
    then show ?thesis using ih that l lighter_unresolved [of w w1] by simp
  qed
  ultimately show ?case by blast
qed

section \<open>Consuming\<close>

lemma consume_check_lighter:
  assumes "consume_check p cid s = Some s'" and c: "checks (wd s) cid = Some c"
    and st: "c_status c = WAIT_DEPEND"
  shows "lighter (wd s) (wd s')"
proof -
  from assms(1) c obtain it w us where it: "items (wd s) (c_ref c) = Some it"
    and run: "consume_result (depth p) (pe p) (c_ref c) cid (notification_period it)
        (conf_log_active_checks p \<and> \<not> c_passive_check c) (wd s) = Some (w, us)"
    and s': "foldM add_check us (s\<lparr>wd := w\<rparr>) = Some s'"
    by (auto simp: consume_check_def find_item_by_id_def Option.bind_eq_Some_conv split: option.splits)
  have "\<not> waits_for_dependencies c it" using st by (simp add: waits_for_dependencies_def)
  from consume_result_consumed [OF run it c this]
  obtain status where us: "us = []"
    and cs: "checks w = (checks (wd s))(cid \<mapsto> c\<lparr>c_exit_status := status, c_status := final_status c\<rparr>)"
    and sc: "sched_checks w = sched_checks (wd s)" by blast
  have "wd s' = w" using s' us by auto
  moreover have "weight (final_status c) \<le> weight (c_status c)" using st by (simp add: final_status_def)
  ultimately show ?thesis using cs sc c by (auto simp: lighter_def weight_of_def)
qed

lemma consume_dependent_lighter: "consume_dependent p s = Some s' \<Longrightarrow> lighter (wd s) (wd s')"
  unfolding consume_dependent_def
  by (erule foldM_relation [where R = "\<lambda>s s'. lighter (wd s) (wd s')"])
    (auto intro: lighter_refl lighter_trans consume_check_lighter split: option.splits if_splits)

lemma resolve_turn_lighter:
  assumes "resolve_turn p s = Some (s', again)"
  shows "lighter (wd s) (wd s') \<and> (again \<longrightarrow> unresolved (wd s') < unresolved (wd s))"
proof -
  from assms obtain w where w: "foldM release (sched_checks (wd s)) (wd s, False) = Some (w, again)"
    and s': "consume_dependent p (s\<lparr>wd := w\<rparr>) = Some s'"
    by (auto simp: resolve_turn_def Option.bind_eq_Some_conv)
  have l1: "lighter (wd s) w \<and> (again \<longrightarrow> unresolved w < unresolved (wd s))"
    using release_all_lighter [OF w] by simp
  have l2: "lighter w (wd s')" using consume_dependent_lighter [OF s'] by simp
  show ?thesis using l1 l2 lighter_trans lighter_unresolved [OF l2] by auto
qed

section \<open>The loop\<close>

function resolve_loop :: "params \<Rightarrow> sched \<Rightarrow> sched option" where
  "resolve_loop p s =
     (case resolve_turn p s of None \<Rightarrow> None
      | Some (s1, again) \<Rightarrow> if again then resolve_loop p s1 else Some s1)"
  by pat_completeness auto

termination
  by (relation "measure (\<lambda>(p, s). unresolved (wd s))") (auto dest: resolve_turn_lighter)

declare resolve_loop.simps [simp del]

section \<open>All of \<open>consume_results\<close>\<close>

text \<open>A check that is in the queue is its own result.\<close>

definition own_result :: "uuid \<Rightarrow> check \<Rightarrow> action_result" where
  "own_result cid c =
     \<lparr>r_action = CheckRef cid, r_status = c_status c, r_exit_status = c_exit_status c,
      r_output = c_output c, r_long_output = c_long_output c, r_perf_data = c_perf_data c,
      r_check_time = c_check_time c, r_execution_time = c_execution_time c, r_u_time = c_u_time c,
      r_s_time = c_s_time c, r_passive_check = c_passive_check c, r_is_snapshot = False\<rparr>"

fun manage_queued :: "queued \<Rightarrow> sched \<Rightarrow> sched option" where
  "manage_queued (Returned r) s = manage_results r s"
| "manage_queued (Raised cid) s =
     (case checks (wd s) cid of None \<Rightarrow> None | Some c \<Rightarrow> manage_results (own_result cid c) s)"

text \<open>The queue, the checks waiting to be consumed, the loop.\<close>

definition manage_waiting_results :: "sched \<Rightarrow> sched option" where
  "manage_waiting_results s = foldM manage_queued (waiting_results s) (s\<lparr>waiting_results := []\<rparr>)"

definition consume_results :: "params \<Rightarrow> sched \<Rightarrow> sched option" where
  "consume_results p s =
     Option.bind (manage_waiting_results s) (\<lambda>s1.
     Option.bind (consume_waiting p s1) (resolve_loop p))"

end
