(* ===== verification/Works.thy ===== *)
theory Works
  imports Resolve
begin

text \<open>
  The recurrent works of the scheduler (\<open>alignak/scheduler.py\<close>) and its turn \<open>run\<close>.
\<close>

section \<open>Zombies\<close>

definition delete_zombie_checks :: "sched \<Rightarrow> sched option" where
  "delete_zombie_checks s =
     (if \<exists>cid \<in> set (sched_checks (wd s)). checks (wd s) cid = None then None
      else Some (s\<lparr>wd := (wd s)\<lparr>sched_checks := filter (\<lambda>cid.
             case checks (wd s) cid of None \<Rightarrow> True | Some c \<Rightarrow> c_status c \<noteq> ZOMBIE)
               (sched_checks (wd s))\<rparr>\<rparr>))"

fun action_status :: "world \<Rightarrow> action_ref \<Rightarrow> act_status option" where
  "action_status w (CheckRef cid) = map_option c_status (checks w cid)"
| "action_status w (NotifRef nid) = map_option n_status (notifs w nid)"
| "action_status w (EventRef eid) = map_option e_status (events w eid)"

definition delete_zombie_actions :: "sched \<Rightarrow> sched option" where
  "delete_zombie_actions s =
     (if \<exists>a \<in> set (sched_actions (wd s)). action_status (wd s) a = None then None
      else Some (s\<lparr>wd := (wd s)\<lparr>sched_actions := filter (\<lambda>a. action_status (wd s) a \<noteq> Some ZOMBIE)
               (sched_actions (wd s))\<rparr>\<rparr>))"

section \<open>Scheduling the items\<close>

definition schedule_item :: "params \<Rightarrow> uuid \<Rightarrow> sched \<Rightarrow> sched option" where
  "schedule_item p u s =
     (case random_uniform p u (now (wd s)) of (r1, r2) \<Rightarrow>
      Option.bind (schedule (depth p) (pe p) r1 r2 u False None (wd s)) (\<lambda>(w, c).
        add_optional_check c (s\<lparr>wd := w\<rparr>)))"

definition schedule_all :: "params \<Rightarrow> sched \<Rightarrow> sched option" where
  "schedule_all p s = foldM (schedule_item p) (all_my_hosts_and_services s) s"

section \<open>Master notifications\<close>

definition is_launchable_master :: "world \<Rightarrow> action_ref \<Rightarrow> bool" where
  "is_launchable_master w a =
     (case a of NotifRef nid \<Rightarrow>
        (case notifs w nid of None \<Rightarrow> False
         | Some n \<Rightarrow> n_status n = SCHEDULED \<and> n_contact n = None
             \<and> (case n_t_to_go n of None \<Rightarrow> False | Some t \<Rightarrow> now w \<ge> t))
      | _ \<Rightarrow> False)"

definition master_ids :: "sched \<Rightarrow> uuid list" where
  "master_ids s = List.map_filter (\<lambda>a. case a of NotifRef nid \<Rightarrow> Some nid | _ \<Rightarrow> None)
     (filter (is_launchable_master (wd s)) (sched_actions (wd s)))"

definition host_ref_of :: "world \<Rightarrow> item \<Rightarrow> item option" where
  "host_ref_of w it = (if my_type it = Service then Option.bind (host it) (items w) else None)"

text \<open>What becomes of the master after its children: repeated problems stay scheduled.\<close>

definition after_scatter :: "params \<Rightarrow> uuid \<Rightarrow> uuid \<Rightarrow> bool \<Rightarrow> sched \<Rightarrow> sched option" where
  "after_scatter p u nid has_children s0 =
     (case notifs (wd s0) nid of None \<Rightarrow> None
      | Some n \<Rightarrow>
          if n_ntype n = PROBLEM
          then
            Option.bind
              (if has_children
               then on_world (upd_item u (\<lambda>it. it\<lparr>current_notification_number := n_notif_nb n\<rparr>)) s0
               else Some s0) (\<lambda>s.
            case items (wd s) u of None \<Rightarrow> None
            | Some it \<Rightarrow>
                if notification_interval it \<noteq> 0 \<and> n_t_to_go n \<noteq> None
                then (case get_next_notification_time (pe p) (wd s) it n of None \<Rightarrow> None
                      | Some t \<Rightarrow> on_world (upd_notif nid (\<lambda>n. n\<lparr>n_t_to_go := Some t,
                                   n_notif_nb := current_notification_number it + 1\<rparr>)) s)
                else on_world (remove_in_progress_notification u nid) s)
          else on_world (remove_in_progress_notification u nid) s0)"

definition scatter_master :: "params \<Rightarrow> uuid \<Rightarrow> sched \<Rightarrow> sched option" where
  "scatter_master p nid s =
     (case notifs (wd s) nid of None \<Rightarrow> None
      | Some n \<Rightarrow>
     (case find_item_by_id s (n_ref n) of None \<Rightarrow> None
      | Some it \<Rightarrow>
     (case is_blocking_notifications (pe p) (wd s) (notification_period it) (n_ntype n) (now (wd s)) it
      of None \<Rightarrow> None
       | Some blocked \<Rightarrow>
           if blocked then after_scatter p (n_ref n) nid False s
           else
             Option.bind (scatter_notification (pe p) (n_ref n) nid (host_ref_of (wd s) it) (wd s))
               (\<lambda>(w, children).
             Option.bind
               (foldM (\<lambda>c s. Option.bind (on_world (upd_notif c (\<lambda>n. n\<lparr>n_status := SCHEDULED\<rparr>)) s)
                               (add_notification c)) children (s\<lparr>wd := w\<rparr>))
               (after_scatter p (n_ref n) nid (children \<noteq> []))))))"

definition scatter_master_notifications :: "params \<Rightarrow> sched \<Rightarrow> sched option" where
  "scatter_master_notifications p s = foldM (scatter_master p) (master_ids s) s"

section \<open>Internal checks\<close>

definition is_word_char :: "char \<Rightarrow> bool" where
  "is_word_char c \<longleftrightarrow> is_digit c \<or> c \<in> set ''_-''
     \<or> (65 \<le> (of_char c :: nat) \<and> (of_char c :: nat) \<le> 90)
     \<or> (97 \<le> (of_char c :: nat) \<and> (of_char c :: nat) \<le> 122)"

text \<open>\<open>re.match\<close> of the macro pattern: at the start of the text; ASCII letters only.\<close>

definition starts_with_macro :: "string \<Rightarrow> bool" where
  "starts_with_macro s =
     (case s of [] \<Rightarrow> False
      | c # r \<Rightarrow> c = CHR ''$'' \<and> takeWhile is_word_char r \<noteq> []
          \<and> (case dropWhile is_word_char r of [] \<Rightarrow> False | d # _ \<Rightarrow> d = CHR ''$''))"

fun join :: "string \<Rightarrow> string list \<Rightarrow> string" where
  "join sep [] = []"
| "join sep [x] = x"
| "join sep (x # y # ys) = x @ sep @ join sep (y # ys)"

text \<open>
  The rule of an item is read again when its text starts with a macro. The second component
  tells whether the method returned; the macro resolver is a parameter.
\<close>

definition create_business_rules :: "params \<Rightarrow> world \<Rightarrow> item \<Rightarrow> item \<times> bool" where
  "create_business_rules p w it0 =
     (case check_command it0 of None \<Rightarrow> (it0, True)
      | Some cc \<Rightarrow>
          if cc_name cc \<noteq> ''bp_rule'' then (it0, True)
          else
            let it = it0\<lparr>got_business_rule := True\<rparr>;
                rule0 = join ''!'' (cc_args cc)
            in if business_rule it = None \<or> starts_with_macro rule0
               then
                 let rule = resolve_rule p rule0 it w
                 in if rule = processed_business_rule it then (it, True)
                    else let it1 = it\<lparr>processed_business_rule := rule\<rparr>
                         in (case eval_cor_pattern (rule_catalog p w) (bound_host_name p it1) True rule of
                               None \<Rightarrow> (it1, False)
                             | Some d \<Rightarrow> (it1\<lparr>business_rule := d\<rparr>, True))
               else (it, True))"

definition leaf_of :: "item_type \<Rightarrow> world \<Rightarrow> uuid \<Rightarrow> leaf option" where
  "leaf_of ty w u =
     (case items w u of None \<Rightarrow> None
      | Some it \<Rightarrow> if my_type it = ty
                  then Some (last_hard_state_id it, problem_has_been_acknowledged it,
                             in_scheduled_downtime it)
                  else None)"

text \<open>The state and the output of a rule; \<open>None\<close> is any exception on the way, which is caught.\<close>

definition evaluate_rule :: "params \<Rightarrow> world \<Rightarrow> item \<Rightarrow> (int \<times> string) option" where
  "evaluate_rule p w it =
     Option.bind (business_rule it) (\<lambda>d.
     Option.bind (get_state (leaf_of Host w) (leaf_of Service w) d) (\<lambda>st.
       map_option (\<lambda>out. (st, out)) (business_rule_output p it w)))"

definition run_business_rule :: "params \<Rightarrow> uuid \<Rightarrow> check \<Rightarrow> world \<Rightarrow> (world \<times> int \<times> check) option" where
  "run_business_rule p u c w =
     (case items w u of None \<Rightarrow> None
      | Some it0 \<Rightarrow>
     (case create_business_rules p w it0 of (it, ok) \<Rightarrow>
        let w1 = w\<lparr>items := (items w)(u \<mapsto> it)\<rparr>
        in (case (if ok then evaluate_rule p w1 it else None) of
              Some (st, out) \<Rightarrow> Some (w1, st, c\<lparr>c_output := out\<rparr>)
            | None \<Rightarrow> Some (w1, 3, c\<lparr>c_output := business_rule_error p it w1\<rparr>))))"

text \<open>
  The state and output of \<open>_internal_host_check;state;output\<close> and its like for services, from
  the parts of the command. Formatting a text that is no number with \<open>%d\<close> raises.
\<close>

definition pick_state :: "params \<Rightarrow> string \<Rightarrow> string" where
  "pick_state p text =
     (if CHR '','' \<in> set text then random_choice p (take 5 (split_on CHR '','' text)) else strip text)"

definition simulated_state :: "params \<Rightarrow> item \<Rightarrow> string list \<Rightarrow> int option" where
  "simulated_state p it parts =
     (if state_type it = SOFT then Some (state_id it)
      else case parts of _ # text # _ \<Rightarrow> py_int (pick_state p text) | _ \<Rightarrow> None)"

definition simulated_output :: "params \<Rightarrow> string \<Rightarrow> int \<Rightarrow> string list \<Rightarrow> string option" where
  "simulated_output p intro st parts =
     (case parts of
        _ # _ # out # _ \<Rightarrow>
          if out = [] then Some (intro @ fmt_int st)
          else if \<exists>i \<in> set [0..<length out]. take 2 (drop i out) = ''%d'' then percent_format p out st
          else Some out
      | _ \<Rightarrow> Some (intro @ fmt_int st))"

definition simulate :: "params \<Rightarrow> string \<Rightarrow> item \<Rightarrow> string list \<Rightarrow> check \<Rightarrow> (int \<times> check) option" where
  "simulate p intro it parts c =
     Option.bind (simulated_state p it parts) (\<lambda>st.
       map_option (\<lambda>out. (st, c\<lparr>c_output := out, c_execution_time := 0\<rparr>))
         (simulated_output p intro st parts))"

text \<open>
  The performance data that some environment variables ask for are not modelled, nor are log
  messages: the variables are taken as not set.
\<close>

definition run_internal ::
  "params \<Rightarrow> uuid \<Rightarrow> item \<Rightarrow> check \<Rightarrow> world \<Rightarrow> (world \<times> int \<times> check) option" where
  "run_internal p u it c w =
     (let parts = split_on CHR '';'' (c_command c);
          same = map_option (\<lambda>(st, c). (w, st, c))
      in if startswith (c_command c) ''bp_'' then run_business_rule p u c w
         else if c_command c = ''_internal_host_up''
         then Some (w, 0, c\<lparr>c_execution_time := 0, c_output := ''Host assumed to be UP''\<rparr>)
         else if c_command c = ''_echo''
         then Some (w, state_id it, c\<lparr>c_execution_time := 0, c_output := plugin_output it\<rparr>)
         else if startswith (c_command c) ''_internal_host_check''
         then (if length parts < 2
               then Some (w, 3, c\<lparr>c_output := ''Malformed host internal check'', c_execution_time := 0\<rparr>)
               else same (simulate p ''Host internal check result: '' it parts c))
         else if startswith (c_command c) ''_internal_service_check''
         then same (simulate p ''Service internal check result: '' it parts c)
         else Some (w, 3, c))"

definition manage_internal_check :: "params \<Rightarrow> uuid \<Rightarrow> uuid \<Rightarrow> world \<Rightarrow> world option" where
  "manage_internal_check p u cid w =
     (case (items w u, checks w cid) of
        (Some it, Some c) \<Rightarrow>
          map_option (\<lambda>(w1, st, c1). w1\<lparr>checks := (checks w1)(cid \<mapsto>
              c1\<lparr>c_long_output := c_output c1, c_check_time := now w, c_exit_status := st\<rparr>)\<rparr>)
            (run_internal p u it c w)
      | _ \<Rightarrow> None)"

definition manage_internal :: "params \<Rightarrow> uuid \<Rightarrow> sched \<Rightarrow> sched option" where
  "manage_internal p cid s =
     (case checks (wd s) cid of None \<Rightarrow> None
      | Some c \<Rightarrow>
          if \<not> (c_internal c \<and> now (wd s) \<ge> c_t_to_go c \<and> c_status c = SCHEDULED) then Some s
          else
            let becomes = (\<lambda>st. on_world (upd_check cid (\<lambda>c. c\<lparr>c_status := st\<rparr>)))
            in (case find_item_by_id s (c_ref c) of None \<Rightarrow> becomes ZOMBIE s
                | Some it \<Rightarrow>
                    if \<not> active_checks_enabled it then becomes ZOMBIE s
                    else Option.bind (on_world (manage_internal_check p (c_ref c) cid)
                           (s\<lparr>nb_internal_checks := nb_internal_checks s + 1\<rparr>))
                         (becomes WAIT_CONSUME)))"

definition manage_internal_checks :: "params \<Rightarrow> sched \<Rightarrow> sched option" where
  "manage_internal_checks p s = foldM (manage_internal p) (sched_checks (wd s)) s"

end
