(* ===== verification/Upkeep.thy ===== *)
theory Upkeep
  imports Works
begin

text \<open>
  The other recurrent works of the scheduler (\<open>alignak/scheduler.py\<close>): acknowledgements and
  downtimes that end, business impacts, freshness, orphans, the limits of the queues; and the
  turn \<open>run\<close> that calls them all.
\<close>

section \<open>Acknowledgements and business impacts\<close>

definition check_for_expire_acknowledges :: "sched \<Rightarrow> sched option" where
  "check_for_expire_acknowledges s =
     foldM (\<lambda>u. on_world (check_for_expire_acknowledge u)) (all_my_hosts_and_services s) s"

text \<open>The items that are problems, or those that are not; a changed value is announced.\<close>

definition update_business_value :: "params \<Rightarrow> bool \<Rightarrow> uuid \<Rightarrow> sched \<Rightarrow> sched option" where
  "update_business_value p problems u s =
     (case items (wd s) u of None \<Rightarrow> None
      | Some it \<Rightarrow>
          if is_problem it \<noteq> problems then Some s
          else Option.bind (on_world (update_business_impact_value (pe p) u) s) (\<lambda>s1.
               case items (wd s1) u of None \<Rightarrow> None
               | Some it1 \<Rightarrow> Some (if business_impact it1 \<noteq> business_impact it
                                   then sched_add_brok UpdateStatusBrok None s1 else s1)))"

definition update_business_values :: "params \<Rightarrow> sched \<Rightarrow> sched option" where
  "update_business_values p s =
     Option.bind (foldM (update_business_value p False) (all_my_hosts_and_services s) s)
       (\<lambda>s1. foldM (update_business_value p True) (all_my_hosts_and_services s1) s1)"

section \<open>Downtimes\<close>

text \<open>
  A maintenance period schedules its downtime when it begins. Without a next valid or invalid
  time the arithmetic on \<open>None\<close> raises. The comment and the downtime given to \<open>add\<close> are of
  classes it does not manage.
\<close>

definition maintenance_text :: string where
  "maintenance_text = ''This downtime was automatically scheduled by Alignak because of a maintenance period.''"

definition enter_maintenance :: "params \<Rightarrow> uuid \<Rightarrow> uuid \<Rightarrow> sched \<Rightarrow> sched option" where
  "enter_maintenance p tp u s =
     Option.bind (tp_next (pe p) tp (now (wd s))) (\<lambda>start.
     Option.bind (tp_next_invalid p tp (start + 1)) (\<lambda>stop.
     case items (wd s) u of None \<Rightarrow> None
     | Some it \<Rightarrow>
         let did = next_uuid (wd s);
             d = new_downtime u True start (stop - 1) 0 None ''Alignak'' maintenance_text
         in Option.bind (on_world (\<lambda>w. Option.bind
                (add_automatic_comment (downtime_text p d (my_type it)) did
                   (w\<lparr>next_uuid := did + 1, downtime_store := (downtime_store w)(did \<mapsto> d)\<rparr>))
                (add_downtime u did)) s) (\<lambda>s1.
            on_world (upd_item u (\<lambda>it. it\<lparr>in_maintenance := Some did\<rparr>))
              (sched_add_brok UpdateStatusBrok None s1))))"

definition check_maintenance :: "params \<Rightarrow> uuid \<Rightarrow> sched \<Rightarrow> sched option" where
  "check_maintenance p u s =
     (case items (wd s) u of None \<Rightarrow> None
      | Some it \<Rightarrow>
     (case maintenance_period it of None \<Rightarrow> Some s
      | Some tp \<Rightarrow>
     (case in_maintenance it of
        None \<Rightarrow> if tp_valid (pe p) tp (now (wd s)) then enter_maintenance p tp u s else Some s
      | Some did \<Rightarrow>
          if did \<in> set (downtimes it) then Some s
          else on_world (upd_item u (\<lambda>it. it\<lparr>in_maintenance := None\<rparr>)) s)))"

definition upd_contact :: "uuid \<Rightarrow> (contact \<Rightarrow> contact) \<Rightarrow> world \<Rightarrow> world option" where
  "upd_contact ku f w =
     (case contact_store w ku of None \<Rightarrow> None
      | Some k \<Rightarrow> Some (w\<lparr>contact_store := (contact_store w)(ku \<mapsto> f k)\<rparr>))"

text \<open>The log of a contact downtime goes to the contact it refers to.\<close>

definition activate_contact_downtime :: "uuid \<Rightarrow> uuid \<Rightarrow> world \<Rightarrow> world option" where
  "activate_contact_downtime ku did w =
     (case contact_store w ku of None \<Rightarrow> None
      | Some k \<Rightarrow>
     (case dget (k_downtimes k) did of None \<Rightarrow> None
      | Some d \<Rightarrow>
          if cd_is_in_effect d = (cd_start_time d \<le> now w \<and> now w \<le> cd_end_time d) then Some w
          else (case contact_store w (cd_ref d) of None \<Rightarrow> None
                | Some r \<Rightarrow>
               (case check_activation (now w) d r of (d', r') \<Rightarrow>
                  upd_contact ku (\<lambda>k. k\<lparr>k_downtimes := dset did d' (k_downtimes k)\<rparr>)
                    (w\<lparr>contact_store := (contact_store w)(cd_ref d \<mapsto> r')\<rparr>)))))"

definition activate_contact_downtimes :: "uuid \<Rightarrow> world \<Rightarrow> world option" where
  "activate_contact_downtimes ku w =
     (case contact_store w ku of None \<Rightarrow> None
      | Some k \<Rightarrow> foldM (activate_contact_downtime ku) (dkeys (k_downtimes k)) w)"

text \<open>The broks are added at the end: the second component of the state.\<close>

definition drop_downtime :: "uuid \<Rightarrow> uuid \<Rightarrow> world \<times> brok list \<Rightarrow> (world \<times> brok list) option" where
  "drop_downtime u did wb =
     (case wb of (w, bs) \<Rightarrow>
     (case downtime_store w did of None \<Rightarrow> None
      | Some d \<Rightarrow>
          if \<not> d_can_be_deleted d then Some (w, bs)
          else map_option (\<lambda>w1. (w1, bs @ [UpdateStatusBrok])) (del_downtime u did w)))"

definition drop_downtimes :: "uuid \<Rightarrow> world \<times> brok list \<Rightarrow> (world \<times> brok list) option" where
  "drop_downtimes u wb =
     (case items (fst wb) u of None \<Rightarrow> None
      | Some it \<Rightarrow> foldM (drop_downtime u) (downtimes it) wb)"

definition drop_contact_downtimes :: "uuid \<Rightarrow> world \<times> brok list \<Rightarrow> (world \<times> brok list) option" where
  "drop_contact_downtimes ku wb =
     (case wb of (w, bs) \<Rightarrow>
     (case contact_store w ku of None \<Rightarrow> None
      | Some k \<Rightarrow>
          Some (w\<lparr>contact_store := (contact_store w)(ku \<mapsto> k\<lparr>k_downtimes :=
                   filter (\<lambda>(did, d). \<not> cd_can_be_deleted d) (k_downtimes k)\<rparr>)\<rparr>,
                bs @ map (\<lambda>_. UpdateStatusBrok) (filter (\<lambda>(did, d). cd_can_be_deleted d) (k_downtimes k)))))"

definition start_or_stop_downtime ::
  "params \<Rightarrow> uuid \<Rightarrow> world \<times> brok list \<Rightarrow> (world \<times> brok list) option" where
  "start_or_stop_downtime p did wb =
     (case wb of (w, bs) \<Rightarrow>
     (case downtime_store w did of None \<Rightarrow> None
      | Some d \<Rightarrow>
          if d_real_end_time d < now w
          then map_option (\<lambda>(w1, bs1). (w1, bs @ bs1)) (downtime_exit (pe p) did w)
          else if now w \<ge> d_start_time d \<and> d_fixed d \<and> \<not> d_is_in_effect d
          then Option.bind (downtime_enter (depth p) (pe p) did w) (\<lambda>(w1, bs1).
               case items w1 (d_ref d) of None \<Rightarrow> None
               | Some _ \<Rightarrow> Some (w1, bs @ bs1 @ [UpdateStatusBrok]))
          else Some (w, bs)))"

definition start_or_stop_downtimes ::
  "params \<Rightarrow> uuid \<Rightarrow> world \<times> brok list \<Rightarrow> (world \<times> brok list) option" where
  "start_or_stop_downtimes p u wb =
     (case items (fst wb) u of None \<Rightarrow> None
      | Some it \<Rightarrow> foldM (start_or_stop_downtime p) (downtimes it) wb)"

definition update_downtimes_and_comments :: "params \<Rightarrow> sched \<Rightarrow> sched option" where
  "update_downtimes_and_comments p s =
     (let us = all_my_hosts_and_services s
      in Option.bind (foldM (check_maintenance p) us s) (\<lambda>s1.
         Option.bind (foldM activate_contact_downtimes (contact_ids s1) (wd s1)) (\<lambda>w2.
         Option.bind (foldM drop_downtimes us (w2, [])) (\<lambda>wb3.
         Option.bind (foldM drop_contact_downtimes (contact_ids s1) wb3) (\<lambda>wb4.
         Option.bind (foldM (start_or_stop_downtimes p) us wb4) (\<lambda>(w5, bs).
           Some (sched_add_broks bs (s1\<lparr>wd := w5\<rparr>))))))))"

section \<open>Freshness\<close>

text \<open>An item whose freshness has expired is shown as checked now.\<close>

definition still_expired :: "params \<Rightarrow> uuid \<Rightarrow> sched \<Rightarrow> sched option" where
  "still_expired p u s =
     map_option (sched_add_brok CheckResultBrok None)
       (on_world (upd_item u (\<lambda>it. it\<lparr>last_chk := now (wd s),
          plugin_output := stale_text p (last_hard_state_change it) (now (wd s))\<rparr>)) s)"

definition lookup_all :: "world \<Rightarrow> uuid list \<Rightarrow> (uuid \<times> item) list option" where
  "lookup_all w us =
     (if \<exists>u \<in> set us. items w u = None then None
      else Some (map (\<lambda>u. (u, the (items w u))) us))"

definition waits_for_freshness :: "item \<Rightarrow> bool" where
  "waits_for_freshness it \<longleftrightarrow> check_freshness it \<and> \<not> freshness_expired it
     \<and> passive_checks_enabled it \<and> \<not> active_checks_enabled it"

definition fresh_host :: "world \<Rightarrow> item \<Rightarrow> bool option" where
  "fresh_host w it =
     map_option (\<lambda>h. \<not> freshness_expired h) (Option.bind (host it) (items w))"

text \<open>The items to check; the expired ones are refreshed on the way.\<close>

definition freshness_hosts :: "params \<Rightarrow> sched \<Rightarrow> (sched \<times> uuid list) option" where
  "freshness_hosts p s =
     (if \<not> check_host_freshness p then Some (s, [])
      else if host_freshness_check_interval p = 0 then None
      else if ticks s mod host_freshness_check_interval p \<noteq> 0 then Some (s, [])
      else
        Option.bind (lookup_all (wd s) (host_ids (wd s))) (\<lambda>hs.
        map_option (\<lambda>s1. (s1, map fst (filter (\<lambda>(u, h). waits_for_freshness h) hs)))
          (foldM (still_expired p)
             (map fst (filter (\<lambda>(u, h). check_freshness h \<and> freshness_expired h) hs)) s)))"

definition freshness_services :: "params \<Rightarrow> sched \<Rightarrow> (sched \<times> uuid list) option" where
  "freshness_services p s =
     (if \<not> check_service_freshness p then Some (s, [])
      else if service_freshness_check_interval p = 0 then None
      else if ticks s mod service_freshness_check_interval p \<noteq> 0 then Some (s, [])
      else
        Option.bind (lookup_all (wd s) (service_ids (wd s))) (\<lambda>ss.
        if \<exists>(u, it) \<in> set ss. fresh_host (wd s) it = None then None
        else
          let below_fresh = filter (\<lambda>(u, it). fresh_host (wd s) it = Some True) ss
          in map_option (\<lambda>s1. (s1, map fst (filter (\<lambda>(u, it). waits_for_freshness it) below_fresh)))
               (foldM (still_expired p)
                  (map fst (filter (\<lambda>(u, it). check_freshness it \<and> freshness_expired it) below_fresh))
                  s)))"

definition raise_freshness :: "params \<Rightarrow> uuid \<Rightarrow> sched \<Rightarrow> sched option" where
  "raise_freshness p u s =
     Option.bind (do_check_freshness (depth p) (pe p) (freshness_text p) u (now (wd s)) (wd s))
       (\<lambda>(w, raised).
        case raised of None \<Rightarrow> Some (s\<lparr>wd := w\<rparr>)
        | Some cid \<Rightarrow> map_option (\<lambda>s1. s1\<lparr>waiting_results := waiting_results s1 @ [Raised cid]\<rparr>)
                        (add_check cid (s\<lparr>wd := w\<rparr>)))"

definition check_freshness_all :: "params \<Rightarrow> sched \<Rightarrow> sched option" where
  "check_freshness_all p s =
     Option.bind (freshness_hosts p s) (\<lambda>(s1, hs).
     Option.bind (freshness_services p s1) (\<lambda>(s2, ss).
       foldM (raise_freshness p) (hs @ ss) s2))"

section \<open>Orphans\<close>

definition is_orphaned :: "world \<Rightarrow> uuid \<Rightarrow> int option \<Rightarrow> bool option" where
  "is_orphaned w ref t_to_go =
     (case items w ref of None \<Rightarrow> None
      | Some it \<Rightarrow>
          let limit = get_time_to_orphanage (cls_of w it) it
          in if limit = 0 then Some False else map_option (\<lambda>t. t \<le> now w - limit) t_to_go)"

fun reenable_orphan :: "action_ref \<Rightarrow> world \<Rightarrow> world option" where
  "reenable_orphan (CheckRef cid) w =
     (case checks w cid of None \<Rightarrow> None
      | Some c \<Rightarrow>
          if c_status c \<noteq> POLLED then Some w
          else Option.bind (is_orphaned w (c_ref c) (Some (c_t_to_go c))) (\<lambda>orphan.
               if orphan then upd_check cid (\<lambda>c. c\<lparr>c_is_orphan := True, c_status := SCHEDULED\<rparr>) w
               else Some w))"
| "reenable_orphan (NotifRef nid) w =
     (case notifs w nid of None \<Rightarrow> None
      | Some n \<Rightarrow>
          if n_status n \<noteq> POLLED then Some w
          else Option.bind (is_orphaned w (n_ref n) (n_t_to_go n)) (\<lambda>orphan.
               if orphan then upd_notif nid (\<lambda>n. n\<lparr>n_is_orphan := True, n_status := SCHEDULED\<rparr>) w
               else Some w))"
| "reenable_orphan (EventRef eid) w =
     (case events w eid of None \<Rightarrow> None
      | Some v \<Rightarrow>
          if e_status v \<noteq> POLLED then Some w
          else Option.bind (is_orphaned w (e_ref v) (Some (e_t_to_go v))) (\<lambda>orphan.
               if orphan then upd_event eid (\<lambda>v. v\<lparr>e_is_orphan := True, e_status := SCHEDULED\<rparr>) w
               else Some w))"

definition check_orphaned :: "sched \<Rightarrow> sched option" where
  "check_orphaned s =
     on_world (foldM reenable_orphan (map CheckRef (sched_checks (wd s)) @ sched_actions (wd s))) s"

section \<open>The limits of the queues\<close>

text \<open>
  The identifiers of all but the \<open>n\<close> newest objects. An identifier without object is no
  member of the Python dictionary; it raises here.
\<close>

definition oldest :: "nat \<Rightarrow> ('k \<Rightarrow> int option) \<Rightarrow> 'k list \<Rightarrow> 'k list option" where
  "oldest n created ks =
     (if \<exists>k \<in> set ks. created k = None then None
      else Some (take (length ks - n) (sort_key (\<lambda>k. the (created k)) ks)))"

text \<open>
  A dropped check: \<open>remove_in_progress_check\<close> is given the check where the list holds
  identifiers, so that only \<open>in_checking\<close> is computed again; the checks it depends on are
  identifiers, which have no \<open>depend_on_me\<close>.
\<close>

definition drop_check :: "uuid \<Rightarrow> world \<Rightarrow> world option" where
  "drop_check cid w =
     (case checks w cid of None \<Rightarrow> None
      | Some c \<Rightarrow>
          Option.bind (upd_item (c_ref c) update_in_checking w) (\<lambda>w1.
          Option.bind (foldM (release_one cid) (c_depend_on_me c) w1) (\<lambda>w2.
          if c_depend_on c \<noteq> [] then None
          else Some (w2\<lparr>sched_checks := remove1 cid (sched_checks w2)\<rparr>))))"

definition clean_checks :: "nat \<Rightarrow> sched \<Rightarrow> sched option" where
  "clean_checks max_checks s0 =
     (let s = s0\<lparr>nb_checks_dropped := 0\<rparr>
      in if max_checks = 0 \<or> length (sched_checks (wd s)) \<le> max_checks then Some s
         else
           Option.bind (oldest max_checks (\<lambda>cid. map_option c_creation_time (checks (wd s) cid))
                          (sched_checks (wd s))) (\<lambda>old.
             on_world (foldM drop_check old) (s\<lparr>nb_checks_dropped := length old\<rparr>)))"

text \<open>The markers of the broks have no creation time: \<open>by_creation\<close> sorts them.\<close>

definition clean_broks :: "params \<Rightarrow> nat \<Rightarrow> sched \<Rightarrow> sched" where
  "clean_broks p max_broks s =
     s\<lparr>nb_broks_dropped := 0,
       brokers := map (\<lambda>(k, q). (k, if max_broks \<noteq> 0 \<and> length q > max_broks
                                     then take max_broks (by_creation p q) else q)) (brokers s)\<rparr>"

fun created_at :: "world \<Rightarrow> action_ref \<Rightarrow> int option" where
  "created_at w (CheckRef cid) = map_option c_creation_time (checks w cid)"
| "created_at w (NotifRef nid) = map_option n_creation_time (notifs w nid)"
| "created_at w (EventRef eid) = map_option e_creation_time (events w eid)"

definition drop_action :: "action_ref \<Rightarrow> world \<Rightarrow> world option" where
  "drop_action a w =
     Option.bind
       (case a of
          NotifRef nid \<Rightarrow> Option.bind (notifs w nid) (\<lambda>n. remove_in_progress_notification (n_ref n) nid w)
        | _ \<Rightarrow> Some w)
       (\<lambda>w1. Some (w1\<lparr>sched_actions := remove1 a (sched_actions w1)\<rparr>))"

definition clean_actions :: "nat \<Rightarrow> sched \<Rightarrow> sched option" where
  "clean_actions max_actions s0 =
     (let s = s0\<lparr>nb_actions_dropped := 0\<rparr>
      in if max_actions = 0 \<or> length (sched_actions (wd s)) \<le> max_actions then Some s
         else
           Option.bind (oldest max_actions (created_at (wd s)) (sched_actions (wd s))) (\<lambda>old.
             on_world (foldM drop_action old) (s\<lparr>nb_actions_dropped := length old\<rparr>)))"

definition clean_queues :: "params \<Rightarrow> sched \<Rightarrow> sched option" where
  "clean_queues p s =
     (if tick_clean_queues p = 0 then Some s
      else
        let n = length (host_ids (wd s)) + length (service_ids (wd s))
        in Option.bind (clean_checks (5 * n) s) (\<lambda>s1.
             clean_actions (5 * length (contact_ids s1) * n) (clean_broks p (5 * n) s1)))"

definition get_checks_status_counts :: "sched \<Rightarrow> nat \<times> (act_status \<Rightarrow> nat)" where
  "get_checks_status_counts s =
     (length (sched_checks (wd s)),
      \<lambda>st. length (filter (\<lambda>cid. map_option c_status (checks (wd s) cid) = Some st)
                    (sched_checks (wd s))))"

section \<open>The turn of the scheduler\<close>

fun work_name :: "work \<Rightarrow> string" where
  "work_name Update_downtimes_and_comments = ''update_downtimes_and_comments''"
| "work_name Schedule = ''schedule''"
| "work_name Check_freshness = ''check_freshness''"
| "work_name Consume_results = ''consume_results''"
| "work_name Get_new_actions = ''get_new_actions''"
| "work_name Scatter_master_notifications = ''scatter_master_notifications''"
| "work_name Get_new_broks = ''get_new_broks''"
| "work_name Delete_zombie_checks = ''delete_zombie_checks''"
| "work_name Delete_zombie_actions = ''delete_zombie_actions''"
| "work_name Clean_caches = ''clean_caches''"
| "work_name Update_retention = ''update_retention''"
| "work_name Check_orphaned = ''check_orphaned''"
| "work_name Update_program_status = ''update_program_status''"
| "work_name Check_for_system_time_change = ''check_for_system_time_change''"
| "work_name Manage_internal_checks = ''manage_internal_checks''"
| "work_name Clean_queues = ''clean_queues''"
| "work_name Update_business_values = ''update_business_values''"
| "work_name Reset_topology_change_flag = ''reset_topology_change_flag''"
| "work_name Check_for_expire_acknowledge = ''check_for_expire_acknowledge''"
| "work_name Send_broks_to_modules = ''send_broks_to_modules''"
| "work_name Get_objects_from_from_queues = ''get_objects_from_from_queues''"
| "work_name Get_latency_average_percentile = ''get_latency_average_percentile''"

definition default_works :: "(work \<times> int) list" where
  "default_works =
     [(Update_downtimes_and_comments, 1), (Schedule, 1), (Check_freshness, 10), (Consume_results, 1),
      (Get_new_actions, 1), (Scatter_master_notifications, 1), (Get_new_broks, 1),
      (Delete_zombie_checks, 1), (Delete_zombie_actions, 1), (Clean_caches, 1),
      (Update_retention, 3600), (Check_orphaned, 60), (Update_program_status, 10),
      (Check_for_system_time_change, 1), (Manage_internal_checks, 1), (Clean_queues, 1),
      (Update_business_values, 60), (Reset_topology_change_flag, 1),
      (Check_for_expire_acknowledge, 1), (Send_broks_to_modules, 1),
      (Get_objects_from_from_queues, 1), (Get_latency_average_percentile, 10)]"

text \<open>
  \<open>conf\<close> is the value of the option \<open>tick_\<close>\<open>name\<close>, if there is one. It is formatted for the log
  as an integer before the \<open>try\<close>: a text that is no number raises.
\<close>

fun update_recurrent_works_tick ::
  "(string \<Rightarrow> string option) \<Rightarrow> (work \<times> int) list \<Rightarrow> (work \<times> int) list option" where
  "update_recurrent_works_tick conf [] = Some []"
| "update_recurrent_works_tick conf ((k, tick) # works) =
     (case conf (''tick_'' @ work_name k) of
        None \<Rightarrow> map_option ((#) (k, tick)) (update_recurrent_works_tick conf works)
      | Some text \<Rightarrow>
          (case py_int text of None \<Rightarrow> None
           | Some new \<Rightarrow> map_option ((#) (k, new)) (update_recurrent_works_tick conf works)))"

definition start_scheduling :: "sched \<Rightarrow> sched" where
  "start_scheduling s = s\<lparr>must_schedule := True\<rparr>"

definition stop_scheduling :: "sched \<Rightarrow> sched" where
  "stop_scheduling s = s\<lparr>must_schedule := False\<rparr>"

definition before_run :: "sched \<Rightarrow> sched" where
  "before_run s =
     s\<lparr>nb_checks := 0, nb_internal_checks := 0, nb_checks_launched := 0, nb_actions_launched := 0,
       nb_checks_results := 0, nb_checks_results_timeout := 0, nb_checks_results_passive := 0,
       nb_checks_results_active := 0, nb_actions_results := 0, nb_actions_results_timeout := 0,
       nb_broks_dropped := 0, nb_checks_dropped := 0, nb_actions_dropped := 0, nb_broks := 0,
       nb_notifications := 0, nb_event_handlers := 0, ticks := 0\<rparr>"

text \<open>
  The works that touch what the model does not have (caches, retention files, modules,
  statistics, the clock) are the argument \<open>other\<close>; \<open>satellites\<close> is the exchange with the
  passive satellites over the network.
\<close>

fun run_work :: "params \<Rightarrow> (work \<Rightarrow> sched \<Rightarrow> sched option) \<Rightarrow> work \<Rightarrow> sched \<Rightarrow> sched option" where
  "run_work p other Update_downtimes_and_comments s = update_downtimes_and_comments p s"
| "run_work p other Schedule s = schedule_all p s"
| "run_work p other Check_freshness s = check_freshness_all p s"
| "run_work p other Consume_results s = consume_results p s"
| "run_work p other Get_new_actions s = get_new_actions s"
| "run_work p other Scatter_master_notifications s = scatter_master_notifications p s"
| "run_work p other Get_new_broks s = get_new_broks s"
| "run_work p other Delete_zombie_checks s = delete_zombie_checks s"
| "run_work p other Delete_zombie_actions s = delete_zombie_actions s"
| "run_work p other Check_orphaned s = check_orphaned s"
| "run_work p other Manage_internal_checks s = manage_internal_checks p s"
| "run_work p other Clean_queues s = clean_queues p s"
| "run_work p other Update_business_values s = update_business_values p s"
| "run_work p other Check_for_expire_acknowledge s = check_for_expire_acknowledges s"
| "run_work p other k s = other k s"

definition is_due :: "nat \<Rightarrow> work \<times> int \<Rightarrow> bool" where
  "is_due t kn \<longleftrightarrow> snd kn \<noteq> 0 \<and> int t mod snd kn = 0"

definition run_turn ::
  "params \<Rightarrow> (work \<Rightarrow> sched \<Rightarrow> sched option) \<Rightarrow> (sched \<Rightarrow> sched option) \<Rightarrow> sched \<Rightarrow> sched option" where
  "run_turn p other satellites s =
     (if \<not> must_schedule s then Some s
      else
        let s0 = s\<lparr>ticks := ticks s + 1\<rparr>
        in Option.bind (foldM (\<lambda>kn s. if is_due (ticks s0) kn then run_work p other (fst kn) s else Some s)
                          (recurrent_works s0) s0) (\<lambda>s1.
           map_option (\<lambda>s2. s2\<lparr>nb_checks_dropped := 0, nb_broks_dropped := 0, nb_actions_dropped := 0\<rparr>)
             (satellites s1)))"

end
