(* ===== verification/RuleFacts.thy ===== *)
theory RuleFacts
  imports RuleParse
begin

text \<open>
  The parser of business rules: rules over hosts that are written with \<open>&\<close>, \<open>|\<close>, \<open>!\<close> and parentheses
  are read back as the tree they stand for; parentheses around a whole rule give a node without an
  operand.
\<close>

section \<open>Writing rules\<close>

text \<open>A host, or a conjunction or disjunction; the first argument says that it is negated.\<close>

datatype rule = RHost bool string | ROp bool bool "rule list"

fun negated :: "rule \<Rightarrow> bool" where
  "negated (RHost nt h) = nt"
| "negated (ROp nt is_and rs) = nt"

definition op_char :: "bool \<Rightarrow> char" where
  "op_char is_and = (if is_and then CHR ''&'' else CHR ''|'')"

fun join_by :: "char \<Rightarrow> string list \<Rightarrow> string" where
  "join_by c [] = []"
| "join_by c [s] = s"
| "join_by c (s # t # ts) = s @ c # join_by c (t # ts)"

fun show_rule :: "rule \<Rightarrow> string" and show_son :: "rule \<Rightarrow> string" where
  "show_rule (RHost nt h) = h"
| "show_rule (ROp nt is_and rs) = join_by (op_char is_and) (map show_son rs)"
| "show_son (RHost nt h) = (if nt then ''!'' else []) @ h"
| "show_son (ROp nt is_and rs) =
     (if nt then ''!'' else []) @ ''('' @ join_by (op_char is_and) (map show_son rs) @ '')''"

text \<open>The tree of a rule, as the parser builds it.\<close>

fun tree_of :: "catalog \<Rightarrow> rule \<Rightarrow> dnode" where
  "tree_of cat (RHost nt h) =
     DNode Op_host [SonId (the (host_by_name cat h))] (''0'', ''0'', ''0'') False nt []"
| "tree_of cat (ROp nt is_and rs) =
     (let n = py_str (length rs)
      in DNode (if is_and then Op_and else Op_or) (map (\<lambda>r. SonNode (tree_of cat r)) rs) (n, n, n) False nt [])"

text \<open>Names without the characters of rules; known hosts; at least two sons.\<close>

definition rule_char :: "char \<Rightarrow> bool" where
  "rule_char c \<longleftrightarrow> \<not> is_space c \<and> c \<notin> set ''()&|!,:*''"

fun good_rule :: "catalog \<Rightarrow> rule \<Rightarrow> bool" where
  "good_rule cat (RHost nt h) \<longleftrightarrow> h \<noteq> [] \<and> list_all rule_char h \<and> host_by_name cat h \<noteq> None"
| "good_rule cat (ROp nt is_and rs) \<longleftrightarrow> length rs \<ge> 2 \<and> (\<forall>r \<in> set rs. good_rule cat r)"

section \<open>Texts\<close>

definition shown_char :: "char \<Rightarrow> bool" where
  "shown_char c \<longleftrightarrow> \<not> is_space c \<and> c \<notin> set '',:*''"

text \<open>Parentheses that are opened \<open>d\<close> times before and all closed.\<close>

fun closes :: "nat \<Rightarrow> string \<Rightarrow> bool" where
  "closes d [] \<longleftrightarrow> d = 0"
| "closes d (c # cs) \<longleftrightarrow>
     (if c = CHR ''('' then closes (d + 1) cs
      else if c = CHR '')'' then d > 0 \<and> closes (d - 1) cs else closes d cs)"

lemma closes_append: "closes d s \<Longrightarrow> closes e t \<Longrightarrow> closes (d + e) (s @ t)"
  by (induction d s rule: closes.induct) auto

lemma closes_plain: "list_all rule_char s \<Longrightarrow> closes 0 s"
  by (induction s) (auto simp: rule_char_def)

lemma join_by_all: "\<forall>s \<in> set ss. list_all P s \<Longrightarrow> P c \<Longrightarrow> list_all P (join_by c ss)"
  by (induction c ss rule: join_by.induct) auto

lemma join_by_closes: "\<forall>s \<in> set ss. closes 0 s \<Longrightarrow> c \<noteq> CHR ''('' \<Longrightarrow> c \<noteq> CHR '')'' \<Longrightarrow> closes 0 (join_by c ss)"
proof (induction c ss rule: join_by.induct)
  case (3 c s t ts)
  then have "closes 0 (c # join_by c (t # ts))" by simp
  with 3 show ?case using closes_append [of 0 s 0] by simp
qed simp_all

lemma shown_chars [simp]: "shown_char (CHR ''('')" "shown_char (CHR '')'')" "shown_char (CHR ''!'')"
  by (simp_all add: shown_char_def is_space_def)

lemma shown_op_char: "shown_char (op_char is_and)" "op_char is_and \<noteq> CHR ''(''" "op_char is_and \<noteq> CHR '')''"
  by (auto simp: shown_char_def op_char_def is_space_def)

lemma show_closes:
  "good_rule cat r \<Longrightarrow> closes 0 (show_rule r) \<and> list_all shown_char (show_rule r) \<and> show_rule r \<noteq> []"
  "good_rule cat r \<Longrightarrow> closes 0 (show_son r) \<and> list_all shown_char (show_son r) \<and> show_son r \<noteq> []"
proof (induction r and r rule: show_rule_show_son.induct)
  case (1 nt h)
  then show ?case by (auto simp: closes_plain list_all_iff rule_char_def shown_char_def)
next
  case (2 nt is_and rs)
  then have "\<forall>s \<in> set (map show_son rs). closes 0 s \<and> list_all shown_char s \<and> s \<noteq> []" by auto
  moreover have "map show_son rs \<noteq> []" using 2 by auto
  then have "join_by (op_char is_and) (map show_son rs) \<noteq> []"
    using calculation by (cases "map show_son rs" rule: remdups_adj.cases) auto
  ultimately show ?case
    using join_by_closes [of "map show_son rs"] join_by_all [of "map show_son rs"] shown_op_char by simp
next
  case (3 nt h)
  then show ?case by (auto simp: closes_plain list_all_iff rule_char_def shown_char_def is_space_def)
next
  case (4 nt is_and rs)
  then have *: "\<forall>s \<in> set (map show_son rs). closes 0 s \<and> list_all shown_char s" by auto
  let ?s = "join_by (op_char is_and) (map show_son rs)"
  have "closes 0 ?s" "list_all shown_char ?s"
    using * join_by_closes [of "map show_son rs"] join_by_all [of "map show_son rs"] shown_op_char by auto
  moreover have "closes 1 (?s @ '')'')" using closes_append [OF \<open>closes 0 ?s\<close>, of 1] by simp
  ultimately show ?case by auto
qed

section \<open>Cutting\<close>

lemma strip_shown: "list_all shown_char s \<Longrightarrow> strip s = s"
  by (rule strip_id) (auto simp: list_all_iff shown_char_def)

text \<open>Inside parentheses everything is kept.\<close>

lemma cut_inside:
  assumes "closes d s" and "list_all shown_char s" and "in_par k" and "\<not> mixed k"
    and "stacked k = int d + 1" and "list_all shown_char (tmp k)"
  shows "fold cut_char s k = k\<lparr>tmp := tmp k @ s, stacked := 1\<rparr>"
  using assms
proof (induction s arbitrary: d k)
  case (Cons c cs)
  note t = strip_shown [OF Cons.prems(6)]
  define e where "e = (if c = CHR ''('' then d + 1 else if c = CHR '')'' then d - 1 else d)"
  have e: "closes e cs" and d: "c = CHR '')'' \<Longrightarrow> 0 < d" using Cons.prems(1) by (auto simp: e_def split: if_splits)
  have k: "cut_char c k = k\<lparr>tmp := tmp k @ [c], stacked := int e + 1\<rparr>"
    using Cons.prems(3-5) t d by (auto simp: cut_char_def Let_def e_def of_nat_diff)
  have "fold cut_char cs (cut_char c k) = (cut_char c k)\<lparr>tmp := tmp (cut_char c k) @ cs, stacked := 1\<rparr>"
    by (rule Cons.IH [OF e]) (use Cons.prems in \<open>simp_all add: k\<close>)
  then show ?case by (simp add: k)
qed simp

text \<open>A name outside of parentheses is collected.\<close>

lemma cut_name:
  assumes "list_all rule_char s" and "\<not> in_par k" and "\<not> mixed k"
  shows "fold cut_char s k = k\<lparr>tmp := tmp k @ s\<rparr>"
  using assms
proof (induction s arbitrary: k)
  case (Cons c cs)
  have k: "cut_char c k = k\<lparr>tmp := tmp k @ [c]\<rparr>"
    using Cons.prems by (auto simp: cut_char_def rule_char_def)
  have "fold cut_char cs (cut_char c k) = (cut_char c k)\<lparr>tmp := tmp (cut_char c k) @ cs\<rparr>"
    by (rule Cons.IH) (use Cons.prems in \<open>simp_all add: k\<close>)
  then show ?case by (simp add: k)
qed simp

text \<open>Between two sons.\<close>

definition ready :: "cutting \<Rightarrow> bool" where
  "ready k \<longleftrightarrow> \<not> in_par k \<and> tmp k = [] \<and> \<not> son_is_not k \<and> stacked k = 0 \<and> \<not> mixed k"

definition add_cut :: "rule \<Rightarrow> cutting \<Rightarrow> cutting" where
  "add_cut r k = k\<lparr>cuts := cuts k @ [(show_rule r, negated r)]\<rparr>"

lemma ready_add_cut [simp]: "ready (add_cut r k) = ready k" "cut_operand (add_cut r k) = cut_operand k"
  by (simp_all add: ready_def add_cut_def)

lemma readyE:
  assumes "ready k"
  obtains op cs where "k = \<lparr>in_par = False, tmp = [], son_is_not = False, stacked = 0, cut_operand = op,
    cuts = cs, mixed = False\<rparr>"
  using assms by (cases k) (auto simp: ready_def)

text \<open>A son is in the text that is collected, or already cut when it has parentheses.\<close>

lemma cut_show_son:
  assumes g: "good_rule cat r" and k: "ready k"
  shows "fold cut_char (show_son r) k
    = (case r of RHost nt h \<Rightarrow> k\<lparr>tmp := h, son_is_not := nt\<rparr> | ROp nt cj rs \<Rightarrow> add_cut r k)"
proof -
  obtain op cs where k: "k = \<lparr>in_par = False, tmp = [], son_is_not = False, stacked = 0, cut_operand = op,
    cuts = cs, mixed = False\<rparr>" by (rule readyE [OF k])
  show ?thesis
  proof (cases r)
    case (RHost nt h)
    have "fold cut_char (show_son r) k = fold cut_char h (k\<lparr>son_is_not := nt\<rparr>)"
      by (simp add: k RHost cut_char_def strip_def lstrip_def)
    also have "\<dots> = k\<lparr>son_is_not := nt, tmp := h\<rparr>"
      using g by (subst cut_name) (simp_all add: RHost k)
    finally show ?thesis by (simp add: RHost k)
  next
    case (ROp nt cj rs)
    let ?s = "show_rule r"
    have s: "closes 0 ?s" "list_all shown_char ?s" using show_closes(1) [OF g] by auto
    let ?k1 = "k\<lparr>son_is_not := nt, in_par := True, stacked := 1\<rparr>"
    have "fold cut_char (show_son r) k = cut_char (CHR '')'') (fold cut_char ?s ?k1)"
      by (simp add: k ROp cut_char_def strip_def lstrip_def Let_def)
    also have "fold cut_char ?s ?k1 = ?k1\<lparr>tmp := ?s\<rparr>"
      using cut_inside [OF s, of ?k1] by (simp add: k)
    also have "cut_char (CHR '')'') (?k1\<lparr>tmp := ?s\<rparr>) = add_cut r k"
      using strip_shown [OF s(2)] by (simp add: k ROp cut_char_def cut_son_def add_cut_def Let_def)
    finally show ?thesis by (simp add: ROp)
  qed
qed

lemma cut_operator:
  assumes "strip t = t" and "op0 = Op_None \<or> op0 = (if cj then Op_and else Op_or)"
  shows "cut_char (op_char cj) \<lparr>in_par = False, tmp = t, son_is_not = nt, stacked = 0, cut_operand = op0,
      cuts = cs, mixed = False\<rparr>
    = \<lparr>in_par = False, tmp = [], son_is_not = (if t = [] then nt else False), stacked = 0,
        cut_operand = (if cj then Op_and else Op_or), cuts = (if t = [] then cs else cs @ [(t, nt)]),
        mixed = False\<rparr>"
proof (cases cj)
  case True
  then show ?thesis using assms by (cases "op0 = Op_None") (simp_all add: cut_char_def cut_son_def Let_def op_char_def)
next
  case False
  then show ?thesis using assms by (cases "op0 = Op_None") (simp_all add: cut_char_def cut_son_def Let_def op_char_def)
qed

lemma cut_end_of:
  assumes "strip t = t"
  shows "cut_end \<lparr>in_par = False, tmp = t, son_is_not = nt, stacked = 0, cut_operand = op0, cuts = cs,
      mixed = False\<rparr>
    = \<lparr>in_par = False, tmp = t, son_is_not = (if t = [] then nt else False), stacked = 0, cut_operand = op0,
        cuts = (if t = [] then cs else cs @ [(t, nt)]), mixed = False\<rparr>"
  using assms by (simp add: cut_end_def cut_son_def Let_def)

text \<open>After a son: it is in the list of the cuts, up to the text of the last one.\<close>

lemma cut_son_and_operator:
  assumes g: "good_rule cat r" and k: "ready k" and op: "cut_operand k \<in> {Op_None, op}"
    and c: "op = (if cj then Op_and else Op_or)"
  shows "cut_char (op_char cj) (fold cut_char (show_son r) k) = (add_cut r k)\<lparr>cut_operand := op\<rparr>"
    and "\<exists>t. cut_end (fold cut_char (show_son r) k) = (add_cut r k)\<lparr>tmp := t\<rparr>"
proof -
  obtain op0 cs where k0: "k = \<lparr>in_par = False, tmp = [], son_is_not = False, stacked = 0, cut_operand = op0,
    cuts = cs, mixed = False\<rparr>" by (rule readyE [OF k])
  have t: "strip (show_rule r) = show_rule r" "show_rule r \<noteq> []"
    using show_closes(1) [OF g] strip_shown by auto
  have e: "strip [] = []" by (simp add: strip_def lstrip_def)
  have op0: "op0 = Op_None \<or> op0 = (if cj then Op_and else Op_or)" using op c by (simp add: k0)
  show "cut_char (op_char cj) (fold cut_char (show_son r) k) = (add_cut r k)\<lparr>cut_operand := op\<rparr>"
  proof (cases r)
    case (RHost nt h)
    have "h \<noteq> []" "strip h = h" using t RHost by simp_all
    then show ?thesis
      unfolding cut_show_son [OF g k] unfolding RHost k0 c by (simp add: cut_operator [OF _ op0] add_cut_def)
  next
    case (ROp nt cj2 rs)
    show ?thesis
      unfolding cut_show_son [OF g k] unfolding ROp k0 c by (simp add: cut_operator [OF e op0] add_cut_def)
  qed
  show "\<exists>t. cut_end (fold cut_char (show_son r) k) = (add_cut r k)\<lparr>tmp := t\<rparr>"
  proof (cases r)
    case (RHost nt h)
    have "h \<noteq> []" "strip h = h" using t RHost by simp_all
    then show ?thesis
      unfolding cut_show_son [OF g k] unfolding RHost k0 by (simp add: cut_end_of add_cut_def)
  next
    case (ROp nt cj2 rs)
    show ?thesis
      unfolding cut_show_son [OF g k] unfolding ROp k0 by (simp add: cut_end_of [OF e] add_cut_def)
  qed
qed

lemma cut_sons:
  assumes "rs \<noteq> []" and "\<forall>r \<in> set rs. good_rule cat r" and "ready k" and "cut_operand k \<in> {Op_None, op}"
    and c: "op = (if cj then Op_and else Op_or)"
  shows "\<exists>t. cut_end (fold cut_char (join_by (op_char cj) (map show_son rs)) k)
    = k\<lparr>cuts := cuts k @ map (\<lambda>r. (show_rule r, negated r)) rs, tmp := t,
        cut_operand := if length rs = 1 then cut_operand k else op\<rparr>"
  using assms(1-4)
proof (induction rs arbitrary: k rule: induct_list012)
  case (2 r)
  then show ?case using cut_son_and_operator(2) [of cat r k op cj] c by (simp add: add_cut_def)
next
  case (3 r r2 rs)
  let ?k1 = "(add_cut r k)\<lparr>cut_operand := op\<rparr>"
  have r: "cut_char (op_char cj) (fold cut_char (show_son r) k) = ?k1"
    by (rule cut_son_and_operator(1)) (use 3 c in auto)
  have "\<exists>t. cut_end (fold cut_char (join_by (op_char cj) (map show_son (r2 # rs))) ?k1)
    = ?k1\<lparr>cuts := cuts ?k1 @ map (\<lambda>r. (show_rule r, negated r)) (r2 # rs), tmp := t,
        cut_operand := if length (r2 # rs) = 1 then cut_operand ?k1 else op\<rparr>"
    by (rule "3.IH") (use "3.prems" in \<open>auto simp: ready_def add_cut_def\<close>)
  moreover have "(if length (r2 # rs) = 1 then cut_operand ?k1 else op) = op" by simp
  ultimately show ?case using r by (simp add: add_cut_def)
qed simp

section \<open>Reading\<close>

lemma match_here_uses:
  "match_here ps s = Some gs \<Longrightarrow> p \<in> set ps \<Longrightarrow> 1 \<le> re_min p \<Longrightarrow> \<exists>c \<in> set s. re_class p c"
proof (induction ps arbitrary: s gs)
  case (Cons q ps)
  obtain k gs' where k: "re_min q \<le> k" "k \<le> run_length q s" "match_here ps (drop k s) = Some gs'"
    using first_some_SomeD [OF Cons.prems(1) [unfolded match_here.simps]] by auto
  show ?case
  proof (cases "p = q")
    case True
    have "run_length q s \<le> length (takeWhile (re_class q) s)" by (auto simp: run_length_def Let_def split: option.splits)
    then have "takeWhile (re_class q) s \<noteq> []" using k Cons.prems(3) True by auto
    then have "hd (takeWhile (re_class q) s) \<in> set (takeWhile (re_class q) s)" by (rule hd_in_set)
    then show ?thesis using True by (auto dest: set_takeWhileD)
  next
    case False
    with Cons.IH [OF k(3)] Cons.prems(2,3) show ?thesis by (auto dest: in_set_dropD)
  qed
qed simp

lemma no_match_without:
  assumes "c \<notin> set s" and "lit [c] = [p]" and "p \<in> set ps"
  shows "match_here ps s = None"
proof (rule ccontr)
  assume "match_here ps s \<noteq> None"
  then obtain gs where "match_here ps s = Some gs" by auto
  from match_here_uses [OF this assms(3)] assms(1,2) show False by (auto simp: lit_def)
qed

lemma no_xof:
  assumes "list_all shown_char s"
  shows "eval_xof_pattern s = (\<lparr>xof_operand = Op_None, xof_values = (''0'', ''0'', ''0''), xof_mul = False\<rparr>, s)"
proof -
  have "CHR '':'' \<notin> set s" using assms by (auto simp: list_all_iff shown_char_def)
  then have "match_here xof_pattern s = None"
    by (rule no_match_without [of _ _ "hd (lit '':'')"]) (simp_all add: lit_def xof_pattern_def)
  then show ?thesis by (simp add: eval_xof_pattern_def)
qed

lemma rule_char_shown: "list_all rule_char s \<Longrightarrow> list_all shown_char s"
  by (auto simp: list_all_iff rule_char_def shown_char_def)

lemma split_on_none: "c \<notin> set s \<Longrightarrow> split_on c s = [s]"
  by (induction s) auto

lemma eval_host:
  assumes "good_rule cat (RHost nt h)"
  shows "eval_simple_cor_pattern cat bound running h
    = Some (DNode Op_host [SonId (the (host_by_name cat h))] (''0'', ''0'', ''0'') False False [])"
proof -
  have h: "h \<noteq> []" "list_all rule_char h" "host_by_name cat h \<noteq> None" using assms by auto
  have c: "CHR '':'' \<notin> set h" "CHR '','' \<notin> set h" "CHR ''!'' \<notin> set h" "CHR ''*'' \<notin> set h"
    using h(2) by (auto simp: list_all_iff rule_char_def)
  have "\<not> startswith h ''!''" using h(1) c(3) by (cases h) (auto simp: startswith_def)
  moreover have "match_here (group_of (\<lambda>c. c \<in> set host_flags) 1 None @ lit '':'') h = None"
    using no_match_without [OF c(1), of "hd (lit '':'')"] by (simp add: lit_def)
  moreover have "\<not> startswith h ''*:''" using c(4) by (auto simp: startswith_def prefix_def)
  moreover have "\<not> list_ex (\<lambda>i. h ! i = CHR '','' \<and> ends_expression (drop (i + 1) h)) [0..<length h]"
    using c(2) by (auto simp: list_ex_iff in_set_conv_nth)
  ultimately have "\<not> startswith h ''!''" "\<not> is_expression h" by (simp_all add: is_expression_def)
  moreover have "find_object cat bound h = (Some (Op_host, the (host_by_name cat h)), ''business rule uses unknown host '' @ h)"
    using h c split_on_none [OF c(2)] strip_shown [OF rule_char_shown [OF h(2)]]
    by (auto simp: find_object_def Let_def)
  ultimately show ?thesis
    by (simp add: eval_simple_cor_pattern_def no_xof [OF rule_char_shown [OF h(2)]] Let_def node_of_def)
qed

section \<open>Rules are read back\<close>

text \<open>The rule without the negation in front of it, which belongs to the list of sons.\<close>

fun positive :: "rule \<Rightarrow> rule" where
  "positive (RHost nt h) = RHost False h"
| "positive (ROp nt is_and rs) = ROp False is_and rs"

lemma put_not_tree: "put_not (negated r) (Some (tree_of cat (positive r))) = Some (SonNode (tree_of cat r))"
  by (cases r) (simp_all add: put_not_def Let_def)

lemma positive_id: "\<not> negated r \<Longrightarrow> positive r = r"
  by (cases r) simp_all

lemma map_sons_rules:
  "\<forall>r \<in> set rs. f (show_rule r) = Some (Some (tree_of cat (positive r)))
    \<Longrightarrow> map_sons f (map (\<lambda>r. (show_rule r, negated r)) rs) = Some (map (\<lambda>r. SonNode (tree_of cat r)) rs)"
  by (induction rs) (simp_all add: put_not_tree)

lemma host_not_complex: "list_all rule_char h \<Longrightarrow> \<not> is_complex h"
  by (auto simp: is_complex_def list_ex_iff list_all_iff rule_char_def)

lemma op_complex: "2 \<le> length ss \<Longrightarrow> is_complex (join_by (op_char cj) ss)"
  by (cases ss rule: remdups_adj.cases) (auto simp: is_complex_def op_char_def)

lemma ready_start: "ready (start_cutting Op_None)"
  by (simp add: ready_def start_cutting_def)

lemma read_rule:
  "good_rule cat r \<Longrightarrow> eval_cor_pattern cat bound running (show_rule r) = Some (Some (tree_of cat (positive r)))"
proof (induction r)
  case (RHost nt h)
  have h: "list_all rule_char h" using RHost by simp
  show ?case
    using eval_host [OF RHost] host_not_complex [OF h] strip_shown [OF rule_char_shown [OF h]]
    by (simp add: eval_cor_pattern.simps)
next
  case (ROp nt cj rs)
  let ?op = "if cj then Op_and else Op_or" and ?s = "join_by (op_char cj) (map show_son rs)"
  have rs: "2 \<le> length rs" "\<forall>r \<in> set rs. good_rule cat r" using ROp.prems by simp_all
  have shown: "list_all shown_char ?s" using show_closes(1) [OF ROp.prems] by simp
  obtain t where "cut_end (fold cut_char ?s (start_cutting Op_None)) =
      (start_cutting Op_None)\<lparr>cuts := cuts (start_cutting Op_None) @ map (\<lambda>r. (show_rule r, negated r)) rs, tmp := t,
        cut_operand := if length rs = 1 then cut_operand (start_cutting Op_None) else ?op\<rparr>"
    using cut_sons [OF _ rs(2) ready_start, of ?op cj] rs(1) by (force simp: start_cutting_def)
  then have cut: "cuts (cut_pattern Op_None ?s) = map (\<lambda>r. (show_rule r, negated r)) rs"
    "cut_operand (cut_pattern Op_None ?s) = ?op" "\<not> mixed (cut_pattern Op_None ?s)"
    using rs(1) by (simp_all add: cut_pattern_def start_cutting_def)
  have sons: "map_sons (eval_cor_pattern cat bound running) (map (\<lambda>r. (show_rule r, negated r)) rs)
      = Some (map (\<lambda>r. SonNode (tree_of cat r)) rs)"
    by (rule map_sons_rules) (use ROp.IH rs(2) in blast)
  have "is_complex ?s" using rs(1) by (intro op_complex) simp
  with cut sons shown show ?case
    by (simp add: eval_cor_pattern.simps [of _ _ _ ?s] strip_shown no_xof node_of_def switch_zero_def Let_def)
qed

text \<open>
  C39. A rule is read back: every rule over known hosts that is built with conjunctions, disjunctions
  and negations of any depth, and written with \<open>&\<close>, \<open>|\<close>, \<open>!\<close> and with parentheses around every son that
  is not a host, is parsed as the tree it stands for: every operator has its sons in the order of the
  text, \<open>!\<close> is on the node it precedes, and the threshold values are the number of sons.
\<close>

theorem rules_are_read_back:
  assumes "good_rule cat r" and "\<not> negated r"
  shows "eval_cor_pattern cat bound running (show_rule r) = Some (Some (tree_of cat r))"
  using read_rule [OF assms(1)] positive_id [OF assms(2)] by simp

definition sample_catalog :: catalog where
  "sample_catalog = \<lparr>cat_hosts = [], cat_services = [],
     host_by_name = (\<lambda>n. if n = ''web'' then Some 1 else if n = ''db1'' then Some 2 else if n = ''db2'' then Some 3 else None),
     service_by_name = (\<lambda>_ _. None), hostgroup_name = (\<lambda>_. None), servicegroup_name = (\<lambda>_. None),
     re_compile = (\<lambda>_. None)\<rparr>"

definition sample_rule :: rule where
  "sample_rule = ROp False True [RHost False ''web'', ROp True False [RHost False ''db1'', RHost True ''db2'']]"

theorem rules_are_read_back_witness:
  "show_rule sample_rule = ''web&!(db1|!db2)''
   \<and> eval_cor_pattern sample_catalog ''web'' False ''web&!(db1|!db2)'' = Some (Some (tree_of sample_catalog sample_rule))"
proof -
  have "good_rule sample_catalog sample_rule"
    by (simp add: sample_rule_def sample_catalog_def rule_char_def is_space_def)
  moreover have "\<not> negated sample_rule" by (simp add: sample_rule_def)
  moreover have "show_rule sample_rule = ''web&!(db1|!db2)''" by (simp add: sample_rule_def op_char_def)
  ultimately show ?thesis
    using rules_are_read_back [of sample_catalog sample_rule "''web''" False] by simp
qed

text \<open>
  Parentheses around a whole rule hide its operator: the node that is made for them has no operator
  (\<open>Op_None\<close>), whatever they contain.
\<close>

lemma rule_in_parentheses:
  assumes "good_rule cat r"
  shows "eval_cor_pattern cat bound running (''('' @ show_rule r @ '')'')
    = Some (Some (DNode Op_None [SonNode (tree_of cat (positive r))] (''1'', ''1'', ''1'') False False []))"
proof -
  let ?s = "show_rule r"
  have s: "closes 0 ?s" "list_all shown_char ?s" using show_closes(1) [OF assms] by auto
  let ?k = "(start_cutting Op_None)\<lparr>in_par := True, stacked := 1\<rparr>"
  have "fold cut_char (''('' @ ?s @ '')'') (start_cutting Op_None) = cut_char (CHR '')'') (fold cut_char ?s ?k)"
    by (simp add: start_cutting_def cut_char_def strip_def lstrip_def Let_def)
  also have "fold cut_char ?s ?k = ?k\<lparr>tmp := ?s\<rparr>"
    using cut_inside [OF s, of ?k] by (simp add: start_cutting_def)
  also have "cut_char (CHR '')'') (?k\<lparr>tmp := ?s\<rparr>) = (start_cutting Op_None)\<lparr>cuts := [(?s, False)]\<rparr>"
    using strip_shown [OF s(2)] by (simp add: start_cutting_def cut_char_def cut_son_def Let_def)
  finally have cut: "cut_pattern Op_None (''('' @ ?s @ '')'') = (start_cutting Op_None)\<lparr>cuts := [(?s, False)]\<rparr>"
    by (simp add: cut_pattern_def cut_end_def start_cutting_def strip_def lstrip_def Let_def)
  have l: "list_all shown_char (''('' @ ?s @ '')'')" using s(2) by simp
  have "is_complex (''('' @ ?s @ '')'')" by (simp add: is_complex_def)
  moreover have "put_not False (Some (tree_of cat (positive r))) = Some (SonNode (tree_of cat (positive r)))"
    by (cases "tree_of cat (positive r)") (simp add: put_not_def)
  moreover have "py_str 1 = ''1''" by code_simp
  ultimately show ?thesis
    using read_rule [OF assms, of bound running] cut
    by (simp add: eval_cor_pattern.simps [of _ _ _ "CHR ''('' # ?s @ '')''"] strip_shown [OF l, simplified] no_xof [OF l, simplified]
        start_cutting_def node_of_def switch_zero_def Let_def)
qed

text \<open>
  C40. A rule that is entirely in parentheses is unknown: it is parsed, without an error, as a node
  whose state is 4 whatever the states of its hosts are.
\<close>

theorem parentheses_hide_the_rule:
  assumes "good_rule cat r"
  shows "\<exists>d. eval_cor_pattern cat bound running (''('' @ show_rule r @ '')'') = Some (Some d)
    \<and> fst (is_valid d) = fst (is_valid (tree_of cat (positive r)))
    \<and> (\<forall>hosts services. get_state hosts services d = Some 4)"
proof -
  let ?d = "DNode Op_None [SonNode (tree_of cat (positive r))] (''1'', ''1'', ''1'') False False []"
  have "fst (is_valid ?d) = fst (is_valid (tree_of cat (positive r)))"
    by (simp split: prod.splits)
  moreover have "get_state hosts services ?d = Some 4" for hosts services by simp
  ultimately show ?thesis using rule_in_parentheses [OF assms] by blast
qed

theorem parentheses_hide_the_rule_witness:
  "\<exists>d. eval_cor_pattern sample_catalog ''web'' False ''(db1|db2)'' = Some (Some d)
    \<and> fst (is_valid d) = fst (is_valid (tree_of sample_catalog (ROp False False [RHost False ''db1'', RHost False ''db2''])))
    \<and> (\<forall>hosts services. get_state hosts services d = Some 4)"
proof -
  let ?r = "ROp False False [RHost False ''db1'', RHost False ''db2'']"
  have "good_rule sample_catalog ?r"
    by (simp add: sample_catalog_def rule_char_def is_space_def)
  from parentheses_hide_the_rule [OF this, of "''web''" False] show ?thesis by (simp add: op_char_def)
qed

end
