(* ===== verification/SchedSamples.thy ===== *)
theory SchedSamples
  imports Upkeep RuleFacts
begin

text \<open>
  A scheduler of the small installation of \<open>Samples\<close>, on which the theorems about the scheduler
  are applied.
\<close>

definition sample_params :: params where
  "sample_params =
    \<lparr>pe = sample_env, depth = 5, timeout_exit_status = 2, conf_log_active_checks = False,
     tick_clean_queues = 10, check_host_freshness = True, check_service_freshness = True,
     host_freshness_check_interval = 60, service_freshness_check_interval = 60,
     tp_next_invalid = (\<lambda>_ _. None), random_uniform = (\<lambda>_ _. (1 / 2, 1 / 2)),
     random_choice = hd, percent_format = (\<lambda>s _. Some s), resolve_rule = (\<lambda>s _ _. s),
     rule_catalog = (\<lambda>_. sample_catalog), bound_host_name = (\<lambda>_. []), business_rule_output = (\<lambda>_ _. Some []),
     business_rule_error = (\<lambda>_ _. []), by_creation = (\<lambda>bs. bs), freshness_text = (\<lambda>_. []),
     stale_text = (\<lambda>_ _. []), downtime_text = (\<lambda>_ _. [])\<rparr>"

definition sample_sched :: "world \<Rightarrow> sched" where
  "sample_sched w =
    \<lparr>wd = w, recurrent_works = default_works, must_schedule = True, ticks = 0, contact_ids = [],
     waiting_results = [], brokers = [(500, [])], event_log = [], nb_checks = 0,
     nb_internal_checks = 0, nb_broks = 0, nb_notifications = 0, nb_event_handlers = 0,
     nb_checks_launched = 0, nb_actions_launched = 0, nb_checks_results = 0,
     nb_checks_results_timeout = 0, nb_checks_results_active = 0, nb_checks_results_passive = 0,
     nb_actions_results = 0, nb_actions_results_timeout = 0, nb_checks_dropped = 0,
     nb_broks_dropped = 0, nb_actions_dropped = 0\<rparr>"

definition sample_result :: "uuid \<Rightarrow> act_status \<Rightarrow> int \<Rightarrow> action_result" where
  "sample_result cid st status =
    \<lparr>r_action = CheckRef cid, r_status = st, r_exit_status = status, r_output = ''out'',
     r_long_output = [], r_perf_data = [], r_check_time = 100, r_execution_time = 1, r_u_time = 0,
     r_s_time = 0, r_passive_check = False, r_is_snapshot = False\<rparr>"

definition sample_state :: sched where
  "sample_state = sample_sched (sample_world sample_host sample_service 0 2)"

text \<open>One turn of the scheduler consumes the results of the two sample checks.\<close>

lemma sample_turn:
  "map_option (\<lambda>s. map_option (\<lambda>it. (state it, state_type it, attempt it)) (items (wd s) 1))
     (run_turn sample_params (\<lambda>_ s. Some s) Some sample_state) = Some (Some (CRITICAL, SOFT, 1))"
  by code_simp

end
