(* ===== verification/Attempts.thy ===== *)
theory Attempts
  imports SchedSamples
begin

text \<open>
  The attempt counter over the whole life of the scheduler: only \<open>consume_result\<close> changes the
  state type and the attempt of an item, every other work of the scheduler leaves them alone;
  so an invariant of the items that \<open>consume_result\<close> keeps is kept by every turn.
\<close>

section \<open>Reasoning along the control structure\<close>

text \<open>
  Rules that follow the code: a branch, a \<open>let\<close>, a raising step. They keep the goals as small as
  the pieces of code they are about.
\<close>

lemma post_control:
  "post P None"
  "(\<And>y. x = Some y \<Longrightarrow> post P (f y)) \<Longrightarrow> post P (case x of None \<Rightarrow> None | Some y \<Rightarrow> f y)"
  "(b \<Longrightarrow> post P r) \<Longrightarrow> (\<not> b \<Longrightarrow> post P t) \<Longrightarrow> post P (if b then r else t)"
  "(\<And>a c. q = (a, c) \<Longrightarrow> post P (g a c)) \<Longrightarrow> post P (case q of (a, c) \<Rightarrow> g a c)"
  "(\<And>y. z = y \<Longrightarrow> post P (h y)) \<Longrightarrow> post P (Let z h)"
  "(\<And>y. o1 = Some y \<Longrightarrow> post P (k y)) \<Longrightarrow> post P (Option.bind o1 k)"
  by (auto simp: post_def Option.bind_eq_Some_conv split: option.splits prod.splits)

lemma post_case_option:
  "(x = None \<Longrightarrow> post P r) \<Longrightarrow> (\<And>y. x = Some y \<Longrightarrow> post P (f y))
    \<Longrightarrow> post P (case x of None \<Rightarrow> r | Some y \<Rightarrow> f y)"
  by (auto split: option.splits)

lemma post_list_case:
  "(x = [] \<Longrightarrow> post P r) \<Longrightarrow> (\<And>y ys. x = y # ys \<Longrightarrow> post P (f y ys))
    \<Longrightarrow> post P (case x of [] \<Rightarrow> r | y # ys \<Rightarrow> f y ys)"
  by (auto split: list.splits)

lemma post_mapI: "post Q r \<Longrightarrow> (\<And>x. Q x \<Longrightarrow> P (f x)) \<Longrightarrow> post P (map_option f r)"
  by (cases r) simp_all

lemma post_SomeI: "P x \<Longrightarrow> post P (Some x)"
  by simp

lemma post_case_bind:
  "post Q r \<Longrightarrow> (\<And>y. r = Some y \<Longrightarrow> Q y \<Longrightarrow> post P (f y))
    \<Longrightarrow> post P (case r of None \<Rightarrow> None | Some y \<Rightarrow> f y)"
  by (cases r) simp_all

lemma post_known: "post Q r \<Longrightarrow> r = Some x \<Longrightarrow> Q x"
  by simp

lemmas post_rules = post_control(1-5) post_case_option post_list_case post_bind post_mapI post_SomeI

section \<open>The observation\<close>

definition att :: "item \<Rightarrow> state_kind \<times> int \<times> int" where
  "att it = (state_type it, attempt it, max_check_attempts it)"

definition atts :: "world \<Rightarrow> uuid \<Rightarrow> (state_kind \<times> int \<times> int) option" where
  "atts w = (\<lambda>u. map_option att (items w u))"

abbreviation satts :: "sched \<Rightarrow> uuid \<Rightarrow> (state_kind \<times> int \<times> int) option" where
  "satts s \<equiv> atts (wd s)"

lemma atts_items: "items w' = items w \<Longrightarrow> atts w' = atts w"
  by (simp add: atts_def)

lemma atts_item:
  assumes "items w u = Some it" and "att it' = att it" and "items w' = (items w)(u \<mapsto> it')"
  shows "atts w' = atts w"
proof (rule ext)
  fix v
  show "atts w' v = atts w v"
    unfolding atts_def assms(3) by (cases "v = u") (simp_all add: assms(1,2))
qed

lemma att_sm: "sm it' = sm it \<Longrightarrow> att it' = att it"
  unfolding att_def by (frule smD(1), frule smD(2), drule smD(3)) simp

lemma atts_wcore: "wcore w' = wcore w \<Longrightarrow> atts w' = atts w"
proof -
  assume w: "wcore w' = wcore w"
  have "map_option att (items w' u) = map_option att (items w u)" for u
    using wcoreD(9) [OF w, of u] by (cases "items w' u"; cases "items w u") (auto dest: att_sm)
  then show ?thesis by (simp add: atts_def)
qed

lemma wcore_att_keeps: "keeps wcore w r \<Longrightarrow> keeps atts w r"
  by (rule keepsI) (metis keepsD atts_wcore)

lemma atts_upd: "items w u = Some it \<Longrightarrow> att it' = att it \<Longrightarrow> atts (w\<lparr>items := (items w)(u \<mapsto> it')\<rparr>) = atts w"
  by (rule atts_item) simp_all

lemma att_simps [simp]:
  "att (add_brok b it) = att it" "att (update_in_checking it) = att it"
  "att (add_log l m it) = att it" "att (del_comment cm it) = att it"
  "att (remove_in_progress_check cid it) = att it"
  by (simp_all add: att_def add_brok_def update_in_checking_def add_log_def del_comment_def
      remove_in_progress_check_def split: option.splits)

lemma att_only_broks [simp]: "only_broks it it' \<Longrightarrow> att it' = att it"
  by (auto simp: only_broks_def att_def)

text \<open>Broks do not touch the world.\<close>

lemma sched_add_brok_wd [simp]: "wd (sched_add_brok b k s) = wd s"
  by (auto simp: sched_add_brok_def Let_def split: brok.splits option.splits)

lemma sched_add_broks_wd [simp]: "wd (sched_add_broks bs s) = wd s"
  unfolding sched_add_broks_def by (induction bs arbitrary: s) simp_all

section \<open>Runs of the scheduler\<close>

text \<open>
  What happens to a scheduler between two turns: a satellite takes work, a result comes back,
  time passes. \<open>other\<close> and \<open>satellites\<close> are the parts of a turn that are not modelled.
\<close>

inductive scheduler_run ::
  "params \<Rightarrow> (work \<Rightarrow> sched \<Rightarrow> sched option) \<Rightarrow> (sched \<Rightarrow> sched option) \<Rightarrow> sched \<Rightarrow> sched \<Rightarrow> bool"
  for p other satellites where
    start: "scheduler_run p other satellites s s"
  | turn: "scheduler_run p other satellites s s1 \<Longrightarrow> run_turn p other satellites s1 = Some s2
      \<Longrightarrow> scheduler_run p other satellites s s2"
  | polled: "scheduler_run p other satellites s s1
      \<Longrightarrow> get_to_run_checks do_checks do_actions ptags rtags worker types s1 = Some (s2, given)
      \<Longrightarrow> scheduler_run p other satellites s s2"
  | returned: "scheduler_run p other satellites s s1
      \<Longrightarrow> scheduler_run p other satellites s (s1\<lparr>waiting_results := waiting_results s1 @ [Returned r]\<rparr>)"
  | clock: "scheduler_run p other satellites s s1 \<Longrightarrow> t \<ge> now (wd s1)
      \<Longrightarrow> scheduler_run p other satellites s (s1\<lparr>wd := (wd s1)\<lparr>now := t\<rparr>\<rparr>)"

section \<open>Invariants of the items\<close>

definition every :: "(item \<Rightarrow> bool) \<Rightarrow> world \<Rightarrow> bool" where
  "every I w \<longleftrightarrow> (\<forall>u it. items w u = Some it \<longrightarrow> I it)"

text \<open>
  An invariant of the items that depends on the attempt and the state type only, and that
  \<open>consume_result\<close> keeps.
\<close>

named_theorems inv \<open>operations that keep an invariant of the items\<close>

locale item_invariant =
  fixes I :: "item \<Rightarrow> bool"
  assumes same: "att a = att b \<Longrightarrow> I a = I b"
    and consumes: "consumed cid c status cl it it' \<Longrightarrow> I it \<Longrightarrow> I it'"
begin

lemma every_atts: "atts w' = atts w \<Longrightarrow> every I w \<Longrightarrow> every I w'"
proof -
  assume a: "atts w' = atts w" and e: "every I w"
  show "every I w'"
    unfolding every_def
  proof (intro allI impI)
    fix u it
    assume it: "items w' u = Some it"
    have "map_option att (items w u) = Some (att it)"
      using fun_cong [OF a, of u] it by (simp add: atts_def)
    then obtain it0 where it0: "items w u = Some it0" "att it0 = att it" by blast
    have "I it0" using e it0(1) unfolding every_def by blast
    then show "I it" using same [OF it0(2)] by blast
  qed
qed

lemma every_items [intro]: "every I w \<Longrightarrow> items w' = items w \<Longrightarrow> every I w'"
  by (simp add: every_def)

lemma every_quiet: "keeps wcore w r \<Longrightarrow> every I w \<Longrightarrow> post (every I) r"
  unfolding keeps_def by (erule post_mono) (rule every_atts [OF atts_wcore])

lemmas quiet_inv [inv] =
  create_notifications_nquiet [THEN keeps_ncore_acore, THEN keeps_acore_wcore, THEN every_quiet]
  remove_in_progress_notification_nquiet [THEN keeps_ncore_acore, THEN keeps_acore_wcore, THEN every_quiet]
  acknowledge_problem_aquiet [THEN keeps_acore_wcore, THEN every_quiet]
  unacknowledge_problem_aquiet [THEN keeps_acore_wcore, THEN every_quiet]
  update_business_impact_value_quiet [THEN every_quiet]

lemma upd_item_inv [inv]:
  "every I w \<Longrightarrow> (\<And>it. att (f it) = att it) \<Longrightarrow> post (every I) (upd_item u f w)"
  by (auto simp: upd_item_def split: option.splits intro!: post_SomeI every_atts [OF atts_upd])

lemma set_item_inv: "every I w \<Longrightarrow> items w u = Some it \<Longrightarrow> att it' = att it \<Longrightarrow>
    every I (w\<lparr>items := (items w)(u \<mapsto> it')\<rparr>)"
  by (rule every_atts [OF atts_upd])

lemma upd_stores_inv [inv]:
  "every I w \<Longrightarrow> post (every I) (upd_check c g w)" "every I w \<Longrightarrow> post (every I) (upd_notif n h w)"
  "every I w \<Longrightarrow> post (every I) (upd_event v k w)" "every I w \<Longrightarrow> post (every I) (upd_downtime d l w)"
  "every I w \<Longrightarrow> post (every I) (upd_known_check c g w)"
  by (auto simp: upd_check_def upd_notif_def upd_event_def upd_downtime_def upd_known_check_def
      split: option.splits)

lemmas fold_w [inv] = post_foldM [where P = "every I"]
lemmas fold_p [inv] = post_foldM [where P = "\<lambda>x. every I (fst x)"]
lemmas fold_s [inv] = post_foldM [where P = "\<lambda>s. every I (wd s)"]
lemmas fold_sp [inv] = post_foldM [where P = "\<lambda>x. every I (wd (fst x))"]

subsection \<open>Launching checks\<close>

lemma push_check_inv [inv]:
  "every I w \<Longrightarrow> (\<And>cid it. att (f cid it) = att it) \<Longrightarrow>
    post (\<lambda>x. every I (fst x)) (push_check u c f w)"
  unfolding push_check_def Let_def
  by (rule inv post_rules | assumption | (auto simp: att_def; fail))+

lemma launch_new_inv [inv]:
  "every I w \<Longrightarrow> post (\<lambda>x. every I (fst x)) (launch_new fuel e u t r force dep w)"
  unfolding launch_new_def
  by (rule inv post_rules | assumption | (auto simp: att_def update_in_checking_def; fail))+

lemma launch_check_inv [inv]:
  "every I w \<Longrightarrow> post (\<lambda>x. every I (fst x)) (launch_check fuel e u t r force dep w)"
proof (cases "upd_item u update_in_checking w")
  case None
  then show ?thesis by (simp add: launch_check_def)
next
  case (Some w1)
  assume "every I w"
  then have e: "every I w1"
    using postD [OF upd_item_inv Some] by simp
  show ?thesis
    unfolding launch_check_def Some option.case
    by (rule e inv post_rules | assumption | (auto; fail))+
qed

lemma raise_dependency_step_inv [inv]:
  "every I (fst s) \<Longrightarrow> post (\<lambda>x. every I (fst x)) (raise_dependency_step fuel e cl r dep s)"
  unfolding raise_dependency_step_def
  by (rule inv post_rules | assumption | (auto; fail))+

lemma wait_for_dependencies_inv:
  "every I w \<Longrightarrow> post (\<lambda>x. every I (fst x)) (wait_for_dependencies fuel e u cid w)"
  unfolding wait_for_dependencies_def raise_dependencies_check_def
  by (rule inv post_rules | assumption | (auto; fail))+

lemma default_interval_att: "default_interval cl force it = Some it' \<Longrightarrow> att it' = att it"
  by (auto simp: default_interval_def att_def split: if_splits)

lemma schedule_inv [inv]:
  "every I w \<Longrightarrow> post (\<lambda>x. every I (fst x)) (schedule fuel e r1 r2 u force t w)"
proof -
  assume e: "every I w"
  have "every I (w\<lparr>items := (items w)(u \<mapsto> it\<lparr>next_chk := nxt\<rparr>)\<rparr>)"
    if "items w u = Some it0" "default_interval cl force it0 = Some it" for it0 it nxt cl
    by (rule set_item_inv [OF e that(1)]) (use default_interval_att [OF that(2)] in \<open>simp add: att_def\<close>)
  then show ?thesis
    using e unfolding schedule_def
    by - (rule inv post_rules | assumption | (auto; fail))+
qed

lemma do_check_freshness_inv [inv]:
  "every I w \<Longrightarrow> post (\<lambda>x. every I (fst x)) (do_check_freshness fuel e txt u t w)"
proof -
  assume e: "every I w"
  have i: "every I (w\<lparr>items := (items w)(u \<mapsto> (if b then it\<lparr>last_state_update_time := t\<rparr> else it))\<rparr>)"
    if "items w u = Some it" for it b
    by (rule set_item_inv [OF e that]) (simp add: att_def)
  show ?thesis
  proof (cases "items w u")
    case None
    then show ?thesis by (simp add: do_check_freshness_def)
  next
    case (Some it)
    note l = launch_check_inv [OF i [OF Some]]
    show ?thesis
      unfolding do_check_freshness_def Some option.case Let_def
      by (rule l post_case_bind [OF l] inv post_rules | assumption | (auto simp: e i [OF Some]; fail))+
  qed
qed

subsection \<open>Consuming\<close>

lemma consume_result_inv [inv]:
  assumes e: "every I w"
  shows "post (\<lambda>x. every I (fst x)) (consume_result fuel ev u cid period raise_log w)"
proof (rule postI)
  fix x
  assume run: "consume_result fuel ev u cid period raise_log w = Some x"
  then obtain it c where it: "items w u = Some it" and c: "checks w cid = Some c"
    by (auto simp: consume_result_def split: option.splits)
  show "every I (fst x)"
  proof (cases "waits_for_dependencies c it")
    case True
    let ?it = "if c_freshness_expiry_check c then it else it\<lparr>freshness_expired := False\<rparr>"
    let ?w = "w\<lparr>items := (items w)(u \<mapsto> ?it)\<rparr>"
    have "waits_for_dependencies c ?it" using True by (simp add: waits_for_dependencies_def)
    then have "wait_for_dependencies fuel ev u cid ?w = Some x"
      using run by (simp add: consume_result_def it c Let_def)
    moreover have "every I ?w" by (rule set_item_inv [OF e it]) (simp add: att_def)
    ultimately show ?thesis using postD [OF wait_for_dependencies_inv] by blast
  next
    case False
    obtain w' us where x: "x = (w', us)" by (cases x)
    obtain it' status where it': "items w' u = Some it'" and s: "consumed cid c status (cls_of w it) it it'"
      and o: "\<And>v. v \<noteq> u \<Longrightarrow> map_option sm (items w' v) = map_option sm (items w v)"
      using consume_result_consumed [OF run [unfolded x] it c False] by blast
    have I: "I it'" using consumes [OF s] e it by (auto simp: every_def)
    have "I i" if "items w' v = Some i" for v i
    proof (cases "v = u")
      case True
      then show ?thesis using that it' I by simp
    next
      case False
      have "map_option sm (items w v) = Some (sm i)" using o [OF False] that by simp
      then obtain j where j: "items w v = Some j" "sm i = sm j" by auto
      have "I j" using e j(1) unfolding every_def by blast
      then show ?thesis using same [OF att_sm [OF j(2)]] by blast
    qed
    then show ?thesis by (simp add: every_def x)
  qed
qed

subsection \<open>The queues\<close>

lemma on_world_inv [inv]:
  "post (every I) (f (wd s)) \<Longrightarrow> post (\<lambda>s. every I (wd s)) (on_world f s)"
  unfolding on_world_def by (rule post_mapI) auto

lemma add_check_inv [inv]: "every I (wd s) \<Longrightarrow> post (\<lambda>s. every I (wd s)) (add_check cid s)"
  unfolding add_check_def by (rule post_rules | assumption | (auto; fail))+

lemma add_notification_inv [inv]:
  "every I (wd s) \<Longrightarrow> post (\<lambda>s. every I (wd s)) (add_notification nid s)"
  unfolding add_notification_def by (rule post_rules | assumption | (auto; fail))+

lemma add_inv [inv]: "every I (wd s) \<Longrightarrow> post (\<lambda>s. every I (wd s)) (add a s)"
  by (cases a) (auto simp: add_event_handler_def intro: add_check_inv add_notification_inv)

lemma add_optional_check_inv [inv]:
  "every I (wd s) \<Longrightarrow> post (\<lambda>s. every I (wd s)) (add_optional_check c s)"
  by (cases c) (auto simp: add_optional_check_def intro: add_check_inv)

lemma get_new_actions_inv: "every I (wd s) \<Longrightarrow> post (\<lambda>s. every I (wd s)) (get_new_actions s)"
  unfolding get_new_actions_def
  by (rule inv post_rules | assumption | (auto simp: att_def; fail))+

lemma get_new_broks_inv: "every I (wd s) \<Longrightarrow> post (\<lambda>s. every I (wd s)) (get_new_broks s)"
  unfolding get_new_broks_def
  by (rule inv post_rules | assumption | (auto simp: att_def; fail))+

lemma consume_check_inv [inv]:
  "every I (wd s) \<Longrightarrow> post (\<lambda>s. every I (wd s)) (consume_check p cid s)"
  unfolding consume_check_def
  by (rule inv post_rules | assumption | (auto; fail))+

lemma consume_waiting_inv: "every I (wd s) \<Longrightarrow> post (\<lambda>s. every I (wd s)) (consume_waiting p s)"
  unfolding consume_waiting_def
  by (rule inv post_rules | assumption | (auto; fail))+

lemma release_inv [inv]: "every I (fst x) \<Longrightarrow> post (\<lambda>x. every I (fst x)) (release cid x)"
  unfolding release_def release_one_def
  by (rule inv post_rules | assumption | (auto; fail))+

lemma resolve_turn_inv [inv]:
  "every I (wd s) \<Longrightarrow> post (\<lambda>x. every I (wd (fst x))) (resolve_turn p s)"
  unfolding resolve_turn_def consume_dependent_def
  by (rule inv post_rules | assumption | (auto; fail))+

lemma resolve_loop_inv: "every I (wd s) \<Longrightarrow> post (\<lambda>s. every I (wd s)) (resolve_loop p s)"
proof (induction p s rule: resolve_loop.induct)
  case (1 p s)
  show ?case
  proof (cases "resolve_turn p s")
    case None
    then show ?thesis by (simp add: resolve_loop.simps)
  next
    case (Some x)
    obtain s1 again where x: "x = (s1, again)" by (cases x)
    have "every I (wd s1)" using postD [OF resolve_turn_inv [OF 1(2)] Some] x by simp
    then show ?thesis
      using 1(1) [OF Some x [symmetric]] by (auto simp: resolve_loop.simps [of p s] Some x)
  qed
qed

lemma manage_notification_result_inv [inv]:
  "every I (wd s) \<Longrightarrow> post (\<lambda>s. every I (wd s)) (manage_notification_result r nid s)"
  unfolding manage_notification_result_def Let_def
  by (rule inv post_rules | assumption | (auto simp: att_def; fail))+

lemma manage_check_result_inv [inv]:
  "every I (wd s) \<Longrightarrow> post (\<lambda>s. every I (wd s)) (manage_check_result r cid s)"
  unfolding manage_check_result_def Let_def
  by (rule inv post_rules | assumption | (auto; fail))+

lemma manage_event_result_inv [inv]:
  "every I (wd s) \<Longrightarrow> post (\<lambda>s. every I (wd s)) (manage_event_result r eid s)"
  unfolding manage_event_result_def
  by (rule post_bind [where Q = "\<lambda>x. every I (wd (snd x))"] inv post_rules | assumption
      | (auto; fail))+

lemma consume_results_inv: "every I (wd s) \<Longrightarrow> post (\<lambda>s. every I (wd s)) (consume_results p s)"
proof -
  assume e: "every I (wd s)"
  have q: "post (\<lambda>s. every I (wd s)) (manage_queued x s)" if "every I (wd s)" for x s
    using that by (cases x) (auto simp: manage_results_def split: option.splits action_ref.splits
        intro: manage_notification_result_inv manage_check_result_inv manage_event_result_inv)
  show ?thesis
    unfolding consume_results_def manage_waiting_results_def
    by (rule q consume_waiting_inv resolve_loop_inv inv post_rules | assumption | (auto simp: e; fail))+
qed

subsection \<open>Scheduling, notifications and internal checks\<close>

lemma schedule_all_inv: "every I (wd s) \<Longrightarrow> post (\<lambda>s. every I (wd s)) (schedule_all p s)"
  unfolding schedule_all_def schedule_item_def
  by (rule inv post_rules | assumption | (auto; fail))+

lemma log_notification_att: "log_notification cl n k h it = Some it' \<Longrightarrow> att it' = att it"
  by (auto simp: log_notification_def split: option.splits if_splits)

lemma remember_contact_att [simp]: "att (remember_contact ku name it) = att it"
  by (simp add: remember_contact_def att_def)

lemma scatter_command_inv [inv]:
  assumes e: "every I (fst s)"
  shows "post (\<lambda>x. every I (fst x)) (scatter_command ev u m h names esc ku cmd s)"
proof -
  obtain w cs where s: "s = (w, cs)" by (cases s)
  have i: "every I (w\<lparr>contact_store := x, next_uuid := n, items := (items w)(u \<mapsto>
      (if b then remember_contact ku name (it1\<lparr>notifications_in_progress := l\<rparr>)
       else it1\<lparr>notifications_in_progress := l\<rparr>)), notifs := y\<rparr>)"
    if "items w u = Some it" "log_notification cl c k h it = Some it1" for x n b name it1 l y it cl c k
  proof -
    have "att (if b then remember_contact ku name (it1\<lparr>notifications_in_progress := l\<rparr>)
       else it1\<lparr>notifications_in_progress := l\<rparr>) = att it"
      using log_notification_att [OF that(2)] by (simp add: att_def remember_contact_def)
    from set_item_inv [OF _ that(1) this] e show ?thesis by (auto simp: s intro: every_items)
  qed
  show ?thesis
    unfolding scatter_command_def s
    by (rule post_rules | assumption | (use e in \<open>auto simp: s intro: i\<close>; fail))+
qed

lemma notification_contacts_inv [inv]:
  "every I w \<Longrightarrow> post (\<lambda>x. every I (fst x)) (notification_contacts ev u nid w)"
proof -
  assume e: "every I w"
  have i: "every I (w\<lparr>items := (items w)(u \<mapsto> it\<lparr>notified_contacts := [], notified_contacts_ids := []\<rparr>)\<rparr>)"
    if "items w u = Some it" for it
    by (rule set_item_inv [OF e that]) (simp add: att_def)
  show ?thesis
    unfolding notification_contacts_def
    by (auto simp: e i intro!: post_mapI [where Q = "\<lambda>_. True"] intro: every_items [OF e]
        split: option.splits prod.splits) (simp_all add: post_def)
qed

lemma scatter_notification_inv [inv]:
  assumes e: "every I w"
  shows "post (\<lambda>x. every I (fst x)) (scatter_notification ev u nid h w)"
proof -
  have c: "post (\<lambda>x. every I (fst x)) (scatter_contact ev u n h names esc ku s)"
    if "every I (fst s)" for n names esc ku s
    unfolding scatter_contact_def
    by (rule inv post_rules | rule that | (auto split: option.splits; fail))+
  show ?thesis
    unfolding scatter_notification_def Let_def
    by (rule c inv post_rules | rule e | assumption | (auto simp: e; fail))+
qed

lemma after_scatter_inv [inv]:
  "every I (wd s) \<Longrightarrow> post (\<lambda>s. every I (wd s)) (after_scatter p u nid b s)"
  unfolding after_scatter_def
  by (rule post_bind [where Q = "\<lambda>s. every I (wd s)"] inv post_rules | assumption
      | (auto simp: att_def; fail))+

lemma scatter_master_inv [inv]:
  "every I (wd s) \<Longrightarrow> post (\<lambda>s. every I (wd s)) (scatter_master p nid s)"
  unfolding scatter_master_def
  by (rule inv post_rules | assumption | (auto; fail))+

lemma scatter_master_notifications_inv:
  "every I (wd s) \<Longrightarrow> post (\<lambda>s. every I (wd s)) (scatter_master_notifications p s)"
  unfolding scatter_master_notifications_def
  by (rule inv post_rules | assumption)+

lemma create_business_rules_att: "att (fst (create_business_rules p w it)) = att it"
  by (simp add: create_business_rules_def att_def Let_def split: option.splits)

lemma manage_internal_check_inv [inv]:
  assumes e: "every I w"
  shows "post (every I) (manage_internal_check p u cid w)"
proof -
  have b: "every I w1" if "run_business_rule p u c w = Some (w1, st, c1)" for c w1 st c1
  proof -
    from that obtain it0 where it: "items w u = Some it0"
      and w1: "w1 = w\<lparr>items := (items w)(u \<mapsto> fst (create_business_rules p w it0))\<rparr>"
      by (auto simp: run_business_rule_def Let_def split: option.splits prod.splits if_splits)
    show ?thesis unfolding w1 by (rule set_item_inv [OF e it create_business_rules_att])
  qed
  have r: "every I w1" if "run_internal p u it c w = Some (w1, st, c1)" for it c w1 st c1
    using that e b by (auto simp: run_internal_def Let_def split: if_splits)
  show ?thesis
    unfolding manage_internal_check_def post_def
    by (auto split: option.splits dest: r)
qed

lemma manage_internal_checks_inv:
  "every I (wd s) \<Longrightarrow> post (\<lambda>s. every I (wd s)) (manage_internal_checks p s)"
  unfolding manage_internal_checks_def manage_internal_def Let_def
  by (rule inv post_rules | assumption | (auto; fail))+

subsection \<open>Upkeep\<close>

lemma update_business_values_inv:
  "every I (wd s) \<Longrightarrow> post (\<lambda>s. every I (wd s)) (update_business_values p s)"
  unfolding update_business_values_def update_business_value_def
  by (rule inv post_rules | assumption | (auto; fail))+

lemma check_for_expire_acknowledges_inv:
  "every I (wd s) \<Longrightarrow> post (\<lambda>s. every I (wd s)) (check_for_expire_acknowledges s)"
  unfolding check_for_expire_acknowledges_def check_for_expire_acknowledge_def
  by (rule inv post_rules | assumption | (auto; fail))+

lemma check_orphaned_inv: "every I (wd s) \<Longrightarrow> post (\<lambda>s. every I (wd s)) (check_orphaned s)"
proof -
  have "post (every I) (reenable_orphan a w)" if "every I w" for a w
    using that
    by (cases a) (auto split: option.splits bind_splits intro: upd_stores_inv)
  then show "every I (wd s) \<Longrightarrow> post (\<lambda>s. every I (wd s)) (check_orphaned s)"
    unfolding check_orphaned_def by - (rule inv | assumption)+
qed

lemma drop_check_inv [inv]: "every I w \<Longrightarrow> post (every I) (drop_check cid w)"
  unfolding drop_check_def release_one_def
  by (rule inv post_rules | assumption | (auto; fail))+

lemma drop_action_inv [inv]: "every I w \<Longrightarrow> post (every I) (drop_action a w)"
  unfolding drop_action_def
  by (cases a) (auto simp: post_def Option.bind_eq_Some_conv dest: postD [OF quiet_inv(2), rotated])

lemma clean_queues_inv: "every I (wd s) \<Longrightarrow> post (\<lambda>s. every I (wd s)) (clean_queues p s)"
proof -
  assume e: "every I (wd s)"
  have c: "post (\<lambda>s. every I (wd s)) (clean_checks n s)" if "every I (wd s)" for n s
    unfolding clean_checks_def Let_def
    by (rule post_control(6) inv post_rules | assumption | (simp add: that; fail))+
  have a: "post (\<lambda>s. every I (wd s)) (clean_actions n s)" if "every I (wd s)" for n s
    unfolding clean_actions_def Let_def
    by (rule post_control(6) inv post_rules | assumption | (simp add: that; fail))+
  have b: "wd (clean_broks p n s) = wd s" for n s by (simp add: clean_broks_def)
  show ?thesis
    unfolding clean_queues_def Let_def
    by (rule c a post_rules | (simp add: e b; fail))+
qed

text \<open>The downtimes keep the finer observation \<open>acore\<close>, or write fields out of reach.\<close>

lemma downtime_enter_inv [inv]:
  "every I w \<Longrightarrow> post (\<lambda>x. every I (fst x)) (downtime_enter fuel e did w)"
  by (rule post_mono [OF downtime_enter_aquiet])
    (auto intro: every_atts [OF atts_wcore [OF acore_wcore]])

lemma att_exit [simp]: "att (raise_exit_downtime_log_entry cl it) = att it"
  by (intro att_only_broks) simp

lemma downtime_exit_inv [inv]:
  "every I w \<Longrightarrow> post (\<lambda>x. every I (fst x)) (downtime_exit e did w)"
  unfolding downtime_exit_def
  by (rule post_bind [where Q = "\<lambda>x. every I (fst x)"] inv post_rules | assumption
      | (auto simp: att_def del_comment_def split: option.splits; fail) | (simp; fail))+

lemma check_maintenance_inv [inv]:
  "every I (wd s) \<Longrightarrow> post (\<lambda>s. every I (wd s)) (check_maintenance p u s)"
proof -
  have a: "every I w \<Longrightarrow> post (every I) (add_automatic_comment cm did w)" for cm did w
    unfolding add_automatic_comment_def Let_def
    by (rule inv post_rules | assumption | (auto simp: att_def; fail))+
  have d: "every I w \<Longrightarrow> post (every I) (add_downtime u did w)" for did w
    unfolding add_downtime_def by (rule inv | assumption | (simp add: att_def; fail))+
  have "every I (wd s) \<Longrightarrow> post (\<lambda>s. every I (wd s)) (enter_maintenance p tp u s)" for tp
    unfolding enter_maintenance_def Let_def
    by (rule post_bind [where Q = "\<lambda>_ :: int. True"] a d post_bind [where Q = "\<lambda>s. every I (wd s)"]
          post_bind [where Q = "every I"] inv post_rules
        | assumption | (auto simp: att_def post_def; fail))+
  then show "every I (wd s) \<Longrightarrow> post (\<lambda>s. every I (wd s)) (check_maintenance p u s)"
    unfolding check_maintenance_def
    by - (rule post_case_option post_control inv | assumption | (auto simp: att_def; fail))+
qed

lemma contact_downtimes_items:
  "activate_contact_downtimes ku w = Some w' \<Longrightarrow> items w' = items w"
  unfolding activate_contact_downtimes_def
  by (auto simp: activate_contact_downtime_def upd_contact_def split: option.splits if_splits prod.splits
      elim!: foldM_relation [where R = "\<lambda>w w'. items w' = items w"])

lemma activate_contact_downtimes_inv [inv]:
  "every I w \<Longrightarrow> post (every I) (activate_contact_downtimes ku w)"
  by (rule postI) (auto dest: contact_downtimes_items intro: every_items)

lemma drop_downtimes_inv [inv]:
  "every I (fst x) \<Longrightarrow> post (\<lambda>x. every I (fst x)) (drop_downtimes u x)"
  unfolding drop_downtimes_def drop_downtime_def del_downtime_def
  by (rule inv post_rules | assumption | (auto simp: att_def; fail))+

lemma drop_contact_downtimes_inv [inv]:
  "every I (fst x) \<Longrightarrow> post (\<lambda>x. every I (fst x)) (drop_contact_downtimes ku x)"
  unfolding drop_contact_downtimes_def
  by (rule post_rules | assumption | (auto; fail))+

lemma start_or_stop_downtimes_inv [inv]:
  "every I (fst x) \<Longrightarrow> post (\<lambda>x. every I (fst x)) (start_or_stop_downtimes p u x)"
  unfolding start_or_stop_downtimes_def start_or_stop_downtime_def
  by (rule inv post_rules | assumption | (auto; fail))+

lemma update_downtimes_and_comments_inv:
  "every I (wd s) \<Longrightarrow> post (\<lambda>s. every I (wd s)) (update_downtimes_and_comments p s)"
  unfolding update_downtimes_and_comments_def Let_def
  by (rule inv post_rules | assumption | (auto; fail))+

lemma check_freshness_all_inv:
  "every I (wd s) \<Longrightarrow> post (\<lambda>s. every I (wd s)) (check_freshness_all p s)"
proof -
  have e: "every I (wd s) \<Longrightarrow> post (\<lambda>s. every I (wd s)) (still_expired p u s)" for u s
    unfolding still_expired_def by (rule inv post_rules | assumption | (auto simp: att_def; fail))+
  have h: "every I (wd s) \<Longrightarrow> post (\<lambda>x. every I (wd (fst x))) (freshness_hosts p s)" for s
    unfolding freshness_hosts_def
    by (rule post_control(6) e inv post_rules | assumption | (auto; fail))+
  have v: "every I (wd s) \<Longrightarrow> post (\<lambda>x. every I (wd (fst x))) (freshness_services p s)" for s
    unfolding freshness_services_def Let_def
    by (rule post_control(6) e inv post_rules | assumption | (auto; fail))+
  have r: "every I (wd s) \<Longrightarrow> post (\<lambda>s. every I (wd s)) (raise_freshness p u s)" for u s
    unfolding raise_freshness_def
    by (rule inv post_rules | assumption | (auto; fail))+
  show "every I (wd s) \<Longrightarrow> post (\<lambda>s. every I (wd s)) (check_freshness_all p s)"
    unfolding check_freshness_all_def
    by (rule h v r inv post_rules | assumption | (auto; fail))+
qed

subsection \<open>The turn\<close>

lemma delete_zombies_inv:
  "every I (wd s) \<Longrightarrow> post (\<lambda>s. every I (wd s)) (delete_zombie_checks s)"
  "every I (wd s) \<Longrightarrow> post (\<lambda>s. every I (wd s)) (delete_zombie_actions s)"
  by (auto simp: delete_zombie_checks_def delete_zombie_actions_def)

lemma run_turn_inv:
  assumes e: "every I (wd s)"
    and other: "\<And>k s. every I (wd s) \<Longrightarrow> post (\<lambda>s. every I (wd s)) (other k s)"
    and sat: "\<And>s. every I (wd s) \<Longrightarrow> post (\<lambda>s. every I (wd s)) (satellites s)"
  shows "post (\<lambda>s. every I (wd s)) (run_turn p other satellites s)"
proof -
  have w: "every I (wd s) \<Longrightarrow> post (\<lambda>s. every I (wd s)) (run_work p other k s)" for k s
    by (cases k) (simp_all add: other update_downtimes_and_comments_inv schedule_all_inv
        check_freshness_all_inv consume_results_inv get_new_actions_inv
        scatter_master_notifications_inv get_new_broks_inv check_orphaned_inv
        manage_internal_checks_inv clean_queues_inv update_business_values_inv
        check_for_expire_acknowledges_inv delete_zombies_inv)
  show ?thesis
    unfolding run_turn_def Let_def
    by (rule w sat inv post_rules | assumption | (auto simp: e; fail))+
qed

lemma get_to_run_checks_inv:
  "every I (wd s) \<Longrightarrow> post (\<lambda>x. every I (wd (fst x))) (get_to_run_checks b1 b2 pt rt worker types s)"
proof -
  have c: "every I (wd (fst x)) \<Longrightarrow> post (\<lambda>x. every I (wd (fst x))) (take_check pt types worker cid x)"
    for cid x unfolding take_check_def by (rule inv post_rules | assumption | (auto; fail))+
  have a: "every I (wd (fst x)) \<Longrightarrow> post (\<lambda>x. every I (wd (fst x))) (take_action rt types worker r x)"
    for r x
    unfolding take_action_def Let_def
    by (cases r) (simp_all, (rule inv post_rules | assumption | (auto; fail))+)
  show "every I (wd s) \<Longrightarrow> post (\<lambda>x. every I (wd (fst x))) (get_to_run_checks b1 b2 pt rt worker types s)"
    unfolding get_to_run_checks_def
    by (rule c a post_bind [where Q = "\<lambda>x. every I (wd (fst x))"] inv post_rules | assumption | (auto; fail))+
qed

theorem scheduler_run_inv:
  assumes "scheduler_run p other satellites s s'" and "every I (wd s)"
    and "\<And>k s s'. other k s = Some s' \<Longrightarrow> satts s' = satts s"
    and "\<And>s s'. satellites s = Some s' \<Longrightarrow> satts s' = satts s"
  shows "every I (wd s')"
  using assms
proof (induction rule: scheduler_run.induct)
  case (turn s s1 s2)
  have "post (\<lambda>s. every I (wd s)) (run_turn p other satellites s1)"
    by (rule run_turn_inv) (use turn in \<open>auto simp: post_def intro: every_atts\<close>)
  then show ?case using turn.hyps(2) by simp
next
  case (polled s s1 do_checks do_actions ptags rtags worker types s2 given)
  have "every I (wd s1)" by (rule polled.IH) (use polled.prems in auto)
  from postD [OF get_to_run_checks_inv [OF this] polled.hyps(2)] show ?case by simp
qed (auto intro: every_items)

end

section \<open>The bound on the attempts\<close>

text \<open>
  A soft state is one that is not confirmed yet: the attempts have not reached
  \<open>max_check_attempts\<close>. No state has more attempts than that (or than one).
\<close>

definition attempt_ok :: "item \<Rightarrow> bool" where
  "attempt_ok it \<longleftrightarrow> 0 \<le> attempt it \<and> attempt it \<le> max 1 (max_check_attempts it)
     \<and> (state_type it = SOFT \<longrightarrow> attempt it < max_check_attempts it)"

lemma machine_attempt_ok:
  assumes "machine volatile maxi dep b ok (ty, n) = (ty', n')"
    and "0 \<le> n" and "n \<le> max 1 maxi" and "ty = SOFT \<longrightarrow> n < maxi"
  shows "0 \<le> n' \<and> n' \<le> max 1 maxi \<and> (ty' = SOFT \<longrightarrow> n' < maxi)"
  using assms by (auto simp: Let_def split: if_splits)

interpretation attempts: item_invariant attempt_ok
proof unfold_locales
  fix a b :: item
  assume "att a = att b"
  then show "attempt_ok a = attempt_ok b" by (simp add: att_def attempt_ok_def)
next
  fix cid c status cl it it'
  assume s: "consumed cid c status cl it it'" and i: "attempt_ok it"
  have m: "max_check_attempts it' = max_check_attempts it" using s by (simp add: consumed_def)
  have "machine (my_type it = Service \<and> is_volatile it) (max_check_attempts it) (c_dependency_check c)
      (before_of it (previous_state cl it)) (status = 0) (state_type it, attempt it)
      = (state_type it', attempt it')"
    using s by (simp add: consumed_def)
  from machine_attempt_ok [OF this] i show "attempt_ok it'" unfolding attempt_ok_def m by blast
qed

lemma sample_attempts_ok:
  assumes "items (wd sample_state) u = Some it"
  shows "attempt_ok it"
proof -
  have "u = 0 \<and> it = sample_host \<or> u = 1 \<and> it = sample_service"
    using assms by (simp add: sample_state_def sample_sched_def sample_world_def split: if_splits)
  moreover have "attempt_ok sample_host" "attempt_ok sample_service"
    by (simp_all add: attempt_ok_def sample_host_def sample_service_def sample_item_def)
  ultimately show ?thesis by blast
qed

text \<open>
  C2. Whatever the scheduler does - turns of all its recurrent works, satellites that take work
  and return results, time that passes - no item gets more than \<open>max_check_attempts\<close> attempts
  (at least one), and an item in a soft state has fewer attempts than that: the state of an item
  whose attempts are used up is hard. Of the works that are not modelled it is only asked that
  they leave attempts and state types alone.
\<close>

theorem attempts_stay_bounded:
  assumes "scheduler_run p other satellites s s'"
    and "\<And>u it. items (wd s) u = Some it \<Longrightarrow> attempt_ok it"
    and "\<And>k s s'. other k s = Some s' \<Longrightarrow> satts s' = satts s"
    and "\<And>s s'. satellites s = Some s' \<Longrightarrow> satts s' = satts s"
    and "items (wd s') u = Some it"
  shows "0 \<le> attempt it \<and> attempt it \<le> max 1 (max_check_attempts it)
    \<and> (state_type it = SOFT \<longrightarrow> attempt it < max_check_attempts it)"
proof -
  have "every attempt_ok (wd s)" using assms(2) by (simp add: every_def)
  from attempts.scheduler_run_inv [OF assms(1) this assms(3,4)] assms(5)
  show ?thesis by (simp add: every_def attempt_ok_def)
qed

theorem attempts_stay_bounded_witness:
  "\<exists>s' it. scheduler_run sample_params (\<lambda>_ s. Some s) Some sample_state s'
     \<and> items (wd s') 1 = Some it \<and> state_type it = SOFT \<and> 0 \<le> attempt it
     \<and> attempt it < max_check_attempts it"
proof -
  obtain s' it where t: "run_turn sample_params (\<lambda>_ s. Some s) Some sample_state = Some s'"
    and it: "items (wd s') 1 = Some it" "state_type it = SOFT"
    using sample_turn by auto
  have r: "scheduler_run sample_params (\<lambda>_ s. Some s) Some sample_state s'"
    by (rule scheduler_run.turn [OF scheduler_run.start t])
  have "0 \<le> attempt it \<and> attempt it \<le> max 1 (max_check_attempts it)
      \<and> (state_type it = SOFT \<longrightarrow> attempt it < max_check_attempts it)"
    by (rule attempts_stay_bounded [OF r _ _ _ it(1)]) (auto dest: sample_attempts_ok)
  with it r show ?thesis by blast
qed

end
