(* ===== verification/Confirm.thy ===== *)
theory Confirm
  imports Attempts
begin

text \<open>
  How a problem is confirmed: the state of an item gets hard after \<open>max_check_attempts\<close> bad
  results in a row, and only a new problem after a good state makes it soft again.
\<close>

section \<open>Soft is below hard\<close>

instantiation state_kind :: linorder
begin

definition less_eq_state_kind :: "state_kind \<Rightarrow> state_kind \<Rightarrow> bool" where
  "less_eq_state_kind a b \<longleftrightarrow> a = SOFT \<or> b = HARD"

definition less_state_kind :: "state_kind \<Rightarrow> state_kind \<Rightarrow> bool" where
  "less_state_kind a b \<longleftrightarrow> a = SOFT \<and> b = HARD"

instance
proof
  fix a b c :: state_kind
  show "(a < b) = (a \<le> b \<and> \<not> b \<le> a)" by (cases a; cases b) (simp_all add: less_eq_state_kind_def less_state_kind_def)
  show "a \<le> a" by (cases a) (simp_all add: less_eq_state_kind_def)
  show "a \<le> b \<Longrightarrow> b \<le> c \<Longrightarrow> a \<le> c" by (auto simp: less_eq_state_kind_def)
  show "a \<le> b \<Longrightarrow> b \<le> a \<Longrightarrow> a = b" by (auto simp: less_eq_state_kind_def)
  show "a \<le> b \<or> b \<le> a" by (cases a) (simp_all add: less_eq_state_kind_def)
qed

end

lemma kind_less_iff: "a < b \<longleftrightarrow> a = SOFT \<and> b = HARD" for a b :: state_kind
  by (simp add: less_state_kind_def)

lemma machine_softens:
  "machine volatile maxi dep b ok (ty, n) = (ty', n') \<Longrightarrow> ty' < ty \<Longrightarrow>
     \<not> ok \<and> \<not> volatile \<and> b \<noteq> Bad \<and> n' = 1 \<and> 1 < maxi"
  by (auto simp: kind_less_iff Let_def split: if_splits)

text \<open>
  C11. A result makes a hard state soft only when it is the first bad one: the exit status is not 0,
  the state before was good (or pending), the item is not a volatile service and has more than one
  attempt; the attempts then start at 1. A problem that is confirmed stays so until it ends.
\<close>

theorem hard_states_soften_only_for_new_problems:
  assumes "consume_result fuel e u cid period raise_log w = Some (w', us)"
    and "items w u = Some it" and "checks w cid = Some c" and "\<not> waits_for_dependencies c it"
    and "items w' u = Some it'" and "state_type it' < state_type it"
  shows "effective_exit e (now w) c it \<noteq> Some 0 \<and> \<not> (my_type it = Service \<and> is_volatile it)
    \<and> (previous_state (cls_of w it) it = ok_up it \<or> previous_state (cls_of w it) it = PENDING)
    \<and> attempt it' = 1 \<and> 1 < max_check_attempts it"
proof -
  obtain status where st: "effective_exit e (now w) c it = Some status"
    and "consumed cid c status (cls_of w it) it it'"
    using consume_result_consumed [OF assms(1-4)] assms(5) by auto
  then have "machine (my_type it = Service \<and> is_volatile it) (max_check_attempts it) (c_dependency_check c)
      (before_of it (previous_state (cls_of w it) it)) (status = 0) (state_type it, attempt it)
      = (state_type it', attempt it')"
    by (simp add: consumed_def)
  from machine_softens [OF this assms(6)] show ?thesis
    using st by (auto simp: before_of_def split: if_splits)
qed

theorem hard_states_soften_only_for_new_problems_witness:
  "\<exists>w' us it'. consume_result 5 sample_env 1 11 None False (sample_world sample_host sample_service 0 2)
       = Some (w', us)
     \<and> items w' 1 = Some it' \<and> state_type it' < state_type sample_service \<and> attempt it' = 1"
proof -
  let ?w = "sample_world sample_host sample_service 0 2"
  have "map_option (\<lambda>x. map_option state_type (items (fst x) 1)) (consume_result 5 sample_env 1 11 None False ?w)
      = Some (Some SOFT)"
    by code_simp
  then obtain w' us it' where r: "consume_result 5 sample_env 1 11 None False ?w = Some (w', us)"
    and it': "items w' 1 = Some it'" "state_type it' = SOFT" by auto
  have i: "items ?w 1 = Some sample_service" "checks ?w 11 = Some (sample_check 1 2)"
    by (simp_all add: sample_world_def)
  have n: "\<not> waits_for_dependencies (sample_check 1 2) sample_service"
    by (simp add: waits_for_dependencies_def sample_service_def sample_item_def)
  have l: "state_type it' < state_type sample_service"
    by (simp add: kind_less_iff it'(2) sample_service_def sample_item_def)
  from hard_states_soften_only_for_new_problems [OF r i n it'(1) l] r it'(1) l show ?thesis by blast
qed

section \<open>Bad results in a row\<close>

text \<open>
  \<open>bad_results n w w'\<close>: from \<open>w\<close> to \<open>w'\<close> the item gets \<open>n\<close> bad results in a row, the first after a
  good state, none on demand of a dependency; in between anything may happen that leaves its
  attempts and state type alone.
\<close>

definition bad_result :: "env \<Rightarrow> uuid \<Rightarrow> world \<Rightarrow> uuid \<Rightarrow> bool \<Rightarrow> bool" where
  "bad_result e u w cid first \<longleftrightarrow>
     (case (items w u, checks w cid) of
        (Some it, Some c) \<Rightarrow> \<not> waits_for_dependencies c it \<and> effective_exit e (now w) c it \<noteq> Some 0
          \<and> \<not> (my_type it = Service \<and> is_volatile it) \<and> \<not> c_dependency_check c
          \<and> (before_of it (previous_state (cls_of w it) it) \<noteq> Bad \<longleftrightarrow> first)
      | _ \<Rightarrow> False)"

inductive bad_results :: "nat \<Rightarrow> env \<Rightarrow> uuid \<Rightarrow> nat \<Rightarrow> world \<Rightarrow> world \<Rightarrow> bool" for fuel e u where
  first_bad: "bad_result e u w cid True \<Longrightarrow> consume_result fuel e u cid period raise_log w = Some (w', us)
     \<Longrightarrow> bad_results fuel e u 1 w w'"
| next_bad: "bad_results fuel e u n w w1 \<Longrightarrow> atts w2 u = atts w1 u \<Longrightarrow> bad_result e u w2 cid False
     \<Longrightarrow> consume_result fuel e u cid period raise_log w2 = Some (w3, us)
     \<Longrightarrow> bad_results fuel e u (Suc n) w w3"

inductive_simps bad_results_0: "bad_results fuel e u 0 w w'"

lemma bad_result_machine:
  assumes "bad_result e u w cid first" and "consume_result fuel e u cid period raise_log w = Some (w', us)"
  shows "\<exists>it it' b. items w u = Some it \<and> items w' u = Some it' \<and> max_check_attempts it' = max_check_attempts it
    \<and> (b \<noteq> Bad \<longleftrightarrow> first)
    \<and> (state_type it', attempt it') = machine False (max_check_attempts it) False b False (state_type it, attempt it)"
proof -
  obtain it c where it: "items w u = Some it" and c: "checks w cid = Some c"
    and n: "\<not> waits_for_dependencies c it" and ex: "effective_exit e (now w) c it \<noteq> Some 0"
    and v: "\<not> (my_type it = Service \<and> is_volatile it)" and d: "\<not> c_dependency_check c"
    and b: "before_of it (previous_state (cls_of w it) it) \<noteq> Bad \<longleftrightarrow> first"
    using assms(1) by (auto simp: bad_result_def split: option.splits)
  obtain it' status where s: "effective_exit e (now w) c it = Some status" "items w' u = Some it'"
      "consumed cid c status (cls_of w it) it it'"
    using consume_result_consumed [OF assms(2) it c n] by blast
  have "status \<noteq> 0" using s(1) ex by auto
  then have "(state_type it', attempt it')
      = machine False (max_check_attempts it) False (before_of it (previous_state (cls_of w it) it)) False
          (state_type it, attempt it)"
    using s(3) v d unfolding consumed_def by simp
  moreover have "max_check_attempts it' = max_check_attempts it" using s(3) by (simp add: consumed_def)
  ultimately show ?thesis using it s(2) b by blast
qed

text \<open>
  C3. A problem is confirmed by exactly \<open>max_check_attempts\<close> (at least one) bad results in a row: after
  \<open>n\<close> of them the item has \<open>min n max_check_attempts\<close> attempts, and its state is hard when \<open>n\<close> has
  reached \<open>max_check_attempts\<close> and soft before.
\<close>

theorem problems_are_confirmed:
  assumes "bad_results fuel e u n w w'" and "items w u = Some it"
  shows "\<exists>it'. items w' u = Some it' \<and> max_check_attempts it' = max_check_attempts it
    \<and> attempt it' = min (int n) (max 1 (max_check_attempts it))
    \<and> state_type it' = (if int n \<ge> max_check_attempts it then HARD else SOFT)"
  using assms
proof (induction rule: bad_results.induct)
  case (first_bad w cid period raise_log w' us)
  obtain it' b where "items w' u = Some it'" "max_check_attempts it' = max_check_attempts it" "b \<noteq> Bad"
    "(state_type it', attempt it') = machine False (max_check_attempts it) False b False (state_type it, attempt it)"
    using bad_result_machine [OF first_bad(1,2)] first_bad(3) by auto
  then show ?case by auto
next
  case (next_bad n w w1 w2 cid period raise_log w3 us)
  obtain it1 where it1: "items w1 u = Some it1" "max_check_attempts it1 = max_check_attempts it"
      "attempt it1 = min (int n) (max 1 (max_check_attempts it))"
      "state_type it1 = (if int n \<ge> max_check_attempts it then HARD else SOFT)"
    using next_bad.IH [OF next_bad.prems] by blast
  obtain it2 it3 b where it2: "items w2 u = Some it2" and it3: "items w3 u = Some it3"
    "max_check_attempts it3 = max_check_attempts it2" "b = Bad"
    "(state_type it3, attempt it3) = machine False (max_check_attempts it2) False b False (state_type it2, attempt it2)"
    using bad_result_machine [OF next_bad.hyps(3,4)] by auto
  have "att it2 = att it1" using next_bad.hyps(2) it1(1) it2 by (simp add: atts_def)
  then have same: "state_type it2 = state_type it1" "attempt it2 = attempt it1"
    "max_check_attempts it2 = max_check_attempts it"
    by (simp_all add: att_def it1(2))
  have "n \<ge> 1" using next_bad.hyps(1) by (cases n) (simp_all add: bad_results_0)
  then have "attempt it3 = min (int (Suc n)) (max 1 (max_check_attempts it))
    \<and> state_type it3 = (if int (Suc n) \<ge> max_check_attempts it then HARD else SOFT)"
    using it3(3,4) by (auto simp: same it1 min_def max_def Let_def split: if_splits)
  then show ?case using it3(1,2) same(3) by auto
qed

text \<open>Two bad results of the sample service in a row.\<close>

definition once_bad :: world where
  "once_bad = fst (the (consume_result 5 sample_env 1 11 None False
     (sample_world sample_host sample_service 0 2)))"

definition bad_again :: world where
  "bad_again = once_bad\<lparr>checks := (checks once_bad)(11 \<mapsto> sample_check 1 2)\<rparr>"

theorem problems_are_confirmed_witness:
  "\<exists>w'. bad_results 5 sample_env 1 2 (sample_world sample_host sample_service 0 2) w'
     \<and> (\<exists>it'. items w' 1 = Some it' \<and> attempt it' = 2 \<and> state_type it' = SOFT)"
proof -
  let ?w = "sample_world sample_host sample_service 0 2"
  have b: "bad_result sample_env 1 ?w 11 True" "bad_result sample_env 1 bad_again 11 False"
    by code_simp+
  have n: "consume_result 5 sample_env 1 11 None False ?w \<noteq> None"
    "consume_result 5 sample_env 1 11 None False bad_again \<noteq> None"
    by code_simp+
  obtain us where r1: "consume_result 5 sample_env 1 11 None False ?w = Some (once_bad, us)"
    using n(1) by (auto simp: once_bad_def)
  obtain w' us' where r2: "consume_result 5 sample_env 1 11 None False bad_again = Some (w', us')"
    using n(2) by auto
  have "atts bad_again 1 = atts once_bad 1" by (simp add: bad_again_def atts_def)
  from bad_results.next_bad [OF bad_results.first_bad [OF b(1) r1] this b(2) r2]
  have r: "bad_results 5 sample_env 1 2 ?w w'" by (simp add: numeral_2_eq_2)
  have i: "items ?w 1 = Some sample_service" by (simp add: sample_world_def)
  have m: "max_check_attempts sample_service = 3" by (simp add: sample_service_def sample_item_def)
  from problems_are_confirmed [OF r i] r show ?thesis by (auto simp: m)
qed

end
