(* ===== verification/Polling.thy ===== *)
theory Polling
  imports SchedSamples
begin

text \<open>
  What the satellites are given (\<open>get_to_run_checks\<close>) and what is removed (\<open>delete_zombie_checks\<close>,
  \<open>delete_zombie_actions\<close>). Checks and actions go through the same loop over a dictionary: the
  locale \<open>polling\<close> states what a loop body promises and proves what the whole loop does.
\<close>

section \<open>The loop\<close>

text \<open>
  \<open>here s k\<close>: the object of the key exists; \<open>due s k\<close>: the satellite may have it; \<open>taken s k\<close>: it
  is marked as given to this satellite.
\<close>

locale polling =
  fixes here :: "'s \<Rightarrow> 'k \<Rightarrow> bool" and due :: "'s \<Rightarrow> 'k \<Rightarrow> bool" and given :: "'s \<Rightarrow> 'k \<Rightarrow> bool"
    and body :: "'k \<Rightarrow> 's \<times> 'r list \<Rightarrow> ('s \<times> 'r list) option" and ref :: "'k \<Rightarrow> 'r"
  assumes gives: "here s k \<Longrightarrow> due s k \<Longrightarrow> \<exists>s'. body k (s, r) = Some (s', r @ [ref k])
      \<and> \<not> due s' k \<and> given s' k \<and> (\<forall>j. here s' j = here s j)
      \<and> (\<forall>j. j \<noteq> k \<longrightarrow> due s' j = due s j \<and> given s' j = given s j)"
    and skips: "here s k \<Longrightarrow> \<not> due s k \<Longrightarrow> body k (s, r) = Some (s, r)"
begin

lemma loop:
  assumes "distinct ks" and "\<And>k. k \<in> set ks \<Longrightarrow> here s k"
  shows "\<exists>s'. foldM body ks (s, r) = Some (s', r @ map ref (filter (due s) ks))
    \<and> (\<forall>j. here s' j = here s j) \<and> (\<forall>k \<in> set ks. \<not> due s' k)
    \<and> (\<forall>k \<in> set ks. due s k \<longrightarrow> given s' k)
    \<and> (\<forall>j. j \<notin> set ks \<longrightarrow> due s' j = due s j \<and> given s' j = given s j)"
  using assms
proof (induction ks arbitrary: s r)
  case Nil
  then show ?case by simp
next
  case (Cons k ks)
  have k: "here s k" by (rule Cons.prems(2)) simp
  have d: "distinct ks" "k \<notin> set ks" using Cons.prems(1) by simp_all
  show ?case
  proof (cases "due s k")
    case True
    then obtain s1 where b: "body k (s, r) = Some (s1, r @ [ref k])"
      and s1: "\<not> due s1 k" "given s1 k" "\<And>j. here s1 j = here s j"
        "\<And>j. j \<noteq> k \<Longrightarrow> due s1 j = due s j \<and> given s1 j = given s j"
      using gives [OF k] by metis
    have "\<exists>s'. foldM body ks (s1, r @ [ref k]) = Some (s', (r @ [ref k]) @ map ref (filter (due s1) ks))
      \<and> (\<forall>j. here s' j = here s1 j) \<and> (\<forall>k \<in> set ks. \<not> due s' k)
      \<and> (\<forall>k \<in> set ks. due s1 k \<longrightarrow> given s' k)
      \<and> (\<forall>j. j \<notin> set ks \<longrightarrow> due s' j = due s1 j \<and> given s' j = given s1 j)"
      by (rule Cons.IH [OF d(1)]) (simp add: s1(3) Cons.prems(2))
    then obtain s' where s': "foldM body ks (s1, r @ [ref k])
        = Some (s', (r @ [ref k]) @ map ref (filter (due s1) ks))"
      and h: "\<forall>j. here s' j = here s1 j" "\<forall>k \<in> set ks. \<not> due s' k"
        "\<forall>k \<in> set ks. due s1 k \<longrightarrow> given s' k"
        "\<forall>j. j \<notin> set ks \<longrightarrow> due s' j = due s1 j \<and> given s' j = given s1 j" by blast
    have same: "due s1 x = due s x" if "x \<in> set ks" for x
      using that d(2) s1(4) by (cases "x = k") simp_all
    then have "filter (due s1) ks = filter (due s) ks"
      by (intro filter_cong) simp_all
    then have f: "foldM body (k # ks) (s, r) = Some (s', r @ map ref (filter (due s) (k # ks)))"
      using True by (simp add: b s')
    have "\<not> due s' k" "given s' k" using h(4) d(2) s1(1,2) by simp_all
    then show ?thesis
      using f h s1(3,4) d(2) same by (intro exI [of _ s']) auto
  next
    case False
    have "\<exists>s'. foldM body ks (s, r) = Some (s', r @ map ref (filter (due s) ks))
      \<and> (\<forall>j. here s' j = here s j) \<and> (\<forall>k \<in> set ks. \<not> due s' k)
      \<and> (\<forall>k \<in> set ks. due s k \<longrightarrow> given s' k)
      \<and> (\<forall>j. j \<notin> set ks \<longrightarrow> due s' j = due s j \<and> given s' j = given s j)"
      by (rule Cons.IH [OF d(1)]) (simp add: Cons.prems(2))
    then show ?thesis using False d(2) by (fastforce simp: skips [OF k])
  qed
qed

text \<open>When nothing is due, nothing happens.\<close>

lemma idle: "(\<And>k. k \<in> set ks \<Longrightarrow> here s k \<and> \<not> due s k) \<Longrightarrow> foldM body ks (s, r) = Some (s, r)"
  by (induction ks) (simp_all add: skips)

end

section \<open>Checks and actions\<close>

definition check_due :: "string list \<Rightarrow> string list \<Rightarrow> sched \<Rightarrow> uuid \<Rightarrow> bool" where
  "check_due tags types s cid =
     (case checks (wd s) cid of None \<Rightarrow> False | Some c \<Rightarrow> poller_takes tags types (now (wd s)) c)"

definition check_given :: "string \<Rightarrow> sched \<Rightarrow> uuid \<Rightarrow> bool" where
  "check_given worker s cid =
     (case checks (wd s) cid of None \<Rightarrow> False
      | Some c \<Rightarrow> c_status c = POLLED \<and> c_my_worker c = worker)"

definition action_here :: "sched \<Rightarrow> action_ref \<Rightarrow> bool" where
  "action_here s a \<longleftrightarrow>
     (case a of CheckRef cid \<Rightarrow> True | NotifRef nid \<Rightarrow> notifs (wd s) nid \<noteq> None
      | EventRef eid \<Rightarrow> events (wd s) eid \<noteq> None)"

definition action_due :: "string list \<Rightarrow> string list \<Rightarrow> sched \<Rightarrow> action_ref \<Rightarrow> bool" where
  "action_due tags types s a =
     (case a of CheckRef cid \<Rightarrow> False
      | NotifRef nid \<Rightarrow> (case notifs (wd s) nid of None \<Rightarrow> False
          | Some n \<Rightarrow> reactionner_takes_notification tags types (now (wd s)) n)
      | EventRef eid \<Rightarrow> (case events (wd s) eid of None \<Rightarrow> False
          | Some v \<Rightarrow> reactionner_takes_event tags types (now (wd s)) v))"

definition action_given :: "string \<Rightarrow> sched \<Rightarrow> action_ref \<Rightarrow> bool" where
  "action_given worker s a =
     (case a of CheckRef cid \<Rightarrow> False
      | NotifRef nid \<Rightarrow> (case notifs (wd s) nid of None \<Rightarrow> False
          | Some n \<Rightarrow> n_status n = POLLED \<and> n_my_worker n = worker)
      | EventRef eid \<Rightarrow> (case events (wd s) eid of None \<Rightarrow> False
          | Some v \<Rightarrow> e_status v = POLLED \<and> e_my_worker v = worker))"

interpretation poll_checks: polling "\<lambda>s cid. checks (wd s) cid \<noteq> None" "check_due tags types"
  "check_given worker" "take_check tags types worker" CheckRef
  by unfold_locales
    (auto simp: check_due_def check_given_def take_check_def on_world_def upd_check_def
      poller_takes_def split: option.splits)

interpretation poll_actions: polling action_here "action_due tags types" "action_given worker"
  "take_action tags types worker" "\<lambda>a. a"
proof unfold_locales
  fix s :: sched and a and r :: "action_ref list"
  assume h: "action_here s a"
  show "\<exists>s'. take_action tags types worker a (s, r) = Some (s', r @ [a])
      \<and> \<not> action_due tags types s' a \<and> action_given worker s' a
      \<and> (\<forall>j. action_here s' j = action_here s j)
      \<and> (\<forall>j. j \<noteq> a \<longrightarrow> action_due tags types s' j = action_due tags types s j
          \<and> action_given worker s' j = action_given worker s j)" if "action_due tags types s a"
    using h that
    by (cases a)
      (auto simp: action_here_def action_due_def action_given_def take_action_def on_world_def
        upd_notif_def upd_event_def reactionner_takes_notification_def reactionner_takes_event_def Let_def
        split: option.splits action_ref.splits)
  show "take_action tags types worker a (s, r) = Some (s, r)" if "\<not> action_due tags types s a"
    using h that
    by (cases a) (auto simp: action_here_def action_due_def take_action_def split: option.splits)
qed

section \<open>What a satellite gets\<close>

lemma get_to_run_checks_of_poller:
  "get_to_run_checks True False ptags rtags worker types s
     = foldM (take_check ptags types worker) (sched_checks (wd s)) (s, [])"
  by (simp add: get_to_run_checks_def)

lemma take_check_keys:
  "take_check tags types worker cid x = Some y \<Longrightarrow>
     sched_checks (wd (fst y)) = sched_checks (wd (fst x)) \<and> sched_actions (wd (fst y)) = sched_actions (wd (fst x))
     \<and> now (wd (fst y)) = now (wd (fst x))"
  by (auto simp: take_check_def on_world_def upd_check_def split: option.splits if_splits prod.splits)

text \<open>A third check of the installation is scheduled and due.\<close>

definition polling_state :: sched where
  "polling_state = sample_state\<lparr>wd := (wd sample_state)\<lparr>
     checks := (checks (wd sample_state))(12 \<mapsto> new_check 90 1 ''ping'' 95 False),
     sched_checks := [10, 11, 12]\<rparr>\<rparr>"

text \<open>
  C4. A poller that asks for checks gets, in the order of the dictionary, exactly the checks that are
  scheduled, due, not internal and of its tags and module types; each of them is then polled and
  belongs to this worker; a second poller that asks at the same time gets none of them, whatever
  its name: no check is given twice.
\<close>

theorem pollers_get_due_checks_once:
  assumes "distinct (sched_checks (wd s))" and "\<And>cid. cid \<in> set (sched_checks (wd s)) \<Longrightarrow> checks (wd s) cid \<noteq> None"
    and "get_to_run_checks True False tags rtags worker types s = Some (s', given)"
  shows "given = map CheckRef (filter (\<lambda>cid. \<exists>c. checks (wd s) cid = Some c \<and> \<not> c_internal c
            \<and> c_poller_tag c \<in> set tags \<and> c_module_type c \<in> set types \<and> c_status c = SCHEDULED
            \<and> c_t_to_go c \<le> now (wd s)) (sched_checks (wd s)))
    \<and> (\<forall>cid. CheckRef cid \<in> set given \<longrightarrow> (\<exists>c. checks (wd s') cid = Some c \<and> c_status c = POLLED
            \<and> c_my_worker c = worker))
    \<and> get_to_run_checks True False tags rtags worker2 types s' = Some (s', [])"
proof -
  have run: "foldM (take_check tags types worker) (sched_checks (wd s)) (s, []) = Some (s', given)"
    using assms(3) by (simp add: get_to_run_checks_of_poller)
  obtain s1 where s1: "foldM (take_check tags types worker) (sched_checks (wd s)) (s, [])
      = Some (s1, [] @ map CheckRef (filter (check_due tags types s) (sched_checks (wd s))))"
    and g: "\<forall>k \<in> set (sched_checks (wd s)). check_due tags types s k \<longrightarrow> check_given worker s1 k"
    and nd: "\<forall>k \<in> set (sched_checks (wd s)). \<not> check_due tags types s1 k"
    and h: "\<forall>j. (checks (wd s1) j \<noteq> None) = (checks (wd s) j \<noteq> None)"
    using poll_checks.loop [OF assms(1), of s tags types worker "[]"] assms(2) by blast
  have e: "s' = s1" "given = map CheckRef (filter (check_due tags types s) (sched_checks (wd s)))"
    using run s1 by simp_all
  have due: "check_due tags types s = (\<lambda>cid. \<exists>c. checks (wd s) cid = Some c \<and> \<not> c_internal c
      \<and> c_poller_tag c \<in> set tags \<and> c_module_type c \<in> set types \<and> c_status c = SCHEDULED
      \<and> c_t_to_go c \<le> now (wd s))"
    by (auto simp: check_due_def poller_takes_def fun_eq_iff split: option.splits)
  have keys: "sched_checks (wd s') = sched_checks (wd s)"
    using foldM_relation [OF run, of "\<lambda>x y. sched_checks (wd (fst y)) = sched_checks (wd (fst x))"]
    by (auto dest: take_check_keys)
  have "checks (wd s') k \<noteq> None \<and> \<not> check_due tags types s' k" if "k \<in> set (sched_checks (wd s))" for k
    using nd h assms(2) that by (auto simp: e(1))
  then have "foldM (take_check tags types worker2) (sched_checks (wd s)) (s', []) = Some (s', [])"
    by (rule poll_checks.idle)
  then have again: "get_to_run_checks True False tags rtags worker2 types s' = Some (s', [])"
    by (simp add: get_to_run_checks_of_poller keys)
  have "\<exists>c. checks (wd s') cid = Some c \<and> c_status c = POLLED \<and> c_my_worker c = worker"
    if "CheckRef cid \<in> set given" for cid
    using that g by (auto simp: e check_given_def split: option.splits)
  then show ?thesis using e(2) again unfolding due by blast
qed

theorem pollers_get_due_checks_once_witness:
  "\<exists>s' given. get_to_run_checks True False [''None''] [] ''poller'' [''fork''] polling_state = Some (s', given)
     \<and> given = [CheckRef 12]
     \<and> get_to_run_checks True False [''None''] [] ''other'' [''fork''] s' = Some (s', [])"
proof -
  have "map_option snd (get_to_run_checks True False [''None''] [] ''poller'' [''fork''] polling_state)
      = Some [CheckRef 12]"
    by code_simp
  then obtain s' where r: "get_to_run_checks True False [''None''] [] ''poller'' [''fork''] polling_state
      = Some (s', [CheckRef 12])" by auto
  have k: "sched_checks (wd polling_state) = [10, 11, 12]"
    by (simp add: polling_state_def sample_state_def sample_sched_def sample_world_def)
  have "checks (wd polling_state) cid \<noteq> None" if "cid \<in> {10, 11, 12}" for cid
    using that by (auto simp: polling_state_def sample_state_def sample_sched_def sample_world_def)
  then show ?thesis
    using pollers_get_due_checks_once [OF _ _ r, of "''other''"] r by (simp add: k)
qed

end
