(* ===== verification/Results.thy ===== *)
theory Results
  imports SchedSamples
begin

text \<open>
  What becomes of the results of the satellites, of finished objects and of dropped checks; the
  end of the loop that resolves dependencies; the ticks of the recurrent works.
\<close>

section \<open>Results\<close>

text \<open>Every key of the dictionaries has its object.\<close>

definition keys_known :: "world \<Rightarrow> bool" where
  "keys_known w \<longleftrightarrow> (\<forall>cid \<in> set (sched_checks w). checks w cid \<noteq> None)
     \<and> (\<forall>a \<in> set (sched_actions w). action_status w a \<noteq> None)"

text \<open>
  C18. The result of a check that is known makes it wait to be consumed. An active result is copied
  into the check; a time-out and a passive result are not: after a time-out the check keeps the
  exit status it had (3 for a new one), whatever \<open>timeout_exit_status\<close> says. No other check
  changes.
\<close>

theorem check_results_copied_unless_timed_out:
  assumes "r_action r = CheckRef cid" and "cid \<in> set (sched_checks (wd s))"
    and "checks (wd s) cid = Some c" and "items (wd s) (c_ref c) = Some it"
  shows "\<exists>s'. manage_results r s = Some s'
    \<and> checks (wd s') = (checks (wd s))(cid \<mapsto>
        (if r_status r = TIMEOUT \<or> r_passive_check r then c
         else c\<lparr>c_exit_status := r_exit_status r, c_output := r_output r, c_long_output := r_long_output r,
                c_check_time := r_check_time r, c_execution_time := r_execution_time r,
                c_perf_data := r_perf_data r, c_u_time := r_u_time r, c_s_time := r_s_time r\<rparr>)
        \<lparr>c_status := WAIT_CONSUME\<rparr>)"
  using assms
  by (simp add: manage_results_def manage_check_result_def known_check_def find_item_by_id_def
      on_world_def upd_check_def get_return_from_def Let_def)

theorem check_results_copied_unless_timed_out_witness:
  "\<exists>s'. manage_results (sample_result 11 TIMEOUT 2) sample_state = Some s'
    \<and> map_option c_exit_status (checks (wd s') 11) = map_option c_exit_status (checks (wd sample_state) 11)"
proof -
  let ?r = "sample_result 11 TIMEOUT 2"
  have a: "r_action ?r = CheckRef 11" "11 \<in> set (sched_checks (wd sample_state))"
    "checks (wd sample_state) 11 = Some (sample_check 1 2)"
    "items (wd sample_state) (c_ref (sample_check 1 2)) = Some sample_service"
    by (simp_all add: sample_result_def sample_state_def sample_sched_def sample_world_def
        sample_check_def new_check_def)
  from check_results_copied_unless_timed_out [OF a] show ?thesis
    by (auto simp: a(3) sample_result_def)
qed

text \<open>
  C19. Managing a result raises in one case only: the result of an event handler that timed out,
  whose identifier is looked up among the checks, and is no check's.
\<close>

theorem results_raise_for_timed_out_event_handlers:
  assumes "keys_known (wd s)"
  shows "manage_results r s = None \<longleftrightarrow>
    (\<exists>eid. r_action r = EventRef eid \<and> EventRef eid \<in> set (sched_actions (wd s))
       \<and> r_status r = TIMEOUT \<and> eid \<notin> set (sched_checks (wd s)))"
proof (cases "r_action r")
  case (CheckRef cid)
  show ?thesis
  proof (cases "known_check (wd s) cid")
    case None
    then show ?thesis using CheckRef by (simp add: manage_results_def manage_check_result_def)
  next
    case (Some c)
    then have "checks (wd s) cid = Some c" by (simp add: known_check_def split: if_splits)
    then show ?thesis using CheckRef Some
      by (simp add: manage_results_def manage_check_result_def on_world_def upd_check_def Let_def)
  qed
next
  case (NotifRef nid)
  show ?thesis
  proof (cases "NotifRef nid \<in> set (sched_actions (wd s))")
    case True
    then obtain n where "notifs (wd s) nid = Some n"
      using assms by (fastforce simp: keys_known_def)
    then show ?thesis using NotifRef True
      by (auto simp: manage_results_def manage_notification_result_def on_world_def upd_notif_def
          upd_item_def find_item_by_id_def Let_def split: option.splits)
  qed (simp add: NotifRef manage_results_def manage_notification_result_def)
next
  case (EventRef eid)
  show ?thesis
  proof (cases "EventRef eid \<in> set (sched_actions (wd s))")
    case True
    then obtain v where v: "events (wd s) eid = Some v"
      using assms by (fastforce simp: keys_known_def)
    let ?w = "(wd s)\<lparr>events := (events (wd s))(eid \<mapsto> v\<lparr>e_status := ZOMBIE\<rparr>)\<rparr>"
    have k: "known_check ?w eid = None \<longleftrightarrow> eid \<notin> set (sched_checks (wd s))"
      using assms by (auto simp: known_check_def keys_known_def)
    show ?thesis
    proof (cases "known_check ?w eid")
      case None
      then show ?thesis using EventRef True v k
        by (auto simp: manage_results_def manage_event_result_def on_world_def upd_event_def
            split: option.splits)
    next
      case (Some c)
      then show ?thesis using EventRef True v k
        by (auto simp: manage_results_def manage_event_result_def on_world_def upd_event_def
            split: option.splits)
    qed
  qed (simp add: EventRef manage_results_def manage_event_result_def)
qed

theorem results_raise_for_timed_out_event_handlers_witness:
  "manage_results ((sample_result 50 TIMEOUT 0)\<lparr>r_action := EventRef 50\<rparr>)
     (sample_state\<lparr>wd := (wd sample_state)\<lparr>events := [50 \<mapsto> new_event 1 ''fix'' 30 ''None'' False 100],
        sched_actions := [EventRef 50]\<rparr>\<rparr>) = None"
proof -
  let ?s = "sample_state\<lparr>wd := (wd sample_state)\<lparr>events := [50 \<mapsto> new_event 1 ''fix'' 30 ''None'' False 100],
        sched_actions := [EventRef 50]\<rparr>\<rparr>"
  have "keys_known (wd ?s)" by (simp add: keys_known_def sample_state_def sample_sched_def sample_world_def)
  from results_raise_for_timed_out_event_handlers [OF this] show ?thesis
    by (simp add: sample_result_def sample_state_def sample_sched_def sample_world_def)
qed

section \<open>Dropped checks\<close>

lemma release_one_frame:
  "release_one cid d w = Some w' \<Longrightarrow> items w' = items w \<and> sched_checks w' = sched_checks w \<and> host_cls w' = host_cls w \<and> service_cls w' = service_cls w"
  by (auto simp: release_one_def upd_check_def split: option.splits if_splits)

text \<open>
  C20. A check that \<open>clean_queues\<close> drops leaves the dictionary of the scheduler, but stays among the
  checks in progress of its item (it is removed by object, the list holds identifiers): the item
  stays in checking, and from then on \<open>schedule\<close> launches nothing for it.
\<close>

theorem dropped_check_blocks_its_item:
  assumes "drop_check cid w = Some w'" and "distinct (sched_checks w)"
    and "checks w cid = Some c" and "items w (c_ref c) = Some it" and "cid \<in> set (checks_in_progress it)"
  shows "cid \<notin> set (sched_checks w')
    \<and> (\<exists>it'. items w' (c_ref c) = Some it' \<and> cid \<in> set (checks_in_progress it') \<and> in_checking it')
    \<and> schedule fuel e r1 r2 (c_ref c) False None w' = Some (w', None)"
proof -
  let ?w1 = "w\<lparr>items := (items w)(c_ref c \<mapsto> update_in_checking it)\<rparr>"
  from assms(1,3) obtain w2 where w2: "foldM (release_one cid) (c_depend_on_me c) ?w1 = Some w2"
    and w': "w' = w2\<lparr>sched_checks := remove1 cid (sched_checks w2)\<rparr>"
    by (auto simp: drop_check_def upd_item_eq [OF assms(4)] split: if_splits bind_splits)
  have f: "items w2 = items ?w1 \<and> sched_checks w2 = sched_checks ?w1"
    by (rule foldM_relation [OF w2]) (auto dest: release_one_frame)
  have it': "items w' (c_ref c) = Some (update_in_checking it)" using f w' by simp
  have in_c: "in_checking (update_in_checking it)" "cid \<in> set (checks_in_progress (update_in_checking it))"
    using assms(5) by (auto simp: update_in_checking_def)
  have "schedule fuel e r1 r2 (c_ref c) False None w' = Some (w', None)"
    by (simp add: schedule_def it' in_c Let_def)
  moreover have "cid \<notin> set (sched_checks w')" using f w' assms(2) by simp
  ultimately show ?thesis using it' in_c by blast
qed

theorem dropped_check_blocks_its_item_witness:
  "\<exists>w'. drop_check 11 (sample_world sample_host (sample_service\<lparr>checks_in_progress := [11]\<rparr>) 0 2) = Some w'
     \<and> schedule 5 sample_env 0 0 1 False None w' = Some (w', None)"
proof -
  let ?it = "sample_service\<lparr>checks_in_progress := [11]\<rparr>"
  let ?w = "sample_world sample_host ?it 0 2"
  have r: "c_ref (sample_check 1 2) = 1" "c_depend_on_me (sample_check 1 2) = []"
    "c_depend_on (sample_check 1 2) = []"
    by (simp_all add: sample_check_def new_check_def)
  have c: "checks ?w 11 = Some (sample_check 1 2)" "items ?w 1 = Some ?it" by (simp_all add: sample_world_def)
  then obtain w' where d: "drop_check 11 ?w = Some w'" by (simp add: drop_check_def upd_item_def r del: One_nat_def)
  have "distinct (sched_checks ?w)" by (simp add: sample_world_def)
  from dropped_check_blocks_its_item [OF d this c(1), of ?it 5 sample_env 0 0] d show ?thesis
    by (simp add: c r del: One_nat_def)
qed

section \<open>Zombies\<close>

text \<open>
  C13. The clean-up of the dictionaries removes the zombies and nothing else: in the same order, all
  the other checks and actions stay, with their objects.
\<close>

theorem only_zombies_are_deleted:
  assumes "keys_known (wd s)"
  shows "\<exists>s'. Option.bind (delete_zombie_checks s) delete_zombie_actions = Some s'
    \<and> sched_checks (wd s') = filter (\<lambda>cid. map_option c_status (checks (wd s) cid) \<noteq> Some ZOMBIE)
         (sched_checks (wd s))
    \<and> sched_actions (wd s') = filter (\<lambda>a. action_status (wd s) a \<noteq> Some ZOMBIE) (sched_actions (wd s))
    \<and> keys_known (wd s')
    \<and> s' = s\<lparr>wd := (wd s)\<lparr>sched_checks := sched_checks (wd s'), sched_actions := sched_actions (wd s')\<rparr>\<rparr>"
proof -
  let ?cs = "filter (\<lambda>cid. map_option c_status (checks (wd s) cid) \<noteq> Some ZOMBIE) (sched_checks (wd s))"
  let ?s1 = "s\<lparr>wd := (wd s)\<lparr>sched_checks := ?cs\<rparr>\<rparr>"
  have "(\<lambda>cid. case checks (wd s) cid of None \<Rightarrow> True | Some c \<Rightarrow> c_status c \<noteq> ZOMBIE)
      = (\<lambda>cid. map_option c_status (checks (wd s) cid) \<noteq> Some ZOMBIE)"
    by (auto simp: fun_eq_iff split: option.splits)
  then have d: "delete_zombie_checks s = Some ?s1"
    using assms by (simp add: delete_zombie_checks_def keys_known_def)
  have st: "action_status (wd ?s1) a = action_status (wd s) a" for a by (cases a) simp_all
  have "delete_zombie_actions ?s1 = Some (?s1\<lparr>wd := (wd ?s1)\<lparr>sched_actions :=
      filter (\<lambda>a. action_status (wd s) a \<noteq> Some ZOMBIE) (sched_actions (wd s))\<rparr>\<rparr>)"
    using assms unfolding delete_zombie_actions_def st by (auto simp: keys_known_def)
  moreover have "action_status (w\<lparr>sched_checks := x, sched_actions := y\<rparr>) a = action_status w a" for w x y a
    by (cases a) simp_all
  ultimately show ?thesis using assms d by (auto simp: keys_known_def)
qed

theorem only_zombies_are_deleted_witness:
  "\<exists>s'. Option.bind (delete_zombie_checks sample_state) delete_zombie_actions = Some s'
    \<and> sched_checks (wd s') = [10, 11]"
proof -
  have "keys_known (wd sample_state)"
    by (simp add: keys_known_def sample_state_def sample_sched_def sample_world_def)
  from only_zombies_are_deleted [OF this] show ?thesis
    by (auto simp: sample_state_def sample_sched_def sample_world_def sample_check_def)
qed

section \<open>The loop of \<open>consume_results\<close>\<close>

text \<open>\<open>turns p s n s'\<close>: after \<open>n\<close> turns that resolve a dependency and one that resolves none.\<close>

inductive turns :: "params \<Rightarrow> sched \<Rightarrow> nat \<Rightarrow> sched \<Rightarrow> bool" for p where
  last: "resolve_turn p s = Some (s', False) \<Longrightarrow> turns p s 0 s'"
| more: "resolve_turn p s = Some (s1, True) \<Longrightarrow> turns p s1 n s' \<Longrightarrow> turns p s (Suc n) s'"

inductive_cases turnsE: "turns p s n s'"

lemma resolve_loop_turns:
  "resolve_loop p s = Some s' \<Longrightarrow> \<exists>n \<le> unresolved (wd s). turns p s n s'"
proof (induction p s rule: resolve_loop.induct)
  case (1 p s)
  from 1(2) obtain s1 again where t: "resolve_turn p s = Some (s1, again)"
    and r: "if again then resolve_loop p s1 = Some s' else s1 = s'"
    by (subst (asm) resolve_loop.simps) (auto split: option.splits if_splits)
  show ?case
  proof (cases again)
    case True
    with 1(1) [OF t refl True] r obtain n where n: "n \<le> unresolved (wd s1)" "turns p s1 n s'" by auto
    have "Suc n \<le> unresolved (wd s)" using n(1) resolve_turn_lighter [OF t] True by simp
    moreover have "turns p s (Suc n) s'" using t True by (auto intro: turns.more [OF _ n(2)])
    ultimately show ?thesis by blast
  next
    case False
    then have "turns p s 0 s'" using t r turns.last by auto
    then show ?thesis by blast
  qed
qed

lemma turns_resolve_loop: "turns p s n s' \<Longrightarrow> resolve_loop p s = Some s'"
  by (induction rule: turns.induct) (simp_all add: resolve_loop.simps)

text \<open>
  C12. The loop of \<open>consume_results\<close> that resolves dependencies ends, whatever the checks: it returns
  \<open>s'\<close> exactly when some number of resolving turns and a last one lead to \<open>s'\<close>, and that number is at
  most the weight of the unresolved checks, 2 for each that waits for others and 1 for each that
  others wait for. It does not return only when a turn raises.
\<close>

theorem dependency_loop_ends:
  "(resolve_loop p s = Some s' \<longleftrightarrow> (\<exists>n \<le> unresolved (wd s). turns p s n s'))
   \<and> unresolved (wd s) \<le> 2 * length (sched_checks (wd s))"
proof
  show "resolve_loop p s = Some s' \<longleftrightarrow> (\<exists>n \<le> unresolved (wd s). turns p s n s')"
    using resolve_loop_turns turns_resolve_loop by blast
  have "weight_of (wd s) cid \<le> 2" for cid
  proof -
    have "weight st \<le> 2" for st by (cases st) simp_all
    then show ?thesis by (simp add: weight_of_def split: option.splits)
  qed
  note w = this
  have "sum_list (map (weight_of (wd s)) xs) \<le> 2 * length xs" for xs
  proof (induction xs)
    case (Cons x xs)
    then show ?case using add_mono [OF w [of x] Cons] by simp
  qed simp
  then show "unresolved (wd s) \<le> 2 * length (sched_checks (wd s))" by (simp add: unresolved_def)
qed

section \<open>Ticks\<close>

text \<open>
  C27. Changing the ticks of the recurrent works raises exactly when the configured value of one of
  them is no number, although a handler for the \<open>ValueError\<close> follows; else the works keep their order
  and every tick is the configured one, or the old one where there is none.
\<close>

theorem ticks_are_numbers_or_raise:
  "update_recurrent_works_tick conf works =
     (if \<exists>k t. k \<in> fst ` set works \<and> conf (''tick_'' @ work_name k) = Some t \<and> py_int t = None then None
      else Some (map (\<lambda>(k, tick). (k, case conf (''tick_'' @ work_name k) of
             None \<Rightarrow> tick | Some t \<Rightarrow> the (py_int t))) works))"
proof (induction works)
  case (Cons kt works)
  obtain k tick where kt: "kt = (k, tick)" by (cases kt)
  show ?case
  proof (cases "conf (''tick_'' @ work_name k)")
    case None
    then show ?thesis unfolding kt by (auto simp: Cons.IH)
  next
    case (Some t)
    then show ?thesis unfolding kt by (cases "py_int t") (auto simp: Cons.IH)
  qed
qed simp

end
