(* ===== verification/Policies.thy ===== *)
theory Policies
  imports Attempts
begin

text \<open>
  Who is notified of what: the notifications that are blocked, the contacts that are asked, the
  acknowledgements that expire.
\<close>

section \<open>Blocked problems\<close>

lemma blocked_problem:
  assumes "is_blocking_notifications e w period PROBLEM t it = Some b"
    and "state_type it = SOFT \<or> problem_has_been_acknowledged it \<or> scheduled_downtime_depth it > 0
      \<or> is_flapping it \<or> \<not> notifications_enabled it \<or> \<not> period_valid e period t"
  shows b
  using assms
  by (auto simp: is_blocking_notifications_def host_is_blocking_notifications_def
      service_is_blocking_notifications_def split: if_splits bind_splits option.splits)

lemma after_scatter_actions:
  assumes "after_scatter p u nid b s = Some s'"
  shows "sched_actions (wd s') = sched_actions (wd s)"
  using assms
  by (auto simp: after_scatter_def on_world_def upd_item_def upd_notif_def remove_in_progress_notification_def
      split: option.splits if_splits bind_splits)

text \<open>
  C7. A problem is notified only when it is confirmed and nobody has taken care of it: while the item
  is in a soft state, acknowledged, in a downtime, flapping, with its notifications disabled or out
  of its notification period, scattering a master notification of its problem adds no notification
  to the actions of the scheduler.
\<close>

theorem no_notification_of_unconfirmed_problems:
  assumes "scatter_master p nid s = Some s'" and "notifs (wd s) nid = Some n" and "n_ntype n = PROBLEM"
    and "items (wd s) (n_ref n) = Some it"
    and "state_type it = SOFT \<or> problem_has_been_acknowledged it \<or> scheduled_downtime_depth it > 0
      \<or> is_flapping it \<or> \<not> notifications_enabled it
      \<or> \<not> period_valid (pe p) (notification_period it) (now (wd s))"
  shows "sched_actions (wd s') = sched_actions (wd s)"
proof -
  obtain b where b: "is_blocking_notifications (pe p) (wd s) (notification_period it) PROBLEM (now (wd s)) it
      = Some b"
    using assms(1) by (auto simp: scatter_master_def assms(2-4) find_item_by_id_def split: option.splits)
  then have b by (rule blocked_problem) (rule assms(5))
  then have "after_scatter p (n_ref n) nid False s = Some s'"
    using assms(1) b by (simp add: scatter_master_def assms(2-4) find_item_by_id_def)
  then show ?thesis by (rule after_scatter_actions)
qed

definition master_of :: "item \<Rightarrow> sched" where
  "master_of srv = sample_sched ((sample_world sample_host srv 0 2)
     \<lparr>notifs := [60 \<mapsto> (new_notification 1 PROBLEM 90)\<lparr>n_t_to_go := Some 90\<rparr>], sched_actions := [NotifRef 60]\<rparr>)"

theorem no_notification_of_unconfirmed_problems_witness:
  "\<exists>s'. scatter_master sample_params 60 (master_of (sample_service\<lparr>problem_has_been_acknowledged := True\<rparr>)) = Some s'
     \<and> sched_actions (wd s') = [NotifRef 60]"
proof -
  let ?it = "sample_service\<lparr>problem_has_been_acknowledged := True\<rparr>"
  let ?n = "(new_notification 1 PROBLEM 90)\<lparr>n_t_to_go := Some 90\<rparr>"
  have "scatter_master sample_params 60 (master_of ?it) \<noteq> None" by code_simp
  then obtain s' where s': "scatter_master sample_params 60 (master_of ?it) = Some s'" by auto
  have n: "notifs (wd (master_of ?it)) 60 = Some ?n" "n_ntype ?n = PROBLEM"
    "items (wd (master_of ?it)) (n_ref ?n) = Some ?it" "sched_actions (wd (master_of ?it)) = [NotifRef 60]"
    by (simp_all add: master_of_def sample_sched_def sample_world_def new_notification_def)
  from no_notification_of_unconfirmed_problems [OF s' n(1-3)] s' n(4) show ?thesis by simp
qed

section \<open>Hosts and services\<close>

text \<open>
  C25. Hosts and services disagree on downtime notifications of acknowledged problems: for a host the
  acknowledgement makes no difference to them, for a service they are always blocked.
\<close>

theorem acknowledged_services_hide_downtimes:
  assumes "nt = DOWNTIMESTART \<or> nt = DOWNTIMEEND \<or> nt = DOWNTIMECANCELLED"
  shows "host_is_blocking_notifications e w period nt t (it\<lparr>problem_has_been_acknowledged := True\<rparr>)
      = host_is_blocking_notifications e w period nt t (it\<lparr>problem_has_been_acknowledged := False\<rparr>)
    \<and> service_is_blocking_notifications e w period nt t (it\<lparr>problem_has_been_acknowledged := True\<rparr>)
      \<noteq> Some False"
proof
  have b: "business_rule_blocks w nt (it\<lparr>problem_has_been_acknowledged := b\<rparr>) = business_rule_blocks w nt it" for b
    by (simp add: business_rule_blocks_def business_rule_notification_is_blocked_def)
  show "host_is_blocking_notifications e w period nt t (it\<lparr>problem_has_been_acknowledged := True\<rparr>)
      = host_is_blocking_notifications e w period nt t (it\<lparr>problem_has_been_acknowledged := False\<rparr>)"
    using assms unfolding host_is_blocking_notifications_def b by (auto simp: ok_up_def)
  show "service_is_blocking_notifications e w period nt t (it\<lparr>problem_has_been_acknowledged := True\<rparr>)
      \<noteq> Some False"
    using assms unfolding service_is_blocking_notifications_def
    by (auto split: option.splits bind_splits)
qed

theorem acknowledged_services_hide_downtimes_witness:
  "service_is_blocking_notifications sample_env (sample_world sample_host sample_service 0 2) None DOWNTIMEEND
     100 (sample_service\<lparr>problem_has_been_acknowledged := True\<rparr>) \<noteq> Some False"
  using acknowledged_services_hide_downtimes [of DOWNTIMEEND sample_env] by blast

section \<open>Contacts in downtime\<close>

text \<open>
  C23. A contact with a downtime: a service notification is blocked while one of its downtimes is in
  effect; deciding on a host notification raises as soon as the contact has any downtime, in effect
  or not, unless the contact's host notifications are disabled, which block it.
\<close>

theorem host_notifications_raise_for_contacts_with_downtimes:
  assumes "dget (k_downtimes k) did = Some d"
  shows "(my_type it = Host \<longrightarrow> notification_is_blocked_by_contact e it n k =
        (if k_host_notifications_enabled k then None else Some (k, True)))
    \<and> (my_type it = Service \<and> cd_is_in_effect d \<longrightarrow>
        map_option snd (notification_is_blocked_by_contact e it n k) = Some True)"
proof -
  have d: "(did, d) \<in> set (k_downtimes k)"
    using assms by (auto simp: dget_def dest: map_of_SomeD)
  then have "k_downtimes k \<noteq> []" "d \<in> set (map snd (k_downtimes k))" by force+
  then show ?thesis
    by (auto simp: notification_is_blocked_by_contact_def want_host_notification_def
        want_service_notification_def)
qed

definition sample_contact :: contact where
  "sample_contact = \<lparr>contact_name = ''admin'', notificationways = [], k_host_notifications_enabled = True,
     k_service_notifications_enabled = True,
     k_downtimes = [(70, \<lparr>cd_ref = 40, cd_start_time = 500, cd_end_time = 600, cd_is_in_effect = False,
       cd_can_be_deleted = False\<rparr>)],
     k_customs = [], k_modified_attributes = 0, k_modified_host_attributes = 0,
     k_modified_service_attributes = 0, k_host_notification_period = None,
     k_service_notification_period = None,
     k_in_scheduled_downtime = False, k_broks = []\<rparr>"

theorem host_notifications_raise_for_contacts_with_downtimes_witness:
  "notification_is_blocked_by_contact sample_env sample_host (new_notification 0 PROBLEM 90) sample_contact = None"
proof -
  have "dget (k_downtimes sample_contact) 70 = Some \<lparr>cd_ref = 40, cd_start_time = 500, cd_end_time = 600,
      cd_is_in_effect = False, cd_can_be_deleted = False\<rparr>"
    by (simp add: sample_contact_def)
  from host_notifications_raise_for_contacts_with_downtimes [OF this, of sample_host sample_env] show ?thesis
    by (simp add: sample_host_def sample_item_def sample_contact_def)
qed

section \<open>Escalations\<close>

text \<open>
  C24. An escalation is never eligible in state \<open>UNKNOWN\<close>, whatever its configured options: its
  constructor replaces every \<open>u\<close> by \<open>x\<close>, and the state is looked up as \<open>u\<close>. For the same reason a
  time based one never asks for an earlier notification of an unreachable item, although it is
  eligible then with the option \<open>u\<close>.
\<close>

theorem escalations_ignore_unknown:
  assumes "es_options es = escalation_options_of opts"
  shows "\<not> is_eligible e t UNKNOWN nb d interval es
    \<and> get_next_notif_time e t UNREACHABLE created interval es = None
    \<and> (''u'' \<in> set opts \<longrightarrow> ''x'' \<in> set (es_options es))"
proof -
  have "CHR ''u'' \<notin> set x" if "x \<in> set (escalation_options_of opts)" for x
    using that by (auto simp: escalation_options_of_def split: if_splits)
  then have "''u'' \<notin> set (es_options es)" using assms by fastforce
  moreover have "''u'' \<in> set opts \<longrightarrow> ''x'' \<in> set (es_options es)"
    unfolding assms escalation_options_of_def by (force simp: image_iff)
  ultimately show ?thesis by (simp add: is_eligible_def get_next_notif_time_def next_short_state_def)
qed

definition sample_escalation :: escalation where
  "sample_escalation = \<lparr>es_name = ''late'', es_time_based = False, es_first_notification = 1,
     es_last_notification = 0, es_first_notification_time = 0, es_last_notification_time = 0,
     es_notification_interval = 30, es_period = None, es_options = escalation_options_of [''u'', ''c''],
     es_contacts = [40]\<rparr>"

theorem escalations_ignore_unknown_witness:
  "\<not> is_eligible sample_env 100 UNKNOWN 2 10 60 sample_escalation
   \<and> is_eligible sample_env 100 CRITICAL 2 10 60 sample_escalation"
proof -
  have o: "es_options sample_escalation = escalation_options_of [''u'', ''c'']"
    by (simp add: sample_escalation_def)
  have "is_eligible sample_env 100 CRITICAL 2 10 60 sample_escalation" by code_simp
  then show ?thesis using escalations_ignore_unknown [OF o, of sample_env 100 2 10 60] by blast
qed

section \<open>The children of a notification\<close>

definition child_of :: "uuid \<Rightarrow> notification \<Rightarrow> uuid set \<Rightarrow> notification \<Rightarrow> bool" where
  "child_of u n ks n' \<longleftrightarrow> n_ref n' = u \<and> n_ntype n' = n_ntype n \<and> n_notif_nb n' = n_notif_nb n
     \<and> (\<exists>ku \<in> ks. n_contact n' = Some ku)"

definition children_ok :: "uuid \<Rightarrow> notification \<Rightarrow> uuid set \<Rightarrow> world \<times> uuid list \<Rightarrow> bool" where
  "children_ok u n ks s \<longleftrightarrow> distinct (snd s)
     \<and> (\<forall>c \<in> set (snd s). c < next_uuid (fst s) \<and> (\<exists>n'. notifs (fst s) c = Some n' \<and> child_of u n ks n'))"

lemma update_notification_command_child:
  "update_notification_command e w it k n0 = Some n1 \<Longrightarrow> child_of u n ks n0 \<Longrightarrow> child_of u n ks n1"
  by (auto simp: update_notification_command_def child_of_def Let_def split: option.splits if_splits)

lemma scatter_command_children:
  assumes "ku \<in> ks" and ok: "children_ok u n ks s"
  shows "post (children_ok u n ks) (scatter_command e u n h names esc ku cmd s)"
proof (rule postI)
  fix x
  assume run: "scatter_command e u n h names esc ku cmd s = Some x"
  obtain w cs where s: "s = (w, cs)" by (cases s)
  from run obtain it k where it: "items w u = Some it" and k: "contact_store w ku = Some k"
    by (auto simp: scatter_command_def s split: option.splits)
  define child where "child = new_child (cls_of w it) u n ku k names esc cmd (now w)"
  have c: "child_of u n ks child"
    using assms(1) by (simp add: child_def child_of_def new_child_def new_notification_def)
  from run obtain k1 blocked where b: "notification_is_blocked_by_contact e it child k = Some (k1, blocked)"
    by (auto simp: scatter_command_def s it k child_def Let_def split: option.splits)
  let ?w1 = "w\<lparr>contact_store := (contact_store w)(ku \<mapsto> k1), next_uuid := next_uuid w + 1\<rparr>"
  show "children_ok u n ks x"
  proof (cases blocked)
    case True
    then have "x = (?w1, cs)"
      using run b by (simp add: scatter_command_def s it k child_def Let_def)
    then show ?thesis using ok by (auto simp: children_ok_def s)
  next
    case False
    from run b False obtain child1 it1 where c1: "update_notification_command e ?w1 it k1 child = Some child1"
      and x: "notifs (fst x) = (notifs w)(next_uuid w \<mapsto> child1)" "snd x = cs @ [next_uuid w]"
        "next_uuid (fst x) = next_uuid w + 1"
      by (auto simp: scatter_command_def s it k child_def Let_def split: option.splits)
    have "child_of u n ks child1" by (rule update_notification_command_child [OF c1 c])
    then show ?thesis using ok by (auto simp: children_ok_def s x)
  qed
qed

lemma scatter_contact_children:
  assumes "ku \<in> ks" and "children_ok u n ks s"
  shows "post (children_ok u n ks) (scatter_contact e u n h names esc ku s)"
  unfolding scatter_contact_def
  using assms by (auto split: option.splits intro!: post_foldM scatter_command_children)

lemma eligible_escalations_known:
  "eligible_escalations e w it n us = Some ess \<Longrightarrow> es \<in> set ess \<Longrightarrow>
     \<exists>eu \<in> set us. escalation_store e eu = Some es"
  by (induction us arbitrary: ess) (auto split: option.splits if_splits)

lemma notification_contacts_are:
  assumes "notification_contacts e u nid w = Some (w1, ks, esc)"
    and "items w u = Some it" and "notifs w nid = Some n"
  shows "(n_ntype n = RECOVERY \<longrightarrow> set ks \<subseteq> set (notified_contacts_ids it))
    \<and> (n_ntype n \<noteq> RECOVERY \<longrightarrow> (\<forall>ku \<in> set ks. ku \<in> set (contacts_of it)
         \<or> (\<exists>eu \<in> set (escalations it). \<exists>es. escalation_store e eu = Some es \<and> ku \<in> set (es_contacts es))))
    \<and> (\<exists>n1. notifs w1 nid = Some n1 \<and> n_ntype n1 = n_ntype n \<and> n_notif_nb n1 = n_notif_nb n)"
  using assms
  by (auto simp: notification_contacts_def get_escalable_contacts_def split: option.splits if_splits)
    (blast dest: eligible_escalations_known)+

text \<open>
  C6. Scattering makes new notifications only (no identifier twice), for the same item, of the same type
  and number as the master, each for one contact: of a recovery, a contact that was notified of the
  problem; else a contact of the item or of one of its escalations.
\<close>

theorem children_go_to_the_right_contacts:
  assumes "scatter_notification e u nid h w = Some (w', children)"
    and "items w u = Some it" and "notifs w nid = Some n"
  shows "distinct children \<and> (\<forall>c \<in> set children. \<exists>n' ku. notifs w' c = Some n'
     \<and> n_ref n' = u \<and> n_ntype n' = n_ntype n \<and> n_notif_nb n' = n_notif_nb n \<and> n_contact n' = Some ku
     \<and> (if n_ntype n = RECOVERY then ku \<in> set (notified_contacts_ids it)
        else ku \<in> set (contacts_of it) \<or> (\<exists>eu \<in> set (escalations it). \<exists>es.
               escalation_store e eu = Some es \<and> ku \<in> set (es_contacts es))))"
proof (cases "n_contact n = None")
  case False
  then show ?thesis using assms(1,3) by (simp add: scatter_notification_def)
next
  case True
  then obtain w1 ks esc where nc: "notification_contacts e u nid w = Some (w1, ks, esc)"
    and rest: "(case (items w1 u, notifs w1 nid) of
        (Some it, Some n) \<Rightarrow>
          let rs = recipients_of (n_ntype n) it ks
          in if \<exists>ku \<in> set rs. contact_store w1 ku = None then None
             else foldM (scatter_contact e u n h
                           (set (map (\<lambda>ku. contact_name (the (contact_store w1 ku))) rs)) esc) rs (w1, [])
      | _ \<Rightarrow> None) = Some (w', children)"
    using assms(1,3) by (auto simp: scatter_notification_def Option.bind_eq_Some_conv)
  from rest obtain it1 n1 where n1: "notifs w1 nid = Some n1" and it1: "items w1 u = Some it1"
    by (cases "items w1 u"; cases "notifs w1 nid") auto
  define rs where "rs = recipients_of (n_ntype n1) it1 ks"
  define names where "names = set (map (\<lambda>ku. contact_name (the (contact_store w1 ku))) rs)"
  have rs: "set rs \<subseteq> set ks" by (auto simp: rs_def recipients_of_def)
  have run: "foldM (scatter_contact e u n1 h names esc) rs (w1, []) = Some (w', children)"
    using rest by (simp add: n1 it1 Let_def rs_def names_def split: if_splits)
  note f = notification_contacts_are [OF nc assms(2,3)]
  have "post (children_ok u n1 (set rs)) (foldM (scatter_contact e u n1 h names esc) rs (w1, []))"
    by (rule post_foldM) (auto simp: children_ok_def [of _ _ _ "(w1, [])"] intro: scatter_contact_children)
  then have ok: "children_ok u n1 (set rs) (w', children)" using run by simp
  have t: "n_ntype n1 = n_ntype n" "n_notif_nb n1 = n_notif_nb n" using f n1 by auto
  show ?thesis
  proof (intro conjI ballI)
    show "distinct children" using ok by (simp add: children_ok_def)
    fix c
    assume "c \<in> set children"
    then obtain n' where c: "notifs w' c = Some n'" "child_of u n1 (set rs) n'"
      using ok by (auto simp: children_ok_def)
    then obtain ku where n': "notifs w' c = Some n'" "n_ref n' = u" "n_ntype n' = n_ntype n"
        "n_notif_nb n' = n_notif_nb n" "n_contact n' = Some ku" "ku \<in> set ks"
      using rs t unfolding child_of_def by auto
    show "\<exists>n' ku. notifs w' c = Some n' \<and> n_ref n' = u \<and> n_ntype n' = n_ntype n
       \<and> n_notif_nb n' = n_notif_nb n \<and> n_contact n' = Some ku
       \<and> (if n_ntype n = RECOVERY then ku \<in> set (notified_contacts_ids it)
          else ku \<in> set (contacts_of it) \<or> (\<exists>eu \<in> set (escalations it). \<exists>es.
                 escalation_store e eu = Some es \<and> ku \<in> set (es_contacts es)))"
      using n' f by (intro exI [of _ n'] exI [of _ ku]) auto
  qed
qed

definition admin_way :: notification_way where
  "admin_way = \<lparr>nw_host_notification_commands = [], nw_service_notification_commands =
       [\<lparr>cc_uuid = 5, cc_name = ''mail'', cc_args = [], cc_poller_tag = ''None'',
         cc_reactionner_tag = ''None'', cc_module_type = ''fork'', cc_timeout = -1,
         cc_environment_macros = False\<rparr>],
     nw_host_notification_options = [], nw_service_notification_options = [''c''],
     nw_host_notification_period = Some 1, nw_service_notification_period = Some 1,
     nw_min_business_impact = 0\<rparr>"

definition contact_env :: env where
  "contact_env = sample_env\<lparr>notifways := [80 \<mapsto> admin_way]\<rparr>"

definition notified_world :: world where
  "notified_world = (sample_world sample_host (sample_service\<lparr>state := CRITICAL, contacts_of := [40]\<rparr>) 0 2)
     \<lparr>notifs := [60 \<mapsto> (new_notification 1 PROBLEM 90)\<lparr>n_t_to_go := Some 90\<rparr>],
      contact_store := [40 \<mapsto> sample_contact\<lparr>notificationways := [80]\<rparr>]\<rparr>"

theorem children_go_to_the_right_contacts_witness:
  "\<exists>w' n'. scatter_notification contact_env 1 60 (Some sample_host) notified_world = Some (w', [100])
     \<and> notifs w' 100 = Some n' \<and> n_contact n' = Some 40 \<and> n_ntype n' = PROBLEM"
proof -
  let ?it = "sample_service\<lparr>state := CRITICAL, contacts_of := [40]\<rparr>"
  let ?n = "(new_notification 1 PROBLEM 90)\<lparr>n_t_to_go := Some 90\<rparr>"
  have "map_option snd (scatter_notification contact_env 1 60 (Some sample_host) notified_world) = Some [100]"
    by code_simp
  then obtain w' where r: "scatter_notification contact_env 1 60 (Some sample_host) notified_world
      = Some (w', [100])" by auto
  have i: "items notified_world 1 = Some ?it" "notifs notified_world 60 = Some ?n"
    by (simp_all add: notified_world_def sample_world_def)
  from children_go_to_the_right_contacts [OF r i] r show ?thesis
    by (auto simp: new_notification_def sample_service_def sample_item_def)
qed

section \<open>Acknowledgements\<close>

definition expired :: "int \<Rightarrow> item \<Rightarrow> bool" where
  "expired t it \<longleftrightarrow> problem_has_been_acknowledged it
     \<and> (\<exists>a. acknowledgement it = Some a \<and> a_end_time a \<noteq> 0 \<and> a_end_time a < t)"

lemma ack_log_fields:
  "problem_has_been_acknowledged (raise_unacknowledge_log_entry cl x) = problem_has_been_acknowledged x"
  "problem_has_been_acknowledged (raise_acknowledge_log_entry cl x) = problem_has_been_acknowledged x"
  "acknowledgement (raise_acknowledge_log_entry cl x) = acknowledgement x"
proof -
  have f: "problem_has_been_acknowledged y = problem_has_been_acknowledged x \<and> acknowledgement y = acknowledgement x"
    if "only_broks x y" for y using that by (auto simp: only_broks_def)
  show "problem_has_been_acknowledged (raise_unacknowledge_log_entry cl x) = problem_has_been_acknowledged x"
    "problem_has_been_acknowledged (raise_acknowledge_log_entry cl x) = problem_has_been_acknowledged x"
    "acknowledgement (raise_acknowledge_log_entry cl x) = acknowledgement x"
    using f [of "raise_unacknowledge_log_entry cl x"] f [of "raise_acknowledge_log_entry cl x"] by simp_all
qed

lemma del_comment_keeps_ack [simp]:
  "problem_has_been_acknowledged (del_comment c x) = problem_has_been_acknowledged x"
  "acknowledgement (del_comment c x) = acknowledgement x"
  by (simp_all add: del_comment_def split: option.splits)

lemma expire_one:
  assumes "check_for_expire_acknowledge u w = Some w'"
  shows "now w' = now w \<and> (\<forall>v. v \<noteq> u \<longrightarrow> items w' v = items w v)
    \<and> (\<forall>it'. items w' u = Some it' \<longrightarrow> \<not> expired (now w) it')"
  using assms
  by (auto simp: check_for_expire_acknowledge_def unacknowledge_problem_def expired_def unacknowledge_def
      add_brok_def ack_log_fields split: option.splits if_splits)

text \<open>
  C21. After the recurrent work that expires acknowledgements, no host or service is acknowledged by an
  acknowledgement whose end time is set and past.
\<close>

theorem acknowledgements_expire:
  assumes "check_for_expire_acknowledges s = Some s'" and "u \<in> set (all_my_hosts_and_services s)"
    and "items (wd s') u = Some it" and "problem_has_been_acknowledged it" and "acknowledgement it = Some a"
  shows "a_end_time a = 0 \<or> a_end_time a \<ge> now (wd s)"
proof -
  have "\<not> expired (now (wd s)) it"
    if "foldM (\<lambda>u. on_world (check_for_expire_acknowledge u)) us s0 = Some s'" "now (wd s0) = now (wd s)"
      "u \<in> set us \<or> (\<forall>it. items (wd s0) u = Some it \<longrightarrow> \<not> expired (now (wd s)) it)" for us s0
    using that
  proof (induction us arbitrary: s0)
    case (Cons x xs)
    from Cons.prems(1) obtain s1 where s1: "on_world (check_for_expire_acknowledge x) s0 = Some s1"
      and r: "foldM (\<lambda>u. on_world (check_for_expire_acknowledge u)) xs s1 = Some s'"
      by (auto split: option.splits)
    from s1 obtain w1 where w1: "check_for_expire_acknowledge x (wd s0) = Some w1"
      and s1': "s1 = s0\<lparr>wd := w1\<rparr>"
      by (auto simp: on_world_def)
    note rest = r [unfolded s1']
    note e = expire_one [OF w1]
    have n: "now (wd (s0\<lparr>wd := w1\<rparr>)) = now (wd s)" using e Cons.prems(2) by simp
    have "u \<in> set xs \<or> (\<forall>it. items w1 u = Some it \<longrightarrow> \<not> expired (now (wd s)) it)"
    proof (cases "u = x")
      case True
      then show ?thesis using e Cons.prems(2) by simp
    next
      case False
      then have "items w1 u = items (wd s0) u" using e by blast
      then show ?thesis using Cons.prems(3) False by simp
    qed
    then show ?case using Cons.IH [OF rest n] by simp
  qed (use assms(3) in auto)
  from this [of "all_my_hosts_and_services s" s] assms(1,2) have "\<not> expired (now (wd s)) it"
    by (simp add: check_for_expire_acknowledges_def)
  then show ?thesis using assms(4,5) by (auto simp: expired_def)
qed

definition acked_service :: item where
  "acked_service = sample_service\<lparr>problem_has_been_acknowledged := True,
     acknowledgement := Some \<lparr>a_sticky = True, a_notify = False, a_end_time = 150, a_author = ''me'',
       a_comment = [], a_comment_id = None\<rparr>\<rparr>"

theorem acknowledgements_expire_witness:
  "\<exists>s' it. check_for_expire_acknowledges (sample_sched (sample_world sample_host acked_service 0 2)) = Some s'
     \<and> items (wd s') 1 = Some it \<and> problem_has_been_acknowledged it
     \<and> (\<forall>a. acknowledgement it = Some a \<longrightarrow> a_end_time a = 0 \<or> a_end_time a \<ge> 100)"
proof -
  let ?s = "sample_sched (sample_world sample_host acked_service 0 2)"
  have "map_option (\<lambda>s. map_option problem_has_been_acknowledged (items (wd s) 1))
      (check_for_expire_acknowledges ?s) = Some (Some True)"
    by code_simp
  then obtain s' it where r: "check_for_expire_acknowledges ?s = Some s'"
    and it: "items (wd s') 1 = Some it" "problem_has_been_acknowledged it" by auto
  have "1 \<in> set (all_my_hosts_and_services ?s)" "now (wd ?s) = 100"
    by (simp_all add: all_my_hosts_and_services_def sample_sched_def sample_world_def)
  with acknowledgements_expire [OF r _ it] r it show ?thesis by metis
qed





end
