(* ===== verification/CmdLine.thy ===== *)
theory CmdLine
  imports Types
begin

text \<open>
  The text of external commands and of the results of passive checks: the helpers of
  \<open>alignak/util.py\<close> they are read with (\<open>split_semicolon\<close>, \<open>to_int\<close>, \<open>to_bool\<close>), the outputs of a
  plug-in (\<open>Action.get_outputs\<close>), the lines of passive results for unknown hosts and services.
\<close>

section \<open>Splitting on semicolons\<close>

text \<open>
  The loop of \<open>split_semicolon\<close> over the parts between semicolons; \<open>i\<close> is the index of the first
  one in the whole list. A part that ends with a backslash loses it and takes the next part;
  so does, as it is, the part number \<open>maxsplit\<close>. (A given \<open>maxsplit\<close> is never negative here.)
\<close>

fun join_parts :: "nat \<Rightarrow> nat \<Rightarrow> string list \<Rightarrow> string list" where
  "join_parts maxsplit i (p # q # ps) =
     (let ends = endswith p [CHR 0x5C]; p1 = (if ends then butlast p else p)
      in if ends \<or> i \<ge> maxsplit then join_parts maxsplit i ((p1 @ '';'' @ q) # ps)
         else p1 # join_parts maxsplit (i + 1) (q # ps))"
| "join_parts maxsplit i ps = ps"

definition split_semicolon :: "string \<Rightarrow> nat option \<Rightarrow> string list" where
  "split_semicolon line maxsplit =
     (let parts = split_on (CHR '';'') line
      in join_parts (case maxsplit of None \<Rightarrow> length parts | Some m \<Rightarrow> m) 0 parts)"

section \<open>Words, letters and numbers\<close>

text \<open>\<open>s.split()\<close>, \<open>s.lower()\<close>, \<open>s.upper()\<close>, \<open>s.replace(old, new)\<close>, \<open>sep.join(xs)\<close>.\<close>

fun split_by :: "(char \<Rightarrow> bool) \<Rightarrow> string \<Rightarrow> string list" where
  "split_by sep [] = [[]]"
| "split_by sep (x # xs) =
     (if sep x then [] # split_by sep xs
      else (case split_by sep xs of [] \<Rightarrow> [[x]] | w # ws \<Rightarrow> (x # w) # ws))"

definition words :: "string \<Rightarrow> string list" where
  "words s = filter (\<lambda>w. w \<noteq> []) (split_by is_space s)"

definition lower_char :: "char \<Rightarrow> char" where
  "lower_char c = (let n = of_char c :: nat in if 65 \<le> n \<and> n \<le> 90 then char_of (n + 32) else c)"

definition upper_char :: "char \<Rightarrow> char" where
  "upper_char c = (let n = of_char c :: nat in if 97 \<le> n \<and> n \<le> 122 then char_of (n - 32) else c)"

definition lower :: "string \<Rightarrow> string" where "lower s = map lower_char s"

definition upper :: "string \<Rightarrow> string" where "upper s = map upper_char s"

fun replace_all :: "string \<Rightarrow> string \<Rightarrow> string \<Rightarrow> string" where
  "replace_all old new [] = []"
| "replace_all old new (c # cs) =
     (if old \<noteq> [] \<and> prefix old (c # cs)
      then new @ replace_all old new (drop (length old - 1) cs)
      else c # replace_all old new cs)"

fun join_with :: "string \<Rightarrow> string list \<Rightarrow> string" where
  "join_with sep [] = []"
| "join_with sep [x] = x"
| "join_with sep (x # y # xs) = x @ sep @ join_with sep (y # xs)"

definition to_bool :: "string \<Rightarrow> bool" where
  "to_bool s \<longleftrightarrow> s \<in> set [''1'', ''on'', ''true'', ''True'']"

text \<open>
  \<open>float(s)\<close> of a decimal literal, rounded to a double. Words for infinities and no numbers
  are \<open>None\<close> here: \<open>int()\<close> raises on their values too.
\<close>

definition exponent_of :: "string \<Rightarrow> int option" where
  "exponent_of s =
     (case s of [] \<Rightarrow> Some 0
      | e # t \<Rightarrow>
          if e \<noteq> CHR ''e'' \<and> e \<noteq> CHR ''E'' then None
          else (case t of [] \<Rightarrow> None
                | c # d \<Rightarrow> if c = CHR ''-'' then map_option uminus (py_nat d)
                           else if c = CHR ''+'' then py_nat d else py_nat t))"

definition unsigned_float :: "string \<Rightarrow> rat option" where
  "unsigned_float s =
     (let ip = takeWhile is_digit s; r1 = dropWhile is_digit s;
          fp = (case r1 of [] \<Rightarrow> []
                | c # t \<Rightarrow> if c = CHR ''.'' then takeWhile is_digit t else []);
          r2 = (case r1 of [] \<Rightarrow> []
                | c # t \<Rightarrow> if c = CHR ''.'' then dropWhile is_digit t else r1)
      in if ip = [] \<and> fp = [] then None
         else map_option (\<lambda>e. fl (of_nat (numeral_value (ip @ fp)) * 10 powi (e - int (length fp))))
                (exponent_of r2))"

definition py_float :: "string \<Rightarrow> rat option" where
  "py_float s0 =
     (case strip s0 of [] \<Rightarrow> None
      | c # r \<Rightarrow> if c = CHR ''-'' then map_option uminus (unsigned_float r)
                 else if c = CHR ''+'' then unsigned_float r else unsigned_float (c # r))"

text \<open>\<open>to_int\<close>: the integer, or the integer part of the float (\<open>OverflowError\<close> beyond a double).\<close>

definition int_part :: "rat \<Rightarrow> int" where
  "int_part x = (if x < 0 then - \<lfloor>- x\<rfloor> else \<lfloor>x\<rfloor>)"

definition to_int :: "string \<Rightarrow> int option" where
  "to_int s =
     (case py_int s of Some n \<Rightarrow> Some n
      | None \<Rightarrow>
          (case py_float s of None \<Rightarrow> None
           | Some x \<Rightarrow> if \<bar>x\<bar> \<ge> 2 ^ 1024 then None else Some (int_part x)))"

section \<open>The outputs of a plug-in\<close>

text \<open>\<open>s[:n]\<close>\<close>

definition py_prefix :: "int \<Rightarrow> string \<Rightarrow> string" where
  "py_prefix n s = (if n \<ge> 0 then take (nat n) s else take (length s - nat (- n)) s)"

definition protected_pipe :: string where
  "protected_pipe = ''___PROTECT_PIPE___''"

definition clean_part :: "string \<Rightarrow> string" where
  "clean_part s = replace_all protected_pipe ''|'' (strip s)"

text \<open>One of the lines after the first: long output before a pipe, performance data after it.\<close>

definition read_line :: "string \<Rightarrow> string list \<times> bool \<times> string \<Rightarrow> string list \<times> bool \<times> string" where
  "read_line line st =
     (case st of (long, in_perfdata, perf) \<Rightarrow>
      if in_perfdata then (long, True, perf @ '' '' @ clean_part line)
      else (let long1 = long @ [clean_part (takeWhile (\<lambda>c. c \<noteq> CHR ''|'') line)]
            in case dropWhile (\<lambda>c. c \<noteq> CHR ''|'') line of
                 [] \<Rightarrow> (long1, False, perf)
               | _ # rest \<Rightarrow> (long1, True, perf @ '' '' @ clean_part rest)))"

text \<open>\<open>get_outputs\<close>: the output, the long output and the performance data.\<close>

definition get_outputs :: "string \<Rightarrow> int \<Rightarrow> string \<times> string \<times> string" where
  "get_outputs out0 max_length =
     (let out = replace_all [CHR 0x5C, CHR ''|''] protected_pipe (py_prefix max_length out0);
          lines = split_on (CHR 0x0A) out;
          line1 = split_on (CHR ''|'') (hd lines);
          perf0 = (if length line1 > 1 then clean_part (line1 ! 1) else [])
      in case fold read_line (tl lines) ([], False, perf0) of
           (long, _, perf) \<Rightarrow> (clean_part (hd line1), join_with [CHR 0x0A] long, strip perf))"

section \<open>Passive results for unknown hosts and services\<close>

text \<open>
  \<open>get_unknown_check_result_brok\<close>: the two regular expressions, read from the left; a field
  goes to the next semicolon, the output to the next pipe, the performance data to the end of
  the line.
\<close>

definition strip_prefix :: "string \<Rightarrow> string \<Rightarrow> string option" where
  "strip_prefix p s = (if prefix p s then Some (drop (length p) s) else None)"

definition field_of :: "string \<Rightarrow> (string \<times> string) option" where
  "field_of s =
     (case dropWhile (\<lambda>c. c \<noteq> CHR '';'') s of [] \<Rightarrow> None
      | _ # rest \<Rightarrow> Some (takeWhile (\<lambda>c. c \<noteq> CHR '';'') s, rest))"

definition stamped :: "string \<Rightarrow> (int \<times> string) option" where
  "stamped line =
     Option.bind (strip_prefix ''['' line) (\<lambda>s.
       if length s \<ge> 10 \<and> list_all is_digit (take 10 s)
       then map_option (\<lambda>r. (int (numeral_value (take 10 s)), r)) (strip_prefix ''] PROCESS_'' (drop 10 s))
       else None)"

definition result_end :: "string \<Rightarrow> string \<times> string option" where
  "result_end s =
     (takeWhile (\<lambda>c. c \<noteq> CHR ''|'') s,
      case dropWhile (\<lambda>c. c \<noteq> CHR ''|'') s of [] \<Rightarrow> None
      | _ # rest \<Rightarrow> Some (takeWhile (\<lambda>c. c \<noteq> CHR 0x0A) rest))"

definition unknown_service_result :: "string \<Rightarrow> unknown_result option" where
  "unknown_service_result line =
     Option.bind (stamped line) (\<lambda>(t, s0).
     Option.bind (strip_prefix ''SERVICE_CHECK_RESULT;'' s0) (\<lambda>s1.
     Option.bind (field_of s1) (\<lambda>(h, s2).
     Option.bind (field_of s2) (\<lambda>(d, s3).
     map_option (\<lambda>(code, s4). case result_end s4 of (out, perf) \<Rightarrow>
         \<lparr>ur_time_stamp = t, ur_host_name = h, ur_service_description = Some d,
          ur_return_code = code, ur_output = out, ur_perf_data = perf\<rparr>) (field_of s3)))))"

definition unknown_host_result :: "string \<Rightarrow> unknown_result option" where
  "unknown_host_result line =
     Option.bind (stamped line) (\<lambda>(t, s0).
     Option.bind (strip_prefix ''HOST_CHECK_RESULT;'' s0) (\<lambda>s1.
     Option.bind (field_of s1) (\<lambda>(h, s2).
     map_option (\<lambda>(code, s4). case result_end s4 of (out, perf) \<Rightarrow>
         \<lparr>ur_time_stamp = t, ur_host_name = h, ur_service_description = None,
          ur_return_code = code, ur_output = out, ur_perf_data = perf\<rparr>) (field_of s2))))"

definition get_unknown_check_result_brok :: "string \<Rightarrow> brok option" where
  "get_unknown_check_result_brok line =
     map_option UnknownCheckResultBrok
       (case unknown_service_result line of Some r \<Rightarrow> Some r | None \<Rightarrow> unknown_host_result line)"

end
