(* ===== verification/Commands.thy ===== *)
theory Commands
  imports Upkeep CmdLine
begin

unbundle bit_operations_syntax

text \<open>
  \<open>alignak/external_command.py\<close>, the manager of external commands: the table of commands, the
  reading of a line, its dispatch to the schedulers.

  \<open>ecm\<close> is what the manager is created with: its mode, the names of the configuration
  (\<open>find_by_name\<close>), where hosts are. \<open>manager\<close> is what commands change: the scheduler it works
  for (mode \<open>Applyer\<close>), the global parameters of \<open>my_conf\<close>, the time stamp of the command, and in
  the other modes the broks of the daemon and what goes to the schedulers. \<open>None\<close> is an exception
  that leaves the method.
\<close>

section \<open>State\<close>

datatype cmd_mode = Applyer | Dispatcher | Receiver

record command_def =
  co_command_line :: string
  co_poller_tag :: string
  co_reactionner_tag :: string
  co_module_type :: string
  co_enable_environment_macros :: bool
  co_timeout :: int

record ecm =
  cmd_mode :: cmd_mode
  accept_unknown :: bool
  log_external_commands :: bool
  log_passive_checks :: bool
  sp :: params
  host_named :: "string \<Rightarrow> uuid option"
  service_named :: "string \<Rightarrow> string \<Rightarrow> uuid option"
  contact_named :: "string \<Rightarrow> uuid option"
  timeperiod_named :: "string \<Rightarrow> uuid option"
  command_named :: "string \<Rightarrow> command_def option"
  hostgroup_named :: "string \<Rightarrow> uuid list option"
  servicegroup_named :: "string \<Rightarrow> uuid list option"
  contactgroup_named :: "string \<Rightarrow> uuid list option"
  id_of :: "string \<Rightarrow> uuid"
  scheduler_of_host :: "string \<Rightarrow> uuid option"
  cfg_parts :: "(string list \<times> uuid option) list"
  scheduler_links :: "uuid list"
  run_program :: "string \<Rightarrow> act_status \<times> int \<times> string"

text \<open>The global parameters that commands change (\<open>my_conf\<close>).\<close>

record gconf =
  g_modified_attributes :: int
  g_enable_notifications :: bool
  g_execute_service_checks :: bool
  g_accept_passive_service_checks :: bool
  g_execute_host_checks :: bool
  g_accept_passive_host_checks :: bool
  g_enable_event_handlers :: bool
  g_process_performance_data :: bool
  g_enable_flap_detection :: bool
  g_check_service_freshness :: bool
  g_check_host_freshness :: bool

record manager =
  sc :: sched
  my_conf :: gconf
  current_timestamp :: int
  daemon_broks :: "brok list"
  pushed_commands :: "(uuid \<times> string) list"
  sent_commands :: "(uuid \<times> string) list"

section \<open>The table of commands\<close>

text \<open>The types of the arguments, as in \<open>commands\<close>; \<open>K_text\<close> is the source's \<open>None\<close>.\<close>

datatype arg_kind =
    K_host | K_service | K_contact | K_time_period | K_obsolete | K_to_bool | K_to_int | K_author
  | K_text | K_command | K_host_group | K_service_group | K_contact_group

text \<open>Each command with its flags \<open>global\<close> and \<open>internal\<close> and the types of its arguments.\<close>

definition commands :: "(string \<times> bool \<times> bool \<times> arg_kind list) list" where
  "commands = [
    (''change_contact_modsattr'', True, False, [K_contact, K_text]),
    (''change_contact_modhattr'', True, False, [K_contact, K_text]),
    (''change_contact_modattr'', True, False, [K_contact, K_text]),
    (''change_contact_host_notification_timeperiod'', True, False, [K_contact, K_time_period]),
    (''add_svc_comment'', False, False, [K_service, K_obsolete, K_author, K_text]),
    (''add_host_comment'', False, False, [K_host, K_obsolete, K_author, K_text]),
    (''acknowledge_svc_problem'', False, False, [K_service, K_to_int, K_to_bool, K_obsolete, K_author, K_text]),
    (''acknowledge_host_problem'', False, False, [K_host, K_to_int, K_to_bool, K_obsolete, K_author, K_text]),
    (''acknowledge_svc_problem_expire'', False, False, [K_service, K_to_int, K_to_bool, K_obsolete, K_to_int, K_author, K_text]),
    (''acknowledge_host_problem_expire'', False, False, [K_host, K_to_int, K_to_bool, K_obsolete, K_to_int, K_author, K_text]),
    (''change_contact_svc_notification_timeperiod'', True, False, [K_contact, K_time_period]),
    (''change_custom_contact_var'', True, False, [K_contact, K_text, K_text]),
    (''change_custom_host_var'', False, False, [K_host, K_text, K_text]),
    (''change_custom_svc_var'', False, False, [K_service, K_text, K_text]),
    (''change_global_host_event_handler'', True, False, [K_command]),
    (''change_global_svc_event_handler'', True, False, [K_command]),
    (''change_host_check_command'', False, False, [K_host, K_command]),
    (''change_host_check_timeperiod'', False, False, [K_host, K_time_period]),
    (''change_host_event_handler'', False, False, [K_host, K_command]),
    (''change_host_snapshot_command'', False, False, [K_host, K_command]),
    (''change_host_modattr'', False, False, [K_host, K_to_int]),
    (''change_max_host_check_attempts'', False, False, [K_host, K_to_int]),
    (''change_max_svc_check_attempts'', False, False, [K_service, K_to_int]),
    (''change_normal_host_check_interval'', False, False, [K_host, K_to_int]),
    (''change_normal_svc_check_interval'', False, False, [K_service, K_to_int]),
    (''change_retry_host_check_interval'', False, False, [K_host, K_to_int]),
    (''change_retry_svc_check_interval'', False, False, [K_service, K_to_int]),
    (''change_svc_check_command'', False, False, [K_service, K_command]),
    (''change_svc_check_timeperiod'', False, False, [K_service, K_time_period]),
    (''change_svc_event_handler'', False, False, [K_service, K_command]),
    (''change_svc_snapshot_command'', False, False, [K_service, K_command]),
    (''change_svc_modattr'', False, False, [K_service, K_to_int]),
    (''change_svc_notification_timeperiod'', False, False, [K_service, K_time_period]),
    (''delay_host_notification'', False, False, [K_host, K_to_int]),
    (''delay_svc_notification'', False, False, [K_service, K_to_int]),
    (''del_all_contact_downtimes'', False, False, [K_contact]),
    (''del_all_host_comments'', False, False, [K_host]),
    (''del_all_host_downtimes'', False, False, [K_host]),
    (''del_all_svc_comments'', False, False, [K_service]),
    (''del_all_svc_downtimes'', False, False, [K_service]),
    (''del_contact_downtime'', True, False, [K_text]),
    (''del_host_comment'', True, False, [K_text]),
    (''del_host_downtime'', True, False, [K_text]),
    (''del_svc_comment'', True, False, [K_text]),
    (''del_svc_downtime'', True, False, [K_text]),
    (''disable_all_notifications_beyond_host'', False, False, [K_host]),
    (''disable_contactgroup_host_notifications'', True, False, [K_contact_group]),
    (''disable_contactgroup_svc_notifications'', True, False, [K_contact_group]),
    (''disable_contact_host_notifications'', True, False, [K_contact]),
    (''disable_contact_svc_notifications'', True, False, [K_contact]),
    (''disable_event_handlers'', True, False, []),
    (''disable_failure_prediction'', True, False, []),
    (''disable_flap_detection'', True, False, []),
    (''disable_hostgroup_host_checks'', True, False, [K_host_group]),
    (''disable_hostgroup_host_notifications'', True, False, [K_host_group]),
    (''disable_hostgroup_passive_host_checks'', True, False, [K_host_group]),
    (''disable_hostgroup_passive_svc_checks'', True, False, [K_host_group]),
    (''disable_hostgroup_svc_checks'', True, False, [K_host_group]),
    (''disable_hostgroup_svc_notifications'', True, False, [K_host_group]),
    (''disable_host_and_child_notifications'', False, False, [K_host]),
    (''disable_host_check'', False, False, [K_host]),
    (''disable_host_event_handler'', False, False, [K_host]),
    (''disable_host_flap_detection'', False, False, [K_host]),
    (''disable_host_freshness_check'', False, False, [K_host]),
    (''disable_host_freshness_checks'', True, False, []),
    (''disable_host_notifications'', False, False, [K_host]),
    (''disable_host_svc_checks'', False, False, [K_host]),
    (''disable_host_svc_notifications'', False, False, [K_host]),
    (''disable_notifications'', True, False, []),
    (''disable_passive_host_checks'', False, False, [K_host]),
    (''disable_passive_svc_checks'', False, False, [K_service]),
    (''disable_performance_data'', True, False, []),
    (''disable_servicegroup_host_checks'', True, False, [K_service_group]),
    (''disable_servicegroup_host_notifications'', True, False, [K_service_group]),
    (''disable_servicegroup_passive_host_checks'', True, False, [K_service_group]),
    (''disable_servicegroup_passive_svc_checks'', True, False, [K_service_group]),
    (''disable_servicegroup_svc_checks'', True, False, [K_service_group]),
    (''disable_servicegroup_svc_notifications'', True, False, [K_service_group]),
    (''disable_service_flap_detection'', False, False, [K_service]),
    (''disable_service_freshness_checks'', True, False, []),
    (''disable_svc_check'', False, False, [K_service]),
    (''disable_svc_event_handler'', False, False, [K_service]),
    (''disable_svc_flap_detection'', False, False, [K_service]),
    (''disable_svc_freshness_check'', False, False, [K_service]),
    (''disable_svc_notifications'', False, False, [K_service]),
    (''enable_all_notifications_beyond_host'', False, False, [K_host]),
    (''enable_contactgroup_host_notifications'', True, False, [K_contact_group]),
    (''enable_contactgroup_svc_notifications'', True, False, [K_contact_group]),
    (''enable_contact_host_notifications'', True, False, [K_contact]),
    (''enable_contact_svc_notifications'', True, False, [K_contact]),
    (''enable_event_handlers'', True, False, []),
    (''enable_failure_prediction'', True, False, []),
    (''enable_flap_detection'', True, False, []),
    (''enable_hostgroup_host_checks'', True, False, [K_host_group]),
    (''enable_hostgroup_host_notifications'', True, False, [K_host_group]),
    (''enable_hostgroup_passive_host_checks'', True, False, [K_host_group]),
    (''enable_hostgroup_passive_svc_checks'', True, False, [K_host_group]),
    (''enable_hostgroup_svc_checks'', True, False, [K_host_group]),
    (''enable_hostgroup_svc_notifications'', True, False, [K_host_group]),
    (''enable_host_and_child_notifications'', False, False, [K_host]),
    (''enable_host_check'', False, False, [K_host]),
    (''enable_host_event_handler'', False, False, [K_host]),
    (''enable_host_flap_detection'', False, False, [K_host]),
    (''enable_host_freshness_check'', False, False, [K_host]),
    (''enable_host_freshness_checks'', True, False, []),
    (''enable_host_notifications'', False, False, [K_host]),
    (''enable_host_svc_checks'', False, False, [K_host]),
    (''enable_host_svc_notifications'', False, False, [K_host]),
    (''enable_notifications'', True, False, []),
    (''enable_passive_host_checks'', False, False, [K_host]),
    (''enable_passive_svc_checks'', False, False, [K_service]),
    (''enable_performance_data'', True, False, []),
    (''enable_servicegroup_host_checks'', True, False, [K_service_group]),
    (''enable_servicegroup_host_notifications'', True, False, [K_service_group]),
    (''enable_servicegroup_passive_host_checks'', True, False, [K_service_group]),
    (''enable_servicegroup_passive_svc_checks'', True, False, [K_service_group]),
    (''enable_servicegroup_svc_checks'', True, False, [K_service_group]),
    (''enable_servicegroup_svc_notifications'', True, False, [K_service_group]),
    (''enable_service_freshness_checks'', True, False, []),
    (''enable_svc_check'', False, False, [K_service]),
    (''enable_svc_event_handler'', False, False, [K_service]),
    (''enable_svc_flap_detection'', False, False, [K_service]),
    (''enable_svc_freshness_check'', False, False, [K_service]),
    (''enable_svc_notifications'', False, False, [K_service]),
    (''process_file'', True, False, [K_text, K_to_bool]),
    (''process_host_check_result'', False, False, [K_host, K_to_int, K_text]),
    (''process_host_output'', False, False, [K_host, K_text]),
    (''process_service_check_result'', False, False, [K_service, K_to_int, K_text]),
    (''process_service_output'', False, False, [K_service, K_text]),
    (''read_state_information'', True, False, []),
    (''remove_host_acknowledgement'', False, False, [K_host]),
    (''remove_svc_acknowledgement'', False, False, [K_service]),
    (''restart_program'', True, True, []),
    (''reload_config'', True, True, []),
    (''save_state_information'', True, False, []),
    (''schedule_and_propagate_host_downtime'', False, False, [K_host, K_to_int, K_to_int, K_to_bool, K_to_int, K_to_int, K_author, K_text]),
    (''schedule_and_propagate_triggered_host_downtime'', False, False, [K_host, K_to_int, K_to_int, K_to_bool, K_to_int, K_to_int, K_author, K_text]),
    (''schedule_contact_downtime'', True, False, [K_contact, K_to_int, K_to_int, K_author, K_text]),
    (''schedule_forced_host_check'', False, False, [K_host, K_to_int]),
    (''schedule_forced_host_svc_checks'', False, False, [K_host, K_to_int]),
    (''schedule_forced_svc_check'', False, False, [K_service, K_to_int]),
    (''schedule_hostgroup_host_downtime'', True, False, [K_host_group, K_to_int, K_to_int, K_to_bool, K_text, K_to_int, K_author, K_text]),
    (''schedule_hostgroup_svc_downtime'', True, False, [K_host_group, K_to_int, K_to_int, K_to_bool, K_text, K_to_int, K_author, K_text]),
    (''schedule_host_check'', False, False, [K_host, K_to_int]),
    (''schedule_host_downtime'', False, False, [K_host, K_to_int, K_to_int, K_to_bool, K_text, K_to_int, K_author, K_text]),
    (''schedule_host_svc_checks'', False, False, [K_host, K_to_int]),
    (''schedule_host_svc_downtime'', False, False, [K_host, K_to_int, K_to_int, K_to_bool, K_text, K_to_int, K_author, K_text]),
    (''schedule_servicegroup_host_downtime'', True, False, [K_service_group, K_to_int, K_to_int, K_to_bool, K_text, K_to_int, K_author, K_text]),
    (''schedule_servicegroup_svc_downtime'', True, False, [K_service_group, K_to_int, K_to_int, K_to_bool, K_text, K_to_int, K_author, K_text]),
    (''schedule_svc_check'', False, False, [K_service, K_to_int]),
    (''schedule_svc_downtime'', False, False, [K_service, K_to_int, K_to_int, K_to_bool, K_text, K_to_int, K_author, K_text]),
    (''send_custom_host_notification'', False, False, [K_host, K_to_int, K_author, K_text]),
    (''send_custom_svc_notification'', False, False, [K_service, K_to_int, K_author, K_text]),
    (''set_host_notification_number'', False, False, [K_host, K_to_int]),
    (''set_svc_notification_number'', False, False, [K_service, K_to_int]),
    (''shutdown_program'', True, False, []),
    (''start_accepting_passive_host_checks'', True, False, []),
    (''start_accepting_passive_svc_checks'', True, False, []),
    (''start_executing_host_checks'', True, False, []),
    (''start_executing_svc_checks'', True, False, []),
    (''stop_accepting_passive_host_checks'', True, False, []),
    (''stop_accepting_passive_svc_checks'', True, False, []),
    (''stop_executing_host_checks'', True, False, []),
    (''stop_executing_svc_checks'', True, False, []),
    (''launch_svc_event_handler'', False, False, [K_service]),
    (''launch_host_event_handler'', False, False, [K_host]),
    (''add_simple_host_dependency'', False, False, [K_host, K_host]),
    (''del_host_dependency'', False, False, [K_host, K_host]),
    (''add_simple_poller'', True, True, [K_text, K_text, K_text, K_text])]"

text \<open>The arguments a handler is called with; a group is the list of its members.\<close>

datatype arg =
    AItem uuid | AContact uuid | APeriod uuid | ABool bool | AInt int | AText string
  | AGroup "uuid list"

text \<open>What \<open>get_command_and_args\<close> returns: a command for all schedulers, or one to run here.\<close>

datatype resolved = Resend | Run bool string "arg list"

section \<open>Sending\<close>

text \<open>\<open>send_an_element\<close> for a brok: a scheduler's daemon is the scheduler.\<close>

definition send :: "ecm \<Rightarrow> brok \<Rightarrow> manager \<Rightarrow> manager" where
  "send st b m =
     (if cmd_mode st = Applyer then m\<lparr>sc := sched_add_brok b None (sc m)\<rparr>
      else m\<lparr>daemon_broks := daemon_broks m @ [b]\<rparr>)"

definition send_log :: "ecm \<Rightarrow> string \<Rightarrow> string \<Rightarrow> manager \<Rightarrow> manager" where
  "send_log st level text = send st (MonitoringLog level text)"

text \<open>The error log of a command that cannot be read, when commands are logged.\<close>

definition log_error :: "ecm \<Rightarrow> string \<Rightarrow> manager \<Rightarrow> manager" where
  "log_error st text m = (if log_external_commands st then send_log st ''error'' text m else m)"

definition send_unknown :: "ecm \<Rightarrow> string \<Rightarrow> manager \<Rightarrow> manager" where
  "send_unknown st command m =
     (case get_unknown_check_result_brok command of None \<Rightarrow> m | Some b \<Rightarrow> send st b m)"

section \<open>Dispatching to the schedulers\<close>

text \<open>
  \<open>search_host_and_dispatch\<close>: a receiver keeps the command for the scheduler of the host; the
  arbiter sends it to the scheduler of the first assigned part of the configuration that has the
  host. The link of the arbiter is assumed to answer.
\<close>

fun assigned_part :: "string \<Rightarrow> (string list \<times> uuid option) list \<Rightarrow> uuid option" where
  "assigned_part h [] = None"
| "assigned_part h ((names, link) # parts) =
     (if h \<in> set names then (case link of Some l \<Rightarrow> Some l | None \<Rightarrow> assigned_part h parts)
      else assigned_part h parts)"

definition search_host_and_dispatch :: "ecm \<Rightarrow> string \<Rightarrow> string \<Rightarrow> string \<Rightarrow> manager \<Rightarrow> manager" where
  "search_host_and_dispatch st h command cmd_line m =
     (case (if cmd_mode st = Receiver then scheduler_of_host st h else assigned_part h (cfg_parts st)) of
        Some l \<Rightarrow>
          if cmd_mode st = Receiver then m\<lparr>pushed_commands := pushed_commands m @ [(l, cmd_line)]\<rparr>
          else m\<lparr>sent_commands := sent_commands m @ [(l, command)]\<rparr>
      | None \<Rightarrow> if accept_unknown st then send_unknown st command m else m)"

section \<open>Reading the arguments\<close>

text \<open>
  The end of the loop over the arguments: all read, with the number of obsolete ones and the
  text the command is shown with; refused (\<open>return None\<close>); \<open>IndexError\<close>. A failed look-up of a
  check command rebinds \<open>command\<close>, which is then shown as \<open>None\<close>.
\<close>

datatype reading = Arguments "arg list" nat string | Refused | Bad_index string

definition read_host :: "ecm \<Rightarrow> string \<Rightarrow> string \<Rightarrow> string \<Rightarrow> manager \<Rightarrow> manager \<times> uuid option" where
  "read_host st cmd_line command val m =
     (if cmd_mode st \<noteq> Applyer then (search_host_and_dispatch st val command cmd_line m, None)
      else (case host_named st val of Some h \<Rightarrow> (m, Some h)
            | None \<Rightarrow> (if accept_unknown st then send_unknown st command m else m, None)))"

text \<open>\<open>if x is not None: args.append(f(x))\<close>\<close>

definition optional_arg :: "('a \<Rightarrow> arg) \<Rightarrow> 'a option \<Rightarrow> arg list" where
  "optional_arg f r = (case r of None \<Rightarrow> [] | Some x \<Rightarrow> [f x])"

text \<open>
  The arguments of the types that neither raise nor return; the number is 1 for an obsolete one.
\<close>

definition simple_arg :: "ecm \<Rightarrow> arg_kind \<Rightarrow> string \<Rightarrow> arg list" where
  "simple_arg st k val =
     (case k of
        K_contact \<Rightarrow> optional_arg AContact (contact_named st val)
      | K_time_period \<Rightarrow> optional_arg APeriod (timeperiod_named st val)
      | K_to_bool \<Rightarrow> [ABool (to_bool val)]
      | K_author \<Rightarrow> [AText val]
      | K_text \<Rightarrow> [AText val]
      | K_command \<Rightarrow> optional_arg (\<lambda>_. AText val) (command_named st val)
      | K_host_group \<Rightarrow> optional_arg AGroup (hostgroup_named st val)
      | K_service_group \<Rightarrow> optional_arg AGroup (servicegroup_named st val)
      | K_contact_group \<Rightarrow> optional_arg AGroup (contactgroup_named st val)
      | _ \<Rightarrow> [])"

text \<open>
  \<open>kinds\<close> are the types still to come, \<open>in_service\<close> the host name read for a service whose
  description is the next element.
\<close>

fun read_args ::
  "ecm \<Rightarrow> string \<Rightarrow> string \<Rightarrow> string \<Rightarrow> string option \<Rightarrow> arg_kind list \<Rightarrow> arg list \<Rightarrow> nat \<Rightarrow>
   string list \<Rightarrow> manager \<Rightarrow> (manager \<times> reading) option" where
  "read_args st cmd_line command shown in_service kinds args obsolete [] m =
     Some (m, Arguments args obsolete shown)"
| "read_args st cmd_line command shown (Some h) kinds args obsolete (elt # elts) m =
     (if elt = [] then Some (m, Bad_index shown)
      else
        let srv_name = (if last elt = CHR 0x0A then butlast elt else elt)
        in if cmd_mode st = Receiver
           then Some (search_host_and_dispatch st h command cmd_line m, Refused)
           else (case service_named st h srv_name of
                   None \<Rightarrow> Some (if accept_unknown st then send_unknown st command m else m, Refused)
                 | Some s \<Rightarrow> read_args st cmd_line command shown None kinds (args @ [AItem s]) obsolete elts m))"
| "read_args st cmd_line command shown None [] args obsolete (elt # elts) m = Some (m, Bad_index shown)"
| "read_args st cmd_line command shown None (k # kinds) args obsolete (elt # elts) m =
     (let val = strip elt
      in case k of
           K_host \<Rightarrow>
             (case read_host st cmd_line command val m of
                (m1, None) \<Rightarrow> Some (m1, Refused)
              | (m1, Some h) \<Rightarrow>
                  read_args st cmd_line command shown None kinds (args @ [AItem h]) obsolete elts m1)
         | K_service \<Rightarrow>
             (if val = [] then Some (m, Bad_index shown)
              else if cmd_mode st = Dispatcher
              then Some (search_host_and_dispatch st val command cmd_line m, Refused)
              else read_args st cmd_line command shown (Some val) kinds args obsolete elts m)
         | K_to_int \<Rightarrow>
             (case to_int val of None \<Rightarrow> None
              | Some n \<Rightarrow> read_args st cmd_line command shown None kinds (args @ [AInt n]) obsolete elts m)
         | K_obsolete \<Rightarrow> read_args st cmd_line command shown None kinds args (obsolete + 1) elts m
         | _ \<Rightarrow>
             read_args st cmd_line command
               (if k = K_command \<and> command_named st val = None then ''None'' else shown)
               None kinds (args @ simple_arg st k val) obsolete elts m)"

section \<open>Reading the line\<close>

text \<open>
  The time stamp and the name, from the first element of the line; \<open>None\<close> when it has no word or
  more than two. A missing time stamp is now.
\<close>

definition stamp_and_name :: "int \<Rightarrow> string \<Rightarrow> (string \<times> string) option" where
  "stamp_and_name t elt =
     (case words elt of
        [w] \<Rightarrow> Some (''['' @ py_str (nat t) @ '']'', w)
      | [s, n] \<Rightarrow> Some (s, n)
      | _ \<Rightarrow> None)"

text \<open>\<open>int(timestamp)\<close>, else of \<open>timestamp[1:-1]\<close>.\<close>

definition read_timestamp :: "string \<Rightarrow> int option" where
  "read_timestamp s = (case py_int s of Some t \<Rightarrow> Some t | None \<Rightarrow> py_int (butlast (tl s)))"

definition get_command_and_args ::
  "ecm \<Rightarrow> string \<Rightarrow> string \<Rightarrow> manager \<Rightarrow> (manager \<times> resolved option) option" where
  "get_command_and_args st cmd_line command m =
     (let malformed = log_error st (''Malformed command: '' @ [CHR 0x27] @ command @ [CHR 0x27])
      in case stamp_and_name (now (wd (sc m))) (hd (split_semicolon command None)) of
           None \<Rightarrow> Some (malformed m, None)
         | Some (stamp, name) \<Rightarrow>
        (case read_timestamp stamp of None \<Rightarrow> Some (malformed m, None)
         | Some t \<Rightarrow>
             let m1 = m\<lparr>current_timestamp := t\<rparr>; c_name = lower name
             in case map_of commands c_name of
                  None \<Rightarrow> Some (log_error st (''Command '' @ [CHR 0x27] @ command @ [CHR 0x27]
                                  @ '' is not recognized, sorry'') m1, None)
                | Some (is_global, internal, kinds) \<Rightarrow>
                    if cmd_mode st \<noteq> Applyer \<and> is_global \<and> \<not> internal then Some (m1, Some Resend)
                    else
                      let numargs = length kinds + (if K_service \<in> set kinds then 1 else 0);
                          incorrect = (\<lambda>shown. log_error st (''Arguments are not correct for the command: ''
                                         @ [CHR 0x27] @ shown @ [CHR 0x27]))
                      in map_option (\<lambda>(m2, r). case r of
                              Refused \<Rightarrow> (m2, None)
                            | Bad_index shown \<Rightarrow> (incorrect shown m2, None)
                            | Arguments args obsolete shown \<Rightarrow>
                                if length args + obsolete = length kinds
                                then (m2, Some (Run internal c_name args))
                                else (incorrect shown m2, None))
                           (read_args st cmd_line command command None kinds [] 0
                              (tl (split_semicolon command (Some numargs))) m1)))"

end
