(* ===== verification/CmdFlags.thy ===== *)
theory CmdFlags
  imports Commands
begin

text \<open>
  The external commands that switch flags of hosts, services, contacts, groups and of the whole
  installation on and off (\<open>alignak/external_command.py\<close>).
\<close>

unbundle bit_operations_syntax

section \<open>Changing objects\<close>

type_synonym step = "manager \<Rightarrow> manager option"

text \<open>The bits of \<open>modified_attributes\<close> (\<open>DICT_MODATTR\<close> of \<open>alignak/misc/common.py\<close>).\<close>

datatype modattr =
    MODATTR_NOTIFICATIONS_ENABLED | MODATTR_ACTIVE_CHECKS_ENABLED | MODATTR_PASSIVE_CHECKS_ENABLED
  | MODATTR_EVENT_HANDLER_ENABLED | MODATTR_FLAP_DETECTION_ENABLED
  | MODATTR_PERFORMANCE_DATA_ENABLED | MODATTR_EVENT_HANDLER_COMMAND | MODATTR_CHECK_COMMAND
  | MODATTR_NORMAL_CHECK_INTERVAL | MODATTR_RETRY_CHECK_INTERVAL | MODATTR_MAX_CHECK_ATTEMPTS
  | MODATTR_FRESHNESS_CHECKS_ENABLED | MODATTR_CHECK_TIMEPERIOD | MODATTR_CUSTOM_VARIABLE
  | MODATTR_NOTIFICATION_TIMEPERIOD

fun modattr_value :: "modattr \<Rightarrow> int" where
  "modattr_value MODATTR_NOTIFICATIONS_ENABLED = 1"
| "modattr_value MODATTR_ACTIVE_CHECKS_ENABLED = 2"
| "modattr_value MODATTR_PASSIVE_CHECKS_ENABLED = 4"
| "modattr_value MODATTR_EVENT_HANDLER_ENABLED = 8"
| "modattr_value MODATTR_FLAP_DETECTION_ENABLED = 16"
| "modattr_value MODATTR_PERFORMANCE_DATA_ENABLED = 64"
| "modattr_value MODATTR_EVENT_HANDLER_COMMAND = 256"
| "modattr_value MODATTR_CHECK_COMMAND = 512"
| "modattr_value MODATTR_NORMAL_CHECK_INTERVAL = 1024"
| "modattr_value MODATTR_RETRY_CHECK_INTERVAL = 2048"
| "modattr_value MODATTR_MAX_CHECK_ATTEMPTS = 4096"
| "modattr_value MODATTR_FRESHNESS_CHECKS_ENABLED = 8192"
| "modattr_value MODATTR_CHECK_TIMEPERIOD = 16384"
| "modattr_value MODATTR_CUSTOM_VARIABLE = 32768"
| "modattr_value MODATTR_NOTIFICATION_TIMEPERIOD = 65536"

definition modified :: "modattr \<Rightarrow> item \<Rightarrow> item" where
  "modified a it = it\<lparr>modified_attributes := modified_attributes it OR modattr_value a\<rparr>"

definition item_of :: "manager \<Rightarrow> uuid \<Rightarrow> item option" where
  "item_of m u = items (wd (sc m)) u"

definition on_mgr :: "(world \<Rightarrow> world option) \<Rightarrow> step" where
  "on_mgr f m = map_option (\<lambda>s. m\<lparr>sc := s\<rparr>) (on_world f (sc m))"

text \<open>Change an item and send its status.\<close>

definition change_item :: "ecm \<Rightarrow> (item \<Rightarrow> item) \<Rightarrow> uuid \<Rightarrow> step" where
  "change_item st f u m = map_option (send st UpdateStatusBrok) (on_mgr (upd_item u f) m)"

definition switch :: "ecm \<Rightarrow> (item \<Rightarrow> bool) \<Rightarrow> (item \<Rightarrow> item) \<Rightarrow> uuid \<Rightarrow> step" where
  "switch st test f u m =
     (case item_of m u of None \<Rightarrow> None
      | Some it \<Rightarrow> if test it then change_item st f u m else Some m)"

text \<open>The same for contacts.\<close>

definition contact_modified :: "modattr \<Rightarrow> contact \<Rightarrow> contact" where
  "contact_modified a k = k\<lparr>k_modified_attributes := k_modified_attributes k OR modattr_value a\<rparr>"

definition contact_of :: "manager \<Rightarrow> uuid \<Rightarrow> contact option" where
  "contact_of m k = contact_store (wd (sc m)) k"

definition change_contact :: "ecm \<Rightarrow> (contact \<Rightarrow> contact) \<Rightarrow> uuid \<Rightarrow> step" where
  "change_contact st f k m = map_option (send st UpdateStatusBrok) (on_mgr (upd_contact k f) m)"

definition switch_contact :: "ecm \<Rightarrow> (contact \<Rightarrow> bool) \<Rightarrow> (contact \<Rightarrow> contact) \<Rightarrow> uuid \<Rightarrow> step" where
  "switch_contact st test f k m =
     (case contact_of m k of None \<Rightarrow> None
      | Some c \<Rightarrow> if test c then change_contact st f k m else Some m)"

text \<open>
  The global parameters: \<open>explode_global_conf\<close> copies them to the classes \<open>Host\<close> and \<open>Service\<close> (the
  others are there since the configuration was loaded, and do not change), and the program
  status is sent.
\<close>

definition explode_global_conf :: "gconf \<Rightarrow> world \<Rightarrow> world" where
  "explode_global_conf c w =
     w\<lparr>host_cls := (host_cls w)
         \<lparr>enable_notifications := g_enable_notifications c, execute_checks := g_execute_host_checks c,
          accept_passive_checks := g_accept_passive_host_checks c,
          enable_event_handlers := g_enable_event_handlers c,
          process_performance_data := g_process_performance_data c,
          enable_flap_detection := g_enable_flap_detection c,
          global_check_freshness := g_check_host_freshness c\<rparr>,
       service_cls := (service_cls w)
         \<lparr>enable_notifications := g_enable_notifications c,
          execute_checks := g_execute_service_checks c,
          accept_passive_checks := g_accept_passive_service_checks c,
          enable_event_handlers := g_enable_event_handlers c,
          process_performance_data := g_process_performance_data c,
          enable_flap_detection := g_enable_flap_detection c,
          global_check_freshness := g_check_service_freshness c\<rparr>\<rparr>"

definition conf_modified :: "modattr \<Rightarrow> gconf \<Rightarrow> gconf" where
  "conf_modified a c = c\<lparr>g_modified_attributes := g_modified_attributes c OR modattr_value a\<rparr>"

definition switch_conf :: "ecm \<Rightarrow> (gconf \<Rightarrow> bool) \<Rightarrow> (gconf \<Rightarrow> gconf) \<Rightarrow> step" where
  "switch_conf st test f m =
     (if test (my_conf m)
      then map_option (send st ProgramStatusBrok)
             (on_mgr (\<lambda>w. Some (explode_global_conf (f (my_conf m)) w)) (m\<lparr>my_conf := f (my_conf m)\<rparr>))
      else Some m)"

text \<open>
  Loops over the members of groups. Members of a host group that are not hosts of the scheduler
  are skipped; those of a service group are looked up by some commands without a test.
\<close>

definition for_hosts :: "(uuid \<Rightarrow> step) \<Rightarrow> uuid list \<Rightarrow> step" where
  "for_hosts f us = foldM (\<lambda>u m. if u \<in> set (host_ids (wd (sc m))) then f u m else Some m) us"

definition for_known_services :: "(uuid \<Rightarrow> step) \<Rightarrow> uuid list \<Rightarrow> step" where
  "for_known_services f us = foldM (\<lambda>u m. if u \<in> set (service_ids (wd (sc m))) then f u m else Some m) us"

definition for_services :: "(uuid \<Rightarrow> step) \<Rightarrow> uuid list \<Rightarrow> step" where
  "for_services f us = foldM (\<lambda>u m. if u \<in> set (service_ids (wd (sc m))) then f u m else None) us"

definition for_services_of_hosts :: "(uuid \<Rightarrow> step) \<Rightarrow> uuid list \<Rightarrow> step" where
  "for_services_of_hosts f = for_hosts (\<lambda>u m. case item_of m u of None \<Rightarrow> None
      | Some h \<Rightarrow> for_known_services f (services_of h) m)"

definition for_hosts_of_services :: "(uuid \<Rightarrow> step) \<Rightarrow> uuid list \<Rightarrow> step" where
  "for_hosts_of_services f = for_known_services (\<lambda>u m.
      case Option.bind (item_of m u) host of None \<Rightarrow> None
      | Some h \<Rightarrow> if h \<in> set (host_ids (wd (sc m))) then f h m else None)"

definition for_contacts :: "(uuid \<Rightarrow> step) \<Rightarrow> uuid list \<Rightarrow> step" where
  "for_contacts f us = foldM f us"

text \<open>The services of one host, each sent its status again after the command.\<close>

definition for_own_services :: "ecm \<Rightarrow> (uuid \<Rightarrow> step) \<Rightarrow> uuid \<Rightarrow> step" where
  "for_own_services st f u m =
     (case item_of m u of None \<Rightarrow> None
      | Some h \<Rightarrow> for_known_services (\<lambda>s m. map_option (send st UpdateStatusBrok) (f s m))
                   (services_of h) m)"

text \<open>A command that only says that it is not implemented.\<close>

definition not_implemented :: "ecm \<Rightarrow> string \<Rightarrow> step" where
  "not_implemented st name m =
     Some (send_log st ''warning'' (name @ '': this command is not implemented!'') m)"

section \<open>Hosts\<close>

definition disable_host_check :: "ecm \<Rightarrow> uuid \<Rightarrow> step" where
  "disable_host_check st u m =
     (case item_of m u of None \<Rightarrow> None
      | Some it \<Rightarrow>
          if active_checks_enabled it
          then map_option (send st UpdateStatusBrok)
           (Option.bind (on_mgr (upd_item u (modified MODATTR_ACTIVE_CHECKS_ENABLED)) m)
              (on_mgr (disable_active_checks u)))
          else Some m)"

definition enable_host_check :: "ecm \<Rightarrow> uuid \<Rightarrow> step" where
  "enable_host_check st =
     switch st (\<lambda>it. \<not> active_checks_enabled it) (\<lambda>it. (modified MODATTR_ACTIVE_CHECKS_ENABLED it)\<lparr>active_checks_enabled := True\<rparr>)"

definition disable_host_event_handler :: "ecm \<Rightarrow> uuid \<Rightarrow> step" where
  "disable_host_event_handler st =
     switch st event_handler_enabled (\<lambda>it. (modified MODATTR_EVENT_HANDLER_ENABLED it)\<lparr>event_handler_enabled := False\<rparr>)"

definition enable_host_event_handler :: "ecm \<Rightarrow> uuid \<Rightarrow> step" where
  "enable_host_event_handler st =
     switch st (\<lambda>it. \<not> event_handler_enabled it) (\<lambda>it. (modified MODATTR_EVENT_HANDLER_ENABLED it)\<lparr>event_handler_enabled := True\<rparr>)"

definition disable_host_flap_detection :: "ecm \<Rightarrow> uuid \<Rightarrow> step" where
  "disable_host_flap_detection st =
     switch st flap_detection_enabled
       (\<lambda>it. let it1 = (modified MODATTR_FLAP_DETECTION_ENABLED it)\<lparr>flap_detection_enabled := False\<rparr>
             in if is_flapping it1 then it1\<lparr>is_flapping := False, flapping_changes := []\<rparr> else it1)"

definition enable_host_flap_detection :: "ecm \<Rightarrow> uuid \<Rightarrow> step" where
  "enable_host_flap_detection st =
     switch st (\<lambda>it. \<not> flap_detection_enabled it) (\<lambda>it. (modified MODATTR_FLAP_DETECTION_ENABLED it)\<lparr>flap_detection_enabled := True\<rparr>)"

definition disable_host_freshness_check :: "ecm \<Rightarrow> uuid \<Rightarrow> step" where
  "disable_host_freshness_check st =
     switch st check_freshness (\<lambda>it. (modified MODATTR_FRESHNESS_CHECKS_ENABLED it)\<lparr>check_freshness := False\<rparr>)"

definition enable_host_freshness_check :: "ecm \<Rightarrow> uuid \<Rightarrow> step" where
  "enable_host_freshness_check st =
     switch st (\<lambda>it. \<not> check_freshness it) (\<lambda>it. (modified MODATTR_FRESHNESS_CHECKS_ENABLED it)\<lparr>check_freshness := True\<rparr>)"

definition disable_host_notifications :: "ecm \<Rightarrow> uuid \<Rightarrow> step" where
  "disable_host_notifications st =
     switch st notifications_enabled (\<lambda>it. (modified MODATTR_NOTIFICATIONS_ENABLED it)\<lparr>notifications_enabled := False\<rparr>)"

definition enable_host_notifications :: "ecm \<Rightarrow> uuid \<Rightarrow> step" where
  "enable_host_notifications st =
     switch st (\<lambda>it. \<not> notifications_enabled it) (\<lambda>it. (modified MODATTR_NOTIFICATIONS_ENABLED it)\<lparr>notifications_enabled := True\<rparr>)"

definition disable_passive_host_checks :: "ecm \<Rightarrow> uuid \<Rightarrow> step" where
  "disable_passive_host_checks st =
     switch st passive_checks_enabled (\<lambda>it. (modified MODATTR_PASSIVE_CHECKS_ENABLED it)\<lparr>passive_checks_enabled := False\<rparr>)"

definition enable_passive_host_checks :: "ecm \<Rightarrow> uuid \<Rightarrow> step" where
  "enable_passive_host_checks st =
     switch st (\<lambda>it. \<not> passive_checks_enabled it) (\<lambda>it. (modified MODATTR_PASSIVE_CHECKS_ENABLED it)\<lparr>passive_checks_enabled := True\<rparr>)"

section \<open>Services\<close>

definition disable_svc_check :: "ecm \<Rightarrow> uuid \<Rightarrow> step" where
  "disable_svc_check st u m =
     (case item_of m u of None \<Rightarrow> None
      | Some it \<Rightarrow>
          if active_checks_enabled it
          then map_option (send st UpdateStatusBrok)
           (Option.bind (on_mgr (disable_active_checks u) m)
              (on_mgr (upd_item u (modified MODATTR_ACTIVE_CHECKS_ENABLED))))
          else Some m)"

definition enable_svc_check :: "ecm \<Rightarrow> uuid \<Rightarrow> step" where
  "enable_svc_check st =
     switch st (\<lambda>it. \<not> active_checks_enabled it) (\<lambda>it. (modified MODATTR_ACTIVE_CHECKS_ENABLED it)\<lparr>active_checks_enabled := True\<rparr>)"

definition disable_svc_event_handler :: "ecm \<Rightarrow> uuid \<Rightarrow> step" where
  "disable_svc_event_handler st =
     switch st event_handler_enabled (\<lambda>it. (modified MODATTR_EVENT_HANDLER_ENABLED it)\<lparr>event_handler_enabled := False\<rparr>)"

definition enable_svc_event_handler :: "ecm \<Rightarrow> uuid \<Rightarrow> step" where
  "enable_svc_event_handler st =
     switch st (\<lambda>it. \<not> event_handler_enabled it) (\<lambda>it. (modified MODATTR_EVENT_HANDLER_ENABLED it)\<lparr>event_handler_enabled := True\<rparr>)"

definition disable_service_flap_detection :: "ecm \<Rightarrow> uuid \<Rightarrow> step" where
  "disable_service_flap_detection st =
     switch st flap_detection_enabled
       (\<lambda>it. let it1 = (modified MODATTR_FLAP_DETECTION_ENABLED it)\<lparr>flap_detection_enabled := False\<rparr>
             in if is_flapping it1 then it1\<lparr>is_flapping := False, flapping_changes := []\<rparr> else it1)"

definition disable_svc_flap_detection :: "ecm \<Rightarrow> uuid \<Rightarrow> step" where
  "disable_svc_flap_detection st =
     disable_service_flap_detection st"

definition enable_svc_flap_detection :: "ecm \<Rightarrow> uuid \<Rightarrow> step" where
  "enable_svc_flap_detection st =
     switch st (\<lambda>it. \<not> flap_detection_enabled it) (\<lambda>it. (modified MODATTR_FLAP_DETECTION_ENABLED it)\<lparr>flap_detection_enabled := True\<rparr>)"

definition disable_svc_freshness_check :: "ecm \<Rightarrow> uuid \<Rightarrow> step" where
  "disable_svc_freshness_check st =
     switch st check_freshness (\<lambda>it. (modified MODATTR_FRESHNESS_CHECKS_ENABLED it)\<lparr>check_freshness := False\<rparr>)"

definition enable_svc_freshness_check :: "ecm \<Rightarrow> uuid \<Rightarrow> step" where
  "enable_svc_freshness_check st =
     switch st (\<lambda>it. \<not> check_freshness it) (\<lambda>it. (modified MODATTR_FRESHNESS_CHECKS_ENABLED it)\<lparr>check_freshness := True\<rparr>)"

definition disable_svc_notifications :: "ecm \<Rightarrow> uuid \<Rightarrow> step" where
  "disable_svc_notifications st =
     switch st notifications_enabled (\<lambda>it. (modified MODATTR_NOTIFICATIONS_ENABLED it)\<lparr>notifications_enabled := False\<rparr>)"

definition enable_svc_notifications :: "ecm \<Rightarrow> uuid \<Rightarrow> step" where
  "enable_svc_notifications st =
     switch st (\<lambda>it. \<not> notifications_enabled it) (\<lambda>it. (modified MODATTR_NOTIFICATIONS_ENABLED it)\<lparr>notifications_enabled := True\<rparr>)"

definition disable_passive_svc_checks :: "ecm \<Rightarrow> uuid \<Rightarrow> step" where
  "disable_passive_svc_checks st =
     switch st passive_checks_enabled (\<lambda>it. (modified MODATTR_PASSIVE_CHECKS_ENABLED it)\<lparr>passive_checks_enabled := False\<rparr>)"

definition enable_passive_svc_checks :: "ecm \<Rightarrow> uuid \<Rightarrow> step" where
  "enable_passive_svc_checks st =
     switch st (\<lambda>it. \<not> passive_checks_enabled it) (\<lambda>it. (modified MODATTR_PASSIVE_CHECKS_ENABLED it)\<lparr>passive_checks_enabled := True\<rparr>)"

definition disable_host_svc_checks :: "ecm \<Rightarrow> uuid \<Rightarrow> step" where
  "disable_host_svc_checks st =
     for_own_services st (disable_svc_check st)"

definition disable_host_svc_notifications :: "ecm \<Rightarrow> uuid \<Rightarrow> step" where
  "disable_host_svc_notifications st =
     for_own_services st (disable_svc_notifications st)"

definition enable_host_svc_checks :: "ecm \<Rightarrow> uuid \<Rightarrow> step" where
  "enable_host_svc_checks st =
     for_own_services st (enable_svc_check st)"

definition enable_host_svc_notifications :: "ecm \<Rightarrow> uuid \<Rightarrow> step" where
  "enable_host_svc_notifications st =
     for_own_services st (enable_svc_notifications st)"

section \<open>Contacts\<close>

definition disable_contact_host_notifications :: "ecm \<Rightarrow> uuid \<Rightarrow> step" where
  "disable_contact_host_notifications st =
     switch_contact st k_host_notifications_enabled
       (\<lambda>k. (contact_modified MODATTR_NOTIFICATIONS_ENABLED k)\<lparr>k_host_notifications_enabled := False\<rparr>)"

definition disable_contactgroup_host_notifications :: "ecm \<Rightarrow> uuid list \<Rightarrow> step" where
  "disable_contactgroup_host_notifications st =
     for_contacts (disable_contact_host_notifications st)"

definition disable_contact_svc_notifications :: "ecm \<Rightarrow> uuid \<Rightarrow> step" where
  "disable_contact_svc_notifications st =
     switch_contact st k_service_notifications_enabled
       (\<lambda>k. (contact_modified MODATTR_NOTIFICATIONS_ENABLED k)\<lparr>k_service_notifications_enabled := False\<rparr>)"

definition disable_contactgroup_svc_notifications :: "ecm \<Rightarrow> uuid list \<Rightarrow> step" where
  "disable_contactgroup_svc_notifications st =
     for_contacts (disable_contact_svc_notifications st)"

definition enable_contact_host_notifications :: "ecm \<Rightarrow> uuid \<Rightarrow> step" where
  "enable_contact_host_notifications st =
     switch_contact st (\<lambda>k. \<not> k_host_notifications_enabled k)
       (\<lambda>k. (contact_modified MODATTR_NOTIFICATIONS_ENABLED k)\<lparr>k_host_notifications_enabled := True\<rparr>)"

definition enable_contactgroup_host_notifications :: "ecm \<Rightarrow> uuid list \<Rightarrow> step" where
  "enable_contactgroup_host_notifications st =
     for_contacts (enable_contact_host_notifications st)"

definition enable_contact_svc_notifications :: "ecm \<Rightarrow> uuid \<Rightarrow> step" where
  "enable_contact_svc_notifications st =
     switch_contact st (\<lambda>k. \<not> k_service_notifications_enabled k)
       (\<lambda>k. (contact_modified MODATTR_NOTIFICATIONS_ENABLED k)\<lparr>k_service_notifications_enabled := True\<rparr>)"

definition enable_contactgroup_svc_notifications :: "ecm \<Rightarrow> uuid list \<Rightarrow> step" where
  "enable_contactgroup_svc_notifications st =
     for_contacts (enable_contact_svc_notifications st)"

section \<open>Groups of hosts and services\<close>

definition disable_hostgroup_host_checks :: "ecm \<Rightarrow> uuid list \<Rightarrow> step" where
  "disable_hostgroup_host_checks st =
     for_hosts (disable_host_check st)"

definition disable_hostgroup_host_notifications :: "ecm \<Rightarrow> uuid list \<Rightarrow> step" where
  "disable_hostgroup_host_notifications st =
     for_hosts (disable_host_notifications st)"

definition disable_hostgroup_passive_host_checks :: "ecm \<Rightarrow> uuid list \<Rightarrow> step" where
  "disable_hostgroup_passive_host_checks st =
     for_hosts (disable_passive_host_checks st)"

definition disable_hostgroup_passive_svc_checks :: "ecm \<Rightarrow> uuid list \<Rightarrow> step" where
  "disable_hostgroup_passive_svc_checks st =
     for_services_of_hosts (disable_passive_svc_checks st)"

definition disable_hostgroup_svc_checks :: "ecm \<Rightarrow> uuid list \<Rightarrow> step" where
  "disable_hostgroup_svc_checks st =
     for_services_of_hosts (disable_svc_check st)"

definition disable_hostgroup_svc_notifications :: "ecm \<Rightarrow> uuid list \<Rightarrow> step" where
  "disable_hostgroup_svc_notifications st =
     for_services_of_hosts (disable_svc_notifications st)"

definition disable_servicegroup_host_checks :: "ecm \<Rightarrow> uuid list \<Rightarrow> step" where
  "disable_servicegroup_host_checks st =
     for_hosts_of_services (disable_host_check st)"

definition disable_servicegroup_host_notifications :: "ecm \<Rightarrow> uuid list \<Rightarrow> step" where
  "disable_servicegroup_host_notifications st =
     for_hosts_of_services (disable_host_notifications st)"

definition disable_servicegroup_passive_host_checks :: "ecm \<Rightarrow> uuid list \<Rightarrow> step" where
  "disable_servicegroup_passive_host_checks st =
     for_hosts_of_services (disable_passive_host_checks st)"

definition disable_servicegroup_passive_svc_checks :: "ecm \<Rightarrow> uuid list \<Rightarrow> step" where
  "disable_servicegroup_passive_svc_checks st =
     for_services (disable_passive_svc_checks st)"

definition disable_servicegroup_svc_checks :: "ecm \<Rightarrow> uuid list \<Rightarrow> step" where
  "disable_servicegroup_svc_checks st =
     for_services (disable_svc_check st)"

definition disable_servicegroup_svc_notifications :: "ecm \<Rightarrow> uuid list \<Rightarrow> step" where
  "disable_servicegroup_svc_notifications st =
     for_services (disable_svc_notifications st)"

definition enable_hostgroup_host_checks :: "ecm \<Rightarrow> uuid list \<Rightarrow> step" where
  "enable_hostgroup_host_checks st =
     for_hosts (enable_host_check st)"

definition enable_hostgroup_host_notifications :: "ecm \<Rightarrow> uuid list \<Rightarrow> step" where
  "enable_hostgroup_host_notifications st =
     for_hosts (enable_host_notifications st)"

definition enable_hostgroup_passive_host_checks :: "ecm \<Rightarrow> uuid list \<Rightarrow> step" where
  "enable_hostgroup_passive_host_checks st =
     for_hosts (enable_passive_host_checks st)"

definition enable_hostgroup_passive_svc_checks :: "ecm \<Rightarrow> uuid list \<Rightarrow> step" where
  "enable_hostgroup_passive_svc_checks st =
     for_services_of_hosts (enable_passive_svc_checks st)"

definition enable_hostgroup_svc_checks :: "ecm \<Rightarrow> uuid list \<Rightarrow> step" where
  "enable_hostgroup_svc_checks st =
     for_services_of_hosts (enable_svc_check st)"

definition enable_hostgroup_svc_notifications :: "ecm \<Rightarrow> uuid list \<Rightarrow> step" where
  "enable_hostgroup_svc_notifications st =
     for_services_of_hosts (enable_svc_notifications st)"

definition enable_servicegroup_host_checks :: "ecm \<Rightarrow> uuid list \<Rightarrow> step" where
  "enable_servicegroup_host_checks st =
     for_hosts_of_services (enable_host_check st)"

definition enable_servicegroup_host_notifications :: "ecm \<Rightarrow> uuid list \<Rightarrow> step" where
  "enable_servicegroup_host_notifications st =
     for_hosts_of_services (enable_host_notifications st)"

definition enable_servicegroup_passive_host_checks :: "ecm \<Rightarrow> uuid list \<Rightarrow> step" where
  "enable_servicegroup_passive_host_checks st =
     for_hosts_of_services (enable_passive_host_checks st)"

definition enable_servicegroup_passive_svc_checks :: "ecm \<Rightarrow> uuid list \<Rightarrow> step" where
  "enable_servicegroup_passive_svc_checks st =
     for_services (enable_passive_svc_checks st)"

definition enable_servicegroup_svc_checks :: "ecm \<Rightarrow> uuid list \<Rightarrow> step" where
  "enable_servicegroup_svc_checks st =
     for_services (enable_svc_check st)"

definition enable_servicegroup_svc_notifications :: "ecm \<Rightarrow> uuid list \<Rightarrow> step" where
  "enable_servicegroup_svc_notifications st =
     for_services (enable_svc_notifications st)"

section \<open>The whole installation\<close>

definition disable_event_handlers :: "ecm \<Rightarrow> step" where
  "disable_event_handlers st =
     switch_conf st g_enable_event_handlers
       (\<lambda>c. (conf_modified MODATTR_EVENT_HANDLER_ENABLED c)\<lparr>g_enable_event_handlers := False\<rparr>)"

definition disable_host_freshness_checks :: "ecm \<Rightarrow> step" where
  "disable_host_freshness_checks st =
     switch_conf st g_check_host_freshness
       (\<lambda>c. (conf_modified MODATTR_FRESHNESS_CHECKS_ENABLED c)\<lparr>g_check_host_freshness := False\<rparr>)"

definition disable_service_freshness_checks :: "ecm \<Rightarrow> step" where
  "disable_service_freshness_checks st =
     switch_conf st g_check_service_freshness
       (\<lambda>c. (conf_modified MODATTR_FRESHNESS_CHECKS_ENABLED c)\<lparr>g_check_service_freshness := False\<rparr>)"

definition disable_notifications :: "ecm \<Rightarrow> step" where
  "disable_notifications st =
     switch_conf st g_enable_notifications
       (\<lambda>c. (conf_modified MODATTR_NOTIFICATIONS_ENABLED c)\<lparr>g_enable_notifications := False\<rparr>)"

definition disable_performance_data :: "ecm \<Rightarrow> step" where
  "disable_performance_data st =
     switch_conf st g_process_performance_data
       (\<lambda>c. (conf_modified MODATTR_PERFORMANCE_DATA_ENABLED c)\<lparr>g_process_performance_data := False\<rparr>)"

definition enable_event_handlers_all :: "ecm \<Rightarrow> step" where
  "enable_event_handlers_all st =
     switch_conf st (\<lambda>c. \<not> g_enable_event_handlers c)
       (\<lambda>c. (conf_modified MODATTR_EVENT_HANDLER_ENABLED c)\<lparr>g_enable_event_handlers := True\<rparr>)"

definition enable_host_freshness_checks :: "ecm \<Rightarrow> step" where
  "enable_host_freshness_checks st =
     switch_conf st (\<lambda>c. \<not> g_check_host_freshness c)
       (\<lambda>c. (conf_modified MODATTR_FRESHNESS_CHECKS_ENABLED c)\<lparr>g_check_host_freshness := True\<rparr>)"

definition enable_service_freshness_checks :: "ecm \<Rightarrow> step" where
  "enable_service_freshness_checks st =
     switch_conf st (\<lambda>c. \<not> g_check_service_freshness c)
       (\<lambda>c. (conf_modified MODATTR_FRESHNESS_CHECKS_ENABLED c)\<lparr>g_check_service_freshness := True\<rparr>)"

definition enable_notifications_all :: "ecm \<Rightarrow> step" where
  "enable_notifications_all st =
     switch_conf st (\<lambda>c. \<not> g_enable_notifications c)
       (\<lambda>c. (conf_modified MODATTR_NOTIFICATIONS_ENABLED c)\<lparr>g_enable_notifications := True\<rparr>)"

definition enable_performance_data :: "ecm \<Rightarrow> step" where
  "enable_performance_data st =
     switch_conf st (\<lambda>c. \<not> g_process_performance_data c)
       (\<lambda>c. (conf_modified MODATTR_PERFORMANCE_DATA_ENABLED c)\<lparr>g_process_performance_data := True\<rparr>)"

definition enable_flap_detection_all :: "ecm \<Rightarrow> step" where
  "enable_flap_detection_all st =
     switch_conf st (\<lambda>c. \<not> g_enable_flap_detection c)
       (\<lambda>c. (conf_modified MODATTR_FLAP_DETECTION_ENABLED c)\<lparr>g_enable_flap_detection := True\<rparr>)"

text \<open>Switching flap detection off ends the flapping of every service and host.\<close>

definition stop_flapping :: "ecm \<Rightarrow> uuid \<Rightarrow> step" where
  "stop_flapping st = switch st is_flapping (\<lambda>it. it\<lparr>is_flapping := False, flapping_changes := []\<rparr>)"

definition disable_flap_detection :: "ecm \<Rightarrow> step" where
  "disable_flap_detection st m =
     (if g_enable_flap_detection (my_conf m)
      then Option.bind (switch_conf st g_enable_flap_detection
             (\<lambda>c. (conf_modified MODATTR_FLAP_DETECTION_ENABLED c)\<lparr>g_enable_flap_detection := False\<rparr>) m) (\<lambda>m1.
           Option.bind (foldM (stop_flapping st) (service_ids (wd (sc m1))) m1) (\<lambda>m2.
           foldM (stop_flapping st) (host_ids (wd (sc m2))) m2))
      else Some m)"

definition start_accepting_passive_host_checks :: "ecm \<Rightarrow> step" where
  "start_accepting_passive_host_checks st =
     switch_conf st (\<lambda>c. \<not> g_accept_passive_host_checks c)
       (\<lambda>c. (conf_modified MODATTR_PASSIVE_CHECKS_ENABLED c)\<lparr>g_accept_passive_host_checks := True\<rparr>)"

definition start_accepting_passive_svc_checks :: "ecm \<Rightarrow> step" where
  "start_accepting_passive_svc_checks st =
     switch_conf st (\<lambda>c. \<not> g_accept_passive_service_checks c)
       (\<lambda>c. (conf_modified MODATTR_PASSIVE_CHECKS_ENABLED c)\<lparr>g_accept_passive_service_checks := True\<rparr>)"

definition start_executing_host_checks :: "ecm \<Rightarrow> step" where
  "start_executing_host_checks st =
     switch_conf st (\<lambda>c. \<not> g_execute_host_checks c)
       (\<lambda>c. (conf_modified MODATTR_ACTIVE_CHECKS_ENABLED c)\<lparr>g_execute_host_checks := True\<rparr>)"

definition start_executing_svc_checks :: "ecm \<Rightarrow> step" where
  "start_executing_svc_checks st =
     switch_conf st (\<lambda>c. \<not> g_execute_service_checks c)
       (\<lambda>c. (conf_modified MODATTR_ACTIVE_CHECKS_ENABLED c)\<lparr>g_execute_service_checks := True\<rparr>)"

definition stop_accepting_passive_host_checks :: "ecm \<Rightarrow> step" where
  "stop_accepting_passive_host_checks st =
     switch_conf st g_accept_passive_host_checks
       (\<lambda>c. (conf_modified MODATTR_PASSIVE_CHECKS_ENABLED c)\<lparr>g_accept_passive_host_checks := False\<rparr>)"

definition stop_accepting_passive_svc_checks :: "ecm \<Rightarrow> step" where
  "stop_accepting_passive_svc_checks st =
     switch_conf st g_accept_passive_service_checks
       (\<lambda>c. (conf_modified MODATTR_PASSIVE_CHECKS_ENABLED c)\<lparr>g_accept_passive_service_checks := False\<rparr>)"

definition stop_executing_host_checks :: "ecm \<Rightarrow> step" where
  "stop_executing_host_checks st =
     switch_conf st g_execute_host_checks
       (\<lambda>c. (conf_modified MODATTR_ACTIVE_CHECKS_ENABLED c)\<lparr>g_execute_host_checks := False\<rparr>)"

definition stop_executing_svc_checks :: "ecm \<Rightarrow> step" where
  "stop_executing_svc_checks st =
     switch_conf st g_execute_service_checks
       (\<lambda>c. (conf_modified MODATTR_ACTIVE_CHECKS_ENABLED c)\<lparr>g_execute_service_checks := False\<rparr>)"

section \<open>Not implemented\<close>

definition change_global_host_event_handler :: "ecm \<Rightarrow> string \<Rightarrow> step" where
  "change_global_host_event_handler st c =
     not_implemented st ''CHANGE_GLOBAL_HOST_EVENT_HANDLER''"

definition change_global_svc_event_handler :: "ecm \<Rightarrow> string \<Rightarrow> step" where
  "change_global_svc_event_handler st c =
     not_implemented st ''CHANGE_GLOBAL_SVC_EVENT_HANDLER''"

definition disable_all_notifications_beyond_host :: "ecm \<Rightarrow> uuid \<Rightarrow> step" where
  "disable_all_notifications_beyond_host st u =
     not_implemented st ''DISABLE_ALL_NOTIFICATIONS_BEYOND_HOST''"

definition enable_all_notifications_beyond_host :: "ecm \<Rightarrow> uuid \<Rightarrow> step" where
  "enable_all_notifications_beyond_host st u =
     not_implemented st ''ENABLE_ALL_NOTIFICATIONS_BEYOND_HOST''"

definition disable_host_and_child_notifications :: "ecm \<Rightarrow> uuid \<Rightarrow> step" where
  "disable_host_and_child_notifications st u =
     not_implemented st ''DISABLE_HOST_AND_CHILD_NOTIFICATIONS''"

definition enable_host_and_child_notifications :: "ecm \<Rightarrow> uuid \<Rightarrow> step" where
  "enable_host_and_child_notifications st u =
     not_implemented st ''ENABLE_HOST_AND_CHILD_NOTIFICATIONS''"

definition process_file :: "ecm \<Rightarrow> string \<Rightarrow> bool \<Rightarrow> step" where
  "process_file st f d =
     not_implemented st ''PROCESS_FILE''"

definition read_state_information :: "ecm \<Rightarrow> step" where
  "read_state_information st =
     not_implemented st ''READ_STATE_INFORMATION''"

definition save_state_information :: "ecm \<Rightarrow> step" where
  "save_state_information st =
     not_implemented st ''SAVE_STATE_INFORMATION''"

definition schedule_and_propagate_host_downtime :: "ecm \<Rightarrow> uuid \<Rightarrow> int \<Rightarrow> int \<Rightarrow> bool \<Rightarrow> int \<Rightarrow> int \<Rightarrow> string \<Rightarrow> string \<Rightarrow> step" where
  "schedule_and_propagate_host_downtime st u t1 t2 f i d a c =
     not_implemented st ''SCHEDULE_AND_PROPAGATE_HOST_DOWNTIME''"

definition schedule_and_propagate_triggered_host_downtime :: "ecm \<Rightarrow> uuid \<Rightarrow> int \<Rightarrow> int \<Rightarrow> bool \<Rightarrow> int \<Rightarrow> int \<Rightarrow> string \<Rightarrow> string \<Rightarrow> step" where
  "schedule_and_propagate_triggered_host_downtime st u t1 t2 f i d a c =
     not_implemented st ''SCHEDULE_AND_PROPAGATE_TRIGGERED_HOST_DOWNTIME''"

definition send_custom_host_notification :: "ecm \<Rightarrow> uuid \<Rightarrow> int \<Rightarrow> string \<Rightarrow> string \<Rightarrow> step" where
  "send_custom_host_notification st u n a c =
     not_implemented st ''SEND_CUSTOM_HOST_NOTIFICATION''"

definition send_custom_svc_notification :: "ecm \<Rightarrow> uuid \<Rightarrow> int \<Rightarrow> string \<Rightarrow> string \<Rightarrow> step" where
  "send_custom_svc_notification st u n a c =
     not_implemented st ''SEND_CUSTOM_SVC_NOTIFICATION''"

definition set_host_notification_number :: "ecm \<Rightarrow> uuid \<Rightarrow> int \<Rightarrow> step" where
  "set_host_notification_number st u n =
     not_implemented st ''SET_HOST_NOTIFICATION_NUMBER''"

definition set_svc_notification_number :: "ecm \<Rightarrow> uuid \<Rightarrow> int \<Rightarrow> step" where
  "set_svc_notification_number st u n =
     not_implemented st ''SET_SVC_NOTIFICATION_NUMBER''"

definition shutdown_program :: "ecm \<Rightarrow> step" where
  "shutdown_program st =
     not_implemented st ''SHUTDOWN_PROGRAM''"

end
