(* ===== verification/CmdItems.thy ===== *)
theory CmdItems
  imports CmdFlags
begin

text \<open>
  The external commands that act on one host, service or contact: attributes, commands, comments,
  acknowledgements, downtimes, forced checks, results of passive checks
  (\<open>alignak/external_command.py\<close>).
\<close>

unbundle bit_operations_syntax

section \<open>Attributes of contacts\<close>

text \<open>\<open>int(value)\<close> may raise.\<close>

definition set_contact :: "(contact \<Rightarrow> contact) \<Rightarrow> uuid \<Rightarrow> step" where
  "set_contact f k = on_mgr (upd_contact k f)"

definition change_contact_modsattr :: "ecm \<Rightarrow> uuid \<Rightarrow> string \<Rightarrow> step" where
  "change_contact_modsattr st k v m =
     Option.bind (py_int v) (\<lambda>n. set_contact (\<lambda>c. c\<lparr>k_modified_service_attributes := n\<rparr>) k m)"

definition change_contact_modhattr :: "ecm \<Rightarrow> uuid \<Rightarrow> string \<Rightarrow> step" where
  "change_contact_modhattr st k v m =
     Option.bind (py_int v) (\<lambda>n. set_contact (\<lambda>c. c\<lparr>k_modified_host_attributes := n\<rparr>) k m)"

definition change_contact_modattr :: "ecm \<Rightarrow> uuid \<Rightarrow> string \<Rightarrow> step" where
  "change_contact_modattr st k v m =
     Option.bind (py_int v) (\<lambda>n. set_contact (\<lambda>c. c\<lparr>k_modified_attributes := n\<rparr>) k m)"

definition change_contact_host_notification_timeperiod :: "ecm \<Rightarrow> uuid \<Rightarrow> uuid \<Rightarrow> step" where
  "change_contact_host_notification_timeperiod st k p =
     change_contact st (\<lambda>c. c\<lparr>k_modified_host_attributes := k_modified_host_attributes c
         OR modattr_value MODATTR_NOTIFICATION_TIMEPERIOD, k_host_notification_period := Some p\<rparr>) k"

definition change_contact_svc_notification_timeperiod :: "ecm \<Rightarrow> uuid \<Rightarrow> uuid \<Rightarrow> step" where
  "change_contact_svc_notification_timeperiod st k p =
     change_contact st (\<lambda>c. c\<lparr>k_modified_service_attributes := k_modified_service_attributes c
         OR modattr_value MODATTR_NOTIFICATION_TIMEPERIOD, k_service_notification_period := Some p\<rparr>) k"

section \<open>Custom variables\<close>

text \<open>Only variables that exist are changed.\<close>

definition change_custom_contact_var :: "ecm \<Rightarrow> uuid \<Rightarrow> string \<Rightarrow> string \<Rightarrow> step" where
  "change_custom_contact_var st k name v =
     switch_contact st (\<lambda>c. dhas (k_customs c) (upper name))
       (\<lambda>c. (contact_modified MODATTR_CUSTOM_VARIABLE c)\<lparr>k_customs := dset (upper name) v (k_customs c)\<rparr>) k"

definition change_custom_var :: "ecm \<Rightarrow> uuid \<Rightarrow> string \<Rightarrow> string \<Rightarrow> step" where
  "change_custom_var st u name v =
     switch st (\<lambda>it. dhas (customs it) (upper name))
       (\<lambda>it. (modified MODATTR_CUSTOM_VARIABLE it)\<lparr>customs := dset (upper name) v (customs it)\<rparr>) u"

definition change_custom_host_var :: "ecm \<Rightarrow> uuid \<Rightarrow> string \<Rightarrow> string \<Rightarrow> step" where
  "change_custom_host_var st = change_custom_var st"

definition change_custom_svc_var :: "ecm \<Rightarrow> uuid \<Rightarrow> string \<Rightarrow> string \<Rightarrow> step" where
  "change_custom_svc_var st = change_custom_var st"

section \<open>Commands of hosts and services\<close>

text \<open>
  The \<open>CommandCall\<close> that \<open>change_check_command\<close>, \<open>change_event_handler\<close> and
  \<open>change_snapshot_command\<close> build from the text of the command.
\<close>

definition protected_exclamation :: string where
  "protected_exclamation = ''___PROTECT_EXCLAMATION___''"

definition call_name_and_args :: "string \<Rightarrow> string \<times> string list" where
  "call_name_and_args line =
     (let tab = split_on (CHR ''!'') (replace_all [CHR 0x5C, CHR ''!''] protected_exclamation line)
      in (strip (hd tab), map (replace_all protected_exclamation ''!'') (tl tab)))"

definition tag_or :: "string \<Rightarrow> string \<Rightarrow> string" where
  "tag_or tag other = (if tag = ''None'' \<or> tag = [] then other else tag)"

definition new_command_call :: "ecm \<Rightarrow> uuid \<Rightarrow> string \<Rightarrow> string \<Rightarrow> command_call" where
  "new_command_call st cid tag line =
     (case call_name_and_args line of (name, args) \<Rightarrow>
      (case command_named st name of
         None \<Rightarrow> \<lparr>cc_uuid = cid, cc_name = name, cc_args = args, cc_poller_tag = tag,
                  cc_reactionner_tag = [], cc_module_type = ''fork'', cc_timeout = -1,
                  cc_environment_macros = False\<rparr>
       | Some co \<Rightarrow> \<lparr>cc_uuid = cid, cc_name = name, cc_args = args,
                  cc_poller_tag = tag_or tag (co_poller_tag co),
                  cc_reactionner_tag = co_reactionner_tag co, cc_module_type = co_module_type co,
                  cc_timeout = co_timeout co,
                  cc_environment_macros = co_enable_environment_macros co\<rparr>))"

definition change_command ::
  "ecm \<Rightarrow> modattr \<Rightarrow> (command_call \<Rightarrow> item \<Rightarrow> item) \<Rightarrow> uuid \<Rightarrow> string \<Rightarrow> step" where
  "change_command st a f u line m =
     (let cid = next_uuid (wd (sc m))
      in Option.bind (on_mgr (\<lambda>w. Some (w\<lparr>next_uuid := cid + 1\<rparr>)) m)
           (change_item st (\<lambda>it. f (new_command_call st cid (poller_tag it) line) (modified a it)) u))"

definition change_host_check_command :: "ecm \<Rightarrow> uuid \<Rightarrow> string \<Rightarrow> step" where
  "change_host_check_command st =
     change_command st MODATTR_CHECK_COMMAND (\<lambda>c it. it\<lparr>check_command := Some c\<rparr>)"

definition change_host_event_handler :: "ecm \<Rightarrow> uuid \<Rightarrow> string \<Rightarrow> step" where
  "change_host_event_handler st =
     change_command st MODATTR_EVENT_HANDLER_COMMAND (\<lambda>c it. it\<lparr>event_handler_cmd := Some c\<rparr>)"

definition change_host_snapshot_command :: "ecm \<Rightarrow> uuid \<Rightarrow> string \<Rightarrow> step" where
  "change_host_snapshot_command st =
     change_command st MODATTR_EVENT_HANDLER_COMMAND (\<lambda>c it. it\<lparr>snapshot_command := Some c\<rparr>)"

definition change_svc_check_command :: "ecm \<Rightarrow> uuid \<Rightarrow> string \<Rightarrow> step" where
  "change_svc_check_command st =
     change_command st MODATTR_CHECK_COMMAND (\<lambda>c it. it\<lparr>check_command := Some c\<rparr>)"

definition change_svc_event_handler :: "ecm \<Rightarrow> uuid \<Rightarrow> string \<Rightarrow> step" where
  "change_svc_event_handler st =
     change_command st MODATTR_EVENT_HANDLER_COMMAND (\<lambda>c it. it\<lparr>event_handler_cmd := Some c\<rparr>)"

definition change_svc_snapshot_command :: "ecm \<Rightarrow> uuid \<Rightarrow> string \<Rightarrow> step" where
  "change_svc_snapshot_command st =
     change_command st MODATTR_EVENT_HANDLER_COMMAND (\<lambda>c it. it\<lparr>snapshot_command := Some c\<rparr>)"

section \<open>Attributes of hosts and services\<close>

text \<open>
  \<open>change_host_modattr\<close> and \<open>change_svc_modattr\<close> go through the bits in this order and replace the
  attribute of every bit of \<open>changes\<close> by its negation; the bit of the freshness checks is there
  twice. The negation of a number is 0 or 1. The attributes that are objects (commands, periods,
  custom variables) would become Booleans, which the model has not: \<open>None\<close>.
  \<open>process_performance_data\<close> becomes an attribute of the item that hides the one of its class and
  is not modelled: \<open>None\<close> too.
\<close>

definition modattr_order :: "modattr list" where
  "modattr_order =
     [MODATTR_NOTIFICATIONS_ENABLED, MODATTR_ACTIVE_CHECKS_ENABLED, MODATTR_PASSIVE_CHECKS_ENABLED,
      MODATTR_EVENT_HANDLER_ENABLED, MODATTR_FLAP_DETECTION_ENABLED,
      MODATTR_PERFORMANCE_DATA_ENABLED, MODATTR_FRESHNESS_CHECKS_ENABLED,
      MODATTR_EVENT_HANDLER_COMMAND, MODATTR_CHECK_COMMAND, MODATTR_NORMAL_CHECK_INTERVAL,
      MODATTR_RETRY_CHECK_INTERVAL, MODATTR_MAX_CHECK_ATTEMPTS, MODATTR_FRESHNESS_CHECKS_ENABLED,
      MODATTR_CHECK_TIMEPERIOD, MODATTR_CUSTOM_VARIABLE, MODATTR_NOTIFICATION_TIMEPERIOD]"

fun negate_attribute :: "modattr \<Rightarrow> item \<Rightarrow> item option" where
  "negate_attribute MODATTR_NOTIFICATIONS_ENABLED it =
     Some (it\<lparr>notifications_enabled := \<not> notifications_enabled it\<rparr>)"
| "negate_attribute MODATTR_ACTIVE_CHECKS_ENABLED it =
     Some (it\<lparr>active_checks_enabled := \<not> active_checks_enabled it\<rparr>)"
| "negate_attribute MODATTR_PASSIVE_CHECKS_ENABLED it =
     Some (it\<lparr>passive_checks_enabled := \<not> passive_checks_enabled it\<rparr>)"
| "negate_attribute MODATTR_EVENT_HANDLER_ENABLED it =
     Some (it\<lparr>event_handler_enabled := \<not> event_handler_enabled it\<rparr>)"
| "negate_attribute MODATTR_FLAP_DETECTION_ENABLED it =
     Some (it\<lparr>flap_detection_enabled := \<not> flap_detection_enabled it\<rparr>)"
| "negate_attribute MODATTR_FRESHNESS_CHECKS_ENABLED it =
     Some (it\<lparr>check_freshness := \<not> check_freshness it\<rparr>)"
| "negate_attribute MODATTR_NORMAL_CHECK_INTERVAL it =
     Some (it\<lparr>check_interval := (if check_interval it = 0 then 1 else 0)\<rparr>)"
| "negate_attribute MODATTR_RETRY_CHECK_INTERVAL it =
     Some (it\<lparr>retry_interval := (if retry_interval it = 0 then 1 else 0)\<rparr>)"
| "negate_attribute MODATTR_MAX_CHECK_ATTEMPTS it =
     Some (it\<lparr>max_check_attempts := (if max_check_attempts it = 0 then 1 else 0)\<rparr>)"
| "negate_attribute _ it = None"

definition change_modattr :: "int \<Rightarrow> item \<Rightarrow> item option" where
  "change_modattr changes it =
     map_option (\<lambda>it1. it1\<lparr>modified_attributes := modified_attributes it XOR changes\<rparr>)
       (foldM (\<lambda>a it. if changes AND modattr_value a \<noteq> 0 then negate_attribute a it else Some it)
          modattr_order it)"

definition change_item_modattr :: "ecm \<Rightarrow> uuid \<Rightarrow> int \<Rightarrow> step" where
  "change_item_modattr st u changes m =
     (case Option.bind (item_of m u) (change_modattr changes) of None \<Rightarrow> None
      | Some it \<Rightarrow> change_item st (\<lambda>_. it) u m)"

definition change_host_modattr :: "ecm \<Rightarrow> uuid \<Rightarrow> int \<Rightarrow> step" where
  "change_host_modattr st = change_item_modattr st"

definition change_svc_modattr :: "ecm \<Rightarrow> uuid \<Rightarrow> int \<Rightarrow> step" where
  "change_svc_modattr st = change_item_modattr st"

definition change_max_attempts :: "state \<Rightarrow> int \<Rightarrow> item \<Rightarrow> item" where
  "change_max_attempts good n it =
     (let it1 = (modified MODATTR_MAX_CHECK_ATTEMPTS it)\<lparr>max_check_attempts := n\<rparr>
      in if state_type it1 = HARD \<and> state it1 = good \<and> attempt it1 > 1
         then it1\<lparr>attempt := max_check_attempts it1\<rparr> else it1)"

definition change_max_host_check_attempts :: "ecm \<Rightarrow> uuid \<Rightarrow> int \<Rightarrow> step" where
  "change_max_host_check_attempts st u n = change_item st (change_max_attempts UP n) u"

definition change_max_svc_check_attempts :: "ecm \<Rightarrow> uuid \<Rightarrow> int \<Rightarrow> step" where
  "change_max_svc_check_attempts st u n = change_item st (change_max_attempts OK n) u"

definition change_retry_host_check_interval :: "ecm \<Rightarrow> uuid \<Rightarrow> int \<Rightarrow> step" where
  "change_retry_host_check_interval st u n =
     change_item st (\<lambda>it. (modified MODATTR_RETRY_CHECK_INTERVAL it)\<lparr>retry_interval := of_int n\<rparr>) u"

definition change_retry_svc_check_interval :: "ecm \<Rightarrow> uuid \<Rightarrow> int \<Rightarrow> step" where
  "change_retry_svc_check_interval st u n =
     change_item st (\<lambda>it. (modified MODATTR_RETRY_CHECK_INTERVAL it)\<lparr>retry_interval := of_int n\<rparr>) u"

definition delay_host_notification :: "ecm \<Rightarrow> uuid \<Rightarrow> int \<Rightarrow> step" where
  "delay_host_notification st u t = change_item st (\<lambda>it. it\<lparr>first_notification_delay := t\<rparr>) u"

definition delay_svc_notification :: "ecm \<Rightarrow> uuid \<Rightarrow> int \<Rightarrow> step" where
  "delay_svc_notification st u t = change_item st (\<lambda>it. it\<lparr>first_notification_delay := t\<rparr>) u"

end
