(* ===== verification/CmdActions.thy ===== *)
theory CmdActions
  imports CmdItems
begin

text \<open>
  The external commands that start something: checks, passive results, comments, acknowledgements,
  downtimes, event handlers, programs (\<open>alignak/external_command.py\<close>).
\<close>

section \<open>Forced and scheduled checks\<close>

definition schedule_at :: "ecm \<Rightarrow> bool \<Rightarrow> int \<Rightarrow> uuid \<Rightarrow> step" where
  "schedule_at st force t u m =
     (case random_uniform (sp st) u (now (wd (sc m))) of (r1, r2) \<Rightarrow>
      map_option (send st UpdateStatusBrok)
        (on_mgr (\<lambda>w. map_option fst (schedule (depth (sp st)) (pe (sp st)) r1 r2 u force (Some t) w)) m))"

definition schedule_forced_host_check :: "ecm \<Rightarrow> uuid \<Rightarrow> int \<Rightarrow> step" where
  "schedule_forced_host_check st u t = schedule_at st True t u"

definition schedule_forced_svc_check :: "ecm \<Rightarrow> uuid \<Rightarrow> int \<Rightarrow> step" where
  "schedule_forced_svc_check st u t = schedule_at st True t u"

definition schedule_host_check :: "ecm \<Rightarrow> uuid \<Rightarrow> int \<Rightarrow> step" where
  "schedule_host_check st u t = schedule_at st False t u"

definition schedule_svc_check :: "ecm \<Rightarrow> uuid \<Rightarrow> int \<Rightarrow> step" where
  "schedule_svc_check st u t = schedule_at st False t u"

text \<open>Each service of a host; its status is sent once more.\<close>

definition for_each_service :: "ecm \<Rightarrow> (uuid \<Rightarrow> step) \<Rightarrow> uuid \<Rightarrow> step" where
  "for_each_service st f u m =
     (case item_of m u of None \<Rightarrow> None
      | Some h \<Rightarrow> for_services (\<lambda>s m. map_option (send st UpdateStatusBrok) (f s m)) (services_of h) m)"

definition schedule_forced_host_svc_checks :: "ecm \<Rightarrow> uuid \<Rightarrow> int \<Rightarrow> step" where
  "schedule_forced_host_svc_checks st u t =
     for_each_service st (\<lambda>s. schedule_forced_svc_check st s t) u"

definition schedule_host_svc_checks :: "ecm \<Rightarrow> uuid \<Rightarrow> int \<Rightarrow> step" where
  "schedule_host_svc_checks st u t = for_each_service st (\<lambda>s. schedule_svc_check st s t) u"

text \<open>
  When the interval was 0 the code asks for \<open>checks_enabled\<close>, an attribute that hosts and services
  have not: \<open>AttributeError\<close>.
\<close>

definition change_normal_check_interval :: "ecm \<Rightarrow> uuid \<Rightarrow> int \<Rightarrow> step" where
  "change_normal_check_interval st u n m =
     (case item_of m u of None \<Rightarrow> None
      | Some it \<Rightarrow>
          if check_interval it = 0 then None
          else change_item st (\<lambda>it. (modified MODATTR_NORMAL_CHECK_INTERVAL it)
                 \<lparr>check_interval := of_int n\<rparr>) u m)"

definition change_normal_host_check_interval :: "ecm \<Rightarrow> uuid \<Rightarrow> int \<Rightarrow> step" where
  "change_normal_host_check_interval st = change_normal_check_interval st"

definition change_normal_svc_check_interval :: "ecm \<Rightarrow> uuid \<Rightarrow> int \<Rightarrow> step" where
  "change_normal_svc_check_interval st = change_normal_check_interval st"

section \<open>Passive results\<close>

definition joined :: "string list \<Rightarrow> string" where
  "joined = join_with '';''"

text \<open>
  The check that carries a passive result: forced, so that a check in progress is taken if there
  is one. \<open>send_an_element\<close> gives it to the scheduler; it catches all exceptions.
\<close>

definition passive_check :: "int \<Rightarrow> int \<Rightarrow> string \<Rightarrow> int \<Rightarrow> check \<Rightarrow> check" where
  "passive_check t status out_text max_length c =
     (case get_outputs out_text max_length of (out, long, perf) \<Rightarrow>
        c\<lparr>c_exit_status := status, c_output := out, c_long_output := long, c_perf_data := perf,
          c_status := WAIT_CONSUME, c_check_time := t, c_passive_check := True\<rparr>)"

definition process_check_result ::
  "ecm \<Rightarrow> (manager \<Rightarrow> item \<Rightarrow> check \<Rightarrow> (string \<times> string) option) \<Rightarrow> uuid \<Rightarrow> int \<Rightarrow> string \<Rightarrow> step" where
  "process_check_result st log_entry u status out_text m =
     (case item_of m u of None \<Rightarrow> None
      | Some it \<Rightarrow>
        let cl = cls_of (wd (sc m)) it
        in if \<not> accept_passive_checks cl \<or> \<not> passive_checks_enabled it then Some m
           else if current_timestamp m < last_chk it then Some m
           else
             (case launch_check (depth (sp st)) (pe (sp st)) u (now (wd (sc m))) None True False (wd (sc m)) of
                None \<Rightarrow> None
              | Some (w, None) \<Rightarrow> Some (m\<lparr>sc := (sc m)\<lparr>wd := w\<rparr>\<rparr>)
              | Some (w, Some cid) \<Rightarrow>
                (case checks w cid of None \<Rightarrow> None
                 | Some c0 \<Rightarrow>
                   let c = passive_check (current_timestamp m) status out_text
                             (max_plugins_output_length cl) c0;
                       s1 = (sc m)\<lparr>wd := w\<lparr>checks := (checks w)(cid \<mapsto> c)\<rparr>\<rparr>;
                       m1 = m\<lparr>sc := (case add_check cid s1 of None \<Rightarrow> s1 | Some s2 \<Rightarrow> s2)\<rparr>
                   in if log_passive_checks st
                      then map_option (\<lambda>(level, text). send_log st level text m1) (log_entry m1 it c)
                      else Some m1)))"

definition host_result_log :: "manager \<Rightarrow> item \<Rightarrow> check \<Rightarrow> (string \<times> string) option" where
  "host_result_log m it c =
     Some (if c_exit_status c = 1 then ''error'' else if c_exit_status c = 2 then ''warning'' else ''info'',
           ''PASSIVE HOST CHECK: '' @ joined [get_name it, fmt_int (c_exit_status c), c_output c,
              c_long_output c, c_perf_data c])"

definition service_result_log :: "manager \<Rightarrow> item \<Rightarrow> check \<Rightarrow> (string \<times> string) option" where
  "service_result_log m it c =
     map_option (\<lambda>h.
        (if c_exit_status c = 1 then ''warning'' else if c_exit_status c = 2 then ''error'' else ''info'',
         ''PASSIVE SERVICE CHECK: '' @ joined [get_name h, get_name it, fmt_int (c_exit_status c),
            c_output c, c_long_output c, c_perf_data c]))
       (Option.bind (host it) (item_of m))"

definition process_host_check_result :: "ecm \<Rightarrow> uuid \<Rightarrow> int \<Rightarrow> string \<Rightarrow> step" where
  "process_host_check_result st = process_check_result st host_result_log"

definition process_service_check_result :: "ecm \<Rightarrow> uuid \<Rightarrow> int \<Rightarrow> string \<Rightarrow> step" where
  "process_service_check_result st = process_check_result st service_result_log"

definition process_host_output :: "ecm \<Rightarrow> uuid \<Rightarrow> string \<Rightarrow> step" where
  "process_host_output st u out m =
     (case item_of m u of None \<Rightarrow> None
      | Some it \<Rightarrow> process_host_check_result st u (state_id it) out m)"

definition process_service_output :: "ecm \<Rightarrow> uuid \<Rightarrow> string \<Rightarrow> step" where
  "process_service_output st u out m =
     (case item_of m u of None \<Rightarrow> None
      | Some it \<Rightarrow> process_service_check_result st u (state_id it) out m)"

section \<open>Comments\<close>

definition user_comment :: "uuid \<Rightarrow> int \<Rightarrow> string \<Rightarrow> string \<Rightarrow> comment" where
  "user_comment u ty author text =
     \<lparr>cm_author = author, cm_text = text, cm_comment_type = ty, cm_entry_type = 1, cm_source = 1,
      cm_expires = False, cm_ref = u\<rparr>"

definition store_comment :: "ecm \<Rightarrow> uuid \<Rightarrow> comment \<Rightarrow> step" where
  "store_comment st u c m =
     (let cid = next_uuid (wd (sc m))
      in Option.bind (on_mgr (\<lambda>w. Some (w\<lparr>next_uuid := cid + 1\<rparr>)) m)
           (change_item st (\<lambda>it. it\<lparr>comments := dset cid c (comments it)\<rparr>) u))"

definition add_svc_comment :: "ecm \<Rightarrow> uuid \<Rightarrow> string \<Rightarrow> string \<Rightarrow> step" where
  "add_svc_comment st u author text m =
     Option.bind (store_comment st u (user_comment u 2 author text) m) (\<lambda>m1.
     case item_of m1 u of None \<Rightarrow> None
     | Some it \<Rightarrow>
        map_option (\<lambda>h. send st CommentBrok (send_log st ''info''
            (''SERVICE COMMENT: '' @ joined [get_name h, get_name it, author, text]) m1))
          (Option.bind (host it) (item_of m1)))"

text \<open>
  For a host the last line looks the host up with the host itself as the key: \<open>KeyError\<close>, after
  everything else is done (\<open>host_comment_stored\<close>).
\<close>

definition host_comment_stored :: "ecm \<Rightarrow> uuid \<Rightarrow> string \<Rightarrow> string \<Rightarrow> step" where
  "host_comment_stored st u author text m =
     Option.bind (store_comment st u (user_comment u 1 author text) m) (\<lambda>m1.
     map_option (\<lambda>it. send_log st ''info'' (''HOST COMMENT: '' @ joined [get_name it, author, text]) m1)
       (item_of m1 u))"

definition add_host_comment :: "ecm \<Rightarrow> uuid \<Rightarrow> string \<Rightarrow> string \<Rightarrow> step" where
  "add_host_comment st u author text m =
     Option.bind (host_comment_stored st u author text m) (\<lambda>m1. None)"

definition holder :: "manager \<Rightarrow> (item \<Rightarrow> bool) \<Rightarrow> uuid list \<Rightarrow> uuid option" where
  "holder m has = find (\<lambda>u. case item_of m u of None \<Rightarrow> False | Some it \<Rightarrow> has it)"

definition missing_log :: "ecm \<Rightarrow> string \<Rightarrow> string \<Rightarrow> string \<Rightarrow> manager \<Rightarrow> manager" where
  "missing_log st command what shown =
     send_log st ''warning'' (command @ '': '' @ what @ '' id: '' @ shown
        @ '' does not exist and cannot be deleted.'')"

definition del_host_comment :: "ecm \<Rightarrow> string \<Rightarrow> step" where
  "del_host_comment st shown m =
     (let cid = id_of st shown
      in case holder m (\<lambda>it. dhas (comments it) cid) (host_ids (wd (sc m))) of
           Some u \<Rightarrow> change_item st (del_comment (Some cid)) u m
         | None \<Rightarrow> Some (missing_log st ''DEL_HOST_COMMENT'' ''comment'' shown m))"

definition del_svc_comment :: "ecm \<Rightarrow> string \<Rightarrow> step" where
  "del_svc_comment st shown m =
     (let cid = id_of st shown
      in case holder m (\<lambda>it. dhas (comments it) cid) (service_ids (wd (sc m))) of
           Some u \<Rightarrow> change_item st (del_comment (Some cid)) u m
         | None \<Rightarrow> Some (missing_log st ''DEL_SVC_COMMENT'' ''comment'' shown m))"

definition del_all_comments :: "item \<Rightarrow> item" where
  "del_all_comments it = fold (\<lambda>c. del_comment (Some c)) (dkeys (comments it)) it"

definition del_all_host_comments :: "ecm \<Rightarrow> uuid \<Rightarrow> step" where
  "del_all_host_comments st = change_item st del_all_comments"

definition del_all_svc_comments :: "ecm \<Rightarrow> uuid \<Rightarrow> step" where
  "del_all_svc_comments st = change_item st del_all_comments"

section \<open>Acknowledgements\<close>

definition acknowledge_cmd :: "ecm \<Rightarrow> uuid \<Rightarrow> int \<Rightarrow> bool \<Rightarrow> int \<Rightarrow> string \<Rightarrow> string \<Rightarrow> step" where
  "acknowledge_cmd st u sticky notify end_time author text m =
     (case item_of m u of None \<Rightarrow> None
      | Some it \<Rightarrow> on_mgr (acknowledge_problem (pe (sp st)) (notification_period it) sticky notify
                     author text end_time u) m)"

definition acknowledge_svc_problem :: "ecm \<Rightarrow> uuid \<Rightarrow> int \<Rightarrow> bool \<Rightarrow> string \<Rightarrow> string \<Rightarrow> step" where
  "acknowledge_svc_problem st u sticky notify = acknowledge_cmd st u sticky notify 0"

definition acknowledge_host_problem :: "ecm \<Rightarrow> uuid \<Rightarrow> int \<Rightarrow> bool \<Rightarrow> string \<Rightarrow> string \<Rightarrow> step" where
  "acknowledge_host_problem st u sticky notify = acknowledge_cmd st u sticky notify 0"

definition acknowledge_svc_problem_expire ::
  "ecm \<Rightarrow> uuid \<Rightarrow> int \<Rightarrow> bool \<Rightarrow> int \<Rightarrow> string \<Rightarrow> string \<Rightarrow> step" where
  "acknowledge_svc_problem_expire st = acknowledge_cmd st"

definition acknowledge_host_problem_expire ::
  "ecm \<Rightarrow> uuid \<Rightarrow> int \<Rightarrow> bool \<Rightarrow> int \<Rightarrow> string \<Rightarrow> string \<Rightarrow> step" where
  "acknowledge_host_problem_expire st = acknowledge_cmd st"

definition remove_host_acknowledgement :: "ecm \<Rightarrow> uuid \<Rightarrow> step" where
  "remove_host_acknowledgement st u = on_mgr (unacknowledge_problem u)"

definition remove_svc_acknowledgement :: "ecm \<Rightarrow> uuid \<Rightarrow> step" where
  "remove_svc_acknowledgement st u = on_mgr (unacknowledge_problem u)"

section \<open>Downtimes\<close>

text \<open>
  The identifiers of a trigger are texts; \<open>''\<close> and \<open>'0'\<close> are none, and no downtime has them.
\<close>

definition trigger_of :: "ecm \<Rightarrow> string \<Rightarrow> uuid option" where
  "trigger_of st trigger_id = (if trigger_id = [] \<or> trigger_id = ''0'' then None else Some (id_of st trigger_id))"

text \<open>
  Every item of the same kind that has the triggering downtime makes the new one be triggered, but
  the downtime is looked up in the item of the new one: \<open>KeyError\<close> if it is another's.
\<close>

definition register_trigger :: "uuid \<Rightarrow> uuid \<Rightarrow> uuid \<Rightarrow> uuid list \<Rightarrow> step" where
  "register_trigger u did trigger = foldM (\<lambda>other m.
     case (item_of m other, item_of m u) of
       (Some o_it, Some it) \<Rightarrow>
         if trigger \<in> set (downtimes o_it)
         then (if trigger \<in> set (downtimes it) then on_mgr (upd_downtime trigger (trigger_me did)) m else None)
         else Some m
     | _ \<Rightarrow> None)"

definition schedule_downtime ::
  "ecm \<Rightarrow> (world \<Rightarrow> uuid list) \<Rightarrow> uuid \<Rightarrow> int \<Rightarrow> int \<Rightarrow> bool \<Rightarrow> string \<Rightarrow> int \<Rightarrow> string \<Rightarrow> string \<Rightarrow> step" where
  "schedule_downtime st ids u start_time end_time fixed trigger_id duration author text m =
     (case item_of m u of None \<Rightarrow> None
      | Some it \<Rightarrow>
        let did = next_uuid (wd (sc m)); trigger = trigger_of st trigger_id;
            d = new_downtime u fixed start_time end_time duration trigger author text
        in Option.bind (on_mgr (\<lambda>w. Some (w\<lparr>next_uuid := did + 1,
                          downtime_store := (downtime_store w)(did \<mapsto> d)\<rparr>)) m) (\<lambda>m1.
           Option.bind (on_mgr (add_automatic_comment (downtime_text (sp st) d (my_type it)) did) m1) (\<lambda>m2.
           Option.bind (on_mgr (add_downtime u did) m2) (\<lambda>m3.
           let m4 = send st UpdateStatusBrok m3
           in case trigger of None \<Rightarrow> Some m4
              | Some t \<Rightarrow> register_trigger u did t (ids (wd (sc m4))) m4))))"

definition schedule_host_downtime ::
  "ecm \<Rightarrow> uuid \<Rightarrow> int \<Rightarrow> int \<Rightarrow> bool \<Rightarrow> string \<Rightarrow> int \<Rightarrow> string \<Rightarrow> string \<Rightarrow> step" where
  "schedule_host_downtime st = schedule_downtime st host_ids"

definition schedule_svc_downtime ::
  "ecm \<Rightarrow> uuid \<Rightarrow> int \<Rightarrow> int \<Rightarrow> bool \<Rightarrow> string \<Rightarrow> int \<Rightarrow> string \<Rightarrow> string \<Rightarrow> step" where
  "schedule_svc_downtime st = schedule_downtime st service_ids"

definition schedule_hostgroup_host_downtime ::
  "ecm \<Rightarrow> uuid list \<Rightarrow> int \<Rightarrow> int \<Rightarrow> bool \<Rightarrow> string \<Rightarrow> int \<Rightarrow> string \<Rightarrow> string \<Rightarrow> step" where
  "schedule_hostgroup_host_downtime st us t1 t2 fixed trigger_id duration author text =
     for_hosts (\<lambda>u. schedule_host_downtime st u t1 t2 fixed trigger_id duration author text) us"

definition schedule_hostgroup_svc_downtime ::
  "ecm \<Rightarrow> uuid list \<Rightarrow> int \<Rightarrow> int \<Rightarrow> bool \<Rightarrow> string \<Rightarrow> int \<Rightarrow> string \<Rightarrow> string \<Rightarrow> step" where
  "schedule_hostgroup_svc_downtime st us t1 t2 fixed trigger_id duration author text =
     for_hosts (\<lambda>u m. case item_of m u of None \<Rightarrow> None
        | Some h \<Rightarrow> for_services (\<lambda>s. schedule_svc_downtime st s t1 t2 fixed trigger_id duration author text)
                      (services_of h) m) us"

text \<open>
  The next three go through identifiers of services and use them as services or hosts:
  \<open>AttributeError\<close> at the first one.
\<close>

definition schedule_host_svc_downtime ::
  "ecm \<Rightarrow> uuid \<Rightarrow> int \<Rightarrow> int \<Rightarrow> bool \<Rightarrow> string \<Rightarrow> int \<Rightarrow> string \<Rightarrow> string \<Rightarrow> step" where
  "schedule_host_svc_downtime st u t1 t2 fixed trigger_id duration author text m =
     (case item_of m u of None \<Rightarrow> None
      | Some h \<Rightarrow> if services_of h = [] then Some m else None)"

definition schedule_servicegroup_host_downtime ::
  "ecm \<Rightarrow> uuid list \<Rightarrow> int \<Rightarrow> int \<Rightarrow> bool \<Rightarrow> string \<Rightarrow> int \<Rightarrow> string \<Rightarrow> string \<Rightarrow> step" where
  "schedule_servicegroup_host_downtime st us t1 t2 fixed trigger_id duration author text m =
     (if us = [] then Some m else None)"

definition schedule_servicegroup_svc_downtime ::
  "ecm \<Rightarrow> uuid list \<Rightarrow> int \<Rightarrow> int \<Rightarrow> bool \<Rightarrow> string \<Rightarrow> int \<Rightarrow> string \<Rightarrow> string \<Rightarrow> step" where
  "schedule_servicegroup_svc_downtime st us t1 t2 fixed trigger_id duration author text m =
     (if us = [] then Some m else None)"

text \<open>Cancelling: the first item that has the downtime; its broks are sent.\<close>

definition cancel_downtime :: "ecm \<Rightarrow> uuid list \<Rightarrow> uuid \<Rightarrow> (manager \<Rightarrow> manager) \<Rightarrow> step" where
  "cancel_downtime st ids did missing m =
     (case holder m (\<lambda>it. did \<in> set (downtimes it)) ids of
        None \<Rightarrow> Some (missing m)
      | Some u \<Rightarrow> map_option (\<lambda>(w, bs). fold (send st) bs (m\<lparr>sc := (sc m)\<lparr>wd := w\<rparr>\<rparr>))
                   (downtime_cancel did (wd (sc m))))"

definition del_host_downtime :: "ecm \<Rightarrow> string \<Rightarrow> step" where
  "del_host_downtime st shown m =
     cancel_downtime st (host_ids (wd (sc m))) (id_of st shown)
       (missing_log st ''DEL_HOST_DOWNTIME'' ''downtime'' shown) m"

definition del_svc_downtime :: "ecm \<Rightarrow> string \<Rightarrow> step" where
  "del_svc_downtime st shown m =
     cancel_downtime st (service_ids (wd (sc m))) (id_of st shown)
       (missing_log st ''DEL_SVC_DOWNTIME'' ''downtime'' shown) m"

text \<open>All downtimes of an item, which has them: none is missing.\<close>

definition del_all_downtimes :: "ecm \<Rightarrow> (world \<Rightarrow> uuid list) \<Rightarrow> uuid \<Rightarrow> step" where
  "del_all_downtimes st ids u m =
     (case item_of m u of None \<Rightarrow> None
      | Some it \<Rightarrow>
          map_option (send st UpdateStatusBrok)
            (foldM (\<lambda>did m. cancel_downtime st (ids (wd (sc m))) did (\<lambda>m. m) m) (downtimes it) m))"

definition del_all_host_downtimes :: "ecm \<Rightarrow> uuid \<Rightarrow> step" where
  "del_all_host_downtimes st = del_all_downtimes st host_ids"

definition del_all_svc_downtimes :: "ecm \<Rightarrow> uuid \<Rightarrow> step" where
  "del_all_svc_downtimes st = del_all_downtimes st service_ids"

section \<open>Downtimes of contacts\<close>

definition schedule_contact_downtime :: "ecm \<Rightarrow> uuid \<Rightarrow> int \<Rightarrow> int \<Rightarrow> string \<Rightarrow> string \<Rightarrow> step" where
  "schedule_contact_downtime st k start_time end_time author text m =
     (let did = next_uuid (wd (sc m));
          d = \<lparr>cd_ref = k, cd_start_time = start_time, cd_end_time = end_time,
               cd_is_in_effect = False, cd_can_be_deleted = False\<rparr>
      in Option.bind (on_mgr (\<lambda>w. Some (w\<lparr>next_uuid := did + 1\<rparr>)) m)
           (change_contact st (\<lambda>c. c\<lparr>k_downtimes := dset did d (k_downtimes c)\<rparr>) k))"

definition cancel_contact_downtime :: "uuid \<Rightarrow> (manager \<Rightarrow> manager) \<Rightarrow> step" where
  "cancel_contact_downtime did missing m =
     (case find (\<lambda>k. case contact_of m k of None \<Rightarrow> False | Some c \<Rightarrow> dhas (k_downtimes c) did)
             (contact_ids (sc m)) of
        None \<Rightarrow> Some (missing m)
      | Some k \<Rightarrow>
          (case Option.bind (contact_of m k) (\<lambda>c. dget (k_downtimes c) did) of None \<Rightarrow> None
           | Some d \<Rightarrow>
          (case contact_of m (cd_ref d) of None \<Rightarrow> None
           | Some r \<Rightarrow>
          (case contact_downtime_cancel d r of (d1, r1) \<Rightarrow>
             on_mgr (\<lambda>w. upd_contact k (\<lambda>c. c\<lparr>k_downtimes := dset did d1 (k_downtimes c)\<rparr>)
               (w\<lparr>contact_store := (contact_store w)(cd_ref d \<mapsto> r1)\<rparr>)) m))))"

definition del_contact_downtime :: "ecm \<Rightarrow> string \<Rightarrow> step" where
  "del_contact_downtime st shown =
     cancel_contact_downtime (id_of st shown) (missing_log st ''DEL_CONTACT_DOWNTIME'' ''downtime'' shown)"

definition del_all_contact_downtimes :: "ecm \<Rightarrow> uuid \<Rightarrow> step" where
  "del_all_contact_downtimes st k m =
     (case contact_of m k of None \<Rightarrow> None
      | Some c \<Rightarrow> foldM (\<lambda>did. cancel_contact_downtime did (\<lambda>m. m)) (dkeys (k_downtimes c)) m)"

section \<open>Event handlers and programs\<close>

definition launch_svc_event_handler :: "ecm \<Rightarrow> uuid \<Rightarrow> step" where
  "launch_svc_event_handler st u = on_mgr (get_event_handlers (pe (sp st)) u True)"

definition launch_host_event_handler :: "ecm \<Rightarrow> uuid \<Rightarrow> step" where
  "launch_host_event_handler st u = on_mgr (get_event_handlers (pe (sp st)) u True)"

text \<open>
  \<open>restart_program\<close> and \<open>reload_config\<close> run a command of the configuration to its end; its status,
  exit status and output are given.
\<close>

definition run_configured :: "ecm \<Rightarrow> string \<Rightarrow> string \<Rightarrow> step" where
  "run_configured st name tag m =
     (case command_named st name of None \<Rightarrow> Some m
      | Some co \<Rightarrow>
          (case run_program st (co_command_line co) of (status, code, out) \<Rightarrow>
             Some (send_log st (if status = TIMEOUT \<or> code \<noteq> 0 then ''error'' else ''info'')
                     (tag @ '': '' @ out) m)))"

definition restart_program :: "ecm \<Rightarrow> step" where
  "restart_program st = run_configured st ''restart-alignak'' ''RESTART''"

definition reload_config :: "ecm \<Rightarrow> step" where
  "reload_config st = run_configured st ''reload-alignak'' ''RELOAD''"

end
