(* ===== verification/CmdRun.thy ===== *)
theory CmdRun
  imports CmdActions
begin

text \<open>
  Running external commands (\<open>alignak/external_command.py\<close>): \<open>getattr(self, c_name)(*args)\<close> as a table
  of the handlers with their parameters, \<open>resolve_command\<close>, the loops of the scheduler and of the
  receiver that resolve the commands they get.
\<close>

section \<open>Handlers and their parameters\<close>

datatype arg_type = TItem | TContact | TPeriod | TBool | TInt | TText | TGroup

fun type_of_arg :: "arg \<Rightarrow> arg_type" where
  "type_of_arg (AItem x) = TItem"
| "type_of_arg (AContact x) = TContact"
| "type_of_arg (APeriod x) = TPeriod"
| "type_of_arg (ABool x) = TBool"
| "type_of_arg (AInt x) = TInt"
| "type_of_arg (AText x) = TText"
| "type_of_arg (AGroup x) = TGroup"

text \<open>The Python arguments a type of the table stands for: an obsolete one for none.\<close>

fun kind_types :: "arg_kind \<Rightarrow> arg_type list" where
  "kind_types K_host = [TItem]"
| "kind_types K_service = [TItem]"
| "kind_types K_contact = [TContact]"
| "kind_types K_time_period = [TPeriod]"
| "kind_types K_obsolete = []"
| "kind_types K_to_bool = [TBool]"
| "kind_types K_to_int = [TInt]"
| "kind_types K_author = [TText]"
| "kind_types K_text = [TText]"
| "kind_types K_command = [TText]"
| "kind_types K_host_group = [TGroup]"
| "kind_types K_service_group = [TGroup]"
| "kind_types K_contact_group = [TGroup]"

text \<open>
  A handler: the types of its parameters, and the call of the method with the arguments; other
  arguments than its parameters are a \<open>TypeError\<close>.
\<close>

type_synonym handler = "arg_type list \<times> (ecm \<Rightarrow> arg list \<Rightarrow> step)"

definition H :: "(ecm \<Rightarrow> step) \<Rightarrow> handler" where
  "H f = ([],
     \<lambda>st args m. case args of [] \<Rightarrow> f st m | _ \<Rightarrow> None)"

definition H_C :: "(ecm \<Rightarrow> uuid \<Rightarrow> step) \<Rightarrow> handler" where
  "H_C f = ([TContact],
     \<lambda>st args m. case args of [AContact x1] \<Rightarrow> f st x1 m | _ \<Rightarrow> None)"

definition H_G :: "(ecm \<Rightarrow> uuid list \<Rightarrow> step) \<Rightarrow> handler" where
  "H_G f = ([TGroup],
     \<lambda>st args m. case args of [AGroup x1] \<Rightarrow> f st x1 m | _ \<Rightarrow> None)"

definition H_I :: "(ecm \<Rightarrow> uuid \<Rightarrow> step) \<Rightarrow> handler" where
  "H_I f = ([TItem],
     \<lambda>st args m. case args of [AItem x1] \<Rightarrow> f st x1 m | _ \<Rightarrow> None)"

definition H_T :: "(ecm \<Rightarrow> string \<Rightarrow> step) \<Rightarrow> handler" where
  "H_T f = ([TText],
     \<lambda>st args m. case args of [AText x1] \<Rightarrow> f st x1 m | _ \<Rightarrow> None)"

definition H_CP :: "(ecm \<Rightarrow> uuid \<Rightarrow> uuid \<Rightarrow> step) \<Rightarrow> handler" where
  "H_CP f = ([TContact, TPeriod],
     \<lambda>st args m. case args of [AContact x1, APeriod x2] \<Rightarrow> f st x1 x2 m | _ \<Rightarrow> None)"

definition H_CT :: "(ecm \<Rightarrow> uuid \<Rightarrow> string \<Rightarrow> step) \<Rightarrow> handler" where
  "H_CT f = ([TContact, TText],
     \<lambda>st args m. case args of [AContact x1, AText x2] \<Rightarrow> f st x1 x2 m | _ \<Rightarrow> None)"

definition H_IN :: "(ecm \<Rightarrow> uuid \<Rightarrow> int \<Rightarrow> step) \<Rightarrow> handler" where
  "H_IN f = ([TItem, TInt],
     \<lambda>st args m. case args of [AItem x1, AInt x2] \<Rightarrow> f st x1 x2 m | _ \<Rightarrow> None)"

definition H_IT :: "(ecm \<Rightarrow> uuid \<Rightarrow> string \<Rightarrow> step) \<Rightarrow> handler" where
  "H_IT f = ([TItem, TText],
     \<lambda>st args m. case args of [AItem x1, AText x2] \<Rightarrow> f st x1 x2 m | _ \<Rightarrow> None)"

definition H_TB :: "(ecm \<Rightarrow> string \<Rightarrow> bool \<Rightarrow> step) \<Rightarrow> handler" where
  "H_TB f = ([TText, TBool],
     \<lambda>st args m. case args of [AText x1, ABool x2] \<Rightarrow> f st x1 x2 m | _ \<Rightarrow> None)"

definition H_CTT :: "(ecm \<Rightarrow> uuid \<Rightarrow> string \<Rightarrow> string \<Rightarrow> step) \<Rightarrow> handler" where
  "H_CTT f = ([TContact, TText, TText],
     \<lambda>st args m. case args of [AContact x1, AText x2, AText x3] \<Rightarrow> f st x1 x2 x3 m | _ \<Rightarrow> None)"

definition H_INT :: "(ecm \<Rightarrow> uuid \<Rightarrow> int \<Rightarrow> string \<Rightarrow> step) \<Rightarrow> handler" where
  "H_INT f = ([TItem, TInt, TText],
     \<lambda>st args m. case args of [AItem x1, AInt x2, AText x3] \<Rightarrow> f st x1 x2 x3 m | _ \<Rightarrow> None)"

definition H_ITT :: "(ecm \<Rightarrow> uuid \<Rightarrow> string \<Rightarrow> string \<Rightarrow> step) \<Rightarrow> handler" where
  "H_ITT f = ([TItem, TText, TText],
     \<lambda>st args m. case args of [AItem x1, AText x2, AText x3] \<Rightarrow> f st x1 x2 x3 m | _ \<Rightarrow> None)"

definition H_INTT :: "(ecm \<Rightarrow> uuid \<Rightarrow> int \<Rightarrow> string \<Rightarrow> string \<Rightarrow> step) \<Rightarrow> handler" where
  "H_INTT f = ([TItem, TInt, TText, TText],
     \<lambda>st args m. case args of [AItem x1, AInt x2, AText x3, AText x4] \<Rightarrow> f st x1 x2 x3 x4 m | _ \<Rightarrow> None)"

definition H_CNNTT :: "(ecm \<Rightarrow> uuid \<Rightarrow> int \<Rightarrow> int \<Rightarrow> string \<Rightarrow> string \<Rightarrow> step) \<Rightarrow> handler" where
  "H_CNNTT f = ([TContact, TInt, TInt, TText, TText],
     \<lambda>st args m. case args of [AContact x1, AInt x2, AInt x3, AText x4, AText x5] \<Rightarrow> f st x1 x2 x3 x4 x5 m | _ \<Rightarrow> None)"

definition H_INBTT :: "(ecm \<Rightarrow> uuid \<Rightarrow> int \<Rightarrow> bool \<Rightarrow> string \<Rightarrow> string \<Rightarrow> step) \<Rightarrow> handler" where
  "H_INBTT f = ([TItem, TInt, TBool, TText, TText],
     \<lambda>st args m. case args of [AItem x1, AInt x2, ABool x3, AText x4, AText x5] \<Rightarrow> f st x1 x2 x3 x4 x5 m | _ \<Rightarrow> None)"

definition H_INBNTT :: "(ecm \<Rightarrow> uuid \<Rightarrow> int \<Rightarrow> bool \<Rightarrow> int \<Rightarrow> string \<Rightarrow> string \<Rightarrow> step) \<Rightarrow> handler" where
  "H_INBNTT f = ([TItem, TInt, TBool, TInt, TText, TText],
     \<lambda>st args m. case args of [AItem x1, AInt x2, ABool x3, AInt x4, AText x5, AText x6] \<Rightarrow> f st x1 x2 x3 x4 x5 x6 m | _ \<Rightarrow> None)"

definition H_GNNBTNTT :: "(ecm \<Rightarrow> uuid list \<Rightarrow> int \<Rightarrow> int \<Rightarrow> bool \<Rightarrow> string \<Rightarrow> int \<Rightarrow> string \<Rightarrow> string \<Rightarrow> step) \<Rightarrow> handler" where
  "H_GNNBTNTT f = ([TGroup, TInt, TInt, TBool, TText, TInt, TText, TText],
     \<lambda>st args m. case args of [AGroup x1, AInt x2, AInt x3, ABool x4, AText x5, AInt x6, AText x7, AText x8] \<Rightarrow> f st x1 x2 x3 x4 x5 x6 x7 x8 m | _ \<Rightarrow> None)"

definition H_INNBNNTT :: "(ecm \<Rightarrow> uuid \<Rightarrow> int \<Rightarrow> int \<Rightarrow> bool \<Rightarrow> int \<Rightarrow> int \<Rightarrow> string \<Rightarrow> string \<Rightarrow> step) \<Rightarrow> handler" where
  "H_INNBNNTT f = ([TItem, TInt, TInt, TBool, TInt, TInt, TText, TText],
     \<lambda>st args m. case args of [AItem x1, AInt x2, AInt x3, ABool x4, AInt x5, AInt x6, AText x7, AText x8] \<Rightarrow> f st x1 x2 x3 x4 x5 x6 x7 x8 m | _ \<Rightarrow> None)"

definition H_INNBTNTT :: "(ecm \<Rightarrow> uuid \<Rightarrow> int \<Rightarrow> int \<Rightarrow> bool \<Rightarrow> string \<Rightarrow> int \<Rightarrow> string \<Rightarrow> string \<Rightarrow> step) \<Rightarrow> handler" where
  "H_INNBTNTT f = ([TItem, TInt, TInt, TBool, TText, TInt, TText, TText],
     \<lambda>st args m. case args of [AItem x1, AInt x2, AInt x3, ABool x4, AText x5, AInt x6, AText x7, AText x8] \<Rightarrow> f st x1 x2 x3 x4 x5 x6 x7 x8 m | _ \<Rightarrow> None)"

lemmas handler_defs = H_def H_C_def H_G_def H_I_def H_T_def H_CP_def H_CT_def H_IN_def H_IT_def H_TB_def H_CTT_def H_INT_def H_ITT_def H_INTT_def H_CNNTT_def H_INBTT_def H_INBNTT_def H_GNNBTNTT_def H_INNBNNTT_def H_INNBTNTT_def

text \<open>
  The methods. Five commands of the table have none (\<open>disable_failure_prediction\<close>,
  \<open>enable_failure_prediction\<close>, \<open>add_simple_host_dependency\<close>, \<open>del_host_dependency\<close>,
  \<open>add_simple_poller\<close>): \<open>AttributeError\<close>. Three store a time period where its identifier is expected
  (\<open>change_host_check_timeperiod\<close>, \<open>change_svc_check_timeperiod\<close>,
  \<open>change_svc_notification_timeperiod\<close>): what they leave is no state of the model, and \<open>None\<close> is in
  this table for all eight.
\<close>

definition handlers :: "(string \<times> handler option) list" where
  "handlers = [
    (''change_contact_modsattr'', Some (H_CT change_contact_modsattr)),
    (''change_contact_modhattr'', Some (H_CT change_contact_modhattr)),
    (''change_contact_modattr'', Some (H_CT change_contact_modattr)),
    (''change_contact_host_notification_timeperiod'', Some (H_CP change_contact_host_notification_timeperiod)),
    (''add_svc_comment'', Some (H_ITT add_svc_comment)),
    (''add_host_comment'', Some (H_ITT add_host_comment)),
    (''acknowledge_svc_problem'', Some (H_INBTT acknowledge_svc_problem)),
    (''acknowledge_host_problem'', Some (H_INBTT acknowledge_host_problem)),
    (''acknowledge_svc_problem_expire'', Some (H_INBNTT acknowledge_svc_problem_expire)),
    (''acknowledge_host_problem_expire'', Some (H_INBNTT acknowledge_host_problem_expire)),
    (''change_contact_svc_notification_timeperiod'', Some (H_CP change_contact_svc_notification_timeperiod)),
    (''change_custom_contact_var'', Some (H_CTT change_custom_contact_var)),
    (''change_custom_host_var'', Some (H_ITT change_custom_host_var)),
    (''change_custom_svc_var'', Some (H_ITT change_custom_svc_var)),
    (''change_global_host_event_handler'', Some (H_T change_global_host_event_handler)),
    (''change_global_svc_event_handler'', Some (H_T change_global_svc_event_handler)),
    (''change_host_check_command'', Some (H_IT change_host_check_command)),
    (''change_host_check_timeperiod'', None),
    (''change_host_event_handler'', Some (H_IT change_host_event_handler)),
    (''change_host_snapshot_command'', Some (H_IT change_host_snapshot_command)),
    (''change_host_modattr'', Some (H_IN change_host_modattr)),
    (''change_max_host_check_attempts'', Some (H_IN change_max_host_check_attempts)),
    (''change_max_svc_check_attempts'', Some (H_IN change_max_svc_check_attempts)),
    (''change_normal_host_check_interval'', Some (H_IN change_normal_host_check_interval)),
    (''change_normal_svc_check_interval'', Some (H_IN change_normal_svc_check_interval)),
    (''change_retry_host_check_interval'', Some (H_IN change_retry_host_check_interval)),
    (''change_retry_svc_check_interval'', Some (H_IN change_retry_svc_check_interval)),
    (''change_svc_check_command'', Some (H_IT change_svc_check_command)),
    (''change_svc_check_timeperiod'', None),
    (''change_svc_event_handler'', Some (H_IT change_svc_event_handler)),
    (''change_svc_snapshot_command'', Some (H_IT change_svc_snapshot_command)),
    (''change_svc_modattr'', Some (H_IN change_svc_modattr)),
    (''change_svc_notification_timeperiod'', None),
    (''delay_host_notification'', Some (H_IN delay_host_notification)),
    (''delay_svc_notification'', Some (H_IN delay_svc_notification)),
    (''del_all_contact_downtimes'', Some (H_C del_all_contact_downtimes)),
    (''del_all_host_comments'', Some (H_I del_all_host_comments)),
    (''del_all_host_downtimes'', Some (H_I del_all_host_downtimes)),
    (''del_all_svc_comments'', Some (H_I del_all_svc_comments)),
    (''del_all_svc_downtimes'', Some (H_I del_all_svc_downtimes)),
    (''del_contact_downtime'', Some (H_T del_contact_downtime)),
    (''del_host_comment'', Some (H_T del_host_comment)),
    (''del_host_downtime'', Some (H_T del_host_downtime)),
    (''del_svc_comment'', Some (H_T del_svc_comment)),
    (''del_svc_downtime'', Some (H_T del_svc_downtime)),
    (''disable_all_notifications_beyond_host'', Some (H_I disable_all_notifications_beyond_host)),
    (''disable_contactgroup_host_notifications'', Some (H_G disable_contactgroup_host_notifications)),
    (''disable_contactgroup_svc_notifications'', Some (H_G disable_contactgroup_svc_notifications)),
    (''disable_contact_host_notifications'', Some (H_C disable_contact_host_notifications)),
    (''disable_contact_svc_notifications'', Some (H_C disable_contact_svc_notifications)),
    (''disable_event_handlers'', Some (H disable_event_handlers)),
    (''disable_failure_prediction'', None),
    (''disable_flap_detection'', Some (H disable_flap_detection)),
    (''disable_hostgroup_host_checks'', Some (H_G disable_hostgroup_host_checks)),
    (''disable_hostgroup_host_notifications'', Some (H_G disable_hostgroup_host_notifications)),
    (''disable_hostgroup_passive_host_checks'', Some (H_G disable_hostgroup_passive_host_checks)),
    (''disable_hostgroup_passive_svc_checks'', Some (H_G disable_hostgroup_passive_svc_checks)),
    (''disable_hostgroup_svc_checks'', Some (H_G disable_hostgroup_svc_checks)),
    (''disable_hostgroup_svc_notifications'', Some (H_G disable_hostgroup_svc_notifications)),
    (''disable_host_and_child_notifications'', Some (H_I disable_host_and_child_notifications)),
    (''disable_host_check'', Some (H_I disable_host_check)),
    (''disable_host_event_handler'', Some (H_I disable_host_event_handler)),
    (''disable_host_flap_detection'', Some (H_I disable_host_flap_detection)),
    (''disable_host_freshness_check'', Some (H_I disable_host_freshness_check)),
    (''disable_host_freshness_checks'', Some (H disable_host_freshness_checks)),
    (''disable_host_notifications'', Some (H_I disable_host_notifications)),
    (''disable_host_svc_checks'', Some (H_I disable_host_svc_checks)),
    (''disable_host_svc_notifications'', Some (H_I disable_host_svc_notifications)),
    (''disable_notifications'', Some (H disable_notifications)),
    (''disable_passive_host_checks'', Some (H_I disable_passive_host_checks)),
    (''disable_passive_svc_checks'', Some (H_I disable_passive_svc_checks)),
    (''disable_performance_data'', Some (H disable_performance_data)),
    (''disable_servicegroup_host_checks'', Some (H_G disable_servicegroup_host_checks)),
    (''disable_servicegroup_host_notifications'', Some (H_G disable_servicegroup_host_notifications)),
    (''disable_servicegroup_passive_host_checks'', Some (H_G disable_servicegroup_passive_host_checks)),
    (''disable_servicegroup_passive_svc_checks'', Some (H_G disable_servicegroup_passive_svc_checks)),
    (''disable_servicegroup_svc_checks'', Some (H_G disable_servicegroup_svc_checks)),
    (''disable_servicegroup_svc_notifications'', Some (H_G disable_servicegroup_svc_notifications)),
    (''disable_service_flap_detection'', Some (H_I disable_service_flap_detection)),
    (''disable_service_freshness_checks'', Some (H disable_service_freshness_checks)),
    (''disable_svc_check'', Some (H_I disable_svc_check)),
    (''disable_svc_event_handler'', Some (H_I disable_svc_event_handler)),
    (''disable_svc_flap_detection'', Some (H_I disable_svc_flap_detection)),
    (''disable_svc_freshness_check'', Some (H_I disable_svc_freshness_check)),
    (''disable_svc_notifications'', Some (H_I disable_svc_notifications)),
    (''enable_all_notifications_beyond_host'', Some (H_I enable_all_notifications_beyond_host)),
    (''enable_contactgroup_host_notifications'', Some (H_G enable_contactgroup_host_notifications)),
    (''enable_contactgroup_svc_notifications'', Some (H_G enable_contactgroup_svc_notifications)),
    (''enable_contact_host_notifications'', Some (H_C enable_contact_host_notifications)),
    (''enable_contact_svc_notifications'', Some (H_C enable_contact_svc_notifications)),
    (''enable_event_handlers'', Some (H enable_event_handlers_all)),
    (''enable_failure_prediction'', None),
    (''enable_flap_detection'', Some (H enable_flap_detection_all)),
    (''enable_hostgroup_host_checks'', Some (H_G enable_hostgroup_host_checks)),
    (''enable_hostgroup_host_notifications'', Some (H_G enable_hostgroup_host_notifications)),
    (''enable_hostgroup_passive_host_checks'', Some (H_G enable_hostgroup_passive_host_checks)),
    (''enable_hostgroup_passive_svc_checks'', Some (H_G enable_hostgroup_passive_svc_checks)),
    (''enable_hostgroup_svc_checks'', Some (H_G enable_hostgroup_svc_checks)),
    (''enable_hostgroup_svc_notifications'', Some (H_G enable_hostgroup_svc_notifications)),
    (''enable_host_and_child_notifications'', Some (H_I enable_host_and_child_notifications)),
    (''enable_host_check'', Some (H_I enable_host_check)),
    (''enable_host_event_handler'', Some (H_I enable_host_event_handler)),
    (''enable_host_flap_detection'', Some (H_I enable_host_flap_detection)),
    (''enable_host_freshness_check'', Some (H_I enable_host_freshness_check)),
    (''enable_host_freshness_checks'', Some (H enable_host_freshness_checks)),
    (''enable_host_notifications'', Some (H_I enable_host_notifications)),
    (''enable_host_svc_checks'', Some (H_I enable_host_svc_checks)),
    (''enable_host_svc_notifications'', Some (H_I enable_host_svc_notifications)),
    (''enable_notifications'', Some (H enable_notifications_all)),
    (''enable_passive_host_checks'', Some (H_I enable_passive_host_checks)),
    (''enable_passive_svc_checks'', Some (H_I enable_passive_svc_checks)),
    (''enable_performance_data'', Some (H enable_performance_data)),
    (''enable_servicegroup_host_checks'', Some (H_G enable_servicegroup_host_checks)),
    (''enable_servicegroup_host_notifications'', Some (H_G enable_servicegroup_host_notifications)),
    (''enable_servicegroup_passive_host_checks'', Some (H_G enable_servicegroup_passive_host_checks)),
    (''enable_servicegroup_passive_svc_checks'', Some (H_G enable_servicegroup_passive_svc_checks)),
    (''enable_servicegroup_svc_checks'', Some (H_G enable_servicegroup_svc_checks)),
    (''enable_servicegroup_svc_notifications'', Some (H_G enable_servicegroup_svc_notifications)),
    (''enable_service_freshness_checks'', Some (H enable_service_freshness_checks)),
    (''enable_svc_check'', Some (H_I enable_svc_check)),
    (''enable_svc_event_handler'', Some (H_I enable_svc_event_handler)),
    (''enable_svc_flap_detection'', Some (H_I enable_svc_flap_detection)),
    (''enable_svc_freshness_check'', Some (H_I enable_svc_freshness_check)),
    (''enable_svc_notifications'', Some (H_I enable_svc_notifications)),
    (''process_file'', Some (H_TB process_file)),
    (''process_host_check_result'', Some (H_INT process_host_check_result)),
    (''process_host_output'', Some (H_IT process_host_output)),
    (''process_service_check_result'', Some (H_INT process_service_check_result)),
    (''process_service_output'', Some (H_IT process_service_output)),
    (''read_state_information'', Some (H read_state_information)),
    (''remove_host_acknowledgement'', Some (H_I remove_host_acknowledgement)),
    (''remove_svc_acknowledgement'', Some (H_I remove_svc_acknowledgement)),
    (''restart_program'', Some (H restart_program)),
    (''reload_config'', Some (H reload_config)),
    (''save_state_information'', Some (H save_state_information)),
    (''schedule_and_propagate_host_downtime'', Some (H_INNBNNTT schedule_and_propagate_host_downtime)),
    (''schedule_and_propagate_triggered_host_downtime'', Some (H_INNBNNTT schedule_and_propagate_triggered_host_downtime)),
    (''schedule_contact_downtime'', Some (H_CNNTT schedule_contact_downtime)),
    (''schedule_forced_host_check'', Some (H_IN schedule_forced_host_check)),
    (''schedule_forced_host_svc_checks'', Some (H_IN schedule_forced_host_svc_checks)),
    (''schedule_forced_svc_check'', Some (H_IN schedule_forced_svc_check)),
    (''schedule_hostgroup_host_downtime'', Some (H_GNNBTNTT schedule_hostgroup_host_downtime)),
    (''schedule_hostgroup_svc_downtime'', Some (H_GNNBTNTT schedule_hostgroup_svc_downtime)),
    (''schedule_host_check'', Some (H_IN schedule_host_check)),
    (''schedule_host_downtime'', Some (H_INNBTNTT schedule_host_downtime)),
    (''schedule_host_svc_checks'', Some (H_IN schedule_host_svc_checks)),
    (''schedule_host_svc_downtime'', Some (H_INNBTNTT schedule_host_svc_downtime)),
    (''schedule_servicegroup_host_downtime'', Some (H_GNNBTNTT schedule_servicegroup_host_downtime)),
    (''schedule_servicegroup_svc_downtime'', Some (H_GNNBTNTT schedule_servicegroup_svc_downtime)),
    (''schedule_svc_check'', Some (H_IN schedule_svc_check)),
    (''schedule_svc_downtime'', Some (H_INNBTNTT schedule_svc_downtime)),
    (''send_custom_host_notification'', Some (H_INTT send_custom_host_notification)),
    (''send_custom_svc_notification'', Some (H_INTT send_custom_svc_notification)),
    (''set_host_notification_number'', Some (H_IN set_host_notification_number)),
    (''set_svc_notification_number'', Some (H_IN set_svc_notification_number)),
    (''shutdown_program'', Some (H shutdown_program)),
    (''start_accepting_passive_host_checks'', Some (H start_accepting_passive_host_checks)),
    (''start_accepting_passive_svc_checks'', Some (H start_accepting_passive_svc_checks)),
    (''start_executing_host_checks'', Some (H start_executing_host_checks)),
    (''start_executing_svc_checks'', Some (H start_executing_svc_checks)),
    (''stop_accepting_passive_host_checks'', Some (H stop_accepting_passive_host_checks)),
    (''stop_accepting_passive_svc_checks'', Some (H stop_accepting_passive_svc_checks)),
    (''stop_executing_host_checks'', Some (H stop_executing_host_checks)),
    (''stop_executing_svc_checks'', Some (H stop_executing_svc_checks)),
    (''launch_svc_event_handler'', Some (H_I launch_svc_event_handler)),
    (''launch_host_event_handler'', Some (H_I launch_host_event_handler)),
    (''add_simple_host_dependency'', None),
    (''del_host_dependency'', None),
    (''add_simple_poller'', None)]"

definition execute :: "ecm \<Rightarrow> string \<Rightarrow> arg list \<Rightarrow> step" where
  "execute st c_name args m =
     (case map_of handlers c_name of Some (Some h) \<Rightarrow> snd h st args m | _ \<Rightarrow> None)"

section \<open>Resolving a command\<close>

definition is_passive_result :: "string \<Rightarrow> bool" where
  "is_passive_result c_name \<longleftrightarrow>
     c_name \<in> set [''process_host_check_result'', ''process_service_check_result'']"

definition log_command :: "ecm \<Rightarrow> string \<Rightarrow> string \<Rightarrow> manager \<Rightarrow> manager" where
  "log_command st c_name command m =
     (if cmd_mode st = Applyer \<and> log_external_commands st
         \<and> \<not> (log_passive_checks st \<and> is_passive_result c_name)
      then send_log st ''info'' (''EXTERNAL COMMAND: '' @ command) m else m)"

definition resolve_external :: "ecm \<Rightarrow> string \<Rightarrow> manager \<Rightarrow> (manager \<times> resolved option) option" where
  "resolve_external st cmd_line m =
     (let command = strip cmd_line
      in case get_command_and_args st cmd_line command m of
           None \<Rightarrow> None
         | Some (m1, None) \<Rightarrow> Some (m1, None)
         | Some (m1, Some Resend) \<Rightarrow>
             if cmd_mode st = Receiver then Some (m1, Some Resend)
             else Some (m1\<lparr>pushed_commands := pushed_commands m1
                          @ map (\<lambda>l. (l, cmd_line)) (scheduler_links st)\<rparr>, Some Resend)
         | Some (m1, Some (Run internal c_name args)) \<Rightarrow>
             if cmd_mode st = Receiver \<and> \<not> internal then Some (m1, Some (Run internal c_name args))
             else map_option (\<lambda>m2. (m2, Some (Run internal c_name args)))
                    (execute st c_name args (log_command st c_name command m1)))"

text \<open>
  The scheduler runs the commands it gets one after the other. An exception, which the method
  catches and logs after it has skipped the commands that follow, is \<open>None\<close> here.
\<close>

definition run_external_commands :: "ecm \<Rightarrow> string list \<Rightarrow> step" where
  "run_external_commands st cmds m =
     foldM (\<lambda>c m. map_option fst (resolve_external st c m)) cmds m"

text \<open>
  \<open>push_external_commands_to_schedulers\<close> of the receiver: each command goes to the scheduler of its
  host, a global one to every scheduler. The second half sends what is pushed to the active
  schedulers and empties their lists; what a scheduler does not take is kept as an external
  command again. \<open>active\<close> and \<open>takes\<close> say which schedulers are active and answer.
\<close>

definition push_external_commands ::
  "ecm \<Rightarrow> string list \<Rightarrow> manager \<Rightarrow> manager option" where
  "push_external_commands st unprocessed m =
     foldM (\<lambda>c m. map_option (\<lambda>(m1, r). case r of
           Some Resend \<Rightarrow> m1\<lparr>pushed_commands := pushed_commands m1
                            @ map (\<lambda>l. (l, c)) (scheduler_links st)\<rparr>
         | _ \<Rightarrow> m1) (resolve_external st c m)) unprocessed m"

definition commands_for :: "uuid \<Rightarrow> manager \<Rightarrow> string list" where
  "commands_for l m = map snd (filter (\<lambda>p. fst p = l) (pushed_commands m))"

definition send_pushed_commands ::
  "(uuid \<Rightarrow> bool) \<Rightarrow> (uuid \<Rightarrow> string list \<Rightarrow> bool) \<Rightarrow> uuid list \<Rightarrow> manager \<times> string list \<Rightarrow>
   manager \<times> string list" where
  "send_pushed_commands active takes links =
     fold (\<lambda>l (m, kept). if \<not> active l \<or> commands_for l m = [] then (m, kept)
        else let cmds = commands_for l m;
                 m1 = m\<lparr>pushed_commands := filter (\<lambda>p. fst p \<noteq> l) (pushed_commands m)\<rparr>
             in if takes l cmds
                then (m1\<lparr>sent_commands := sent_commands m1 @ map (\<lambda>c. (l, c)) cmds\<rparr>, kept)
                else (m1, kept @ cmds)) links"

end
