(* ===== verification/CmdLines.thy ===== *)
theory CmdLines
  imports CmdRun SchedSamples
begin

text \<open>
  Reading the lines of external commands: fields that are written with escaped semicolons are read
  back, and the arguments that a line gives are those its method takes.
\<close>

section \<open>Splitting and joining\<close>

text \<open>A field as a line carries it: each semicolon behind a backslash.\<close>

fun escape :: "string \<Rightarrow> string" where
  "escape [] = []"
| "escape (c # cs) = (if c = CHR '';'' then [CHR 0x5C, CHR '';''] else [c]) @ escape cs"

definition line_of :: "string list \<Rightarrow> string" where
  "line_of elts = join_with '';'' (map escape elts)"

lemma split_on_not_Nil [simp]: "split_on c s \<noteq> []"
  by (induction s) (auto split: list.splits)

lemma split_on_append: "split_on c (xs @ c # ys) = split_on c xs @ split_on c ys"
proof (induction xs)
  case (Cons x xs)
  then show ?case by (cases "split_on c xs") auto
qed simp

text \<open>The pieces of an escaped field: all but the last end with a backslash.\<close>

fun escaped_pieces :: "string list \<Rightarrow> string list" where
  "escaped_pieces (p # q # ps) = (p @ [CHR 0x5C]) # escaped_pieces (q # ps)"
| "escaped_pieces ps = ps"

lemma escaped_pieces_Nil [simp]: "escaped_pieces ps = [] \<longleftrightarrow> ps = []"
  by (cases ps rule: escaped_pieces.cases) simp_all

lemma split_on_escape: "split_on (CHR '';'') (escape f) = escaped_pieces (split_on (CHR '';'') f)"
proof (induction f)
  case (Cons c cs)
  obtain p ps where p: "split_on (CHR '';'') cs = p # ps" by (cases "split_on (CHR '';'') cs") auto
  with Cons show ?case by (cases ps) auto
qed simp

lemma join_with_split_on: "join_with [c] (split_on c s) = s"
proof (induction s)
  case (Cons x xs)
  obtain p ps where p: "split_on c xs = p # ps" by (cases "split_on c xs") auto
  with Cons show ?case by (cases ps) auto
qed simp

text \<open>The loop puts the pieces of the first field together again.\<close>

lemma join_parts_pieces:
  "join_parts m i (escaped_pieces ps @ rest) = join_parts m i (join_with '';'' ps # rest)" if "ps \<noteq> []"
  using that
proof (induction "length ps" arbitrary: ps)
  case (Suc n)
  then obtain p ps' where ps: "ps = p # ps'" by (cases ps) auto
  show ?case
  proof (cases ps')
    case Nil
    then show ?thesis by (simp add: ps)
  next
    case (Cons q qs)
    have e: "endswith (p @ [CHR 0x5C]) [CHR 0x5C]" by (simp add: endswith_def)
    have *: "escaped_pieces (q # qs) = q' # rs \<Longrightarrow>
        escaped_pieces ((p @ '';'' @ q) # qs) = (p @ '';'' @ q') # rs" for q' rs
      by (cases qs) auto
    obtain q' rs where q: "escaped_pieces (q # qs) = q' # rs" by (cases "escaped_pieces (q # qs)") simp_all
    have "join_parts m i (escaped_pieces ps @ rest) = join_parts m i ((p @ '';'' @ q') # rs @ rest)"
      by (simp add: ps Cons q e Let_def)
    also have "\<dots> = join_parts m i (escaped_pieces ((p @ '';'' @ q) # qs) @ rest)"
      using * [OF q] by simp
    also have "\<dots> = join_parts m i (join_with '';'' ((p @ '';'' @ q) # qs) # rest)"
      by (rule Suc.hyps(1)) (use Suc.hyps(2) in \<open>simp_all add: ps Cons\<close>)
    also have "join_with '';'' ((p @ '';'' @ q) # qs) = join_with '';'' ps"
      by (cases qs) (simp_all add: ps Cons)
    finally show ?thesis .
  qed
qed simp

lemma split_line_of:
  "elts \<noteq> [] \<Longrightarrow> split_on (CHR '';'') (line_of elts)
     = concat (map (\<lambda>f. escaped_pieces (split_on (CHR '';'') f)) elts)"
proof (induction elts rule: induct_list012)
  case (3 f g fs)
  have "line_of (f # g # fs) = escape f @ CHR '';'' # line_of (g # fs)" by (simp add: line_of_def)
  then show ?case using 3 by (simp add: split_on_append split_on_escape)
qed (simp_all add: line_of_def split_on_escape)

lemma join_parts_fields:
  assumes "elts \<noteq> []" and "\<forall>f \<in> set (butlast elts). \<not> endswith f [CHR 0x5C]"
    and "i + length elts \<le> m + 1"
  shows "join_parts m i (concat (map (\<lambda>f. escaped_pieces (split_on (CHR '';'') f)) elts)) = elts"
  using assms
proof (induction elts arbitrary: i)
  case (Cons f fs)
  let ?rest = "concat (map (\<lambda>f. escaped_pieces (split_on (CHR '';'') f)) fs)"
  have j: "join_parts m i (escaped_pieces (split_on (CHR '';'') f) @ ?rest) = join_parts m i (f # ?rest)"
    using join_parts_pieces [of "split_on (CHR '';'') f" m i ?rest] by (simp add: join_with_split_on)
  show ?case
  proof (cases fs)
    case Nil
    then show ?thesis using j by simp
  next
    case (Cons g gs)
    then have f: "\<not> endswith f [CHR 0x5C]" "\<not> m \<le> i" using Cons.prems by auto
    obtain q qs where r: "?rest = q # qs"
      using Cons by (cases "escaped_pieces (split_on (CHR '';'') g)") simp_all
    have "join_parts m i (f # ?rest) = f # join_parts m (i + 1) ?rest" using f by (simp add: r)
    moreover have "join_parts m (i + 1) ?rest = fs"
      by (rule Cons.IH) (use Cons.prems Cons in auto)
    ultimately show ?thesis using j by simp
  qed
qed simp

lemma length_escaped_pieces [simp]: "length (escaped_pieces ps) = length ps"
  by (induction ps rule: escaped_pieces.induct) simp_all

text \<open>
  C31. What is written is read back: the fields of a line whose semicolons are escaped come out of
  \<open>split_semicolon\<close> unchanged, with no limit as with any limit that is not below their number,
  provided that no field but the last ends with a backslash.
\<close>

theorem escaped_fields_are_read_back:
  assumes "elts \<noteq> []" and "\<forall>f \<in> set (butlast elts). \<not> endswith f [CHR 0x5C]"
    and "limit = None \<or> limit = Some m \<and> length elts \<le> m + 1"
  shows "split_semicolon (line_of elts) limit = elts"
proof -
  let ?parts = "split_on (CHR '';'') (line_of elts)"
  have parts: "?parts = concat (map (\<lambda>f. escaped_pieces (split_on (CHR '';'') f)) elts)"
    by (rule split_line_of [OF assms(1)])
  have "length elts \<le> length (concat (map (\<lambda>f. escaped_pieces (split_on (CHR '';'') f)) elts))"
  proof (induction elts)
    case (Cons f fs)
    have "1 \<le> length (split_on (CHR '';'') f)" by (cases "split_on (CHR '';'') f") auto
    with Cons show ?case by simp
  qed simp
  then have "join_parts (case limit of None \<Rightarrow> length ?parts | Some m \<Rightarrow> m) 0 ?parts = elts"
    unfolding parts using assms by (intro join_parts_fields) auto
  then show ?thesis by (simp add: split_semicolon_def Let_def)
qed

theorem escaped_fields_are_read_back_witness:
  "split_semicolon (''[100] ADD_SVC_COMMENT;h;s;a'' @ [CHR 0x5C] @ '';b'') None
    = [''[100] ADD_SVC_COMMENT'', ''h'', ''s'', ''a;b'']"
proof -
  have "split_semicolon (line_of [''[100] ADD_SVC_COMMENT'', ''h'', ''s'', ''a;b'']) None
      = [''[100] ADD_SVC_COMMENT'', ''h'', ''s'', ''a;b'']"
    by (rule escaped_fields_are_read_back) (simp_all add: endswith_def suffix_def)
  then show ?thesis by (simp add: line_of_def)
qed

section \<open>Types\<close>




text \<open>
  Arguments that can come of a list of types: each type gives its argument, or none; when none is
  missing (obsolete ones counted apart) they have the types.
\<close>

definition fits :: "arg_kind list \<Rightarrow> arg list \<Rightarrow> nat \<Rightarrow> bool" where
  "fits kinds extra n \<longleftrightarrow> length extra + n \<le> length kinds \<and>
     (length extra + n = length kinds \<longrightarrow> map type_of_arg extra = concat (map kind_types kinds))"

lemma fits_none [simp]: "fits kinds [] 0"
  by (simp add: fits_def)












end
