(* ===== verification/Calendar.thy ===== *)
theory Calendar
  imports Prelude
begin

text \<open>
  The calendar: what \<open>alignak/daterange.py\<close> uses of Python's \<open>time\<close> and \<open>calendar\<close>, and its own
  functions on days. Dates are those of the Gregorian calendar, days are counted from 1970-01-01.

  A \<open>zone\<close> is the local time zone: \<open>utc_offset\<close> gives the seconds between local time and UTC at an
  instant, \<open>epoch_of\<close> the instant \<open>mktime\<close> chooses for a local time, counted in seconds as if it
  were UTC. Where the offset changes some local times have two instants and some have none, which
  is why \<open>epoch_of\<close> is not defined from \<open>utc_offset\<close>. The theorems that need a zone without changes
  say so (\<open>fixed_zone\<close>).
\<close>

section \<open>Dates\<close>

definition leap :: "int \<Rightarrow> bool" where
  "leap y \<longleftrightarrow> y mod 4 = 0 \<and> (y mod 100 \<noteq> 0 \<or> y mod 400 = 0)"

definition days_in_month :: "int \<Rightarrow> int \<Rightarrow> int" where
  "days_in_month y m =
     (if m = 2 then if leap y then 29 else 28 else if m \<in> {4, 6, 9, 11} then 30 else 31)"

text \<open>Days before a year, from 1970; days of the year before a month.\<close>

definition days_before_year :: "int \<Rightarrow> int" where
  "days_before_year y = 365 * (y - 1) + (y - 1) div 4 - (y - 1) div 100 + (y - 1) div 400 - 719162"

definition days_before_month :: "int \<Rightarrow> int \<Rightarrow> int" where
  "days_before_month y m = (\<Sum>k\<leftarrow>[1..m - 1]. days_in_month y k)"

text \<open>The day of a date as \<open>mktime\<close> reads it: months and days out of range run on.\<close>

definition days_of_date :: "int \<Rightarrow> int \<Rightarrow> int \<Rightarrow> int" where
  "days_of_date y m d =
     (let y1 = y + (m - 1) div 12; m1 = (m - 1) mod 12 + 1
      in days_before_year y1 + days_before_month y1 m1 + d - 1)"

definition weekday_of :: "int \<Rightarrow> int" where
  "weekday_of n = (n + 3) mod 7"

text \<open>The date of a day: the year in its cycles of 400, 100 and 4 years, then the month.\<close>

definition year_and_day :: "int \<Rightarrow> int \<times> int" where
  "year_and_day n0 =
     (let n = n0 + 719162;
          n400 = n div 146097; a = n mod 146097;
          n100 = min 3 (a div 36524); b = a - n100 * 36524;
          n4 = b div 1461; c = b mod 1461;
          n1 = min 3 (c div 365)
      in (400 * n400 + 100 * n100 + 4 * n4 + n1 + 1, c - n1 * 365))"

definition month_and_day :: "int \<Rightarrow> int \<Rightarrow> int \<times> int" where
  "month_and_day y d0 =
     foldl (\<lambda>(m, d) k. if m = k \<and> d \<ge> days_in_month y k then (k + 1, d - days_in_month y k) else (m, d))
       (1, d0) [1..11]"

definition date_of :: "int \<Rightarrow> int \<times> int \<times> int" where
  "date_of n = (case year_and_day n of (y, d0) \<Rightarrow> case month_and_day y d0 of (m, d) \<Rightarrow> (y, m, d + 1))"

section \<open>Local time\<close>

record zone =
  utc_offset :: "int \<Rightarrow> int"
  epoch_of :: "int \<Rightarrow> int"

record tm =
  tm_year :: int
  tm_mon :: int
  tm_mday :: int
  tm_hour :: int
  tm_min :: int
  tm_sec :: int
  tm_wday :: int

definition local_secs :: "zone \<Rightarrow> int \<Rightarrow> int" where
  "local_secs z t = t + utc_offset z t"

definition localtime :: "zone \<Rightarrow> int \<Rightarrow> tm" where
  "localtime z t =
     (let l = local_secs z t; n = l div 86400; s = l mod 86400
      in case date_of n of (y, m, d) \<Rightarrow>
         \<lparr>tm_year = y, tm_mon = m, tm_mday = d, tm_hour = s div 3600, tm_min = s mod 3600 div 60,
          tm_sec = s mod 60, tm_wday = weekday_of n\<rparr>)"

definition mktime :: "zone \<Rightarrow> int \<Rightarrow> int \<Rightarrow> int \<Rightarrow> int \<Rightarrow> int \<Rightarrow> int \<Rightarrow> int" where
  "mktime z y m d h mi s = epoch_of z (days_of_date y m d * 86400 + h * 3600 + mi * 60 + s)"

section \<open>The functions of \<open>daterange.py\<close> on days\<close>

text \<open>
  \<open>get_start_of_day\<close>: the exceptions it catches are those of years out of the platform's range,
  which the four digits of a date do not reach.
\<close>

definition get_start_of_day :: "zone \<Rightarrow> int \<Rightarrow> int \<Rightarrow> int \<Rightarrow> int" where
  "get_start_of_day z y m d = mktime z y m d 0 0 0"

definition get_end_of_day :: "zone \<Rightarrow> int \<Rightarrow> int \<Rightarrow> int \<Rightarrow> int" where
  "get_end_of_day z y m d = mktime z y m d 23 59 59"

definition get_sec_from_morning :: "zone \<Rightarrow> int \<Rightarrow> int" where
  "get_sec_from_morning z t =
     (let lt = localtime z t in tm_hour lt * 3600 + tm_min lt * 60 + tm_sec lt)"

definition get_day :: "zone \<Rightarrow> int \<Rightarrow> int" where
  "get_day z t = t - get_sec_from_morning z t"

definition get_wday :: "zone \<Rightarrow> int \<Rightarrow> int" where
  "get_wday z t = tm_wday (localtime z t)"

text \<open>
  \<open>calendar.monthcalendar\<close>: the weeks of a month from Monday, 0 for the days of other months;
  a month out of range is an \<open>IllegalMonthError\<close>.
\<close>

definition monthcalendar :: "int \<Rightarrow> int \<Rightarrow> int list list option" where
  "monthcalendar y m =
     (if m < 1 \<or> m > 12 then None
      else let first = weekday_of (days_of_date y m 1); n = days_in_month y m;
               weeks = (first + n + 6) div 7
           in Some (map (\<lambda>w. map (\<lambda>d. let k = 7 * w + d - first + 1
                                        in if 1 \<le> k \<and> k \<le> n then k else 0) [0..6]) [0..weeks - 1]))"

text \<open>
  \<open>find_day_by_weekday_offset\<close>. The loop over the weeks; \<open>None\<close> is an exception (\<open>IndexError\<close> when
  the weeks are used up: only \<open>KeyError\<close> is caught), \<open>Some None\<close> the returned \<open>None\<close>.
\<close>

fun find_in_weeks :: "nat \<Rightarrow> int \<Rightarrow> int \<Rightarrow> int list list \<Rightarrow> nat \<Rightarrow> int option option" where
  "find_in_weeks 0 offset found weeks weekday = Some None"
| "find_in_weeks (Suc k) offset found [] weekday = None"
| "find_in_weeks (Suc k) offset found (w # weeks) weekday =
     (if weekday \<ge> length w then None
      else let found1 = (if w ! weekday \<noteq> 0 then found + 1 else found)
           in if found1 = offset then Some (Some (w ! weekday))
              else find_in_weeks k offset found1 weeks weekday)"

text \<open>Week days are never negative: they come from the table \<open>weekdays\<close>.\<close>

definition find_day_by_weekday_offset :: "int \<Rightarrow> int \<Rightarrow> int \<Rightarrow> int \<Rightarrow> int option option" where
  "find_day_by_weekday_offset y m weekday offset =
     Option.bind (monthcalendar y m) (\<lambda>cal.
       find_in_weeks (nat (\<bar>offset\<bar> + 1)) \<bar>offset\<bar> 0 (if offset < 0 then rev cal else cal) (nat weekday))"

definition find_day_by_offset :: "int \<Rightarrow> int \<Rightarrow> int \<Rightarrow> int option" where
  "find_day_by_offset y m offset =
     (if m < 1 \<or> m > 12 then None
      else let n = days_in_month y m
           in Some (if offset \<ge> 0 then min offset n else max 1 (n + offset + 1)))"

section \<open>Dates and days\<close>

lemma div_mod_of:
  fixes a k r x :: int
  assumes "x = k * a + r" and "0 \<le> r" and "r < k"
  shows "x div k = a" "x mod k = r"
  using assms by (simp_all add: div_pos_pos_trivial mod_pos_pos_trivial)

lemma min_div_bounds:
  fixes a k :: int
  assumes "0 < k" and "0 \<le> a" and "a \<le> 4 * k"
  shows "0 \<le> min 3 (a div k)" "min 3 (a div k) \<le> 3" "0 \<le> a - min 3 (a div k) * k"
    "a - min 3 (a div k) * k < k \<or> min 3 (a div k) = 3 \<and> a - min 3 (a div k) * k \<le> k"
proof -
  have a: "a = k * (a div k) + a mod k" "0 \<le> a mod k" "a mod k < k" using assms by simp_all
  have "0 \<le> a div k" using assms by (simp add: pos_imp_zdiv_nonneg_iff)
  then show "0 \<le> min 3 (a div k)" "min 3 (a div k) \<le> 3" by auto
  show "0 \<le> a - min 3 (a div k) * k"
    "a - min 3 (a div k) * k < k \<or> min 3 (a div k) = 3 \<and> a - min 3 (a div k) * k \<le> k"
  proof (atomize (full), cases "a div k \<le> 3")
    case True
    have "k * (a div k) \<le> a" "a < k * (a div k) + k" using a by linarith+
    with True show "0 \<le> a - min 3 (a div k) * k \<and>
      (a - min 3 (a div k) * k < k \<or> min 3 (a div k) = 3 \<and> a - min 3 (a div k) * k \<le> k)"
      by (simp add: min_def algebra_simps)
  next
    case False
    then have "3 * k \<le> a div k * k" using assms by (intro mult_right_mono) auto
    then have "3 * k \<le> a" using a by (metis mult.commute add_increasing2 order_trans add.commute)
    with False assms(3) show "0 \<le> a - min 3 (a div k) * k \<and>
      (a - min 3 (a div k) * k < k \<or> min 3 (a div k) = 3 \<and> a - min 3 (a div k) * k \<le> k)"
      by (simp add: min_def)
  qed
qed

lemma year_and_day:
  assumes "year_and_day n = (y, d)"
  shows "days_before_year y + d = n" and "0 \<le> d" and "d < 365 \<or> leap y \<and> d = 365"
proof -
  define n0 where "n0 = n + 719162"
  define a where "a = n0 mod 146097"
  define n100 where "n100 = min 3 (a div 36524)"
  define b where "b = a - n100 * 36524"
  define c where "c = b mod 1461"
  define n1 where "n1 = min 3 (c div 365)"
  define N where "N = n0 div 146097"
  define Q where "Q = b div 1461"
  define p where "p = 100 * n100 + 4 * Q + n1"
  have a: "0 \<le> a" "a < 146097" by (simp_all add: a_def)
  have n100: "0 \<le> n100" "n100 \<le> 3" "0 \<le> b" "b < 36524 \<or> n100 = 3 \<and> b \<le> 36524"
    using min_div_bounds [of 36524 a] a unfolding n100_def b_def by simp_all
  have c: "0 \<le> c" "c < 1461" by (simp_all add: c_def)
  have n1: "0 \<le> n1" "n1 \<le> 3" "0 \<le> c - n1 * 365" "c - n1 * 365 < 365 \<or> n1 = 3 \<and> c - n1 * 365 \<le> 365"
    using min_div_bounds [of 365 c] c unfolding n1_def by simp_all
  have bc: "b = 1461 * Q + c" by (simp add: c_def Q_def)
  have q: "0 \<le> Q" "Q \<le> 24" using n100 bc c by linarith+
  have last: "n100 = 3" if "c - n1 * 365 = 365" "Q = 24"
    using n1 n100 bc that by linarith
  have "year_and_day n
      = (400 * N + 100 * n100 + 4 * Q + n1 + 1, c - n1 * 365)"
    unfolding year_and_day_def Let_def n1_def c_def b_def n100_def a_def n0_def N_def Q_def by (rule refl)
  with assms have y: "y = 400 * N + p + 1" and d: "d = c - n1 * 365"
    by (simp_all add: p_def)
  have p4: "p div 4 = 25 * n100 + Q" "p mod 4 = n1"
    by (rule div_mod_of [of _ _ "25 * n100 + Q" n1]; use n1 in \<open>simp add: p_def\<close>)+
  have p100: "p div 100 = n100" "0 \<le> p" "p < 400"
    by (rule div_mod_of(1) [of _ _ _ "4 * Q + n1"]; use n1 q in \<open>simp add: p_def\<close>)
      (use n1 q n100 in \<open>simp_all add: p_def\<close>)
  have y4: "(y - 1) div 4 = 100 * N + p div 4"
    by (rule div_mod_of(1) [of _ _ _ "p mod 4"]) (simp_all add: y)
  have y100: "(y - 1) div 100 = 4 * N + p div 100"
    by (rule div_mod_of(1) [of _ _ _ "p mod 100"]) (simp_all add: y)
  have y400: "(y - 1) div 400 = N"
    by (rule div_mod_of(1) [of _ _ _ p]) (use p100 in \<open>simp_all add: y\<close>)
  have "days_before_year y
      = 365 * (y - 1) + (100 * N + (25 * n100 + Q)) - (4 * N + n100) + N - 719162"
    by (simp only: days_before_year_def y4 y100 y400 p4 p100)
  then have "days_before_year y = 146097 * N + 36524 * n100 + 1461 * Q + 365 * n1 - 719162"
    using y p_def by (simp only:) simp
  moreover have "n0 = 146097 * N + a" by (simp add: a_def N_def)
  ultimately show "days_before_year y + d = n" using d b_def n0_def bc by linarith
  show "0 \<le> d" using d n1 by simp
  have "leap y" if "d = 365"
  proof -
    from that d n1 have n3: "n1 = 3" by auto
    have "y mod 4 = 0"
      by (rule div_mod_of(2) [of _ _ "100 * N + 25 * n100 + Q + 1"])
        (simp_all add: y p_def n3)
    moreover have "y mod 400 = 0" if "y mod 100 = 0"
    proof -
      have "y = (4 * Q + 4) + (4 * N + n100) * 100" by (simp add: y p_def n3)
      then have "y mod 100 = (4 * Q + 4) mod 100" by (simp only: mod_mult_self1)
      moreover have "(4 * Q + 4) mod 100 = 4 * Q + 4" if "Q < 24"
        using q that by (intro mod_pos_pos_trivial) simp_all
      ultimately have "Q = 24" using that q by (cases "Q < 24") auto
      then have "n100 = 3" using last \<open>d = 365\<close> d by simp
      then show ?thesis
        using div_mod_of(2) [of y 400 "N + 1" 0] \<open>Q = 24\<close> by (simp add: y p_def n3)
    qed
    ultimately show ?thesis by (auto simp: leap_def)
  qed
  then show "d < 365 \<or> leap y \<and> d = 365" using d n1 by auto
qed

lemma days_in_month_pos: "days_in_month y m \<ge> 28"
  by (simp add: days_in_month_def)

lemma upto_month: "[1..11::int] = [1,2,3,4,5,6,7,8,9,10,11]" by code_simp

lemma days_before_month_simps:
  "days_before_month y 1 = 0" "days_before_month y 2 = 31"
  "days_before_month y 3 = 31 + days_in_month y 2" "days_before_month y 4 = 62 + days_in_month y 2"
  "days_before_month y 5 = 92 + days_in_month y 2" "days_before_month y 6 = 123 + days_in_month y 2"
  "days_before_month y 7 = 153 + days_in_month y 2" "days_before_month y 8 = 184 + days_in_month y 2"
  "days_before_month y 9 = 215 + days_in_month y 2" "days_before_month y 10 = 245 + days_in_month y 2"
  "days_before_month y 11 = 276 + days_in_month y 2" "days_before_month y 12 = 306 + days_in_month y 2"
  by (simp_all add: days_before_month_def upto.simps days_in_month_def)

lemma month_and_day:
  assumes "month_and_day y d0 = (m, d)" and "0 \<le> d0" and "d0 < 365 \<or> leap y \<and> d0 = 365"
  shows "days_before_month y m + d = d0" "1 \<le> m" "m \<le> 12" "0 \<le> d" "d < days_in_month y m"
  using assms unfolding month_and_day_def upto_month
  by (auto simp: days_before_month_simps days_in_month_def split: if_splits)

text \<open>The date of a day is a date of the calendar, and its day is that day.\<close>

lemma date_of:
  assumes "date_of n = (y, m, d)"
  shows "days_of_date y m d = n" "1 \<le> m" "m \<le> 12" "1 \<le> d" "d \<le> days_in_month y m"
proof -
  obtain d0 where y: "year_and_day n = (y, d0)" and m: "month_and_day y d0 = (m, d - 1)"
    using assms by (auto simp: date_of_def split: prod.splits)
  note y' = year_and_day [OF y]
  note m' = month_and_day [OF m y'(2,3)]
  have "(m - 1) div 12 = 0" "(m - 1) mod 12 = m - 1" using m' by (simp_all add: div_pos_pos_trivial mod_pos_pos_trivial)
  then show "days_of_date y m d = n" using y' m' by (simp add: days_of_date_def)
  show "1 \<le> m" "m \<le> 12" "1 \<le> d" "d \<le> days_in_month y m" using m' by auto
qed

end
