(* ===== verification/Dateranges.thy ===== *)
theory Dateranges
  imports Calendar PyStr
begin

text \<open>
  \<open>alignak/daterange.py\<close>: time ranges of a day, date ranges, the next valid and the next invalid time
  of a date range. Asking a date range for its start and end can change it (\<open>self.syear\<close>,
  \<open>self.eyear\<close>), so that every operation that does gives the date range back with its answer. The
  outer option is \<open>None\<close> for an exception; in the answers \<open>None\<close> is Python's.
\<close>

section \<open>Time ranges\<close>

text \<open>
  A time range that is not of the form \<open>hh:mm-hh:mm\<close> holds strings instead of numbers: what compares
  them with seconds raises.
\<close>

datatype timerange = Hours (hstart: int) (mstart: int) (hend: int) (mend: int) | Bad_range

fun tr_is_correct :: "timerange \<Rightarrow> bool" where
  "tr_is_correct Bad_range = False"
| "tr_is_correct _ = True"

fun tr_start :: "timerange \<Rightarrow> int option" where
  "tr_start (Hours hs ms he me) = Some (hs * 3600 + ms * 60)"
| "tr_start Bad_range = None"

fun tr_end :: "timerange \<Rightarrow> int option" where
  "tr_end (Hours hs ms he me) = Some (he * 3600 + me * 60)"
| "tr_end Bad_range = None"

definition tr_first_sec_out :: "timerange \<Rightarrow> int" where
  "tr_first_sec_out tr =
     (case tr of Hours hs ms he me \<Rightarrow> if hs = 0 \<and> ms = 0 then he * 3600 + me * 60 else 0
      | Bad_range \<Rightarrow> 0)"

definition tr_is_time_valid :: "zone \<Rightarrow> int \<Rightarrow> timerange \<Rightarrow> bool" where
  "tr_is_time_valid z t tr =
     (case tr of
        Hours hs ms he me \<Rightarrow>
          let s = get_sec_from_morning z t in hs * 3600 + ms * 60 \<le> s \<and> s \<le> he * 3600 + me * 60
      | Bad_range \<Rightarrow> False)"

text \<open>\<open>Timerange(entry)\<close>: two digits, a colon, two digits, a dash, and again; the rest is not read.\<close>

definition two_digits :: "char \<Rightarrow> char \<Rightarrow> int option" where
  "two_digits a b = (if is_digit a \<and> is_digit b then Some (int (numeral_value [a, b])) else None)"

definition read_timerange :: "string \<Rightarrow> timerange" where
  "read_timerange entry =
     (case entry of
        a # b # c1 # c # d # c2 # e # f # c3 # g # h # _ \<Rightarrow>
          (if c1 = CHR '':'' \<and> c2 = CHR ''-'' \<and> c3 = CHR '':''
           then (case (two_digits a b, two_digits c d, two_digits e f, two_digits g h) of
                   (Some hs, Some ms, Some he, Some me) \<Rightarrow> Hours hs ms he me
                 | _ \<Rightarrow> Bad_range)
           else Bad_range)
      | _ \<Rightarrow> Bad_range)"

text \<open>\<open>other.split(',')\<close>, each part stripped.\<close>

definition read_timeranges :: "string \<Rightarrow> timerange list" where
  "read_timeranges other = map (\<lambda>s. read_timerange (strip s)) (split_on (CHR '','') other)"

section \<open>Date ranges\<close>

datatype dr_class =
    CalendarDaterange | StandardDaterange string | MonthWeekDayDaterange | MonthDateDaterange
  | WeekDayDaterange | MonthDayDaterange

record daterange =
  dr_class :: dr_class
  syear :: int
  smon :: int
  smday :: int
  swday :: int
  swday_offset :: int
  eyear :: int
  emon :: int
  emday :: int
  ewday :: int
  ewday_offset :: int
  skip_interval :: int
  timeranges :: "timerange list"

definition weekdays :: "(string \<times> int) list" where
  "weekdays = [(''monday'', 0), (''tuesday'', 1), (''wednesday'', 2), (''thursday'', 3),
     (''friday'', 4), (''saturday'', 5), (''sunday'', 6)]"

definition months :: "(string \<times> int) list" where
  "months = [(''january'', 1), (''february'', 2), (''march'', 3), (''april'', 4), (''may'', 5),
     (''june'', 6), (''july'', 7), (''august'', 8), (''september'', 9), (''october'', 10),
     (''november'', 11), (''december'', 12)]"

definition get_weekday_id :: "string \<Rightarrow> int option" where
  "get_weekday_id = map_of weekdays"

definition get_month_id :: "string \<Rightarrow> int option" where
  "get_month_id = map_of months"

text \<open>\<open>is_correct\<close> of the classes (the month week day class looks at its week days only).\<close>

definition dr_is_correct :: "daterange \<Rightarrow> bool" where
  "dr_is_correct dr =
     (case dr_class dr of
        StandardDaterange day \<Rightarrow> get_weekday_id day \<noteq> None \<and> list_all tr_is_correct (timeranges dr)
      | MonthWeekDayDaterange \<Rightarrow> 0 \<le> swday dr \<and> swday dr < 7 \<and> 0 \<le> ewday dr \<and> ewday dr < 7
      | _ \<Rightarrow> list_all tr_is_correct (timeranges dr))"

section \<open>Start and end of a date range\<close>

text \<open>
  A day that is looked up in a month: \<open>None\<close> as a day is a \<open>TypeError\<close> of \<open>mktime\<close>. \<open>start_on\<close> and
  \<open>end_on\<close> are the two lines the code has for each bound.
\<close>

type_synonym day_finder = "int \<Rightarrow> int \<Rightarrow> int option"

definition by_weekday :: "int \<Rightarrow> int \<Rightarrow> day_finder" where
  "by_weekday weekday offset y m = Option.bind (find_day_by_weekday_offset y m weekday offset) (\<lambda>d. d)"

definition by_offset :: "int \<Rightarrow> day_finder" where
  "by_offset offset y m = find_day_by_offset y m offset"

definition start_on :: "zone \<Rightarrow> day_finder \<Rightarrow> int \<Rightarrow> int \<Rightarrow> int option" where
  "start_on z finder y m = map_option (get_start_of_day z y m) (finder y m)"

definition end_on :: "zone \<Rightarrow> day_finder \<Rightarrow> int \<Rightarrow> int \<Rightarrow> int option" where
  "end_on z finder y m = map_option (get_end_of_day z y m) (finder y m)"

text \<open>\<open>StandardDaterange\<close>: the days are added to local times, which are read back as such.\<close>

definition standard_bounds :: "zone \<Rightarrow> string \<Rightarrow> int \<Rightarrow> (int \<times> int) option" where
  "standard_bounds z day ref =
     map_option (\<lambda>day_id.
       let lt = localtime z ref;
           today_morning = get_start_of_day z (tm_year lt) (tm_mon lt) (tm_mday lt);
           tonight = get_end_of_day z (tm_year lt) (tm_mon lt) (tm_mday lt);
           day_diff = (day_id - tm_wday lt) mod 7
       in (epoch_of z (local_secs z today_morning + day_diff * 86400),
           epoch_of z (local_secs z tonight + day_diff * 86400))) (get_weekday_id day)"

text \<open>
  The bounds in a year, of \<open>MonthWeekDayDaterange\<close> and \<open>MonthDateDaterange\<close>, which differ in how they
  find the days; \<open>again\<close> finds the start of the year before. \<open>time.mktime(now)\<close> is \<open>ref\<close> again:
  the local time it is given tells whether it is daylight saving time.
\<close>

definition yearly_bounds ::
  "zone \<Rightarrow> int \<Rightarrow> day_finder \<Rightarrow> day_finder \<Rightarrow> day_finder \<Rightarrow> daterange \<Rightarrow> ((int \<times> int) \<times> daterange) option" where
  "yearly_bounds z ref first final again dr =
     (let this = tm_year (localtime z ref);
          sy = (if syear dr = 0 then this else syear dr);
          ey = (if eyear dr = 0 then this else eyear dr)
      in Option.bind (start_on z first sy (smon dr)) (\<lambda>start0.
         Option.bind (end_on z final ey (emon dr)) (\<lambda>end0.
         map_option (\<lambda>bounds. (bounds, dr\<lparr>syear := sy, eyear := ey\<rparr>))
           (if start0 > end0
            then (if ref > end0
                  then map_option (\<lambda>end1. (start0, end1)) (end_on z final (ey + 1) (emon dr))
                  else map_option (\<lambda>start1. (start1, end0)) (start_on z again (sy - 1) (smon dr)))
            else if ref > end0
            then Option.bind (start_on z first (sy + 1) (smon dr)) (\<lambda>start1.
                 map_option (\<lambda>end1. (start1, end1)) (end_on z final (ey + 1) (emon dr)))
            else Some (start0, end0)))))"

text \<open>A month that is counted on, with its year.\<close>

definition next_month :: "int \<times> int \<Rightarrow> int \<times> int" where
  "next_month ym = (case ym of (y, m) \<Rightarrow> if m + 1 > 12 then (y + 1, 1) else (y, m + 1))"

definition previous_month :: "int \<times> int \<Rightarrow> int \<times> int" where
  "previous_month ym = (case ym of (y, m) \<Rightarrow> if m - 1 < 1 then (y - 1, 12) else (y, m - 1))"

definition month_bounds ::
  "zone \<Rightarrow> day_finder \<Rightarrow> day_finder \<Rightarrow> int \<times> int \<Rightarrow> int \<times> int \<Rightarrow> (int \<times> int) option" where
  "month_bounds z first final s e =
     Option.bind (start_on z first (fst s) (snd s)) (\<lambda>start_time.
     map_option (\<lambda>end_time. (start_time, end_time)) (end_on z final (fst e) (snd e)))"

text \<open>\<open>WeekDayDaterange\<close>\<close>

definition week_day_bounds ::
  "zone \<Rightarrow> int \<Rightarrow> daterange \<Rightarrow> ((int \<times> int) \<times> daterange) option" where
  "week_day_bounds z ref dr =
     (let lt = localtime z ref;
          first = by_weekday (swday dr) (swday_offset dr); final = by_weekday (ewday dr) (ewday_offset dr);
          s0 = (if syear dr = 0 then tm_year lt else syear dr, tm_mon lt);
          e0 = (if eyear dr = 0 then tm_year lt else eyear dr, tm_mon lt)
      in Option.bind (month_bounds z first final s0 e0) (\<lambda>(start0, end0).
         let e1 = (if start0 > end0 then next_month e0 else e0)
         in Option.bind (if start0 > end0 then end_on z final (fst e1) (snd e1) else Some end0) (\<lambda>end1.
            if end1 < ref
            then (let e2 = next_month e1; s2 = next_month s0
                  in map_option (\<lambda>b. (b, dr\<lparr>syear := fst s2, eyear := fst e2\<rparr>))
                       (month_bounds z first final s2 e2))
            else Some ((start0, end1), dr\<lparr>syear := fst s0, eyear := fst e1\<rparr>))))"

text \<open>\<open>MonthDayDaterange\<close>\<close>

definition month_day_bounds ::
  "zone \<Rightarrow> int \<Rightarrow> daterange \<Rightarrow> ((int \<times> int) \<times> daterange) option" where
  "month_day_bounds z ref dr =
     (let lt = localtime z ref;
          first = by_offset (smday dr); final = by_offset (emday dr);
          s0 = (if syear dr = 0 then tm_year lt else syear dr, tm_mon lt);
          e0 = (if eyear dr = 0 then tm_year lt else eyear dr, tm_mon lt)
      in Option.bind (month_bounds z first final s0 e0) (\<lambda>(start0, end0).
         let s1 = (if start0 > end0 then previous_month s0 else s0)
         in Option.bind (start_on z first (fst s1) (snd s1)) (\<lambda>start1.
            if end0 < ref
            then (let e2 = next_month e0; s2 = next_month s1
                  in map_option (\<lambda>b. (b, dr\<lparr>syear := fst s2, eyear := fst e2\<rparr>))
                       (month_bounds z first final s2 e2))
            else Some ((start1, end0), dr\<lparr>syear := fst s1, eyear := fst e0\<rparr>))))"

text \<open>
  \<open>get_start_and_end_time\<close>. \<open>MonthDateDaterange\<close> looks for the start of the year before with the day
  of the end (\<open>self.emday\<close>).
\<close>

definition get_start_and_end_time ::
  "zone \<Rightarrow> int \<Rightarrow> daterange \<Rightarrow> ((int \<times> int) \<times> daterange) option" where
  "get_start_and_end_time z ref dr =
     (case dr_class dr of
        CalendarDaterange \<Rightarrow>
          Some ((get_start_of_day z (syear dr) (smon dr) (smday dr),
                 get_end_of_day z (eyear dr) (emon dr) (emday dr)), dr)
      | StandardDaterange day \<Rightarrow>
          map_option (\<lambda>b. (b, dr\<lparr>syear := tm_year (localtime z ref)\<rparr>)) (standard_bounds z day ref)
      | MonthWeekDayDaterange \<Rightarrow>
          yearly_bounds z ref (by_weekday (swday dr) (swday_offset dr))
            (by_weekday (ewday dr) (ewday_offset dr)) (by_weekday (swday dr) (swday_offset dr)) dr
      | MonthDateDaterange \<Rightarrow>
          yearly_bounds z ref (by_offset (smday dr)) (by_offset (emday dr)) (by_offset (emday dr)) dr
      | WeekDayDaterange \<Rightarrow> week_day_bounds z ref dr
      | MonthDayDaterange \<Rightarrow> month_day_bounds z ref dr)"

section \<open>Valid and invalid times\<close>

definition is_time_day_valid :: "zone \<Rightarrow> int \<Rightarrow> daterange \<Rightarrow> (bool \<times> daterange) option" where
  "is_time_day_valid z t dr =
     map_option (\<lambda>((s, e), dr1). (s \<le> t \<and> t \<le> e, dr1)) (get_start_and_end_time z t dr)"

definition dr_is_time_valid :: "zone \<Rightarrow> int \<Rightarrow> daterange \<Rightarrow> (bool \<times> daterange) option" where
  "dr_is_time_valid z t dr =
     map_option (\<lambda>(v, dr1). (v \<and> list_ex (tr_is_time_valid z t) (timeranges dr1), dr1))
       (is_time_day_valid z t dr)"

text \<open>\<open>min\<close> of the starts; an empty list is a \<open>ValueError\<close>, strings cannot be added to a time.\<close>

definition min_of :: "int list \<Rightarrow> int" where
  "min_of xs = foldl min (hd xs) (tl xs)"

definition get_min_from_t :: "zone \<Rightarrow> int \<Rightarrow> daterange \<Rightarrow> (int \<times> daterange) option" where
  "get_min_from_t z t dr =
     Option.bind (dr_is_time_valid z t dr) (\<lambda>(v, dr1).
       if v then Some (t, dr1)
       else if timeranges dr1 = [] \<or> Bad_range \<in> set (timeranges dr1) then None
       else Some (get_day z t + min_of (map (the \<circ> tr_start) (timeranges dr1)), dr1))"

definition get_min_sec_out_from_morning :: "daterange \<Rightarrow> int option" where
  "get_min_sec_out_from_morning dr =
     (if timeranges dr = [] then None else Some (min_of (map tr_first_sec_out (timeranges dr))))"

text \<open>
  \<open>get_next_future_timerange_valid\<close> and its counterpart: the seconds from the morning. Comparing a
  bad range raises.
\<close>

definition future_secs :: "(timerange \<Rightarrow> int option) \<Rightarrow> int \<Rightarrow> daterange \<Rightarrow> int list option" where
  "future_secs sec s dr =
     (if Bad_range \<in> set (timeranges dr) then None
      else Some (filter (\<lambda>x. x \<ge> s) (map (the \<circ> sec) (timeranges dr))))"

definition get_next_future_timerange_valid :: "zone \<Rightarrow> int \<Rightarrow> daterange \<Rightarrow> int option option" where
  "get_next_future_timerange_valid z t dr =
     map_option (\<lambda>starts. if starts \<noteq> [] then Some (min_of starts) else None)
       (future_secs tr_start (get_sec_from_morning z t) dr)"

definition get_next_future_timerange_invalid :: "zone \<Rightarrow> int \<Rightarrow> daterange \<Rightarrow> int option option" where
  "get_next_future_timerange_invalid z t dr =
     map_option (\<lambda>ends. let ends1 = map (\<lambda>e. if e = 86400 then 86399 else e) ends
                  in if ends1 \<noteq> [] then Some (min_of ends1) else None)
       (future_secs tr_end (get_sec_from_morning z t) dr)"

definition get_next_valid_day :: "zone \<Rightarrow> int \<Rightarrow> daterange \<Rightarrow> (int option \<times> daterange) option" where
  "get_next_valid_day z t dr =
     Option.bind (get_next_future_timerange_valid z t dr) (\<lambda>future.
     Option.bind (get_start_and_end_time z (if future = None then get_day z t + 86400 else t) dr)
       (\<lambda>((start_time, _), dr1).
          if t \<le> start_time then Some (Some (get_day z start_time), dr1)
          else map_option (\<lambda>(v, dr2). (if v then Some (get_day z t) else None, dr2))
                 (is_time_day_valid z t dr1)))"

text \<open>
  \<open>get_next_valid_time_from_t\<close>. With no second day, the seconds are those of the current time and
  are not used; a bad range has raised before.
\<close>

definition dr_get_next_valid_time :: "zone \<Rightarrow> int \<Rightarrow> daterange \<Rightarrow> (int option \<times> daterange) option" where
  "dr_get_next_valid_time z t dr =
     Option.bind (dr_is_time_valid z t dr) (\<lambda>(v, dr1).
     if v then Some (Some t, dr1)
     else Option.bind (get_next_valid_day z t dr1) (\<lambda>(day, dr2).
       case day of None \<Rightarrow> Some (None, dr2)
       | Some t_day \<Rightarrow>
           Option.bind (get_next_future_timerange_valid z (if t < t_day then t_day else t) dr2) (\<lambda>sec.
           case sec of Some s \<Rightarrow> Some (Some (t_day + s), dr2)
           | None \<Rightarrow>
               Option.bind (get_next_valid_day z (get_day z t + 86400) dr2) (\<lambda>(day2, dr3).
               case day2 of None \<Rightarrow> Some (None, dr3)
               | Some t_day2 \<Rightarrow>
                   map_option (\<lambda>sec2. (map_option (\<lambda>s. t_day2 + s) sec2, dr3))
                     (get_next_future_timerange_valid z t_day2 dr3)))))"

definition get_next_invalid_day :: "zone \<Rightarrow> int \<Rightarrow> daterange \<Rightarrow> (int option \<times> daterange) option" where
  "get_next_invalid_day z t dr =
     Option.bind (is_time_day_valid z t dr) (\<lambda>(v, dr1).
     if \<not> v then Some (Some t, dr1)
     else
     Option.bind (get_next_future_timerange_invalid z t dr1) (\<lambda>future.
     map_option (\<lambda>((start_time, end_time), dr2).
         (if future \<noteq> None
          then (if start_time \<le> t \<and> t \<le> end_time then Some (get_day z t)
                else if start_time \<ge> t then Some (get_day z start_time) else None)
          else Some (get_day z (end_time + 1)), dr2))
       (get_start_and_end_time z (if future = None then get_day z t else t) dr1)))"

text \<open>
  \<open>get_next_invalid_time_from_t\<close>: comparing \<open>t\<close> with no day is a \<open>TypeError\<close>, so that what follows
  the two first answers is never reached.
\<close>

definition dr_get_next_invalid_time :: "zone \<Rightarrow> int \<Rightarrow> daterange \<Rightarrow> (int \<times> daterange) option" where
  "dr_get_next_invalid_time z t dr =
     Option.bind (dr_is_time_valid z t dr) (\<lambda>(v, dr1).
     if \<not> v then Some (t, dr1)
     else Option.bind (get_next_invalid_day z t dr1) (\<lambda>(day, dr2).
       case day of None \<Rightarrow> None
       | Some t_day \<Rightarrow>
           map_option (\<lambda>sec. (case sec of Some s \<Rightarrow> t_day + s + 1 | None \<Rightarrow> t_day, dr2))
             (get_next_future_timerange_invalid z (if t < t_day then t_day else t) dr2)))"

end
