(* ===== verification/Timeperiods.thy ===== *)
theory Timeperiods
  imports Dateranges PyRegex
begin

text \<open>
  \<open>alignak/objects/timeperiod.py\<close>, the definition of time periods: the entries of a time period are
  read as date ranges, the excluded time periods are looked up by name.
\<close>

section \<open>Entries\<close>

definition dash_digit :: "char \<Rightarrow> bool" where
  "dash_digit c \<longleftrightarrow> is_digit c \<or> c = CHR ''-''"

definition hours_char :: "char \<Rightarrow> bool" where
  "hours_char c \<longleftrightarrow> is_digit c \<or> c \<in> set '':, -''"

text \<open>The parts the patterns are made of: a word, a number that can be negative, a date, the hours.\<close>

definition re_word :: pattern where "re_word = group_of is_lower 0 None"
definition re_number :: pattern where "re_number = group_of dash_digit 1 None"
definition re_digits :: "nat \<Rightarrow> pattern" where "re_digits n = group_of is_digit n (Some n)"
definition re_date :: pattern where
  "re_date = re_digits 4 @ lit ''-'' @ re_digits 2 @ lit ''-'' @ re_digits 2"
definition re_skip :: pattern where "re_skip = lit '' / '' @ group_of is_digit 1 None"
definition re_other :: pattern where "re_other = many_of is_space 0 @ group_of hours_char 1 None"

text \<open>Numbers of an entry: the constants of the code, or \<open>int\<close> of a group (\<open>ValueError\<close>).\<close>

definition new_daterange ::
  "dr_class \<Rightarrow> int option \<times> int option \<times> int option \<Rightarrow> int option \<times> int option \<Rightarrow>
   int option \<times> int option \<times> int option \<Rightarrow> int option \<times> int option \<Rightarrow> int option \<Rightarrow> string \<Rightarrow>
   daterange option" where
  "new_daterange c s sw e ew skip oth =
     (case (s, sw, e, ew, skip) of
        ((Some sy, Some sm, Some sd), (Some swd, Some swo), (Some ey, Some em, Some ed),
         (Some ewd, Some ewo), Some sk) \<Rightarrow>
          Some \<lparr>dr_class = c, syear = sy, smon = sm, smday = sd, swday = swd, swday_offset = swo,
            eyear = ey, emon = em, emday = ed, ewday = ewd, ewday_offset = ewo, skip_interval = sk,
            timeranges = read_timeranges oth\<rparr>
      | _ \<Rightarrow> None)"

definition calendar_range :: "string list \<Rightarrow> string list \<Rightarrow> int option \<Rightarrow> string \<Rightarrow> daterange option" where
  "calendar_range s e skip oth =
     new_daterange CalendarDaterange (py_int (s ! 0), py_int (s ! 1), py_int (s ! 2)) (Some 0, Some 0)
       (py_int (e ! 0), py_int (e ! 1), py_int (e ! 2)) (Some 0, Some 0) skip oth"

definition month_week_day_range ::
  "string \<times> string \<times> string \<Rightarrow> string \<times> string \<times> string \<Rightarrow> int option \<Rightarrow> string \<Rightarrow> daterange option" where
  "month_week_day_range s e skip oth =
     (case s of (swd, swo, sm) \<Rightarrow> case e of (ewd, ewo, em) \<Rightarrow>
      new_daterange MonthWeekDayDaterange (Some 0, get_month_id sm, Some 0) (get_weekday_id swd, py_int swo)
        (Some 0, get_month_id em, Some 0) (get_weekday_id ewd, py_int ewo) skip oth)"

definition week_day_range ::
  "string \<times> string \<Rightarrow> string \<times> string \<Rightarrow> int option \<Rightarrow> string \<Rightarrow> daterange option" where
  "week_day_range s e skip oth =
     new_daterange WeekDayDaterange (Some 0, Some 0, Some 0) (get_weekday_id (fst s), py_int (snd s))
       (Some 0, Some 0, Some 0) (get_weekday_id (fst e), py_int (snd e)) skip oth"

definition month_date_range ::
  "string \<times> string \<Rightarrow> string \<times> string \<Rightarrow> int option \<Rightarrow> string \<Rightarrow> daterange option" where
  "month_date_range s e skip oth =
     new_daterange MonthDateDaterange (Some 0, get_month_id (fst s), py_int (snd s)) (Some 0, Some 0)
       (Some 0, get_month_id (fst e), py_int (snd e)) (Some 0, Some 0) skip oth"

definition month_day_range :: "string \<Rightarrow> string \<Rightarrow> int option \<Rightarrow> string \<Rightarrow> daterange option" where
  "month_day_range s e skip oth =
     new_daterange MonthDayDaterange (Some 0, Some 0, py_int s) (Some 0, Some 0)
       (Some 0, Some 0, py_int e) (Some 0, Some 0) skip oth"

definition standard_range :: "string \<Rightarrow> string \<Rightarrow> daterange option" where
  "standard_range day oth =
     new_daterange (StandardDaterange day) (Some 0, Some 0, Some 0) (Some 0, Some 0)
       (Some 0, Some 0, Some 0) (Some 0, Some 0) (Some 0) oth"

text \<open>
  What an entry with two words and two numbers is, from the words; no answer when the words are
  neither week days nor months nor \<open>day\<close>: the next patterns are tried.
\<close>

definition word_range ::
  "string \<Rightarrow> string \<Rightarrow> string \<Rightarrow> string \<Rightarrow> int option \<Rightarrow> string \<Rightarrow> daterange option option" where
  "word_range t0 n0 t1 n1 skip oth =
     (if get_weekday_id t0 \<noteq> None \<and> get_weekday_id t1 \<noteq> None
      then Some (week_day_range (t0, n0) (t1, n1) skip oth)
      else if get_month_id t0 \<noteq> None \<and> get_month_id t1 \<noteq> None
      then Some (month_date_range (t0, n0) (t1, n1) skip oth)
      else if t0 = ''day'' \<and> t1 = ''day'' then Some (month_day_range n0 n1 skip oth)
      else None)"

text \<open>
  The patterns in their order, each with what it gives for the groups of a match: no answer, or an
  answer that can be an exception (the inner \<open>None\<close>).
\<close>

definition calendar_rules :: "(pattern \<times> (string list \<Rightarrow> daterange option option)) list" where
  "calendar_rules =
    [(re_date @ lit '' - '' @ re_date @ re_skip @ re_other,
        \<lambda>g. Some (calendar_range (take 3 g) (take 3 (drop 3 g)) (py_int (g ! 6)) (g ! 7))),
     (re_date @ re_skip @ re_other,
        \<lambda>g. Some (calendar_range (take 3 g) (take 3 g) (py_int (g ! 3)) (g ! 4))),
     (re_date @ lit '' - '' @ re_date @ re_other,
        \<lambda>g. Some (calendar_range (take 3 g) (take 3 (drop 3 g)) (Some 0) (g ! 6))),
     (re_date @ re_other,
        \<lambda>g. Some (calendar_range (take 3 g) (take 3 g) (Some 0) (g ! 3)))]"

definition skip_rules :: "(pattern \<times> (string list \<Rightarrow> daterange option option)) list" where
  "skip_rules =
    [(re_word @ lit '' '' @ re_number @ lit '' '' @ re_word @ lit '' - '' @ re_word @ lit '' '' @ re_number
        @ lit '' '' @ re_word @ re_skip @ re_other,
        \<lambda>g. Some (month_week_day_range (g ! 0, g ! 1, g ! 2) (g ! 3, g ! 4, g ! 5) (py_int (g ! 6)) (g ! 7))),
     (re_word @ lit '' '' @ re_number @ lit '' - '' @ re_word @ lit '' '' @ re_number @ re_skip @ re_other,
        \<lambda>g. word_range (g ! 0) (g ! 1) (g ! 2) (g ! 3) (py_int (g ! 4)) (g ! 5)),
     (re_word @ lit '' '' @ re_number @ lit '' - '' @ re_number @ re_skip @ re_other,
        \<lambda>g. word_range (g ! 0) (g ! 1) (g ! 0) (g ! 2) (py_int (g ! 3)) (g ! 4))]"

definition plain_rules :: "(pattern \<times> (string list \<Rightarrow> daterange option option)) list" where
  "plain_rules =
    [(re_word @ lit '' '' @ re_number @ lit '' '' @ re_word @ lit '' - '' @ re_word @ lit '' '' @ re_number
        @ lit '' '' @ re_word @ lit '' '' @ re_other,
        \<lambda>g. Some (month_week_day_range (g ! 0, g ! 1, g ! 2) (g ! 3, g ! 4, g ! 5) (Some 0) (g ! 6))),
     (re_word @ lit '' '' @ re_number @ lit '' - '' @ re_number @ re_other,
        \<lambda>g. word_range (g ! 0) (g ! 1) (g ! 0) (g ! 2) (Some 0) (g ! 3)),
     (re_word @ lit '' '' @ re_number @ lit '' - '' @ re_word @ lit '' '' @ re_number @ re_other,
        \<lambda>g. word_range (g ! 0) (g ! 1) (g ! 2) (g ! 3) (Some 0) (g ! 4)),
     (re_word @ lit '' '' @ re_number @ lit '' '' @ re_word @ re_other,
        \<lambda>g. if get_weekday_id (g ! 0) \<noteq> None \<and> get_month_id (g ! 2) \<noteq> None
            then Some (month_week_day_range (g ! 0, g ! 1, g ! 2) (g ! 0, g ! 1, g ! 2) (Some 0) (g ! 3))
            else if g ! 2 = [] then word_range (g ! 0) (g ! 1) (g ! 0) (g ! 1) (Some 0) (g ! 3)
            else None),
     (re_word @ many_of is_space 1 @ group_of hours_char 1 None,
        \<lambda>g. if get_weekday_id (g ! 0) \<noteq> None then Some (standard_range (g ! 0) (g ! 1)) else None)]"

definition entry_rules :: "(pattern \<times> (string list \<Rightarrow> daterange option option)) list" where
  "entry_rules = calendar_rules @ skip_rules @ plain_rules"

fun first_rule :: "(pattern \<times> (string list \<Rightarrow> daterange option option)) list \<Rightarrow> string \<Rightarrow>
    daterange option option" where
  "first_rule [] entry = None"
| "first_rule ((p, f) # rules) entry =
     (case re_search p entry of None \<Rightarrow> first_rule rules entry
      | Some g \<Rightarrow> (case f g of None \<Rightarrow> first_rule rules entry | Some r \<Rightarrow> Some r))"

section \<open>Time periods\<close>

text \<open>
  What \<open>exclude\<close> holds: names before \<open>linkify\<close>, the identifiers it puts there, or time periods as
  the methods expect (\<open>Period\<close>, a reference to an object).
\<close>

datatype excluded = Period nat | Name string | Uuid nat

record timeperiod =
  timeperiod_name :: string
  dateranges :: "daterange list"
  exclude :: "excluded list"
  unresolved :: "string list"
  invalid_entries :: "string list"
  is_active :: bool
  activated_once :: bool
  cache :: "(int \<times> int option) list"
  invalid_cache :: "(int \<times> int option) list"
  tp_errors :: "string list"

text \<open>
  The constructor, from the name, the configured \<open>exclude\<close> and the entries. The list of excluded
  time periods that the constructor of \<open>Item\<close> has just set is emptied again.
\<close>

datatype param_value = PText string | PList "string list"

definition new_timeperiod :: "string \<Rightarrow> excluded list \<Rightarrow> (string \<times> param_value) list \<Rightarrow> timeperiod" where
  "new_timeperiod n configured_exclude params =
     \<lparr>timeperiod_name = n, dateranges = [], exclude = [],
      unresolved = map (\<lambda>(key, v). key @ '' '' @ (case v of PText s \<Rightarrow> s
                                     | PList l \<Rightarrow> if l = [] then [] else last l)) params,
      invalid_entries = [], is_active = False, activated_once = False, cache = [],
      invalid_cache = [], tp_errors = []\<rparr>"

text \<open>\<open>resolve_daterange\<close>, when the list it is given is that of the time period.\<close>

definition resolve_daterange :: "string \<Rightarrow> timeperiod \<Rightarrow> timeperiod option" where
  "resolve_daterange entry tp =
     (case first_rule entry_rules entry of
        None \<Rightarrow> Some (tp\<lparr>invalid_entries := invalid_entries tp @ [entry]\<rparr>)
      | Some r \<Rightarrow> map_option (\<lambda>dr. tp\<lparr>dateranges := dateranges tp @ [dr]\<rparr>) r)"

definition tp_explode :: "timeperiod \<Rightarrow> timeperiod option" where
  "tp_explode tp =
     map_option (\<lambda>tp1. tp1\<lparr>unresolved := []\<rparr>) (foldM resolve_daterange (unresolved tp) tp)"

text \<open>\<open>linkify\<close>: identifiers of the named time periods; unknown names are errors.\<close>

definition tp_linkify :: "(string \<Rightarrow> nat option) \<Rightarrow> timeperiod \<Rightarrow> timeperiod option" where
  "tp_linkify by_name tp =
     foldM (\<lambda>x tp1. case x of
         Name n \<Rightarrow> (case by_name (strip n) of
             Some i \<Rightarrow> Some (tp1\<lparr>exclude := exclude tp1 @ [Uuid i]\<rparr>)
           | None \<Rightarrow> Some (tp1\<lparr>tp_errors := tp_errors tp1 @ [''[timeperiod::'' @ timeperiod_name tp1
                @ ''] unknown '' @ n @ '' timeperiod'']\<rparr>))
       | _ \<Rightarrow> None) (exclude tp) (tp\<lparr>exclude := []\<rparr>)"

definition tp_is_correct :: "timeperiod \<Rightarrow> bool" where
  "tp_is_correct tp \<longleftrightarrow> list_all dr_is_correct (dateranges tp)"

end
