(* ===== verification/PeriodTimes.thy ===== *)
theory PeriodTimes
  imports Timeperiods Types
begin

text \<open>
  \<open>alignak/objects/timeperiod.py\<close>, the times of a time period: is a time valid, the next valid and the
  next invalid time, the caches, the changes of activity. Time periods live in a store, as the
  excluded ones are objects that several time periods can share and that every question to them can
  change.

  The searches are loops that need not end: \<open>fuel\<close> bounds their turns, and \<open>Unfinished\<close> is the answer
  when it is used up. \<open>Raised\<close> is an exception.
\<close>

datatype 'a run = Done 'a | Raised | Unfinished

fun bind_run :: "'a run \<Rightarrow> ('a \<Rightarrow> 'b run) \<Rightarrow> 'b run" where
  "bind_run (Done x) f = f x"
| "bind_run Raised f = Raised"
| "bind_run Unfinished f = Unfinished"

definition run_of :: "'a option \<Rightarrow> 'a run" where
  "run_of r = (case r of Some x \<Rightarrow> Done x | None \<Rightarrow> Raised)"

lemma bind_run_cong [fundef_cong]:
  "r = r' \<Longrightarrow> (\<And>x. r' = Done x \<Longrightarrow> f x = g x) \<Longrightarrow> bind_run r f = bind_run r' g"
  by (cases r') simp_all

lemma bind_run_Done: "bind_run r f = Done y \<longleftrightarrow> (\<exists>x. r = Done x \<and> f x = Done y)"
  by (cases r) simp_all

lemma run_of_simps [simp]: "run_of (Some x) = Done x" "run_of None = Raised"
  by (simp_all add: run_of_def)

lemma run_of_Done [simp]: "run_of r = Done x \<longleftrightarrow> r = Some x" "run_of r \<noteq> Unfinished"
  by (cases r; simp)+

text \<open>A loop over a list with a state.\<close>

fun fold_run :: "('a \<Rightarrow> 's \<Rightarrow> 's run) \<Rightarrow> 'a list \<Rightarrow> 's \<Rightarrow> 's run" where
  "fold_run f [] s = Done s"
| "fold_run f (x # xs) s = bind_run (f x s) (fold_run f xs)"

type_synonym store = "nat \<Rightarrow> timeperiod option"

section \<open>Is a time valid\<close>

fun any_daterange :: "(daterange \<Rightarrow> (bool \<times> daterange) option) \<Rightarrow> daterange list \<Rightarrow>
    (bool \<times> daterange list) option" where
  "any_daterange f [] = Some (False, [])"
| "any_daterange f (d # ds) =
     Option.bind (f d) (\<lambda>(v, d1). if v then Some (True, d1 # ds)
       else map_option (\<lambda>(v1, ds1). (v1, d1 # ds1)) (any_daterange f ds))"

fun any_excluded :: "(nat \<Rightarrow> store \<Rightarrow> (bool \<times> store) option) \<Rightarrow> excluded list \<Rightarrow> store \<Rightarrow>
    (bool \<times> store) option" where
  "any_excluded f [] st = Some (False, st)"
| "any_excluded f (Period p # ps) st =
     Option.bind (f p st) (\<lambda>(v, st1). if v then Some (True, st1) else any_excluded f ps st1)"
| "any_excluded f (_ # ps) st = None"

text \<open>
  \<open>is_time_valid\<close>: not in a time period that is excluded, but in one of the date ranges. A name or
  an identifier in \<open>exclude\<close> has no such method. \<open>d\<close> bounds the depth of the excluded periods of
  excluded periods (\<open>RecursionError\<close>).
\<close>

primrec tp_is_time_valid :: "zone \<Rightarrow> nat \<Rightarrow> int \<Rightarrow> nat \<Rightarrow> store \<Rightarrow> (bool \<times> store) option" where
  "tp_is_time_valid z 0 t i st = None"
| "tp_is_time_valid z (Suc d) t i st =
     Option.bind (st i) (\<lambda>tp.
     Option.bind (any_excluded (tp_is_time_valid z d t) (exclude tp) st) (\<lambda>(ex, st1).
       if ex then Some (False, st1)
       else Option.bind (st1 i) (\<lambda>tp1.
            map_option (\<lambda>(v, ds). (v, st1(i \<mapsto> tp1\<lparr>dateranges := ds\<rparr>)))
              (any_daterange (dr_is_time_valid z t) (dateranges tp1)))))"

section \<open>Periods\<close>

text \<open>
  \<open>merge_periods\<close> (\<open>alignak/util.py\<close>): \<open>None\<close> is the pair \<open>(None, None)\<close> it gives for no periods. What
  its first loop computes is not used.
\<close>

fun merge_from :: "int \<Rightarrow> int \<Rightarrow> (int \<times> int) list \<Rightarrow> (int \<times> int) list" where
  "merge_from cur_start cur_end [] = [(cur_start, cur_end)]"
| "merge_from cur_start cur_end ((dt_start, dt_end) # ps) =
     (if cur_end \<ge> dt_start then merge_from cur_start dt_end ps
      else (cur_start, cur_end) # merge_from dt_start dt_end ps)"

definition merge_periods :: "(int \<times> int) list \<Rightarrow> (int \<times> int) option list" where
  "merge_periods data =
     (case sort_key fst data of [] \<Rightarrow> [None] | (s, e) # ps \<Rightarrow> map Some (merge_from s e ps))"

text \<open>The loop over the valid periods of a date range, for a year from \<open>orig\<close>.\<close>

fun daterange_periods ::
  "zone \<Rightarrow> nat \<Rightarrow> int \<Rightarrow> int \<Rightarrow> daterange \<Rightarrow> ((int \<times> int) list \<times> daterange) run" where
  "daterange_periods z 0 orig t dr = Unfinished"
| "daterange_periods z (Suc fuel) orig t dr =
     bind_run (run_of (dr_get_next_valid_time z t dr)) (\<lambda>(start, dr1).
       case start of None \<Rightarrow> Done ([], dr1)
       | Some s \<Rightarrow>
           bind_run (run_of (dr_get_next_invalid_time z s dr1)) (\<lambda>(e, dr2).
             if e > orig + 3600 * 24 * 365 then Done ([(s, e)], dr2)
             else bind_run (daterange_periods z fuel orig e dr2) (\<lambda>(ps, dr3). Done ((s, e) # ps, dr3))))"

fun all_periods ::
  "zone \<Rightarrow> nat \<Rightarrow> int \<Rightarrow> daterange list \<Rightarrow> ((int \<times> int) list \<times> daterange list) run" where
  "all_periods z fuel t [] = Done ([], [])"
| "all_periods z fuel t (d # ds) =
     bind_run (daterange_periods z fuel t t d) (\<lambda>(ps, d1).
     bind_run (all_periods z fuel t ds) (\<lambda>(qs, ds1). Done (ps @ qs, d1 # ds1)))"

definition tp_periods :: "zone \<Rightarrow> nat \<Rightarrow> int \<Rightarrow> nat \<Rightarrow> store \<Rightarrow> ((int \<times> int) list \<times> store) run" where
  "tp_periods z fuel t i st =
     (case st i of None \<Rightarrow> Raised
      | Some tp \<Rightarrow> bind_run (all_periods z fuel t (dateranges tp))
          (\<lambda>(ps, ds). Done (ps, st(i \<mapsto> tp\<lparr>dateranges := ds\<rparr>))))"

text \<open>\<open>get_next_invalid_time_from_t\<close>\<close>

definition tp_get_next_invalid_time :: "zone \<Rightarrow> nat \<Rightarrow> int \<Rightarrow> nat \<Rightarrow> store \<Rightarrow> (int \<times> store) run" where
  "tp_get_next_invalid_time z fuel t i st =
     bind_run (tp_periods z fuel t i st) (\<lambda>(dr_mins, st1).
     bind_run (case st1 i of None \<Rightarrow> Raised
        | Some tp \<Rightarrow> fold_run (\<lambda>x (qs, st2). case x of
              Period p \<Rightarrow> bind_run (tp_periods z fuel t p st2) (\<lambda>(rs, st3). Done (qs @ rs, st3))
            | _ \<Rightarrow> Raised) (exclude tp) ([], st1)) (\<lambda>(exc_mins, st4).
     case hd (merge_periods dr_mins) of
       None \<Rightarrow> Raised
     | Some (s, e) \<Rightarrow>
         Done (if s > t then t
               else (case exc_mins of [] \<Rightarrow> e
                     | _ \<Rightarrow> (case hd (merge_periods exc_mins) of
                               Some (xs, _) \<Rightarrow> if xs < e then xs else e
                             | None \<Rightarrow> e)), st4)))"

section \<open>The next valid time\<close>

fun each_daterange :: "(daterange \<Rightarrow> ('a \<times> daterange) option) \<Rightarrow> daterange list \<Rightarrow>
    ('a list \<times> daterange list) option" where
  "each_daterange f [] = Some ([], [])"
| "each_daterange f (d # ds) =
     Option.bind (f d) (\<lambda>(x, d1). map_option (\<lambda>(xs, ds1). (x # xs, d1 # ds1)) (each_daterange f ds))"

text \<open>
  The first candidate that some excluded time period does not cover: every one is asked, also when
  one was found before.
\<close>

definition pick_candidate ::
  "zone \<Rightarrow> nat \<Rightarrow> excluded list \<Rightarrow> int \<Rightarrow> int option \<times> store \<Rightarrow> (int option \<times> store) run" where
  "pick_candidate z d excl c fs =
     (if excl = [] then Done (if fst fs = None then Some c else fst fs, snd fs)
      else fold_run (\<lambda>x (found, st). case x of
             Period p \<Rightarrow> bind_run (run_of (tp_is_time_valid z d c p st)) (\<lambda>(v, st1).
                 Done (if \<not> v \<and> found = None then Some c else found, st1))
           | _ \<Rightarrow> Raised) excl fs)"

definition next_valid_turn ::
  "zone \<Rightarrow> nat \<Rightarrow> nat \<Rightarrow> int \<Rightarrow> nat \<Rightarrow> store \<Rightarrow> ((bool \<times> int option) \<times> store) run" where
  "next_valid_turn z d fuel t i st =
     (case st i of None \<Rightarrow> Raised
      | Some tp \<Rightarrow>
     bind_run (run_of (each_daterange (dr_get_next_valid_time z t) (dateranges tp))) (\<lambda>(mins, ds).
     let st1 = st(i \<mapsto> tp\<lparr>dateranges := ds\<rparr>);
         candidates = sort (concat (map (\<lambda>m. case m of None \<Rightarrow> [] | Some x \<Rightarrow> [x]) mins))
     in bind_run (fold_run (pick_candidate z d (exclude tp)) candidates (None, st1)) (\<lambda>(found, st2).
        case found of Some m \<Rightarrow> Done ((False, Some m), st2)
        | None \<Rightarrow>
            bind_run (if candidates = [] then Done ([], st2)
               else fold_run (\<lambda>x (ms, st3). case x of
                   Period p \<Rightarrow> bind_run (tp_get_next_invalid_time z fuel (hd candidates) p st3)
                                (\<lambda>(m, st4). Done (ms @ [m], st4))
                 | _ \<Rightarrow> Raised) (exclude tp) ([], st2)) (\<lambda>(exc_mins, st5).
            Done ((True, if exc_mins = [] then None else Some (min_of exc_mins)), st5)))))"

fun next_valid_loop ::
  "zone \<Rightarrow> nat \<Rightarrow> nat \<Rightarrow> nat \<Rightarrow> int \<Rightarrow> int \<Rightarrow> nat \<Rightarrow> store \<Rightarrow> (int option \<times> store) run" where
  "next_valid_loop z d fuel 0 orig t i st = Unfinished"
| "next_valid_loop z d fuel (Suc n) orig t i st =
     bind_run (next_valid_turn z d fuel t i st) (\<lambda>((still_loop, local_min), st1).
       case local_min of None \<Rightarrow> Done (None, st1)
       | Some m \<Rightarrow>
           if m > orig + 3600 * 24 * 366 + 1 then Done (None, st1)
           else if still_loop then next_valid_loop z d fuel n orig m i st1
           else Done (Some m, st1))"

text \<open>\<open>get_next_valid_time_from_t\<close>: from the cache, or searched and put there.\<close>

definition find_next_valid_time_from_cache :: "int \<Rightarrow> timeperiod \<Rightarrow> int option" where
  "find_next_valid_time_from_cache t tp = (case dget (cache tp) t of Some r \<Rightarrow> r | None \<Rightarrow> None)"

definition find_next_invalid_time_from_cache :: "int \<Rightarrow> timeperiod \<Rightarrow> int option" where
  "find_next_invalid_time_from_cache t tp = (case dget (invalid_cache tp) t of Some r \<Rightarrow> r | None \<Rightarrow> None)"

definition tp_get_next_valid_time ::
  "zone \<Rightarrow> nat \<Rightarrow> nat \<Rightarrow> int \<Rightarrow> nat \<Rightarrow> store \<Rightarrow> (int option \<times> store) run" where
  "tp_get_next_valid_time z d fuel t i st =
     (case st i of None \<Rightarrow> Raised
      | Some tp \<Rightarrow>
          (case find_next_valid_time_from_cache t tp of
             Some r \<Rightarrow> Done (Some r, st)
           | None \<Rightarrow>
               bind_run (next_valid_loop z d fuel fuel t t i st) (\<lambda>(r, st1).
                 case st1 i of None \<Rightarrow> Raised
                 | Some tp1 \<Rightarrow> Done (r, st1(i \<mapsto> tp1\<lparr>cache := dset t r (cache tp1)\<rparr>)))))"

section \<open>Caches and activity\<close>

definition clean_cache :: "int \<Rightarrow> timeperiod \<Rightarrow> timeperiod" where
  "clean_cache t tp =
     tp\<lparr>cache := filter (\<lambda>e. \<not> fst e < t) (cache tp),
       invalid_cache := filter (\<lambda>e. \<not> fst e < t) (invalid_cache tp)\<rparr>"

definition transition_text :: "timeperiod \<Rightarrow> bool \<Rightarrow> bool \<Rightarrow> string" where
  "transition_text tp was_active active =
     ''TIMEPERIOD TRANSITION: '' @ timeperiod_name tp @ '';''
       @ (if was_active then ''1'' else if \<not> activated_once tp then ''-1'' else ''0'') @ '';''
       @ (if active then ''1'' else ''0'')"

definition check_and_log_activation_change ::
  "zone \<Rightarrow> nat \<Rightarrow> int \<Rightarrow> nat \<Rightarrow> store \<Rightarrow> (brok option \<times> store) option" where
  "check_and_log_activation_change z d t i st =
     Option.bind (tp_is_time_valid z d t i st) (\<lambda>(active, st1).
     map_option (\<lambda>tp.
         let was = is_active tp; tp1 = tp\<lparr>is_active := active\<rparr>
         in if active \<noteq> was
            then (Some (MonitoringLog ''info'' (transition_text tp1 was active)),
                  st1(i \<mapsto> tp1\<lparr>activated_once := True\<rparr>))
            else (None, st1(i \<mapsto> tp1))) (st1 i))"

end
