(* ===== verification/FixedZone.thy ===== *)
theory FixedZone
  imports PeriodTimes
begin

text \<open>
  Local time without changes of the offset, and date ranges of a week day in it: when they are
  valid, where they start and end.
\<close>

section \<open>Days and seconds\<close>

definition fixed_zone :: "int \<Rightarrow> zone" where
  "fixed_zone off = \<lparr>utc_offset = (\<lambda>_. off), epoch_of = (\<lambda>l. l - off)\<rparr>"

definition day_no :: "int \<Rightarrow> int \<Rightarrow> int" where
  "day_no off t = (t + off) div 86400"

definition day_secs :: "int \<Rightarrow> int \<Rightarrow> int" where
  "day_secs off t = (t + off) mod 86400"

lemma day_secs_bounds: "0 \<le> day_secs off t" "day_secs off t < 86400"
  by (simp_all add: day_secs_def)

lemma time_of_day: "t = day_no off t * 86400 + day_secs off t - off"
  by (simp add: day_no_def day_secs_def)

lemma day_of_time:
  assumes "t = n * 86400 + s - off" and "0 \<le> s" and "s < 86400"
  shows "day_no off t = n" and "day_secs off t = s"
proof -
  from assms have "t + off = 86400 * n + s" by simp
  from div_mod_of [OF this assms(2,3)] show "day_no off t = n" "day_secs off t = s"
    by (simp_all add: day_no_def day_secs_def)
qed

lemma secs_split: "s div 3600 * 3600 + s mod 3600 div 60 * 60 + s mod 60 = (s :: int)"
proof -
  have "s mod 60 = s mod 3600 mod 60" by (simp add: mod_mod_cancel)
  then show ?thesis by (metis add.assoc div_mult_mod_eq)
qed

lemma fixed_zone_simps [simp]:
  "utc_offset (fixed_zone off) t = off" "epoch_of (fixed_zone off) l = l - off"
  by (simp_all add: fixed_zone_def)

lemma localtime_fixed:
  assumes "date_of (day_no off t) = (y, m, d)"
  shows "localtime (fixed_zone off) t =
    \<lparr>tm_year = y, tm_mon = m, tm_mday = d, tm_hour = day_secs off t div 3600,
     tm_min = day_secs off t mod 3600 div 60, tm_sec = day_secs off t mod 60,
     tm_wday = weekday_of (day_no off t)\<rparr>"
  unfolding localtime_def local_secs_def fixed_zone_simps Let_def
    day_no_def [symmetric] day_secs_def [symmetric] assms prod.case by (rule refl)

lemma get_sec_from_morning_fixed [simp]: "get_sec_from_morning (fixed_zone off) t = day_secs off t"
proof -
  obtain y m d where "date_of (day_no off t) = (y, m, d)" by (cases "date_of (day_no off t)") auto
  note lt = localtime_fixed [OF this]
  show ?thesis unfolding get_sec_from_morning_def lt Let_def tm.simps by (rule secs_split)
qed

lemma get_day_fixed: "get_day (fixed_zone off) t = day_no off t * 86400 - off"
  using time_of_day [of t off] by (simp add: get_day_def)

lemma start_of_today:
  assumes "date_of (day_no off t) = (y, m, d)"
  shows "get_start_of_day (fixed_zone off) y m d = day_no off t * 86400 - off"
    and "get_end_of_day (fixed_zone off) y m d = day_no off t * 86400 + 86399 - off"
  using date_of(1) [OF assms] by (simp_all add: get_start_of_day_def get_end_of_day_def mktime_def)

section \<open>Week days\<close>

text \<open>Days from one to the next day of the week with number \<open>w\<close>.\<close>

definition days_until :: "int \<Rightarrow> int \<Rightarrow> int" where
  "days_until w n = (w - weekday_of n) mod 7"

lemma weekday_of_bounds: "0 \<le> weekday_of n" "weekday_of n < 7"
  by (simp_all add: weekday_of_def)

lemma mod_7_cases: "0 \<le> x \<Longrightarrow> x < 14 \<Longrightarrow> x mod 7 = (if x < 7 then x else x - 7)" for x :: int
  using div_mod_of(2) [of x 7 1 "x - 7"] by (simp add: mod_pos_pos_trivial)

lemma weekday_of_later:
  assumes "0 \<le> j" and "j \<le> 7"
  shows "weekday_of (n + j) = (if weekday_of n + j < 7 then weekday_of n + j else weekday_of n + j - 7)"
proof -
  have "weekday_of (n + j) = (weekday_of n + j) mod 7"
    unfolding weekday_of_def mod_add_left_eq by (simp add: algebra_simps)
  also have "\<dots> = (if weekday_of n + j < 7 then weekday_of n + j else weekday_of n + j - 7)"
    using assms weekday_of_bounds [of n] by (intro mod_7_cases) linarith+
  finally show ?thesis .
qed

lemma days_until_cases:
  assumes "0 \<le> w" and "w < 7"
  shows "days_until w n = (if weekday_of n \<le> w then w - weekday_of n else w - weekday_of n + 7)"
proof -
  have "(w - weekday_of n) mod 7 = (w - weekday_of n + 7) mod 7" by simp
  also have "\<dots> = (if weekday_of n \<le> w then w - weekday_of n else w - weekday_of n + 7)"
    using assms weekday_of_bounds [of n] mod_7_cases [of "w - weekday_of n + 7"] by simp
  finally show ?thesis by (simp add: days_until_def)
qed

lemma days_until_bounds: "0 \<le> days_until w n" "days_until w n < 7"
  by (simp_all add: days_until_def)

lemma days_until_0: "0 \<le> w \<Longrightarrow> w < 7 \<Longrightarrow> days_until w n = 0 \<longleftrightarrow> weekday_of n = w"
  using weekday_of_bounds [of n] by (auto simp: days_until_cases)

lemma days_until_weekday: "0 \<le> w \<Longrightarrow> w < 7 \<Longrightarrow> weekday_of (n + days_until w n) = w"
  using weekday_of_bounds [of n]
  by (subst weekday_of_later) (simp_all add: days_until_cases split: if_splits)

lemma days_until_least:
  assumes "0 \<le> w" "w < 7" "n \<le> k" "k < n + days_until w n"
  shows "weekday_of k \<noteq> w"
  using assms weekday_of_bounds [of n] weekday_of_later [of "k - n" n] days_until_bounds [of w n]
  by (auto simp: days_until_cases split: if_splits)

lemma days_until_next:
  assumes "0 \<le> w" and "w < 7"
  shows "days_until w (n + 1) + 1 = (if weekday_of n = w then 7 else days_until w n)"
  using assms weekday_of_bounds [of n] weekday_of_later [of 1 n]
  by (auto simp: days_until_cases split: if_splits)

lemma standard_bounds_fixed:
  assumes "get_weekday_id day = Some w"
  shows "standard_bounds (fixed_zone off) day t
    = (let n = day_no off t + days_until w (day_no off t)
       in Some (n * 86400 - off, n * 86400 + 86399 - off))"
proof -
  obtain y m d where "date_of (day_no off t) = (y, m, d)" by (cases "date_of (day_no off t)") auto
  note lt = localtime_fixed [OF this] and days = start_of_today [OF this]
  show ?thesis
    using assms by (simp add: standard_bounds_def Let_def lt days local_secs_def days_until_def
        algebra_simps)
qed

lemma weekday_id_bounds: "get_weekday_id day = Some w \<Longrightarrow> 0 \<le> w \<and> w < 7"
  by (auto simp: get_weekday_id_def weekdays_def split: if_splits)

end
