(* ===== verification/Weekly.thy ===== *)
theory Weekly
  imports FixedZone
begin

text \<open>
  Date ranges of a week day (\<open>StandardDaterange\<close>) in a zone without changes: the next valid and the
  next invalid time against the set of valid times.
\<close>

section \<open>Hours\<close>

abbreviation start_of :: "timerange \<Rightarrow> int" where "start_of tr \<equiv> the (tr_start tr)"
abbreviation end_of :: "timerange \<Rightarrow> int" where "end_of tr \<equiv> the (tr_end tr)"

text \<open>Hours that start on the day; hours that can be met: from 00:00 to 24:00, not ending before they start.\<close>

definition day_hours :: "timerange \<Rightarrow> bool" where
  "day_hours tr \<longleftrightarrow> tr \<noteq> Bad_range \<and> 0 \<le> start_of tr \<and> start_of tr < 86400"

definition good_hours :: "timerange \<Rightarrow> bool" where
  "good_hours tr \<longleftrightarrow> day_hours tr \<and> start_of tr \<le> end_of tr \<and> end_of tr \<le> 86400"

lemma good_hoursD:
  assumes "good_hours tr"
  shows "tr \<noteq> Bad_range" "0 \<le> start_of tr" "start_of tr \<le> end_of tr" "start_of tr < 86400"
    "end_of tr \<le> 86400"
  using assms by (simp_all add: good_hours_def day_hours_def)

definition covers :: "timerange list \<Rightarrow> int \<Rightarrow> bool" where
  "covers trs s \<longleftrightarrow> (\<exists>tr \<in> set trs. start_of tr \<le> s \<and> s \<le> end_of tr)"

lemma list_ex_valid:
  assumes "Bad_range \<notin> set trs"
  shows "list_ex (tr_is_time_valid (fixed_zone off) t) trs = covers trs (day_secs off t)"
proof -
  have "tr_is_time_valid (fixed_zone off) t tr
      = (start_of tr \<le> day_secs off t \<and> day_secs off t \<le> end_of tr)" if "tr \<in> set trs" for tr
    using assms that by (cases tr) (auto simp: tr_is_time_valid_def Let_def)
  then show ?thesis by (simp add: covers_def list_ex_iff)
qed

lemma min_of:
  assumes "xs \<noteq> []"
  shows "min_of xs \<in> set xs" and "x \<in> set xs \<Longrightarrow> min_of xs \<le> x"
proof -
  have *: "foldl min a ys = Min (insert a (set ys))" for a :: int and ys
  proof (induction ys arbitrary: a)
    case (Cons y ys)
    then show ?case by (cases "ys = []") (simp_all add: min.assoc insert_commute)
  qed simp
  have "min_of xs = Min (set xs)"
    using assms * [of "hd xs" "tl xs"] by (cases xs) (simp_all add: min_of_def)
  then show "min_of xs \<in> set xs" "x \<in> set xs \<Longrightarrow> min_of xs \<le> x" using assms by simp_all
qed

section \<open>Date ranges of a week day\<close>

definition on_weekday :: "int \<Rightarrow> daterange \<Rightarrow> bool" where
  "on_weekday w dr \<longleftrightarrow> timeranges dr \<noteq> [] \<and> list_all day_hours (timeranges dr) \<and>
     (\<exists>day. dr_class dr = StandardDaterange day \<and> get_weekday_id day = Some w)"

definition weekly :: "int \<Rightarrow> daterange \<Rightarrow> bool" where
  "weekly w dr \<longleftrightarrow> on_weekday w dr \<and> list_all good_hours (timeranges dr)"

lemma weekly_on_weekday: "weekly w dr \<Longrightarrow> on_weekday w dr"
  by (simp add: weekly_def)

definition weekly_valid :: "int \<Rightarrow> int \<Rightarrow> daterange \<Rightarrow> int \<Rightarrow> bool" where
  "weekly_valid off w dr t \<longleftrightarrow>
     weekday_of (day_no off t) = w \<and> covers (timeranges dr) (day_secs off t)"

lemma weekly_syear [simp]:
  "on_weekday w (dr\<lparr>syear := y\<rparr>) = on_weekday w dr"
  "weekly w (dr\<lparr>syear := y\<rparr>) = weekly w dr"
  "weekly_valid off w (dr\<lparr>syear := y\<rparr>) t = weekly_valid off w dr t"
  by (simp_all add: on_weekday_def weekly_def weekly_valid_def)

lemma weekday_bounds: "on_weekday w dr \<Longrightarrow> 0 \<le> w \<and> w < 7"
  by (auto simp: on_weekday_def dest: weekday_id_bounds)

lemma weekday_not_bad: "on_weekday w dr \<Longrightarrow> Bad_range \<notin> set (timeranges dr)"
  by (auto simp: on_weekday_def list_all_iff day_hours_def)

text \<open>The only change: the year of the last question.\<close>

definition asked :: "zone \<Rightarrow> int \<Rightarrow> daterange \<Rightarrow> daterange" where
  "asked z t dr = dr\<lparr>syear := tm_year (localtime z t)\<rparr>"

lemma asked_simps [simp]:
  "timeranges (asked z t dr) = timeranges dr" "asked z t (asked z u dr) = asked z t dr"
  "on_weekday w (asked z t dr) = on_weekday w dr" "weekly w (asked z t dr) = weekly w dr"
  "weekly_valid off w (asked z u dr) t = weekly_valid off w dr t"
  by (simp_all add: asked_def)

lemma weekday_bounds_of:
  assumes "on_weekday w dr"
  shows "get_start_and_end_time (fixed_zone off) t dr
    = (let n = day_no off t + days_until w (day_no off t)
       in Some ((n * 86400 - off, n * 86400 + 86399 - off), asked (fixed_zone off) t dr))"
  using assms
  by (auto simp: on_weekday_def get_start_and_end_time_def standard_bounds_fixed Let_def asked_def)

lemma weekday_day_valid:
  assumes "on_weekday w dr"
  shows "is_time_day_valid (fixed_zone off) t dr
    = Some (weekday_of (day_no off t) = w, asked (fixed_zone off) t dr)"
proof -
  note w = weekday_bounds [OF assms]
  note t = time_of_day [of t off] day_secs_bounds [of off t]
  have "(let n = day_no off t + days_until w (day_no off t)
      in n * 86400 - off \<le> t \<and> t \<le> n * 86400 + 86399 - off) \<longleftrightarrow> weekday_of (day_no off t) = w"
    using days_until_0 [of w "day_no off t"] days_until_bounds [of w "day_no off t"] w t
    unfolding Let_def by (smt (verit, best))
  then show ?thesis by (simp add: is_time_day_valid_def weekday_bounds_of [OF assms] Let_def)
qed

lemma weekday_time_valid:
  assumes "on_weekday w dr"
  shows "dr_is_time_valid (fixed_zone off) t dr
    = Some (weekly_valid off w dr t, asked (fixed_zone off) t dr)"
proof -
  show ?thesis using weekday_not_bad [OF assms]
    by (simp add: dr_is_time_valid_def weekday_day_valid [OF assms] list_ex_valid weekly_valid_def)
qed

section \<open>The next valid time\<close>

abbreviation starts_from :: "daterange \<Rightarrow> int \<Rightarrow> int list" where
  "starts_from dr s \<equiv> filter (\<lambda>x. x \<ge> s) (map (the \<circ> tr_start) (timeranges dr))"

lemma weekday_future_valid:
  assumes "on_weekday w dr"
  shows "get_next_future_timerange_valid (fixed_zone off) t dr
    = Some (if starts_from dr (day_secs off t) \<noteq> [] then Some (min_of (starts_from dr (day_secs off t)))
            else None)"
  using weekday_not_bad [OF assms] by (simp add: get_next_future_timerange_valid_def future_secs_def)

text \<open>The number of days to the next day where hours are still to come.\<close>

definition days_ahead :: "int \<Rightarrow> int \<Rightarrow> daterange \<Rightarrow> int \<Rightarrow> int" where
  "days_ahead off w dr t =
     (if starts_from dr (day_secs off t) = [] \<and> weekday_of (day_no off t) = w then 7
      else days_until w (day_no off t))"

lemma midnight:
  "get_day (fixed_zone off) (n * 86400 - off) = n * 86400 - off"
  "day_no off (n * 86400 - off) = n" "day_secs off (n * 86400 - off) = 0"
  using day_of_time [of "n * 86400 - off" n 0 off] by (simp_all add: get_day_fixed)

lemma weekday_next_day:
  assumes "on_weekday w dr"
  shows "\<exists>y. get_next_valid_day (fixed_zone off) t dr
    = Some (Some ((day_no off t + days_ahead off w dr t) * 86400 - off), dr\<lparr>syear := y\<rparr>)"
proof -
  note w = weekday_bounds [OF assms]
  let ?n = "day_no off t" and ?z = "fixed_zone off"
  define u where "u = (if starts_from dr (day_secs off t) = [] then get_day ?z t + 86400 else t)"
  have day_u: "day_no off u = (if starts_from dr (day_secs off t) = [] then ?n + 1 else ?n)"
    using midnight(2) [of off "?n + 1"] by (simp add: u_def get_day_fixed algebra_simps)
  have n: "day_no off u + days_until w (day_no off u) = ?n + days_ahead off w dr t"
    using days_until_next [of w ?n] w by (auto simp: day_u days_ahead_def)
  have ahead: "t \<le> (?n + days_ahead off w dr t) * 86400 - off \<or>
      days_ahead off w dr t = 0 \<and> weekday_of ?n = w"
    using time_of_day [of t off] day_secs_bounds [of off t] days_until_0 [of w ?n] w
      days_until_bounds [of w ?n] by (cases "days_until w ?n = 0") (simp_all add: days_ahead_def)
  let ?N = "(?n + days_ahead off w dr t) * 86400 - off"
  define fut where
    "fut = (if starts_from dr (day_secs off t) \<noteq> [] then Some (min_of (starts_from dr (day_secs off t))) else None)"
  have fut: "get_next_future_timerange_valid ?z t dr = Some fut"
    by (simp add: weekday_future_valid [OF assms] fut_def)
  have u: "(if fut = None then get_day ?z t + 86400 else t) = u" by (simp add: fut_def u_def)
  have "get_next_valid_day ?z t dr =
      (if t \<le> ?N then Some (Some (get_day ?z ?N), asked ?z u dr)
       else map_option (\<lambda>(v, d). (if v then Some (get_day ?z t) else None, d))
              (is_time_day_valid ?z t (asked ?z u dr)))"
    unfolding get_next_valid_day_def fut Option.bind.simps u weekday_bounds_of [OF assms] Let_def n prod.case
    by (rule refl)
  moreover have "is_time_day_valid ?z t (asked ?z u dr) = Some (weekday_of ?n = w, asked ?z t (asked ?z u dr))"
    using assms by (intro weekday_day_valid) simp
  moreover have "get_day ?z t = ?N" if "\<not> t \<le> ?N"
    using ahead that by (simp add: get_day_fixed)
  ultimately have "get_next_valid_day ?z t dr
      = Some (Some ?N, if t \<le> ?N then asked ?z u dr else asked ?z t (asked ?z u dr))"
    using ahead midnight(1) [of off "?n + days_ahead off w dr t"] by (simp split: if_split_asm)
  then show ?thesis by (auto simp: asked_def)
qed

definition least_after :: "(int \<Rightarrow> bool) \<Rightarrow> int \<Rightarrow> int \<Rightarrow> bool" where
  "least_after P t r \<longleftrightarrow> t \<le> r \<and> P r \<and> (\<forall>u. t \<le> u \<and> u < r \<longrightarrow> \<not> P u)"

lemma least_after_now: "P t \<Longrightarrow> least_after P t t"
  by (auto simp: least_after_def)

lemma starts_from_0: "on_weekday w dr \<Longrightarrow> starts_from dr 0 = map (the \<circ> tr_start) (timeranges dr)"
  by (rule filter_True) (auto simp: on_weekday_def list_all_iff day_hours_def)

lemma day_no_mono: "t \<le> u \<Longrightarrow> day_no off t \<le> day_no off u"
  by (simp add: day_no_def zdiv_mono1)

lemma same_day_secs: "day_no off t = day_no off u \<Longrightarrow> t \<le> u \<longleftrightarrow> day_secs off t \<le> day_secs off u"
  using time_of_day [of t off] time_of_day [of u off] by (smt (verit))

text \<open>From here on the hours of the day that comes are looked at.\<close>

definition secs_ahead :: "int \<Rightarrow> int \<Rightarrow> daterange \<Rightarrow> int \<Rightarrow> int" where
  "secs_ahead off w dr t = (if days_ahead off w dr t = 0 then day_secs off t else 0)"

lemma starts_ahead:
  assumes w: "on_weekday w dr"
  shows "starts_from dr (secs_ahead off w dr t) \<noteq> []"
proof (cases "days_ahead off w dr t = 0")
  case True
  then show ?thesis
    using days_until_0 [of w "day_no off t"] weekday_bounds [OF w]
    by (auto simp: secs_ahead_def days_ahead_def split: if_splits)
next
  case False
  then show ?thesis using starts_from_0 [OF w] w by (simp add: secs_ahead_def on_weekday_def)
qed

text \<open>Between a time that is not valid and the first start on the next day with hours, no time is valid.\<close>

lemma weekly_least:
  fixes off w dr t
  defines "k \<equiv> days_ahead off w dr t"
  defines "s0 \<equiv> secs_ahead off w dr t"
  defines "m \<equiv> min_of (starts_from dr s0)"
  assumes w: "weekly w dr" and t: "\<not> weekly_valid off w dr t"
  shows "least_after (weekly_valid off w dr) t ((day_no off t + k) * 86400 - off + m)"
proof -
  note on = weekly_on_weekday [OF w]
  note wb = weekday_bounds [OF on] and ne = starts_ahead [OF on, of off t, folded s0_def]
  have s0_def: "s0 = (if k = 0 then day_secs off t else 0)" by (simp add: s0_def k_def secs_ahead_def)
  have good: "tr \<in> set (timeranges dr) \<Longrightarrow> good_hours tr" for tr
    using w by (auto simp: weekly_def list_all_iff)
  have m: "m \<in> set (starts_from dr s0)" and m_le: "x \<in> set (starts_from dr s0) \<Longrightarrow> m \<le> x" for x
    unfolding m_def by (rule min_of(1) [OF ne], rule min_of(2) [OF ne])
  obtain tr where tr: "tr \<in> set (timeranges dr)" "m = start_of tr" "s0 \<le> m" using m by auto
  note g = good_hoursD [OF good [OF tr(1)]]
  define r where "r = (day_no off t + k) * 86400 - off + m"
  have day_r: "day_no off r = day_no off t + k" "day_secs off r = m"
    using day_of_time [of r "day_no off t + k" m off] g tr(2) by (simp_all add: r_def)
  have "0 \<le> k" using days_until_bounds [of w "day_no off t"] by (simp add: k_def days_ahead_def)
  then have "t \<le> r"
    using time_of_day [of t off] day_secs_bounds [of off t] tr g
    by (cases "k = 0") (simp_all add: r_def s0_def)
  moreover have "weekday_of (day_no off t + k) = w"
    using days_until_weekday [of w "day_no off t"] weekday_of_later [of 7 "day_no off t"]
      weekday_of_bounds [of "day_no off t"] wb by (auto simp: k_def days_ahead_def)
  then have "weekly_valid off w dr r" using tr g by (auto simp: weekly_valid_def covers_def day_r)
  moreover have "\<not> weekly_valid off w dr u" if u: "t \<le> u" "u < r" for u
  proof
    assume v: "weekly_valid off w dr u"
    then obtain tu where tu: "tu \<in> set (timeranges dr)" "start_of tu \<le> day_secs off u"
      "day_secs off u \<le> end_of tu" by (auto simp: weekly_valid_def covers_def)
    have today: "day_no off u \<noteq> day_no off t" if "start_of tu < day_secs off t"
    proof
      assume d: "day_no off u = day_no off t"
      then have "day_secs off t \<le> day_secs off u" using same_day_secs [of off t u] u by simp
      then have "weekly_valid off w dr t"
        using v tu that d by (auto simp: weekly_valid_def covers_def intro!: bexI [of _ tu])
      with t show False by simp
    qed
    have d: "day_no off t \<le> day_no off u" "day_no off u \<le> day_no off t + k"
      using day_no_mono [of t u off] day_no_mono [of u r off] u day_r by simp_all
    show False
    proof (cases "day_no off u = day_no off r")
      case True
      then have "day_secs off u < m" using same_day_secs [of off r u] u day_r by simp
      then have less: "start_of tu < s0" using m_le [of "start_of tu"] tu by fastforce
      then have "k = 0" using good_hoursD(2) [OF good [OF tu(1)]] by (auto simp: s0_def split: if_splits)
      then show False using less today True day_r by (simp add: s0_def)
    next
      case False
      then have lt: "day_no off u < day_no off t + k" using d day_r by simp
      show False
      proof (cases "starts_from dr (day_secs off t) = [] \<and> weekday_of (day_no off t) = w")
        case True
        then have "start_of tu < day_secs off t" using tu(1) by (force simp: filter_empty_conv)
        then have "day_no off t + 1 \<le> day_no off u" using today d(1) by fastforce
        moreover have "day_no off u < day_no off t + 1 + days_until w (day_no off t + 1)"
          using lt True days_until_next [of w "day_no off t"] wb by (simp add: k_def days_ahead_def)
        ultimately show False using days_until_least wb v by (auto simp: weekly_valid_def)
      next
        case False
        then show False
          using days_until_least [of w "day_no off t" "day_no off u"] wb d lt v
          by (auto simp: k_def days_ahead_def weekly_valid_def)
      qed
    qed
  qed
  ultimately show "least_after (weekly_valid off w dr) t ((day_no off t + k) * 86400 - off + m)"
    by (simp add: least_after_def r_def)
qed

text \<open>Where the search ends when the time is not valid itself.\<close>

lemma weekday_next:
  assumes w: "on_weekday w dr" and t: "\<not> weekly_valid off w dr t"
  shows "\<exists>y. dr_get_next_valid_time (fixed_zone off) t dr
    = Some (Some ((day_no off t + days_ahead off w dr t) * 86400 - off
              + min_of (starts_from dr (secs_ahead off w dr t))), dr\<lparr>syear := y\<rparr>)"
proof -
  let ?z = "fixed_zone off" and ?k = "days_ahead off w dr t" and ?s0 = "secs_ahead off w dr t"
  define N where "N = (day_no off t + ?k) * 86400 - off"
  have w1: "on_weekday w (asked ?z t dr)" using w by simp
  obtain y where day: "get_next_valid_day ?z t (asked ?z t dr) = Some (Some N, (asked ?z t dr)\<lparr>syear := y\<rparr>)"
    using weekday_next_day [OF w1, of off t] by (auto simp: days_ahead_def N_def)
  have k: "0 \<le> ?k" using days_until_bounds [of w "day_no off t"] by (simp add: days_ahead_def)
  have s0: "day_secs off (if t < N then N else t) = ?s0"
    using k time_of_day [of t off] day_secs_bounds [of off t] midnight(3) [of off "day_no off t + ?k"]
    by (cases "?k = 0") (simp_all add: secs_ahead_def N_def)
  have w2: "on_weekday w ((asked ?z t dr)\<lparr>syear := y\<rparr>)" using w by simp
  have "get_next_future_timerange_valid ?z (if t < N then N else t) ((asked ?z t dr)\<lparr>syear := y\<rparr>)
      = Some (Some (min_of (starts_from dr ?s0)))"
    using starts_ahead [OF w, of off t] unfolding weekday_future_valid [OF w2] s0 by simp
  then have "dr_get_next_valid_time ?z t dr
      = Some (Some (N + min_of (starts_from dr ?s0)), (asked ?z t dr)\<lparr>syear := y\<rparr>)"
    using t by (simp add: dr_get_next_valid_time_def weekday_time_valid [OF w] day)
  then show ?thesis by (auto simp: asked_def N_def)
qed

lemma weekday_next_now:
  assumes "on_weekday w dr" and "weekly_valid off w dr t"
  shows "\<exists>y. dr_get_next_valid_time (fixed_zone off) t dr = Some (Some t, dr\<lparr>syear := y\<rparr>)"
  using assms by (auto simp: dr_get_next_valid_time_def weekday_time_valid asked_def)

lemma weekly_next:
  assumes w: "weekly w dr"
  shows "\<exists>r y. dr_get_next_valid_time (fixed_zone off) t dr = Some (Some r, dr\<lparr>syear := y\<rparr>)
    \<and> least_after (weekly_valid off w dr) t r"
proof (cases "weekly_valid off w dr t")
  case True
  with weekday_next_now [OF weekly_on_weekday [OF w]] show ?thesis by (metis least_after_now)
next
  case False
  with weekday_next [OF weekly_on_weekday [OF w]] weekly_least [OF w] show ?thesis by metis
qed

end
