(* ===== verification/WeeklyEnds.thy ===== *)
theory WeeklyEnds
  imports Weekly
begin

text \<open>
  Date ranges of a week day: the next time that is not valid, and the loop over the periods of a
  date range, which ends when the hours can be met and never does when none of them can.
\<close>

section \<open>The next invalid time\<close>

definition ends_from :: "daterange \<Rightarrow> int \<Rightarrow> int list" where
  "ends_from dr s =
     map (\<lambda>e. if e = 86400 then 86399 else e)
       (filter (\<lambda>x. x \<ge> s) (map (the \<circ> tr_end) (timeranges dr)))"

lemma weekday_future_invalid:
  assumes "on_weekday w dr"
  shows "get_next_future_timerange_invalid (fixed_zone off) t dr
    = Some (if ends_from dr (day_secs off t) \<noteq> [] then Some (min_of (ends_from dr (day_secs off t))) else None)"
  using weekday_not_bad [OF assms]
  by (simp add: get_next_future_timerange_invalid_def future_secs_def Let_def ends_from_def)

lemma weekday_next_invalid:
  assumes w: "on_weekday w dr" and t: "weekly_valid off w dr t"
  shows "ends_from dr (day_secs off t) \<noteq> []"
    and "\<exists>y. dr_get_next_invalid_time (fixed_zone off) t dr
      = Some (day_no off t * 86400 - off + min_of (ends_from dr (day_secs off t)) + 1, dr\<lparr>syear := y\<rparr>)"
proof -
  let ?z = "fixed_zone off"
  define N where "N = day_no off t * 86400 - off"
  from t obtain tr where tr: "tr \<in> set (timeranges dr)" "start_of tr \<le> day_secs off t" "day_secs off t \<le> end_of tr"
    and d: "weekday_of (day_no off t) = w" by (auto simp: weekly_valid_def covers_def)
  then show ne: "ends_from dr (day_secs off t) \<noteq> []"
    by (auto simp: ends_from_def filter_empty_conv)
  define dr1 where "dr1 = asked ?z t dr"
  have w1: "on_weekday w dr1" using w by (simp add: dr1_def)
  have a1: "asked ?z t dr1 = dr1" by (simp add: dr1_def)
  have N: "N \<le> t" "t \<le> N + 86399" "get_day ?z t = N"
    using time_of_day [of t off] day_secs_bounds [of off t] by (simp_all add: N_def get_day_fixed)
  have "days_until w (day_no off t) = 0" using days_until_0 [of w "day_no off t"] weekday_bounds [OF w] d by simp
  then have bounds: "get_start_and_end_time ?z t dr1 = Some ((N, N + 86399), dr1)"
    by (simp add: weekday_bounds_of [OF w1] Let_def N_def a1)
  have future: "get_next_future_timerange_invalid ?z t dr1 = Some (Some (min_of (ends_from dr (day_secs off t))))"
    using ne unfolding weekday_future_invalid [OF w1] by (simp add: dr1_def ends_from_def)
  have "get_next_invalid_day ?z t dr1 = Some (Some N, dr1)"
    using N d by (simp add: get_next_invalid_day_def weekday_day_valid [OF w1] a1 future bounds)
  then have "dr_get_next_invalid_time ?z t dr = Some (N + min_of (ends_from dr (day_secs off t)) + 1, dr1)"
    using t N by (simp add: dr_get_next_invalid_time_def weekday_time_valid [OF w] dr1_def [symmetric] future)
  then show "\<exists>y. dr_get_next_invalid_time ?z t dr
      = Some (day_no off t * 86400 - off + min_of (ends_from dr (day_secs off t)) + 1, dr\<lparr>syear := y\<rparr>)"
    by (auto simp: dr1_def asked_def N_def)
qed

lemma weekday_invalid_now:
  assumes "on_weekday w dr" and "\<not> weekly_valid off w dr t"
  shows "\<exists>y. dr_get_next_invalid_time (fixed_zone off) t dr = Some (t, dr\<lparr>syear := y\<rparr>)"
  using assms by (auto simp: dr_get_next_invalid_time_def weekday_time_valid asked_def)

lemma ends_fromE:
  assumes "x \<in> set (ends_from dr s)"
  obtains tr where "tr \<in> set (timeranges dr)" "s \<le> end_of tr" "x = (if end_of tr = 86400 then 86399 else end_of tr)"
  using assms by (auto simp: ends_from_def)

text \<open>The loop always goes on in time.\<close>

lemma weekly_ends_later:
  assumes w: "weekly w dr" and t: "weekly_valid off w dr t"
  shows "\<exists>e y. dr_get_next_invalid_time (fixed_zone off) t dr = Some (e, dr\<lparr>syear := y\<rparr>) \<and> t < e"
proof -
  note on = weekly_on_weekday [OF w]
  note ne = weekday_next_invalid(1) [OF on t]
  obtain tr where "day_secs off t \<le> end_of tr"
    "min_of (ends_from dr (day_secs off t)) = (if end_of tr = 86400 then 86399 else end_of tr)"
    using min_of(1) [OF ne] by (elim ends_fromE) auto
  then have "day_secs off t \<le> min_of (ends_from dr (day_secs off t))"
    using day_secs_bounds [of off t] by auto
  then have "t < day_no off t * 86400 - off + min_of (ends_from dr (day_secs off t)) + 1"
    using time_of_day [of t off] by linarith
  with weekday_next_invalid(2) [OF on t] show ?thesis by blast
qed

text \<open>Hours with more than a second between any two of them.\<close>

definition apart :: "timerange list \<Rightarrow> bool" where
  "apart trs \<longleftrightarrow> (\<forall>a \<in> set trs. \<forall>b \<in> set trs.
     a = b \<or> end_of a + 1 < start_of b \<or> end_of b + 1 < start_of a)"

lemma weekly_next_invalid:
  assumes w: "weekly w dr" and a: "apart (timeranges dr)" and t: "weekly_valid off w dr t"
  shows "\<exists>r y. dr_get_next_invalid_time (fixed_zone off) t dr = Some (r, dr\<lparr>syear := y\<rparr>)
    \<and> least_after (\<lambda>u. \<not> weekly_valid off w dr u) t r"
proof -
  note on = weekly_on_weekday [OF w] and tb = day_secs_bounds [of off t]
  have good: "tr \<in> set (timeranges dr) \<Longrightarrow> good_hours tr" for tr
    using w by (auto simp: weekly_def list_all_iff)
  note ne = weekday_next_invalid(1) [OF on t]
  from t obtain tr where tr: "tr \<in> set (timeranges dr)" "start_of tr \<le> day_secs off t" "day_secs off t \<le> end_of tr"
    and d: "weekday_of (day_no off t) = w" by (auto simp: weekly_valid_def covers_def)
  define e where "e = min_of (ends_from dr (day_secs off t))"
  have e: "e = (if end_of tr = 86400 then 86399 else end_of tr)"
  proof -
    obtain tr2 where tr2: "tr2 \<in> set (timeranges dr)" "day_secs off t \<le> end_of tr2"
      "e = (if end_of tr2 = 86400 then 86399 else end_of tr2)"
      using min_of(1) [OF ne] unfolding e_def by (elim ends_fromE)
    have "(if end_of tr = 86400 then 86399 else end_of tr) \<in> set (ends_from dr (day_secs off t))"
      using tr by (force simp: ends_from_def)
    then have "e \<le> (if end_of tr = 86400 then 86399 else end_of tr)" unfolding e_def by (rule min_of(2) [OF ne])
    then have "tr2 = tr"
      using a [unfolded apart_def, rule_format, OF tr(1) tr2(1)] tr tr2(2,3)
        good_hoursD [OF good [OF tr(1)]] good_hoursD [OF good [OF tr2(1)]] by (auto split: if_splits)
    with tr2 show ?thesis by simp
  qed
  define r where "r = day_no off t * 86400 - off + e + 1"
  have e_bounds: "0 \<le> e" "e < 86400" "day_secs off t \<le> e"
    using tr tb good_hoursD [OF good [OF tr(1)]] by (auto simp: e)
  then have tr_le: "t < r" using time_of_day [of t off] by (simp add: r_def)
  have "weekly_valid off w dr u" if u: "t \<le> u" "u < r" for u
  proof -
    have d2: "day_no off t \<le> day_no off u" using u day_no_mono by blast
    have "day_no off u < day_no off t + 1"
    proof -
      have "u + off < (day_no off t + 1) * 86400" using u e_bounds by (simp add: r_def)
      then show ?thesis unfolding day_no_def [of off u] by (simp add: div_less_iff_less_mult)
    qed
    then have d3: "day_no off u = day_no off t" using d2 by simp
    then have "day_secs off t \<le> day_secs off u" "day_secs off u \<le> e"
      using u time_of_day [of u off] time_of_day [of t off] by (simp_all add: r_def)
    then have "start_of tr \<le> day_secs off u" "day_secs off u \<le> end_of tr"
      using tr e by (auto split: if_splits)
    then show ?thesis using tr(1) d d3 by (auto simp: weekly_valid_def covers_def)
  qed
  moreover have "\<not> weekly_valid off w dr r"
  proof (cases "e = 86399")
    case True
    then have "r = (day_no off t + 1) * 86400 - off" by (simp add: r_def)
    then have "day_no off r = day_no off t + 1" by (simp only: midnight(2))
    moreover have "weekday_of (day_no off t + 1) \<noteq> weekday_of (day_no off t)"
      using weekday_of_later [of 1 "day_no off t"] by (simp split: if_splits)
    ultimately show ?thesis using d by (auto simp: weekly_valid_def)
  next
    case False
    then have e2: "e = end_of tr" "e + 1 < 86400" using e e_bounds by (auto split: if_splits)
    have "day_secs off r = e + 1"
      using day_of_time(2) [of r "day_no off t" "e + 1" off] e2 e_bounds by (simp add: r_def)
    moreover have "\<not> covers (timeranges dr) (e + 1)"
    proof
      assume "covers (timeranges dr) (e + 1)"
      then obtain b where b: "b \<in> set (timeranges dr)" "start_of b \<le> e + 1" "e + 1 \<le> end_of b"
        by (auto simp: covers_def)
      then show False
        using a [unfolded apart_def, rule_format, OF tr(1) b(1)] e2 tr by auto
    qed
    ultimately show ?thesis by (simp add: weekly_valid_def)
  qed
  ultimately have "least_after (\<lambda>u. \<not> weekly_valid off w dr u) t r"
    using tr_le by (auto simp: least_after_def)
  with weekday_next_invalid(2) [OF on t, folded e_def] show ?thesis unfolding r_def by blast
qed

section \<open>The loop over the periods\<close>

definition periods_from :: "int \<Rightarrow> (int \<times> int) list \<Rightarrow> bool" where
  "periods_from t ps \<longleftrightarrow> (\<forall>(s, e) \<in> set ps. t \<le> s \<and> s < e)"

lemma weekly_periods_end:
  assumes "weekly w dr" and "nat (orig + 3600 * 24 * 365 - t) + 2 \<le> fuel"
  shows "\<exists>ps y. daterange_periods (fixed_zone off) fuel orig t dr = Done (ps, dr\<lparr>syear := y\<rparr>)
    \<and> ps \<noteq> [] \<and> periods_from t ps \<and> (weekly_valid off w dr t \<longrightarrow> t \<in> fst ` set ps)"
  using assms
proof (induction fuel arbitrary: t dr)
  case (Suc fuel)
  obtain s y where s: "dr_get_next_valid_time (fixed_zone off) t dr = Some (Some s, dr\<lparr>syear := y\<rparr>)"
    "t \<le> s" "weekly_valid off w dr s" and least: "least_after (weekly_valid off w dr) t s"
    using weekly_next [OF Suc.prems(1), of off t] by (auto simp: least_after_def)
  have now: "weekly_valid off w dr t \<Longrightarrow> s = t" using least by (force simp: least_after_def)
  let ?d1 = "dr\<lparr>syear := y\<rparr>"
  have w1: "weekly w ?d1" "weekly_valid off w ?d1 s" using Suc.prems(1) s(3) by simp_all
  obtain e y2 where e: "dr_get_next_invalid_time (fixed_zone off) s ?d1 = Some (e, ?d1\<lparr>syear := y2\<rparr>)" "s < e"
    using weekly_ends_later [OF w1] by auto
  have w2: "weekly w (?d1\<lparr>syear := y2\<rparr>)" using Suc.prems(1) by simp
  show ?case
  proof (cases "e > orig + 3600 * 24 * 365")
    case True
    then show ?thesis
      using s(1,2) e now by (intro exI [of _ "[(s, e)]"] exI [of _ y2]) (simp add: periods_from_def)
  next
    case False
    then have "nat (orig + 3600 * 24 * 365 - e) + 2 \<le> fuel" using Suc.prems(2) s(2) e(2) by linarith
    from Suc.IH [OF w2 this] obtain ps y3 where
      ps: "daterange_periods (fixed_zone off) fuel orig e (?d1\<lparr>syear := y2\<rparr>) = Done (ps, dr\<lparr>syear := y3\<rparr>)"
      "periods_from e ps" by auto
    then have "periods_from t ((s, e) # ps)" using s(2) e(2) by (auto simp: periods_from_def)
    with ps(1) False s(1) e(1) now show ?thesis
      by (intro exI [of _ "(s, e) # ps"] exI [of _ y3]) simp
  qed
qed simp

text \<open>
  Hours that end before they start, as from 22:00 to 06:00: the next valid time is their start,
  which is not valid, and so the next invalid time after itself.
\<close>

definition never_met :: "timerange list \<Rightarrow> bool" where
  "never_met trs \<longleftrightarrow> (\<forall>tr \<in> set trs. end_of tr < start_of tr)"

lemma never_met_invalid: "never_met (timeranges dr) \<Longrightarrow> \<not> weekly_valid off w dr t"
  by (fastforce simp: never_met_def weekly_valid_def covers_def)

lemma never_met_next:
  assumes w: "on_weekday w dr" and n: "never_met (timeranges dr)"
  shows "\<exists>s y. dr_get_next_valid_time (fixed_zone off) t dr = Some (Some s, dr\<lparr>syear := y\<rparr>)
    \<and> s < t + 8 * 86400 \<and> (\<forall>d. timeranges d = timeranges dr \<longrightarrow> on_weekday w d \<longrightarrow>
        (\<exists>y. dr_get_next_valid_time (fixed_zone off) s d = Some (Some s, d\<lparr>syear := y\<rparr>)))"
proof -
  define k where "k = days_ahead off w dr t"
  define m where "m = min_of (starts_from dr (secs_ahead off w dr t))"
  define s where "s = (day_no off t + k) * 86400 - off + m"
  have m: "m \<in> set (starts_from dr (secs_ahead off w dr t))"
    unfolding m_def by (rule min_of(1) [OF starts_ahead [OF w]])
  then obtain tr where tr: "tr \<in> set (timeranges dr)" "m = start_of tr" by auto
  then have mb: "0 \<le> m" "m < 86400" using w by (auto simp: on_weekday_def list_all_iff day_hours_def)
  note wb = weekday_bounds [OF w]
  have k: "0 \<le> k" "k \<le> 7" "weekday_of (day_no off t + k) = w"
    using days_until_bounds [of w "day_no off t"] days_until_weekday [of w "day_no off t"]
      weekday_of_later [of 7 "day_no off t"] weekday_of_bounds [of "day_no off t"] wb
    by (auto simp: k_def days_ahead_def)
  have s: "day_no off s = day_no off t + k" "day_secs off s = m"
    using day_of_time [of s "day_no off t + k" m off] mb by (simp_all add: s_def)
  have "s < t + 8 * 86400"
    using k mb time_of_day [of t off] day_secs_bounds [of off t] by (simp add: s_def)
  moreover have "\<exists>y. dr_get_next_valid_time (fixed_zone off) s d = Some (Some s, d\<lparr>syear := y\<rparr>)"
    if d: "timeranges d = timeranges dr" "on_weekday w d" for d
  proof -
    have m2: "m \<in> set (starts_from d m)" using tr d by auto
    then have ne: "starts_from d m \<noteq> []" by force
    have "min_of (starts_from d m) = m"
      using min_of(2) [OF ne m2] min_of(1) [OF ne] by auto
    moreover have "days_ahead off w d s = 0"
      using ne days_until_0 [of w "day_no off s"] wb k by (simp add: days_ahead_def s)
    moreover have "\<not> weekly_valid off w d s" using n d by (intro never_met_invalid) simp
    ultimately show ?thesis
      using weekday_next [OF d(2), of off s] by (simp add: secs_ahead_def s) (simp add: s_def)
  qed
  moreover have "\<exists>y. dr_get_next_valid_time (fixed_zone off) t dr = Some (Some s, dr\<lparr>syear := y\<rparr>)"
    using weekday_next [OF w never_met_invalid [OF n]] by (simp add: s_def k_def m_def)
  ultimately show ?thesis by blast
qed

lemma never_met_stuck:
  assumes "on_weekday w dr" and "never_met (timeranges dr)" and "t \<le> orig + 3600 * 24 * 365"
    and "\<And>d. timeranges d = timeranges dr \<Longrightarrow> on_weekday w d \<Longrightarrow>
      \<exists>y. dr_get_next_valid_time (fixed_zone off) t d = Some (Some t, d\<lparr>syear := y\<rparr>)"
  shows "daterange_periods (fixed_zone off) fuel orig t dr = Unfinished"
  using assms
proof (induction fuel arbitrary: dr)
  case (Suc fuel)
  from Suc.prems(4) [of dr] Suc.prems(1) obtain y where
    s: "dr_get_next_valid_time (fixed_zone off) t dr = Some (Some t, dr\<lparr>syear := y\<rparr>)" by auto
  let ?d1 = "dr\<lparr>syear := y\<rparr>"
  have w1: "on_weekday w ?d1" using Suc.prems(1) by simp
  have "\<not> weekly_valid off w ?d1 t" using Suc.prems(2) by (intro never_met_invalid) simp
  then obtain y2 where e: "dr_get_next_invalid_time (fixed_zone off) t ?d1 = Some (t, ?d1\<lparr>syear := y2\<rparr>)"
    using weekday_invalid_now [OF w1] by blast
  have "daterange_periods (fixed_zone off) fuel orig t (?d1\<lparr>syear := y2\<rparr>) = Unfinished"
    by (rule Suc.IH) (use Suc.prems in simp_all)
  with s e Suc.prems(3) show ?case by simp
qed simp

lemma never_met_periods:
  assumes w: "on_weekday w dr" and n: "never_met (timeranges dr)"
  shows "daterange_periods (fixed_zone off) fuel t t dr = Unfinished"
proof (cases fuel)
  case (Suc fuel')
  obtain s y where s: "dr_get_next_valid_time (fixed_zone off) t dr = Some (Some s, dr\<lparr>syear := y\<rparr>)"
    "s < t + 8 * 86400"
    and again: "\<And>d. timeranges d = timeranges dr \<Longrightarrow> on_weekday w d \<Longrightarrow>
        \<exists>y. dr_get_next_valid_time (fixed_zone off) s d = Some (Some s, d\<lparr>syear := y\<rparr>)"
    using never_met_next [OF w n, of off t] by blast
  let ?d1 = "dr\<lparr>syear := y\<rparr>"
  have "\<not> weekly_valid off w ?d1 s" using n by (intro never_met_invalid) simp
  then obtain y2 where e: "dr_get_next_invalid_time (fixed_zone off) s ?d1 = Some (s, ?d1\<lparr>syear := y2\<rparr>)"
    using weekday_invalid_now [of w ?d1 off s] w by auto
  have "daterange_periods (fixed_zone off) fuel' t s (?d1\<lparr>syear := y2\<rparr>) = Unfinished"
    by (rule never_met_stuck) (use w n s(2) again in simp_all)
  with s e Suc show ?thesis by simp
qed simp

end
