(* ===== verification/PeriodFacts.thy ===== *)
theory PeriodFacts
  imports WeeklyEnds
begin

text \<open>
  Time periods made of week days, in a zone without changes: the searches return, a period with one
  excluded period is given valid times, hours that end before they start make the search for an
  invalid time run for ever.
\<close>

section \<open>Date ranges\<close>

text \<open>What \<open>is_time_valid\<close> answers for a date range.\<close>

definition valid_at :: "zone \<Rightarrow> daterange \<Rightarrow> int \<Rightarrow> bool" where
  "valid_at z dr t \<longleftrightarrow> map_option fst (dr_is_time_valid z t dr) = Some True"

lemma valid_at_weekly: "on_weekday w dr \<Longrightarrow> valid_at (fixed_zone off) dr = weekly_valid off w dr"
  by (simp add: fun_eq_iff valid_at_def weekday_time_valid)

text \<open>
  C33. The next valid time of a week day is right: \<open>get_next_valid_time_from_t\<close> always finds a time, and it
  is the first one, from the given time on, for which \<open>is_time_valid\<close> answers yes.
\<close>

theorem next_valid_time_is_first:
  assumes "weekly w dr"
  shows "\<exists>r dr'. dr_get_next_valid_time (fixed_zone off) t dr = Some (Some r, dr')
    \<and> least_after (valid_at (fixed_zone off) dr) t r"
  using weekly_next [OF assms] valid_at_weekly [OF weekly_on_weekday [OF assms]] by metis

text \<open>
  C34. The next invalid time of a week day is right when its hours are more than a second apart: it is
  the first time for which \<open>is_time_valid\<close> answers no. (Hours that touch or overlap give a time that
  can be valid.)
\<close>

theorem next_invalid_time_is_first:
  assumes "weekly w dr" and "apart (timeranges dr)"
  shows "\<exists>r dr'. dr_get_next_invalid_time (fixed_zone off) t dr = Some (r, dr')
    \<and> least_after (\<lambda>u. \<not> valid_at (fixed_zone off) dr u) t r"
proof -
  note on = weekly_on_weekday [OF assms(1)]
  show ?thesis
  proof (cases "weekly_valid off w dr t")
    case True
    with weekly_next_invalid [OF assms] show ?thesis unfolding valid_at_weekly [OF on] by blast
  next
    case False
    with weekday_invalid_now [OF on] show ?thesis
      unfolding valid_at_weekly [OF on] by (metis least_after_now)
  qed
qed

definition monday_hours :: daterange where
  "monday_hours =
    \<lparr>dr_class = StandardDaterange ''monday'', syear = 0, smon = 0, smday = 0, swday = 0,
     swday_offset = 0, eyear = 0, emon = 0, emday = 0, ewday = 0, ewday_offset = 0, skip_interval = 0,
     timeranges = [Hours 8 0 12 0, Hours 14 0 24 0]\<rparr>"

lemma monday_weekly: "weekly 0 monday_hours" "apart (timeranges monday_hours)"
  by (simp_all add: weekly_def on_weekday_def monday_hours_def day_hours_def good_hours_def
      get_weekday_id_def weekdays_def apart_def)

theorem next_valid_time_is_first_witness:
  "\<exists>r dr'. dr_get_next_valid_time (fixed_zone 3600) 0 monday_hours = Some (Some r, dr')
    \<and> least_after (valid_at (fixed_zone 3600) monday_hours) 0 r"
  by (rule next_valid_time_is_first [OF monday_weekly(1)])

theorem next_invalid_time_is_first_witness:
  "\<exists>r dr'. dr_get_next_invalid_time (fixed_zone 3600) 374400 monday_hours = Some (r, dr')
    \<and> least_after (\<lambda>u. \<not> valid_at (fixed_zone 3600) monday_hours u) 374400 r"
  by (rule next_invalid_time_is_first [OF monday_weekly])

section \<open>Time periods\<close>

text \<open>Date ranges that differ in the year they were last asked in; stores whose periods differ so.\<close>

definition same_but_year :: "daterange \<Rightarrow> daterange \<Rightarrow> bool" where
  "same_but_year d d' \<longleftrightarrow> (\<exists>y. d' = d\<lparr>syear := y\<rparr>)"

lemma same_but_year_refl: "same_but_year d d"
  unfolding same_but_year_def by (rule exI [of _ "syear d"]) simp

lemma same_but_year_trans: "same_but_year a b \<Longrightarrow> same_but_year b c \<Longrightarrow> same_but_year a c"
  by (auto simp: same_but_year_def)

lemma same_but_year_upd [simp]: "same_but_year d (d\<lparr>syear := y\<rparr>)"
  by (auto simp: same_but_year_def)

lemma same_but_year_weekly:
  assumes "same_but_year d d'"
  shows "on_weekday w d' = on_weekday w d" "weekly w d' = weekly w d"
    "weekly_valid off w d' t = weekly_valid off w d t" "timeranges d' = timeranges d"
  using assms by (auto simp: same_but_year_def)

definition alike :: "timeperiod \<Rightarrow> timeperiod \<Rightarrow> bool" where
  "alike tp tp' \<longleftrightarrow> list_all2 same_but_year (dateranges tp) (dateranges tp') \<and> exclude tp' = exclude tp"

fun alike_opt :: "timeperiod option \<Rightarrow> timeperiod option \<Rightarrow> bool" where
  "alike_opt None None \<longleftrightarrow> True"
| "alike_opt (Some a) (Some b) \<longleftrightarrow> alike a b"
| "alike_opt _ _ \<longleftrightarrow> False"

definition alike_store :: "store \<Rightarrow> store \<Rightarrow> bool" where
  "alike_store st st' \<longleftrightarrow> (\<forall>i. alike_opt (st i) (st' i))"

lemma alike_storeD: "alike_store st st' \<Longrightarrow> alike_opt (st i) (st' i)"
  by (simp add: alike_store_def)

lemma alike_refl [simp]: "alike tp tp"
  by (simp add: alike_def list_all2_refl same_but_year_refl)

lemma alike_trans:
  assumes "alike a b" and "alike b c"
  shows "alike a c"
proof -
  have "list_all2 same_but_year (dateranges a) (dateranges c)"
    by (rule list_all2_trans [OF same_but_year_trans]) (use assms in \<open>auto simp: alike_def\<close>)
  with assms show ?thesis by (simp add: alike_def)
qed

lemma alike_opt_refl [simp]: "alike_opt r r"
  by (cases r) simp_all

lemma alike_opt_trans: "alike_opt a b \<Longrightarrow> alike_opt b c \<Longrightarrow> alike_opt a c"
  by (cases a; cases b; cases c) (auto intro: alike_trans)

lemma alike_store_refl [simp]: "alike_store st st"
  by (simp add: alike_store_def)

lemma alike_store_trans: "alike_store a b \<Longrightarrow> alike_store b c \<Longrightarrow> alike_store a c"
  unfolding alike_store_def by (blast intro: alike_opt_trans)

lemma alike_store_Some:
  assumes "alike_store st st'" and "st i = Some tp"
  obtains tp' where "st' i = Some tp'" "alike tp tp'"
  using alike_storeD [OF assms(1), of i] assms(2) by (cases "st' i") auto

lemma alike_store_Some':
  assumes "alike_store st st'" and "st' i = Some tp'"
  obtains tp where "st i = Some tp" "alike tp tp'"
  using alike_storeD [OF assms(1), of i] assms(2) by (cases "st i") auto

lemma alike_store_None: "alike_store st st' \<Longrightarrow> st' i = None \<longleftrightarrow> st i = None"
  by (cases "st i"; cases "st' i") (auto dest: alike_storeD [of _ _ i])

lemma alike_store_upd: "st i = Some tp \<Longrightarrow> alike tp tp' \<Longrightarrow> alike_store st (st(i := Some tp'))"
  by (simp add: alike_store_def)

definition weekly_period :: "timeperiod \<Rightarrow> bool" where
  "weekly_period tp \<longleftrightarrow> dateranges tp \<noteq> [] \<and> (\<forall>d \<in> set (dateranges tp). \<exists>w. weekly w d)"

definition weekly_store :: "store \<Rightarrow> bool" where
  "weekly_store st \<longleftrightarrow> (\<forall>i tp. st i = Some tp \<longrightarrow> weekly_period tp
     \<and> (\<forall>x \<in> set (exclude tp). \<exists>p. x = Period p \<and> st p \<noteq> None))"

lemma alike_weekly:
  assumes "alike tp tp'"
  shows "weekly_period tp' = weekly_period tp"
proof -
  have "list_all2 same_but_year ds ds' \<Longrightarrow>
    (\<forall>d \<in> set ds'. \<exists>w. weekly w d) = (\<forall>d \<in> set ds. \<exists>w. weekly w d) \<and> (ds' = []) = (ds = [])" for ds ds'
    by (induction rule: list_all2_induct) (auto simp: same_but_year_weekly)
  with assms show ?thesis by (auto simp: alike_def weekly_period_def)
qed

lemma alike_weekly_store:
  assumes "alike_store st st'" and "weekly_store st"
  shows "weekly_store st'"
  unfolding weekly_store_def
proof (intro allI impI)
  fix i tp'
  assume "st' i = Some tp'"
  then obtain tp where tp: "st i = Some tp" "alike tp tp'" by (rule alike_store_Some' [OF assms(1)])
  have "st p \<noteq> None \<Longrightarrow> st' p \<noteq> None" for p
    using alike_store_None [OF assms(1)] by simp
  moreover have "exclude tp' = exclude tp" using tp(2) by (simp add: alike_def)
  moreover have "weekly_period tp" "\<forall>x \<in> set (exclude tp). \<exists>p. x = Period p \<and> st p \<noteq> None"
    using tp(1) assms(2) by (auto simp: weekly_store_def)
  ultimately show "weekly_period tp' \<and> (\<forall>x \<in> set (exclude tp'). \<exists>p. x = Period p \<and> st' p \<noteq> None)"
    using alike_weekly [OF tp(2)] by fastforce
qed

section \<open>The search for an invalid time returns\<close>

definition period_valid :: "int \<Rightarrow> timeperiod \<Rightarrow> int \<Rightarrow> bool" where
  "period_valid off tp t \<longleftrightarrow> (\<exists>d \<in> set (dateranges tp). valid_at (fixed_zone off) d t)"

lemma all_periods_end:
  assumes "\<forall>d \<in> set ds. \<exists>w. weekly w d" and "3600 * 24 * 365 + 2 \<le> fuel"
  shows "\<exists>ps ds'. all_periods (fixed_zone off) fuel t ds = Done (ps, ds')
    \<and> list_all2 same_but_year ds ds' \<and> (ps = [] \<longrightarrow> ds = []) \<and> periods_from t ps
    \<and> ((\<exists>d \<in> set ds. valid_at (fixed_zone off) d t) \<longrightarrow> t \<in> fst ` set ps)"
  using assms(1)
proof (induction ds)
  case (Cons d ds)
  then obtain w where w: "weekly w d" by auto
  from weekly_periods_end [OF this, of t t fuel off] assms(2)
  obtain ps y where p: "daterange_periods (fixed_zone off) fuel t t d = Done (ps, d\<lparr>syear := y\<rparr>)" "ps \<noteq> []"
    "periods_from t ps" "valid_at (fixed_zone off) d t \<longrightarrow> t \<in> fst ` set ps"
    unfolding valid_at_weekly [OF weekly_on_weekday [OF w]] by auto
  from Cons obtain qs ds' where q: "all_periods (fixed_zone off) fuel t ds = Done (qs, ds')"
    "list_all2 same_but_year ds ds'" "periods_from t qs"
    "(\<exists>d \<in> set ds. valid_at (fixed_zone off) d t) \<longrightarrow> t \<in> fst ` set qs" by auto
  have "periods_from t (ps @ qs)" using p(3) q(3) by (auto simp: periods_from_def)
  with p q show ?case by (auto simp: image_Un)
qed (simp add: periods_from_def)

lemma tp_periods_end:
  assumes "weekly_store st" and "st i = Some tp" and "3600 * 24 * 365 + 2 \<le> fuel"
  shows "\<exists>ps st'. tp_periods (fixed_zone off) fuel t i st = Done (ps, st') \<and> ps \<noteq> []
    \<and> periods_from t ps \<and> (period_valid off tp t \<longrightarrow> t \<in> fst ` set ps) \<and> alike_store st st'"
proof -
  have "weekly_period tp" using assms by (auto simp: weekly_store_def)
  then obtain ps ds where ps: "all_periods (fixed_zone off) fuel t (dateranges tp) = Done (ps, ds)" "ps \<noteq> []"
    "periods_from t ps" "period_valid off tp t \<longrightarrow> t \<in> fst ` set ps"
    and ds: "list_all2 same_but_year (dateranges tp) ds"
    using all_periods_end [OF _ assms(3), of "dateranges tp" off t]
    by (auto simp: weekly_period_def period_valid_def)
  have "alike_store st (st(i := Some (tp\<lparr>dateranges := ds\<rparr>)))"
    by (rule alike_store_upd) (use assms(2) ds in \<open>simp_all add: alike_def\<close>)
  then show ?thesis using ps assms(2) by (auto simp: tp_periods_def)
qed

lemma excluded_periods_end:
  assumes "weekly_store st" and "\<forall>x \<in> set xs. \<exists>p. x = Period p \<and> st p \<noteq> None"
    and "3600 * 24 * 365 + 2 \<le> fuel"
  shows "\<exists>qs' st'. fold_run (\<lambda>x (qs, st2). case x of
      Period p \<Rightarrow> bind_run (tp_periods (fixed_zone off) fuel t p st2) (\<lambda>(rs, st3). Done (qs @ rs, st3))
    | _ \<Rightarrow> Raised) xs (qs, st) = Done (qs', st') \<and> alike_store st st'"
  using assms
proof (induction xs arbitrary: qs st)
  case (Cons x xs)
  then obtain p tp where x: "x = Period p" "st p = Some tp" by auto
  from tp_periods_end [OF Cons.prems(1) x(2) Cons.prems(3)] obtain ps st1 where
    p: "tp_periods (fixed_zone off) fuel t p st = Done (ps, st1)" "alike_store st st1" by blast
  have "\<forall>x \<in> set xs. \<exists>p. x = Period p \<and> st1 p \<noteq> None"
    using Cons.prems(2) p(2) alike_store_None [OF p(2)] by fastforce
  with Cons.IH [of st1 "qs @ ps"] alike_weekly_store [OF p(2) Cons.prems(1)] Cons.prems(3) x(1) p
  show ?case by (auto intro: alike_store_trans)
qed auto

lemma merge_periods_Some: "ps \<noteq> [] \<Longrightarrow> \<exists>s e. hd (merge_periods ps) = Some (s, e)"
proof -
  assume "ps \<noteq> []"
  then have "sort_key fst ps \<noteq> []" by (metis length_0_conv length_sort)
  then obtain s e qs where "sort_key fst ps = (s, e) # qs" by (metis list.exhaust surj_pair)
  moreover have "merge_from s e qs \<noteq> []" for s e qs
    by (induction s e qs rule: merge_from.induct) auto
  ultimately show ?thesis by (cases "merge_from s e qs") (auto simp: merge_periods_def)
qed

text \<open>
  C35. The search for an invalid time returns: in a store of time periods of week days with hours that
  can be met, \<open>get_next_invalid_time_from_t\<close> answers for every time, and no more turns are needed for
  a date range than there are seconds in a year. The store changes in the years of its date ranges only.
\<close>

theorem next_invalid_time_returns:
  assumes "weekly_store st" and "st i \<noteq> None" and "3600 * 24 * 365 + 2 \<le> fuel"
  shows "\<exists>r st'. tp_get_next_invalid_time (fixed_zone off) fuel t i st = Done (r, st') \<and> alike_store st st'"
proof -
  obtain tp where tp: "st i = Some tp" using assms(2) by auto
  obtain ps st1 where p: "tp_periods (fixed_zone off) fuel t i st = Done (ps, st1)" "ps \<noteq> []" "alike_store st st1"
    using tp_periods_end [OF assms(1) tp assms(3)] by blast
  obtain tp1 where tp1: "st1 i = Some tp1" using alike_store_Some [OF p(3) tp] by blast
  have w1: "weekly_store st1" by (rule alike_weekly_store [OF p(3) assms(1)])
  obtain qs st2 where q: "fold_run (\<lambda>x (qs, st2). case x of
      Period p \<Rightarrow> bind_run (tp_periods (fixed_zone off) fuel t p st2) (\<lambda>(rs, st3). Done (qs @ rs, st3))
    | _ \<Rightarrow> Raised) (exclude tp1) ([], st1) = Done (qs, st2)" "alike_store st1 st2"
    using excluded_periods_end [OF w1 _ assms(3), of "exclude tp1" off t "[]"] w1 tp1
    by (auto simp: weekly_store_def)
  obtain s e where "hd (merge_periods ps) = Some (s, e)" using merge_periods_Some [OF p(2)] by auto
  then show ?thesis
    using p(1,3) q tp1 by (auto simp: tp_get_next_invalid_time_def intro: alike_store_trans)
qed

definition plain_period :: "string \<Rightarrow> daterange list \<Rightarrow> excluded list \<Rightarrow> timeperiod" where
  "plain_period n drs excl =
     \<lparr>timeperiod_name = n, dateranges = drs, exclude = excl, unresolved = [], invalid_entries = [],
      is_active = False, activated_once = False, cache = [], invalid_cache = [], tp_errors = []\<rparr>"

definition monday_lunch :: daterange where
  "monday_lunch = monday_hours\<lparr>timeranges := [Hours 7 30 9 0]\<rparr>"

definition sample_store :: store where
  "sample_store = [0 \<mapsto> plain_period ''work'' [monday_hours] [Period 1], 1 \<mapsto> plain_period ''off'' [monday_lunch] []]"

lemma sample_store_weekly: "weekly_store sample_store"
  by (auto simp: weekly_store_def weekly_period_def sample_store_def plain_period_def monday_lunch_def
      weekly_def on_weekday_def monday_hours_def day_hours_def good_hours_def get_weekday_id_def weekdays_def
      split: if_splits)

theorem next_invalid_time_returns_witness:
  "\<exists>r st'. tp_get_next_invalid_time (fixed_zone 0) 31536002 374400 0 sample_store = Done (r, st')
    \<and> alike_store sample_store st'"
  by (rule next_invalid_time_returns [OF sample_store_weekly]) (simp_all add: sample_store_def)

text \<open>
  C36. Hours that end before they start, such as \<open>22:00-06:00\<close>, are accepted, and the search for an
  invalid time in their time period never returns: the loop comes back to the same time for ever,
  whatever the number of turns it is given.
\<close>

theorem overnight_hours_hang:
  assumes "st i = Some tp" and "dateranges tp = dr # drs"
    and "on_weekday w dr" and "never_met (timeranges dr)"
  shows "tp_get_next_invalid_time (fixed_zone off) fuel t i st = Unfinished"
  using assms never_met_periods [OF assms(3,4)]
  by (simp add: tp_get_next_invalid_time_def tp_periods_def)

theorem overnight_hours_hang_witness:
  "\<exists>tp. resolve_daterange ''monday 22:00-06:00'' (plain_period ''night'' [] []) = Some tp
    \<and> tp_is_correct tp
    \<and> tp_get_next_invalid_time (fixed_zone 0) 1000 0 0 [0 \<mapsto> tp] = Unfinished"
proof -
  let ?dr = "monday_hours\<lparr>timeranges := [Hours 22 0 6 0]\<rparr>"
  let ?tp = "plain_period ''night'' [?dr] []"
  have r: "first_rule entry_rules ''monday 22:00-06:00'' = Some (Some ?dr)" by code_simp
  have "tp_is_correct ?tp" by code_simp
  moreover have "tp_get_next_invalid_time (fixed_zone 0) 1000 0 0 [0 \<mapsto> ?tp] = Unfinished"
    by (rule overnight_hours_hang [of _ _ ?tp ?dr "[]" 0])
      (simp_all add: plain_period_def on_weekday_def monday_hours_def day_hours_def get_weekday_id_def
        weekdays_def never_met_def)
  moreover have "resolve_daterange ''monday 22:00-06:00'' (plain_period ''night'' [] []) = Some ?tp"
    by (simp add: resolve_daterange_def r plain_period_def)
  ultimately show ?thesis by blast
qed

section \<open>The next valid time with an excluded period\<close>

lemma merge_from_head:
  assumes "s < e" and "periods_from s ps"
  shows "\<exists>e' qs. merge_from s e ps = (s, e') # qs \<and> s < e'"
  using assms by (induction s e ps rule: merge_from.induct) (auto simp: periods_from_def)

lemma merge_periods_head:
  assumes "periods_from t ps" and "t \<in> fst ` set ps"
  shows "\<exists>e. hd (merge_periods ps) = Some (t, e) \<and> t < e"
proof -
  from assms(2) have "ps \<noteq> []" by auto
  then have "sort_key fst ps \<noteq> []" by (metis length_0_conv length_sort)
  then obtain s e qs where q: "sort_key fst ps = (s, e) # qs" by (metis list.exhaust surj_pair)
  then have set_q: "set ps = insert (s, e) (set qs)" by (metis list.set(2) set_sort)
  have "sorted (map fst ((s, e) # qs))" using q by (metis sorted_sort_key)
  then have le: "s \<le> x" if "x \<in> fst ` set qs" for x using that by auto
  have "s = t" using le assms set_q by (fastforce simp: periods_from_def)
  moreover have "periods_from s qs" "s < e"
    using assms(1) set_q \<open>s = t\<close> by (auto simp: periods_from_def)
  ultimately show ?thesis
    using merge_from_head [of s e qs] q by (auto simp: merge_periods_def)
qed

lemma next_invalid_later:
  assumes "weekly_store st" and "st p = Some tp" and "exclude tp = []" and "period_valid off tp t"
    and "3600 * 24 * 365 + 2 \<le> fuel"
  shows "\<exists>e st'. tp_get_next_invalid_time (fixed_zone off) fuel t p st = Done (e, st')
    \<and> t < e \<and> alike_store st st'"
proof -
  obtain ps st' where ps: "tp_periods (fixed_zone off) fuel t p st = Done (ps, st')"
    "periods_from t ps" "t \<in> fst ` set ps" "alike_store st st'"
    using tp_periods_end [OF assms(1,2,5)] assms(4) by blast
  obtain tp' where "st' p = Some tp'" "exclude tp' = []"
    using alike_store_Some [OF ps(4) assms(2)] assms(3) by (metis alike_def)
  with ps merge_periods_head [OF ps(2,3)] show ?thesis
    by (auto simp: tp_get_next_invalid_time_def)
qed

lemma same_but_year_valid:
  assumes "same_but_year d d'" and "weekly w d"
  shows "valid_at (fixed_zone off) d' = valid_at (fixed_zone off) d"
  using valid_at_weekly [of w d off] valid_at_weekly [of w d' off] assms
  by (auto simp: same_but_year_weekly weekly_on_weekday fun_eq_iff)

lemma alike_period_valid:
  assumes "alike tp tp'" and "weekly_period tp"
  shows "period_valid off tp' t = period_valid off tp t"
proof -
  have "list_all2 same_but_year ds ds' \<Longrightarrow> \<forall>d \<in> set ds. \<exists>w. weekly w d \<Longrightarrow>
    (\<exists>d \<in> set ds'. valid_at (fixed_zone off) d t) = (\<exists>d \<in> set ds. valid_at (fixed_zone off) d t)" for ds ds'
    by (induction rule: list_all2_induct) (auto simp: same_but_year_valid)
  with assms show ?thesis by (auto simp: period_valid_def alike_def weekly_period_def)
qed

lemma any_daterange_weekly:
  assumes "\<forall>d \<in> set ds. \<exists>w. weekly w d"
  shows "\<exists>ds'. any_daterange (dr_is_time_valid (fixed_zone off) t) ds
      = Some (\<exists>d \<in> set ds. valid_at (fixed_zone off) d t, ds') \<and> list_all2 same_but_year ds ds'"
  using assms
proof (induction ds)
  case (Cons d ds)
  then obtain w where "weekly w d" by auto
  then have w: "on_weekday w d" by (rule weekly_on_weekday)
  have "dr_is_time_valid (fixed_zone off) t d
      = Some (valid_at (fixed_zone off) d t, asked (fixed_zone off) t d)"
    unfolding valid_at_weekly [OF w] by (rule weekday_time_valid [OF w])
  with Cons show ?case
    by (auto simp: asked_def list_all2_refl same_but_year_refl)
qed simp

lemma plain_time_valid:
  assumes "weekly_store st" and "st p = Some tp" and "exclude tp = []"
  shows "\<exists>st'. tp_is_time_valid (fixed_zone off) (Suc d) t p st = Some (period_valid off tp t, st')
    \<and> alike_store st st'"
proof -
  have "weekly_period tp" using assms by (auto simp: weekly_store_def)
  then obtain ds where ds: "any_daterange (dr_is_time_valid (fixed_zone off) t) (dateranges tp)
      = Some (period_valid off tp t, ds)" "list_all2 same_but_year (dateranges tp) ds"
    using any_daterange_weekly [of "dateranges tp" off t] by (auto simp: weekly_period_def period_valid_def)
  have "alike_store st (st(p := Some (tp\<lparr>dateranges := ds\<rparr>)))"
    by (rule alike_store_upd) (use assms(2) ds(2) in \<open>simp_all add: alike_def\<close>)
  with ds assms(2,3) show ?thesis by simp
qed

lemma excluding_time_valid:
  assumes "weekly_store st" and "st i = Some tp" and "exclude tp = [Period p]"
    and "st p = Some tx" and "exclude tx = []"
  shows "\<exists>st'. tp_is_time_valid (fixed_zone off) (Suc (Suc d)) t i st
    = Some (period_valid off tp t \<and> \<not> period_valid off tx t, st')"
proof -
  obtain st1 where x: "tp_is_time_valid (fixed_zone off) (Suc d) t p st = Some (period_valid off tx t, st1)"
    "alike_store st st1" using plain_time_valid [OF assms(1,4,5)] by blast
  obtain tp1 where tp1: "st1 i = Some tp1" "alike tp tp1" using alike_store_Some [OF x(2) assms(2)] by blast
  have w: "weekly_period tp" using assms by (auto simp: weekly_store_def)
  then have "weekly_period tp1" using alike_weekly [OF tp1(2)] by simp
  then obtain ds where "any_daterange (dr_is_time_valid (fixed_zone off) t) (dateranges tp1)
      = Some (period_valid off tp1 t, ds)"
    using any_daterange_weekly [of "dateranges tp1" off t] by (auto simp: weekly_period_def period_valid_def)
  with x(1) tp1 assms(2,3) alike_period_valid [OF tp1(2) w] show ?thesis
    by (cases "period_valid off tx t") (auto simp del: tp_is_time_valid.simps(2) simp: tp_is_time_valid.simps(2) [of _ "Suc d"])
qed

lemma each_next_valid:
  assumes "\<forall>d \<in> set ds. \<exists>w. weekly w d"
  shows "\<exists>xs ds'. each_daterange (dr_get_next_valid_time (fixed_zone off) t) ds = Some (map Some xs, ds')
    \<and> list_all2 same_but_year ds ds' \<and> (xs = [] \<longrightarrow> ds = [])
    \<and> (\<forall>x \<in> set xs. t \<le> x \<and> (\<exists>d \<in> set ds. valid_at (fixed_zone off) d x))"
  using assms
proof (induction ds)
  case (Cons d ds)
  then obtain w where w: "weekly w d" by auto
  from weekly_next [OF w, of off t] obtain x y where
    x: "dr_get_next_valid_time (fixed_zone off) t d = Some (Some x, d\<lparr>syear := y\<rparr>)"
    "t \<le> x" "valid_at (fixed_zone off) d x"
    unfolding valid_at_weekly [OF weekly_on_weekday [OF w]] least_after_def by auto
  from Cons obtain xs ds' where
    xs: "each_daterange (dr_get_next_valid_time (fixed_zone off) t) ds = Some (map Some xs, ds')"
    "list_all2 same_but_year ds ds'"
    "\<forall>x \<in> set xs. t \<le> x \<and> (\<exists>d \<in> set ds. valid_at (fixed_zone off) d x)" by auto
  from x xs show ?case by (intro exI [of _ "x # xs"]) auto
qed simp

text \<open>A time period \<open>i\<close> with one excluded period \<open>p\<close>.\<close>

definition excludes :: "store \<Rightarrow> nat \<Rightarrow> timeperiod \<Rightarrow> nat \<Rightarrow> timeperiod \<Rightarrow> bool" where
  "excludes st i tp p tx \<longleftrightarrow> weekly_store st \<and> st i = Some tp \<and> exclude tp = [Period p]
     \<and> st p = Some tx \<and> exclude tx = []"

lemma excludes_alike:
  assumes "excludes st i tp p tx" and "alike_store st st'"
  obtains tp' tx' where "excludes st' i tp' p tx'"
    "period_valid off tp' = period_valid off tp" "period_valid off tx' = period_valid off tx"
proof -
  from assms obtain tp' tx' where t: "st' i = Some tp'" "alike tp tp'" "st' p = Some tx'" "alike tx tx'"
    unfolding excludes_def by (metis alike_store_Some)
  moreover have "weekly_period tp" "weekly_period tx" using assms by (auto simp: excludes_def weekly_store_def)
  moreover have "weekly_store st'" using assms alike_weekly_store by (auto simp: excludes_def)
  ultimately show ?thesis
    using assms by (intro that [of tp' tx']) (auto simp: excludes_def alike_def fun_eq_iff alike_period_valid)
qed

lemma pick_candidates:
  assumes "weekly_store st" and "st p = Some tx" and "exclude tx = []"
  shows "\<exists>found' st'. fold_run (pick_candidate (fixed_zone off) (Suc d) [Period p]) cs (found, st) = Done (found', st')
    \<and> alike_store st st' \<and> (\<forall>m. found' = Some m \<longrightarrow> found = Some m \<or> m \<in> set cs \<and> \<not> period_valid off tx m)
    \<and> (found' = None \<longrightarrow> found = None \<and> (\<forall>c \<in> set cs. period_valid off tx c))"
  using assms
proof (induction cs arbitrary: found st tx)
  case (Cons c cs)
  obtain st1 where v: "tp_is_time_valid (fixed_zone off) (Suc d) c p st = Some (period_valid off tx c, st1)"
    "alike_store st st1" using plain_time_valid [OF Cons.prems] by blast
  obtain tx1 where tx1: "st1 p = Some tx1" "alike tx tx1" using alike_store_Some [OF v(2) Cons.prems(2)] by blast
  have w: "weekly_period tx" using Cons.prems by (auto simp: weekly_store_def)
  define found1 where "found1 = (if \<not> period_valid off tx c \<and> found = None then Some c else found)"
  have "exclude tx1 = []" using tx1(2) Cons.prems(3) by (simp add: alike_def)
  from Cons.IH [OF alike_weekly_store [OF v(2) Cons.prems(1)] tx1(1) this, of found1]
  obtain found' st' where ih:
    "fold_run (pick_candidate (fixed_zone off) (Suc d) [Period p]) cs (found1, st1) = Done (found', st')"
    "alike_store st1 st'" "\<forall>m. found' = Some m \<longrightarrow> found1 = Some m \<or> m \<in> set cs \<and> \<not> period_valid off tx m"
    "found' = None \<longrightarrow> found1 = None \<and> (\<forall>c \<in> set cs. period_valid off tx c)"
    unfolding alike_period_valid [OF tx1(2) w] by auto
  have "fold_run (pick_candidate (fixed_zone off) (Suc d) [Period p]) (c # cs) (found, st) = Done (found', st')"
    using v(1) ih(1) by (simp add: pick_candidate_def found1_def del: tp_is_time_valid.simps)
  moreover have "alike_store st st'" by (rule alike_store_trans [OF v(2) ih(2)])
  ultimately show ?case using ih(3,4) by (auto simp: found1_def split: if_splits)
qed auto

lemma bind_run_assoc: "bind_run (bind_run r f) g = bind_run r (\<lambda>x. bind_run (f x) g)"
  by (cases r) simp_all

lemma sort_empty: "sort xs = [] \<longleftrightarrow> xs = []"
  by (metis length_0_conv length_sort)

lemma excluding_turn:
  assumes e: "excludes st i tp p tx" and f: "3600 * 24 * 365 + 2 \<le> fuel"
  shows "\<exists>still m st'. next_valid_turn (fixed_zone off) (Suc d) fuel t i st = Done ((still, Some m), st')
    \<and> alike_store st st' \<and> (if still then t < m else t \<le> m \<and> period_valid off tp m \<and> \<not> period_valid off tx m)"
proof -
  note e' = e [unfolded excludes_def]
  let ?z = "fixed_zone off"
  have "weekly_period tp" using e' by (auto simp: weekly_store_def)
  then obtain xs ds where xs: "each_daterange (dr_get_next_valid_time ?z t) (dateranges tp) = Some (map Some xs, ds)"
    "list_all2 same_but_year (dateranges tp) ds" "xs \<noteq> []"
    "\<forall>x \<in> set xs. t \<le> x \<and> period_valid off tp x"
    using each_next_valid [of "dateranges tp" off t] by (auto simp: weekly_period_def period_valid_def)
  define st1 where "st1 = st(i \<mapsto> tp\<lparr>dateranges := ds\<rparr>)"
  have a1: "alike_store st st1"
    unfolding st1_def by (rule alike_store_upd) (use e' xs(2) in \<open>auto simp: alike_def\<close>)
  obtain tp1 tx1 where e1: "excludes st1 i tp1 p tx1"
    "period_valid off tp1 = period_valid off tp" "period_valid off tx1 = period_valid off tx"
    by (rule excludes_alike [OF e a1, of off])
  note e1' = e1(1) [unfolded excludes_def]
  have cands: "concat (map (\<lambda>m. case m of None \<Rightarrow> [] | Some x \<Rightarrow> [x]) (map Some xs)) = xs" by (induction xs) auto
  obtain found st2 where pick:
    "fold_run (pick_candidate ?z (Suc d) [Period p]) (sort xs) (None, st1) = Done (found, st2)"
    "alike_store st1 st2" "\<forall>m. found = Some m \<longrightarrow> m \<in> set xs \<and> \<not> period_valid off tx m"
    "found = None \<longrightarrow> (\<forall>c \<in> set xs. period_valid off tx c)"
    using pick_candidates [of st1 p tx1 off d "sort xs" None] e1' e1(3) by auto
  have a2: "alike_store st st2" by (rule alike_store_trans [OF a1 pick(2)])
  have sti: "st i = Some tp" and ex: "exclude tp = [Period p]" using e' by auto
  have turn: "next_valid_turn ?z (Suc d) fuel t i st =
      (case found of Some m \<Rightarrow> Done ((False, Some m), st2)
       | None \<Rightarrow> bind_run (tp_get_next_invalid_time ?z fuel (hd (sort xs)) p st2)
           (\<lambda>(m, st4). Done ((True, Some m), st4)))"
    unfolding next_valid_turn_def sti option.case xs(1) run_of_simps bind_run.simps prod.case Let_def cands
      st1_def [symmetric] ex pick(1)
    by (cases found) (simp_all add: xs(3) sort_empty bind_run_assoc split_def min_of_def)
  show ?thesis
  proof (cases found)
    case (Some m)
    with turn pick(3) xs(4) a2 show ?thesis by (intro exI [of _ False] exI [of _ m] exI [of _ st2]) auto
  next
    case None
    have "sort xs \<noteq> []" using xs(3) by (metis length_0_conv length_sort)
    then have c: "hd (sort xs) \<in> set xs" by (metis hd_in_set set_sort)
    obtain tp2 tx2 where e2: "excludes st2 i tp2 p tx2" "period_valid off tx2 = period_valid off tx"
      by (rule excludes_alike [OF e a2, of off]) blast
    have "period_valid off tx2 (hd (sort xs))" using None pick(4) c e2(2) by simp
    with e2(1) obtain m st3 where "tp_get_next_invalid_time ?z fuel (hd (sort xs)) p st2 = Done (m, st3)"
      "hd (sort xs) < m" "alike_store st2 st3"
      using next_invalid_later [OF _ _ _ _ f] unfolding excludes_def by blast
    with turn None c xs(4) alike_store_trans [OF a2] show ?thesis
      by (intro exI [of _ True] exI [of _ m] exI [of _ st3]) auto
  qed
qed

lemma excluding_loop:
  assumes "excludes st i tp p tx" and "3600 * 24 * 365 + 2 \<le> fuel"
    and "nat (orig + 3600 * 24 * 366 + 1 - t) + 2 \<le> n"
  shows "\<exists>r st'. next_valid_loop (fixed_zone off) (Suc d) fuel n orig t i st = Done (r, st')
    \<and> alike_store st st'
    \<and> (\<forall>m. r = Some m \<longrightarrow> t \<le> m \<and> period_valid off tp m \<and> \<not> period_valid off tx m)"
  using assms
proof (induction n arbitrary: t st tp tx)
  case (Suc n)
  obtain still m st1 where turn: "next_valid_turn (fixed_zone off) (Suc d) fuel t i st = Done ((still, Some m), st1)"
    "alike_store st st1"
    "if still then t < m else t \<le> m \<and> period_valid off tp m \<and> \<not> period_valid off tx m"
    using excluding_turn [OF Suc.prems(1,2)] by blast
  show ?case
  proof (cases "m > orig + 3600 * 24 * 366 + 1 \<or> \<not> still")
    case True
    with turn show ?thesis by (cases still) (auto split: if_splits)
  next
    case False
    obtain tp1 tx1 where e1: "excludes st1 i tp1 p tx1"
      "period_valid off tp1 = period_valid off tp" "period_valid off tx1 = period_valid off tx"
      by (rule excludes_alike [OF Suc.prems(1) turn(2), of off])
    have "nat (orig + 3600 * 24 * 366 + 1 - m) + 2 \<le> n" using False turn(3) Suc.prems(3) by (simp split: if_splits) linarith
    from Suc.IH [OF e1(1) Suc.prems(2) this, unfolded e1(2,3)] obtain r st2 where
      "next_valid_loop (fixed_zone off) (Suc d) fuel n orig m i st1 = Done (r, st2)" "alike_store st1 st2"
      "\<forall>x. r = Some x \<longrightarrow> m \<le> x \<and> period_valid off tp x \<and> \<not> period_valid off tx x" by blast
    with turn False alike_store_trans [OF turn(2)] show ?thesis
      by (intro exI [of _ r] exI [of _ st2]) auto
  qed
qed simp

text \<open>
  C37. With one excluded time period, both of week days, \<open>get_next_valid_time_from_t\<close> returns, and what it
  returns is not before the given time and valid: \<open>is_time_valid\<close> answers yes for it. (With several
  excluded periods it takes a time that only one of them leaves free.)
\<close>

theorem next_valid_time_avoids_excluded:
  assumes "excludes st i tp p tx" and "cache tp = []" and "3600 * 24 * 366 + 3 \<le> fuel"
  shows "\<exists>r st'. tp_get_next_valid_time (fixed_zone off) (Suc (Suc d)) fuel t i st = Done (r, st')
    \<and> (\<forall>m. r = Some m \<longrightarrow> t \<le> m
        \<and> map_option fst (tp_is_time_valid (fixed_zone off) (Suc (Suc d)) m i st) = Some True)"
proof -
  from excluding_loop [OF assms(1), of fuel t t fuel off "Suc d"] assms(3) obtain r st1 where
    r: "next_valid_loop (fixed_zone off) (Suc (Suc d)) fuel fuel t t i st = Done (r, st1)" "alike_store st st1"
    "\<forall>m. r = Some m \<longrightarrow> t \<le> m \<and> period_valid off tp m \<and> \<not> period_valid off tx m" by auto
  note e = assms(1) [unfolded excludes_def]
  obtain tp1 where tp1: "st1 i = Some tp1" by (rule alike_store_Some [OF r(2)]) (use e in auto)
  have "map_option fst (tp_is_time_valid (fixed_zone off) (Suc (Suc d)) m i st) = Some True" if "r = Some m" for m
    using excluding_time_valid [of st i tp p tx off d m] e r(3) that by auto
  with r tp1 e assms(2) show ?thesis
    by (auto simp: tp_get_next_valid_time_def find_next_valid_time_from_cache_def simp del: tp_is_time_valid.simps)
qed

theorem next_valid_time_avoids_excluded_witness:
  "\<exists>r st'. tp_get_next_valid_time (fixed_zone 0) 2 31622403 374400 0 sample_store = Done (r, st')
    \<and> (\<forall>m. r = Some m \<longrightarrow> 374400 \<le> m
        \<and> map_option fst (tp_is_time_valid (fixed_zone 0) 2 m 0 sample_store) = Some True)"
  using next_valid_time_avoids_excluded [of sample_store 0 "plain_period ''work'' [monday_hours] [Period 1]" 1
      "plain_period ''off'' [monday_lunch] []" 31622403 0 0 374400] sample_store_weekly
  by (simp add: excludes_def sample_store_def plain_period_def numeral_2_eq_2)

text \<open>Two excluded periods: Monday 8:30 is taken although the first one covers it.\<close>

definition two_excluded :: store where
  "two_excluded = [0 \<mapsto> plain_period ''work'' [monday_hours] [Period 1, Period 2],
     1 \<mapsto> plain_period ''off'' [monday_lunch] [],
     2 \<mapsto> plain_period ''tuesdays'' [monday_hours\<lparr>dr_class := StandardDaterange ''tuesday''\<rparr>] []]"

lemma two_excluded_periods_taken:
  "(case tp_get_next_valid_time (fixed_zone 0) 3 3 376200 0 two_excluded of Done r \<Rightarrow> fst r | _ \<Rightarrow> None)
      = Some 376200
    \<and> map_option fst (tp_is_time_valid (fixed_zone 0) 3 376200 0 two_excluded) = Some False"
  by code_simp

section \<open>Date ranges that drift\<close>

lemma days_before_next_year: "days_before_year (y + 1) \<ge> days_before_year y + 364"
proof -
  have "(y - 1) div 4 \<le> y div 4" "(y - 1) div 400 \<le> y div 400" by (simp_all add: zdiv_mono1)
  moreover have "y div 100 \<le> (y - 1) div 100 + 1" by linarith
  ultimately show ?thesis by (simp add: days_before_year_def)
qed

lemma days_of_december: "days_of_date y 12 d = days_of_date y 1 d + 306 + days_in_month y 2"
  by (simp add: days_of_date_def days_before_month_simps)

lemma month_day_found:
  assumes "1 \<le> d" and "d \<le> 28" and "1 \<le> m" and "m \<le> 12"
  shows "start_on (fixed_zone off) (by_offset d) y m = Some (days_of_date y m d * 86400 - off)"
    and "end_on (fixed_zone off) (by_offset d) y m = Some (days_of_date y m d * 86400 + 86399 - off)"
  using assms days_in_month_pos [of y m]
  by (simp_all add: start_on_def end_on_def by_offset_def find_day_by_offset_def Let_def min_def
      get_start_of_day_def get_end_of_day_def mktime_def)

text \<open>
  C38. Asking changes the answer: a range of days of the month (\<open>day 1 - 15\<close>) that is over in December is
  said to start next in January, and, when it is asked again at the same time, at least 334 days later:
  \<open>get_start_and_end_time\<close> counts up the year it keeps each time.
\<close>

theorem month_days_drift_in_december:
  assumes "dr_class dr = MonthDayDaterange" and "syear dr = 0" and "eyear dr = 0"
    and "1 \<le> smday dr" and "smday dr \<le> emday dr" and "emday dr \<le> 28"
    and "0 < tm_year (localtime (fixed_zone off) t)"
    and "tm_mon (localtime (fixed_zone off) t) = 12" and "emday dr < tm_mday (localtime (fixed_zone off) t)"
  shows "\<exists>s e dr' s' e' dr''. get_start_and_end_time (fixed_zone off) t dr = Some ((s, e), dr')
    \<and> get_start_and_end_time (fixed_zone off) t dr' = Some ((s', e'), dr'') \<and> s + 334 * 86400 \<le> s'"
proof -
  obtain y m d where date: "date_of (day_no off t) = (y, m, d)" by (cases "date_of (day_no off t)") auto
  note lt = localtime_fixed [OF date]
  have y: "0 < y" and m: "m = 12" and d: "emday dr < d" using assms(7-9) by (simp_all add: lt)
  have t: "t = days_of_date y 12 d * 86400 + day_secs off t - off"
    using date_of(1) [OF date] time_of_day [of t off] m by simp
  have dd: "days_of_date y 12 d = days_of_date y 12 (emday dr) + (d - emday dr)" by (simp add: days_of_date_def)
  have d31: "d \<le> 31" using date_of(5) [OF date] m by (simp add: days_in_month_def)
  have later: "days_of_date y 12 d < days_of_date (y + 1) 12 (emday dr)"
    using days_before_next_year [of y] d31 assms(4,5) days_in_month_pos [of y 2] days_in_month_pos [of "y + 1" 2]
      days_of_december [of y d]
    by (simp add: days_of_date_def days_before_month_simps days_in_month_def split: if_splits)
  note found = month_day_found [of "smday dr" _ off] month_day_found [of "emday dr" _ off]
  let ?dr' = "dr\<lparr>syear := y + 1, eyear := y + 1\<rparr>"
  have first: "get_start_and_end_time (fixed_zone off) t dr
      = Some ((days_of_date (y + 1) 1 (smday dr) * 86400 - off,
               days_of_date (y + 1) 1 (emday dr) * 86400 + 86399 - off), ?dr')"
    using assms(1-6) d t dd day_secs_bounds [of off t] found
    by (simp add: get_start_and_end_time_def month_day_bounds_def Let_def lt m month_bounds_def next_month_def
        days_of_date_def)
  have second: "get_start_and_end_time (fixed_zone off) t ?dr'
      = Some ((days_of_date (y + 1) 12 (smday dr) * 86400 - off,
               days_of_date (y + 1) 12 (emday dr) * 86400 + 86399 - off), ?dr')"
  proof -
    have "days_of_date (y + 1) 12 (smday dr) \<le> days_of_date (y + 1) 12 (emday dr)"
      using assms(5) by (simp add: days_of_date_def Let_def)
    moreover have "t \<le> days_of_date (y + 1) 12 (emday dr) * 86400 + 86399 - off"
      using t later day_secs_bounds [of off t] by linarith
    ultimately show ?thesis
      using assms(1-6) found y
      by (simp add: get_start_and_end_time_def month_day_bounds_def Let_def lt m month_bounds_def)
  qed
  show ?thesis
    using first second days_of_december [of "y + 1" "smday dr"] days_in_month_pos [of "y + 1" 2] by auto
qed

definition first_half :: daterange where
  "first_half = monday_hours\<lparr>dr_class := MonthDayDaterange, smday := 1, emday := 15\<rparr>"

theorem month_days_drift_in_december_witness:
  "\<exists>s e dr' s' e' dr''. get_start_and_end_time (fixed_zone 0) (353 * 86400) first_half = Some ((s, e), dr')
    \<and> get_start_and_end_time (fixed_zone 0) (353 * 86400) dr' = Some ((s', e'), dr'')
    \<and> s + 334 * 86400 \<le> s'"
proof (rule month_days_drift_in_december)
  show "0 < tm_year (localtime (fixed_zone 0) (353 * 86400))" by code_simp
  show "tm_mon (localtime (fixed_zone 0) (353 * 86400)) = 12" by code_simp
  show "emday first_half < tm_mday (localtime (fixed_zone 0) (353 * 86400))" by code_simp
qed (simp_all add: first_half_def monday_hours_def)

section \<open>Corners\<close>

text \<open>A period inside another one shortens it when they are merged.\<close>

lemma merge_periods_shortens: "merge_periods [(0, 100), (10, 20)] = [Some (0, 20)]"
  by code_simp

text \<open>A time period that is valid at no time raises when it is asked for an invalid one.\<close>

lemma no_period_raises:
  assumes "st i = Some tp" and "dateranges tp = []" and "exclude tp = []"
  shows "tp_get_next_invalid_time z fuel t i st = Raised"
  using assms by (simp add: tp_get_next_invalid_time_def tp_periods_def merge_periods_def)

text \<open>The fifth Tuesday of a month with four Tuesdays is an \<open>IndexError\<close>.\<close>

lemma fifth_tuesday_raises: "find_day_by_weekday_offset 2010 2 1 5 = None"
  by code_simp

end
