(* ===== verification/Spec2Isabelle.thy ===== *)
theory Spec2Isabelle
  imports Graph DepNode StateMachine Confirm Polling Results Policies CmdLines PeriodFacts RuleFacts
begin

text \<open>
  A verification development for Alignak, a monitoring daemon in Python. It follows the path of a
  check through the scheduler: it is launched for a host or service, given to a poller, its result
  comes back, the state machine of the item consumes it, problems and impacts are propagated, and
  notifications are raised, filtered, escalated and sent to contacts. Beside this path it has the
  external commands that act on the scheduler, the time periods that everything asks, and the
  business rules, from their text to their state.

  \<^bold>\<open>Parts and theories\<close> (paths under \<open>src/alignak/\<close>).
  \<^item> \<open>Prelude\<close>: lemma collections, association lists that model dictionaries with their order
    (\<open>dget\<close>, \<open>dset\<close>, \<open>ddel\<close>), \<open>foldM\<close> for loops whose body can raise.
  \<^item> \<open>PyFloat\<close>, \<open>PyStr\<close>: what the code uses of floats (rounding to 53 bits, on rationals) and of
    strings (\<open>int()\<close>, \<open>str()\<close>, \<open>split\<close>, \<open>endswith\<close>).
  \<^item> \<open>Graph\<close>: \<open>graph.py\<close>, and \<open>no_loop_in_parents\<close> of \<open>objects/item.py\<close>, its client.
  \<^item> \<open>PyRegex\<close>: the regular expressions the code uses, as sequences of repeated classes.
  \<^item> \<open>DepNode\<close>, \<open>RuleParse\<close>: \<open>dependencynode.py\<close>, the evaluation and the parsing of business rules.
  \<^item> \<open>Types\<close>, \<open>World\<close>: the objects of a scheduler. A host or service is one record \<open>item\<close> (class
    \<open>SchedulingItem\<close>); checks, notifications, event handlers, downtimes, contacts, notification
    ways and escalations are records too. References between objects are identifiers, as in the
    code, and \<open>world\<close> maps them to the objects; \<open>None\<close> there is the code's \<open>KeyError\<close>.
  \<^item> \<open>Logs\<close>, \<open>ItemState\<close>, \<open>Notify\<close>, \<open>Effects\<close>, \<open>Problem\<close>, \<open>Launch\<close>, \<open>Consume\<close>: the methods of
    \<open>objects/schedulingitem.py\<close>, \<open>host.py\<close> and \<open>service.py\<close>: log entries; attempts, flapping
    history, lists of actions in progress; notifications; flapping, event handlers and
    acknowledgements; problems and impacts; dependencies and the launch of checks; and
    \<open>consume_result\<close>. \<open>Downtimes\<close> is \<open>downtime.py\<close> and \<open>contactdowntime.py\<close>.
  \<^item> \<open>Contacts\<close>, \<open>Scatter\<close>: \<open>contact.py\<close>, \<open>notificationway.py\<close>, \<open>escalation.py\<close> and the part of
    \<open>schedulingitem.py\<close> that turns a master notification into notifications for contacts.
  \<^item> \<open>Scheduler\<close>, \<open>Resolve\<close>, \<open>Works\<close>, \<open>Upkeep\<close>: \<open>scheduler.py\<close>. The record \<open>sched\<close> holds the world, the
    queues, the brokers and the counters; \<open>run_turn\<close> is one turn of the main loop with its recurrent
    works and their ticks.
  \<^item> \<open>CmdLine\<close>, \<open>Commands\<close>, \<open>CmdFlags\<close>, \<open>CmdItems\<close>, \<open>CmdActions\<close>, \<open>CmdRun\<close>: \<open>external_command.py\<close>: reading a
    line, the table of commands, dispatch to schedulers, the methods of the commands, and the loops
    of the scheduler and of the receiver. \<open>ecm\<close> is what an \<open>ExternalCommandManager\<close> is created with,
    \<open>manager\<close> what commands change; a command that raises is \<open>None\<close>.
  \<^item> \<open>Calendar\<close>, \<open>Dateranges\<close>, \<open>Timeperiods\<close>, \<open>PeriodTimes\<close>: the calendar, \<open>daterange.py\<close> and
    \<open>objects/timeperiod.py\<close>. A \<open>zone\<close> is the local time zone. The searches of a time period are loops
    that need not end: they have fuel, and \<open>Unfinished\<close> is its end.

  \<^bold>\<open>What the lemmas show.\<close> \<open>Frames\<close> and \<open>Quiet\<close> say which fields each effect leaves alone.
  \<open>StateMachine\<close> proves that \<open>consume_result\<close>, with all its side effects, refines an abstract machine
  on the state type and the attempt; \<open>Confirm\<close> derives from it when problems are confirmed.
  \<open>Attempts\<close> has the locale \<open>item_invariant\<close>: a predicate on items that depends on a few fields and
  is kept by results is kept by every turn of the scheduler; its interpretation bounds the
  attempts. \<open>Polling\<close> has the locale \<open>polling\<close> of the loops that give work to satellites,
  interpreted for checks and for actions. \<open>Results\<close> is about results that come back, zombies,
  dropped checks, waiting checks and ticks; \<open>Policies\<close> about who is notified and about
  acknowledgements. \<open>RuleFacts\<close> reads back business rules that were written out; \<open>CmdLines\<close> does so for the fields of
  external commands, and types their arguments. \<open>FixedZone\<close>, \<open>Weekly\<close>, \<open>WeeklyEnds\<close> and \<open>PeriodFacts\<close>
  compare the searches of time periods with \<open>is_time_valid\<close>, for date ranges of week days in a zone
  without changes; \<open>next_invalid_time_returns\<close> gives a number of turns that is enough. \<open>Samples\<close> and
  \<open>SchedSamples\<close> are the concrete worlds of the witnesses.

  \<^bold>\<open>Conventions.\<close> An operation that can raise returns an \<open>option\<close>; \<open>None\<close> is an exception that the code
  does not catch. Times are integers. Lists that the code appends to are lists in the same order.
  Recursion over dependent items has fuel, the interpreter's recursion limit; \<open>None\<close> is the limit
  hit, and no theorem concludes from it. The loop that resolves dependent checks
  (\<open>resolve_loop\<close>) has no fuel: it is a total function, and \<open>dependency_loop_ends\<close> bounds its turns.

  \<^bold>\<open>Parameters.\<close> The record \<open>env\<close> holds what items read elsewhere: time periods (valid at a time, next
  valid time), the macro resolver, contact and notification tables, the tables of modulations.
  \<open>params\<close> adds what a turn reads: random numbers, the hosts and services business rules can name,
  the order of broks by creation. Regular expressions that users write are parameters.

  \<^bold>\<open>Not modelled.\<close> Broks are markers without their data. The daemon's own log file, performance data
  of environment variables, statistics, retention, dumps, program status and the HTTP exchange with
  satellites have no effect on what is modelled or are arguments of the turn. The
  configuration (templates, inheritance, linking), realms and dispatching, macros, and the daemons
  themselves are not modelled yet.
\<close>

end
